(* ===== verification/JsPrelude.thy ===== *)
theory JsPrelude
  imports Main "HOL-Library.Word"
begin

section \<open>The JavaScript runtime: strings, numbers and objects\<close>

text \<open>
  What the modelled TypeScript uses of the language's own library. A string is a list of
  UTF-16 code units (\<open>jstr\<close>), as ECMAScript defines it; \<open>js ''abc''\<close> writes an ASCII
  literal, code units above ASCII are appended as numerals. An object used as a dictionary
  is an association list in property order (\<open>obj_set\<close> writes as an assignment does:
  integer-like keys first and ascending, the other keys in order of insertion). The theory
  also declares the named collections the components fill and the string operations
  (\<open>startsWith\<close>, \<open>slice\<close>, \<open>replace\<close>, \<open>split\<close>, \<open>trim\<close>, \<open>padStart\<close>, lower-casing) with
  the lemmas the component theories share.
\<close>

named_theorems js_eval \<open>equations that evaluate the runtime's operations on closed terms\<close>
named_theorems wf_intros \<open>introduction rules for well-formedness of values\<close>
named_theorems step_simps \<open>what each handler does to the fields of the provider's state\<close>

subsection \<open>Exceptions\<close>

text \<open>
  What the modelled code can throw. A function that may throw returns \<open>js_error + 'a\<close>;
  \<open>and_then\<close> is sequencing, where a throw skips the rest.
\<close>

datatype js_error = URIError | SyntaxError | TypeError | StorageError | InvalidCharacterError

fun and_then :: "'e + 'a \<Rightarrow> ('a \<Rightarrow> 'e + 'b) \<Rightarrow> 'e + 'b" where
  "and_then (Inl e) f = Inl e"
| "and_then (Inr x) f = f x"

lemma and_then_Inr_iff: "and_then m f = Inr y \<longleftrightarrow> (\<exists>x. m = Inr x \<and> f x = Inr y)"
  by (cases m) auto

lemma and_then_Inl_iff:
  "and_then m f = Inl e \<longleftrightarrow> m = Inl e \<or> (\<exists>x. m = Inr x \<and> f x = Inl e)"
  by (cases m) auto

subsection \<open>Strings\<close>

type_synonym code_unit = "16 word"
type_synonym jstr = "code_unit list"

text \<open>An ASCII string literal of the source.\<close>

definition js :: "string \<Rightarrow> jstr" where
  "js s = map of_char s"

text \<open>\<open>s.startsWith(p)\<close>, \<open>s.endsWith(p)\<close> and \<open>s.includes(p)\<close>.\<close>

definition starts_with :: "'a list \<Rightarrow> 'a list \<Rightarrow> bool" where
  "starts_with s p \<longleftrightarrow> take (length p) s = p"

fun includes_str :: "'a list \<Rightarrow> 'a list \<Rightarrow> bool" where
  "includes_str [] p = (p = [])"
| "includes_str (c # cs) p = (starts_with (c # cs) p \<or> includes_str cs p)"

text \<open>\<open>s.slice(0, n)\<close>, \<open>s.slice(n)\<close> and \<open>s.slice(-n)\<close> for a non-negative \<open>n\<close>.\<close>

definition slice_to :: "nat \<Rightarrow> 'a list \<Rightarrow> 'a list" where
  "slice_to n s = take n s"

definition slice_from :: "nat \<Rightarrow> 'a list \<Rightarrow> 'a list" where
  "slice_from n s = drop n s"

definition slice_last :: "nat \<Rightarrow> 'a list \<Rightarrow> 'a list" where
  "slice_last n s = drop (length s - n) s"

text \<open>\<open>s.padStart(n, c)\<close> and \<open>s.padEnd(n, c)\<close> for a one-unit filler.\<close>

definition pad_start :: "nat \<Rightarrow> 'a \<Rightarrow> 'a list \<Rightarrow> 'a list" where
  "pad_start n c s = replicate (n - length s) c @ s"

definition pad_end :: "nat \<Rightarrow> 'a \<Rightarrow> 'a list \<Rightarrow> 'a list" where
  "pad_end n c s = s @ replicate (n - length s) c"

text \<open>\<open>s.split(sep)\<close> for a non-empty separator, and \<open>parts.join(sep)\<close>.\<close>

fun split_go :: "'a list \<Rightarrow> 'a list \<Rightarrow> nat \<Rightarrow> 'a list \<Rightarrow> 'a list list" where
  "split_go sep acc skip [] = [rev acc]"
| "split_go sep acc (Suc skip) (c # cs) = split_go sep acc skip cs"
| "split_go sep acc 0 (c # cs) =
     (if starts_with (c # cs) sep then rev acc # split_go sep [] (length sep - 1) cs
      else split_go sep (c # acc) 0 cs)"

definition split_str :: "'a list \<Rightarrow> 'a list \<Rightarrow> 'a list list" where
  "split_str sep s = split_go sep [] 0 s"

fun join_str :: "'a list \<Rightarrow> 'a list list \<Rightarrow> 'a list" where
  "join_str sep [] = []"
| "join_str sep [x] = x"
| "join_str sep (x # y # zs) = x @ sep @ join_str sep (y # zs)"

text \<open>
  \<open>s.replace(/c/g, rep)\<close> for a one-unit pattern and a replacement without \<open>$\<close>.
\<close>

definition replace_unit :: "'a \<Rightarrow> 'a list \<Rightarrow> 'a list \<Rightarrow> 'a list" where
  "replace_unit c rep s = concat (map (\<lambda>x. if x = c then rep else [x]) s)"

text \<open>
  \<open>s.replace(pat, rep)\<close> with a string pattern replaces the first occurrence, and reads
  \<open>$$\<close>, \<open>$&\<close>, \<open>$`\<close> and \<open>$'\<close> in the replacement (ECMAScript's GetSubstitution): \<open>pre\<close> and
  \<open>post\<close> are the text around the match.
\<close>

fun get_substitution :: "jstr \<Rightarrow> jstr \<Rightarrow> jstr \<Rightarrow> jstr \<Rightarrow> jstr" where
  "get_substitution pre pat post [] = []"
| "get_substitution pre pat post [c] = [c]"
| "get_substitution pre pat post (c # d # cs) =
     (if c = 0x24 \<and> d = 0x24 then 0x24 # get_substitution pre pat post cs
      else if c = 0x24 \<and> d = 0x26 then pat @ get_substitution pre pat post cs
      else if c = 0x24 \<and> d = 0x60 then pre @ get_substitution pre pat post cs
      else if c = 0x24 \<and> d = 0x27 then post @ get_substitution pre pat post cs
      else c # get_substitution pre pat post (d # cs))"

fun replace_go :: "jstr \<Rightarrow> jstr \<Rightarrow> jstr \<Rightarrow> jstr \<Rightarrow> jstr" where
  "replace_go pre pat rep [] =
     (if pat = [] then rev pre @ get_substitution (rev pre) pat [] rep else rev pre)"
| "replace_go pre pat rep (c # cs) =
     (if starts_with (c # cs) pat
      then rev pre @ get_substitution (rev pre) pat (drop (length pat) (c # cs)) rep
             @ drop (length pat) (c # cs)
      else replace_go (c # pre) pat rep cs)"

definition replace_first :: "jstr \<Rightarrow> jstr \<Rightarrow> jstr \<Rightarrow> jstr" where
  "replace_first pat rep s = replace_go [] pat rep s"

text \<open>White space of \<open>trim\<close> and of \<open>\s\<close> in a regular expression.\<close>

definition white_space :: "code_unit list" where
  "white_space =
     [0x9, 0xA, 0xB, 0xC, 0xD, 0x20, 0xA0, 0x1680, 0x2000, 0x2001, 0x2002, 0x2003, 0x2004,
      0x2005, 0x2006, 0x2007, 0x2008, 0x2009, 0x200A, 0x2028, 0x2029, 0x202F, 0x205F,
      0x3000, 0xFEFF]"

definition is_space :: "code_unit \<Rightarrow> bool" where
  "is_space c \<longleftrightarrow> c \<in> set white_space"

definition trim :: "jstr \<Rightarrow> jstr" where
  "trim s = rev (dropWhile is_space (rev (dropWhile is_space s)))"

text \<open>Decimal and binary numerals: \<open>String(n)\<close> and \<open>n.toString(2)\<close>.\<close>

fun nat_digits :: "nat \<Rightarrow> nat \<Rightarrow> nat list" where
  "nat_digits b n =
     (if b < 2 \<or> n < b then [n] else nat_digits b (n div b) @ [n mod b])"

declare nat_digits.simps [simp del]

definition digit_unit :: "nat \<Rightarrow> code_unit" where
  "digit_unit d = of_nat (if d < 10 then 48 + d else 87 + d)"

definition nat_to_js :: "nat \<Rightarrow> jstr" where
  "nat_to_js n = map digit_unit (nat_digits 10 n)"

definition nat_to_bin :: "nat \<Rightarrow> jstr" where
  "nat_to_bin n = map digit_unit (nat_digits 2 n)"

text \<open>Character classes of the source's regular expressions.\<close>

definition is_digit :: "code_unit \<Rightarrow> bool" where
  "is_digit c \<longleftrightarrow> 0x30 \<le> c \<and> c \<le> 0x39"

definition is_upper :: "code_unit \<Rightarrow> bool" where
  "is_upper c \<longleftrightarrow> 0x41 \<le> c \<and> c \<le> 0x5A"

definition is_lower :: "code_unit \<Rightarrow> bool" where
  "is_lower c \<longleftrightarrow> 0x61 \<le> c \<and> c \<le> 0x7A"

definition is_alnum :: "code_unit \<Rightarrow> bool" where
  "is_alnum c \<longleftrightarrow> is_digit c \<or> is_upper c \<or> is_lower c"

subsection \<open>Objects as dictionaries\<close>

type_synonym 'v obj = "(jstr \<times> 'v) list"

text \<open>
  An array index: a canonical decimal numeral below \<open>2 ^ 32 - 1\<close>. Such keys come first in
  an object's property order, in ascending order.
\<close>

definition index_value :: "jstr \<Rightarrow> nat" where
  "index_value k = foldl (\<lambda>n c. 10 * n + (unat c - 48)) 0 k"

definition is_index :: "jstr \<Rightarrow> bool" where
  "is_index k \<longleftrightarrow> k \<noteq> [] \<and> list_all is_digit k \<and> (hd k = 0x30 \<longrightarrow> k = [0x30])
     \<and> index_value k < 4294967295"

fun obj_insert_index :: "jstr \<Rightarrow> 'v \<Rightarrow> 'v obj \<Rightarrow> 'v obj" where
  "obj_insert_index k v [] = [(k, v)]"
| "obj_insert_index k v ((k', v') # o') =
     (if is_index k' \<and> index_value k' < index_value k then (k', v') # obj_insert_index k v o'
      else (k, v) # (k', v') # o')"

fun obj_update :: "jstr \<Rightarrow> 'v \<Rightarrow> 'v obj \<Rightarrow> 'v obj" where
  "obj_update k v [] = []"
| "obj_update k v ((k', v') # o') =
     (if k' = k then (k, v) # o' else (k', v') # obj_update k v o')"

text \<open>\<open>o[k] = v\<close>.\<close>

definition obj_set :: "jstr \<Rightarrow> 'v \<Rightarrow> 'v obj \<Rightarrow> 'v obj" where
  "obj_set k v ob =
     (if k \<in> fst ` set ob then obj_update k v ob
      else if is_index k then obj_insert_index k v ob
      else ob @ [(k, v)])"

text \<open>\<open>Object.fromEntries(kvs)\<close>, and \<open>{ ...a, ...b }\<close>.\<close>

definition from_entries :: "(jstr \<times> 'v) list \<Rightarrow> 'v obj" where
  "from_entries kvs = foldl (\<lambda>ob (k, v). obj_set k v ob) [] kvs"

definition obj_merge :: "'v obj \<Rightarrow> 'v obj \<Rightarrow> 'v obj" where
  "obj_merge a b = foldl (\<lambda>ob (k, v). obj_set k v ob) a b"

abbreviation obj_get :: "'v obj \<Rightarrow> jstr \<Rightarrow> 'v option" where
  "obj_get \<equiv> map_of"

text \<open>An object the language can hold: every property name occurs once.\<close>

definition obj_ok :: "'v obj \<Rightarrow> bool" where
  "obj_ok ob \<longleftrightarrow> distinct (map fst ob)"

subsection \<open>Lemmas on strings\<close>

lemma of_char_unit_inject [simp]: "(of_char c :: code_unit) = of_char d \<longleftrightarrow> c = d"
proof
  assume eq: "(of_char c :: code_unit) = of_char d"
  have nat: "unat (of_char x :: code_unit) = (of_char x :: nat)" for x
  proof -
    have less: "(of_char x :: nat) < 256" by simp
    have "(of_char x :: code_unit) = of_nat (of_char x)" by (simp add: of_nat_of_char)
    then have "unat (of_char x :: code_unit) = take_bit 16 (of_char x :: nat)"
      by (simp add: unat_of_nat take_bit_eq_mod)
    moreover have "take_bit 16 (of_char x :: nat) = of_char x"
      by (rule take_bit_nat_eq_self, rule less_trans [OF less]) simp
    ultimately show ?thesis by simp
  qed
  from arg_cong [OF eq, of unat] have "(of_char c :: nat) = of_char d"
    by (simp only: nat)
  then show "c = d" by simp
qed simp

lemma js_inject [simp]: "js a = js b \<longleftrightarrow> a = b"
  by (simp add: js_def inj_map_eq_map inj_def)

lemma js_Nil [simp]: "js [] = []" and js_eq_Nil [simp]: "js a = [] \<longleftrightarrow> a = []"
  by (simp_all add: js_def)

lemma Nil_eq_js [simp]: "[] = js a \<longleftrightarrow> a = []"
  using js_eq_Nil [of a] by metis

lemma js_append: "js (a @ b) = js a @ js b"
  by (simp add: js_def)

lemma length_js [simp]: "length (js a) = length a"
  by (simp add: js_def)

lemma starts_with_append [simp]: "starts_with (p @ s) p"
  by (simp add: starts_with_def)

lemma starts_with_iff: "starts_with s p \<longleftrightarrow> (\<exists>t. s = p @ t)"
  by (auto simp: starts_with_def) (metis append_take_drop_id)

lemma starts_with_Nil [simp]: "starts_with s []"
  by (simp add: starts_with_def)

lemma Nil_starts_with [simp]: "starts_with [] p \<longleftrightarrow> p = []"
  by (auto simp: starts_with_def)

lemma starts_with_Cons [simp]: "starts_with (c # cs) (d # ds) \<longleftrightarrow> c = d \<and> starts_with cs ds"
  by (auto simp: starts_with_def)

lemma includes_str_iff: "includes_str s p \<longleftrightarrow> (\<exists>a b. s = a @ p @ b)"
proof (induction s)
  case Nil
  then show ?case by simp
next
  case (Cons c cs)
  note IH = Cons.IH
  show ?case
  proof
    assume "includes_str (c # cs) p"
    then consider b where "c # cs = p @ b" | a b where "cs = a @ p @ b"
      using Cons.IH by (auto simp: starts_with_iff)
    then show "\<exists>a b. c # cs = a @ p @ b"
      by cases (metis append_Nil, metis append_Cons)
  next
    assume "\<exists>a b. c # cs = a @ p @ b"
    then obtain a b where ab: "c # cs = a @ p @ b" by blast
    show "includes_str (c # cs) p"
    proof (cases a)
      case Nil
      with ab have "starts_with (c # cs) p" by simp
      then show ?thesis by simp
    next
      case (Cons d a')
      with ab have "cs = a' @ p @ b" by simp
      with IH show ?thesis by auto
    qed
  qed
qed

lemma length_pad_start [simp]: "length (pad_start n c s) = max n (length s)"
  by (simp add: pad_start_def)

lemma length_pad_end [simp]: "length (pad_end n c s) = max n (length s)"
  by (simp add: pad_end_def)

lemma split_go_join:
  "sep \<noteq> [] \<Longrightarrow> split_go sep acc k s \<noteq> []
    \<and> join_str sep (split_go sep acc k s) = rev acc @ drop k s"
proof (induction sep acc k s rule: split_go.induct)
  case (1 sep acc skip)
  then show ?case by simp
next
  case (2 sep acc skip c cs)
  then show ?case by simp
next
  case (3 sep acc c cs)
  show ?case
  proof (cases "starts_with (c # cs) sep")
    case True
    then obtain t where t: "c # cs = sep @ t" by (auto simp: starts_with_iff)
    obtain s0 sep' where sep: "sep = s0 # sep'"
      using "3.prems" by (cases sep) auto
    with t have cs: "drop (length sep - 1) cs = t" by simp
    from "3.IH"(1) [OF True "3.prems"] cs obtain p ps where
      split: "split_go sep [] (length sep - 1) cs = p # ps"
      and join: "join_str sep (p # ps) = t"
      by (cases "split_go sep [] (length sep - 1) cs") auto
    have "split_go sep acc 0 (c # cs) = rev acc # p # ps"
      using True split by simp
    with join t show ?thesis by simp
  next
    case False
    then show ?thesis using "3.IH"(2) [OF False "3.prems"] by simp
  qed
qed

lemma join_split [simp]: "sep \<noteq> [] \<Longrightarrow> join_str sep (split_str sep s) = s"
  using split_go_join [of sep "[]" 0 s] by (simp add: split_str_def)

lemma split_str_nonempty: "sep \<noteq> [] \<Longrightarrow> split_str sep s \<noteq> []"
  using split_go_join [of sep "[]" 0 s] by (auto simp: split_str_def)

lemma replace_unit_append [simp]:
  "replace_unit c rep (a @ b) = replace_unit c rep a @ replace_unit c rep b"
  by (simp add: replace_unit_def)

lemma replace_unit_Nil [simp]: "replace_unit c rep [] = []"
  by (simp add: replace_unit_def)

lemma replace_unit_Cons:
  "replace_unit c rep (x # s) = (if x = c then rep else [x]) @ replace_unit c rep s"
  by (simp add: replace_unit_def)

lemma replace_unit_id: "c \<notin> set s \<Longrightarrow> replace_unit c rep s = s"
  by (induction s) (auto simp: replace_unit_Cons)

text \<open>A replacement without a dollar sign is inserted as it is.\<close>

lemma get_substitution_plain: "0x24 \<notin> set rep \<Longrightarrow> get_substitution pre pat post rep = rep"
  by (induction pre pat post rep rule: get_substitution.induct) auto

lemma replace_go_plain:
  assumes "0x24 \<notin> set rep"
  shows "replace_go acc pat rep (a @ pat @ b) = rev acc @ a @ rep @ b
    \<or> (\<exists>a' b'. length a' < length a \<and> a @ pat @ b = a' @ pat @ b')"
proof (induction a arbitrary: acc)
  case Nil
  show ?case
  proof (cases "pat @ b")
    case Nil
    then show ?thesis using assms by (simp add: get_substitution_plain)
  next
    case (Cons d ds)
    then have "drop (length pat) (d # ds) = b" "starts_with (d # ds) pat"
      by (metis append_eq_conv_conj, metis starts_with_append)
    with Cons show ?thesis using assms by (simp add: get_substitution_plain)
  qed
next
  case (Cons c a)
  show ?case
  proof (cases "starts_with (c # a @ pat @ b) pat")
    case True
    then have "\<exists>b'. (c # a) @ pat @ b = [] @ pat @ b'" by (auto simp: starts_with_iff)
    then show ?thesis by (metis length_greater_0_conv list.distinct(1) list.size(3))
  next
    case False
    from Cons.IH [of "c # acc"] show ?thesis
    proof
      assume "replace_go (c # acc) pat rep (a @ pat @ b) = rev (c # acc) @ a @ rep @ b"
      with False show ?thesis by simp
    next
      assume "\<exists>a' b'. length a' < length a \<and> a @ pat @ b = a' @ pat @ b'"
      then obtain a' b' where "length a' < length a" "a @ pat @ b = a' @ pat @ b'" by blast
      then have "length (c # a') < length (c # a)" "(c # a) @ pat @ b = (c # a') @ pat @ b'"
        by simp_all
      then show ?thesis by blast
    qed
  qed
qed

lemma replace_go_absent:
  "\<not> includes_str s pat \<Longrightarrow> replace_go acc pat rep s = rev acc @ s"
  by (induction s arbitrary: acc) auto

lemma replace_first_absent: "\<not> includes_str s pat \<Longrightarrow> replace_first pat rep s = s"
  by (simp add: replace_first_def replace_go_absent)

text \<open>The first occurrence is the one replaced.\<close>

lemma replace_first_plain:
  assumes "0x24 \<notin> set rep"
    and "\<And>a' b'. a @ pat @ b = a' @ pat @ b' \<Longrightarrow> length a \<le> length a'"
  shows "replace_first pat rep (a @ pat @ b) = a @ rep @ b"
  using replace_go_plain [OF assms(1), of "[]" pat a b] assms(2)
  by (fastforce simp: replace_first_def)

lemma digit_unit_is_digit: "d < 10 \<Longrightarrow> is_digit (digit_unit d)"
proof -
  assume d: "d < 10"
  then have "unat (of_nat (48 + d) :: code_unit) = 48 + d"
    by (simp only: unat_of_nat) (simp add: take_bit_nat_eq_self)
  with d show ?thesis
    by (simp only: digit_unit_def is_digit_def word_le_nat_alt if_True) simp
qed

lemma nat_digits_less: "2 \<le> b \<Longrightarrow> d \<in> set (nat_digits b n) \<Longrightarrow> d < b"
proof (induction b n rule: nat_digits.induct)
  case (1 b n)
  show ?case
  proof (cases "n < b")
    case True
    with "1.prems" show ?thesis by (simp add: nat_digits.simps [of b n])
  next
    case False
    with "1.prems" have "d \<in> set (nat_digits b (n div b)) \<or> d = n mod b"
      by (auto simp: nat_digits.simps [of b n])
    then show ?thesis
      using "1.IH" "1.prems"(1) False by auto
  qed
qed

lemma nat_to_js_digits: "list_all is_digit (nat_to_js n)"
  using nat_digits_less [of 10 _ n]
  by (auto simp: nat_to_js_def list_all_iff digit_unit_is_digit)

lemma nat_digits_nonempty [simp]: "nat_digits b n \<noteq> []"
  by (subst nat_digits.simps) simp

subsection \<open>Lemmas on objects\<close>

lemma map_of_obj_update:
  "k \<in> fst ` set ob \<Longrightarrow> map_of (obj_update k v ob) = (map_of ob)(k \<mapsto> v)"
proof (induction k v ob rule: obj_update.induct)
  case (2 k v k' v' o')
  then show ?case by (cases "k' = k") (auto simp: fun_eq_iff)
qed simp

lemma map_of_obj_insert_index:
  "k \<notin> fst ` set ob \<Longrightarrow> map_of (obj_insert_index k v ob) = (map_of ob)(k \<mapsto> v)"
  by (induction k v ob rule: obj_insert_index.induct) (auto simp: fun_eq_iff)

lemma map_of_obj_set [simp]: "map_of (obj_set k v ob) = (map_of ob)(k \<mapsto> v)"
proof (cases "k \<in> fst ` set ob \<or> is_index k")
  case True
  then show ?thesis by (auto simp: obj_set_def map_of_obj_update map_of_obj_insert_index)
next
  case False
  then have "map_of ob k = None" by (simp add: map_of_eq_None_iff)
  with False show ?thesis by (simp add: obj_set_def map_add_def fun_eq_iff split: option.splits)
qed

lemma keys_obj_update: "map fst (obj_update k v ob) = map fst ob"
  by (induction k v ob rule: obj_update.induct) auto

lemma keys_obj_insert_index: "fst ` set (obj_insert_index k v ob) = insert k (fst ` set ob)"
  by (induction k v ob rule: obj_insert_index.induct) auto

lemma keys_obj_set [simp]: "fst ` set (obj_set k v ob) = insert k (fst ` set ob)"
proof (cases "k \<in> fst ` set ob")
  case True
  have "fst ` set (obj_update k v ob) = fst ` set ob"
    by (metis image_set keys_obj_update)
  with True show ?thesis by (auto simp: obj_set_def)
next
  case False
  then show ?thesis by (auto simp: obj_set_def keys_obj_insert_index)
qed

lemma obj_ok_insert_index:
  "k \<notin> fst ` set ob \<Longrightarrow> obj_ok ob \<Longrightarrow> obj_ok (obj_insert_index k v ob)"
  by (induction k v ob rule: obj_insert_index.induct)
    (simp_all add: obj_ok_def keys_obj_insert_index, blast)

lemma obj_ok_set [simp, wf_intros]: "obj_ok ob \<Longrightarrow> obj_ok (obj_set k v ob)"
  by (auto simp: obj_set_def obj_ok_insert_index)
    (auto simp: obj_ok_def keys_obj_update)

lemma obj_ok_Nil [simp, wf_intros]: "obj_ok []"
  by (simp add: obj_ok_def)

lemma obj_ok_merge [simp, wf_intros]: "obj_ok a \<Longrightarrow> obj_ok (obj_merge a b)"
  unfolding obj_merge_def by (induction b arbitrary: a) auto

lemma obj_ok_from_entries [simp, wf_intros]: "obj_ok (from_entries kvs)"
  unfolding from_entries_def using obj_ok_merge [of "[]" kvs] by (simp add: obj_merge_def)

lemma map_of_obj_merge: "map_of (obj_merge a b) = map_of a ++ map_of (rev b)"
  unfolding obj_merge_def
  by (induction b arbitrary: a) (auto simp: fun_eq_iff map_add_def split: option.splits)

text \<open>With distinct names the later object wins name by name.\<close>

lemma map_of_rev_ok: "obj_ok b \<Longrightarrow> map_of (rev b) = map_of b"
  unfolding obj_ok_def by (intro map_of_eqI) (auto simp: rev_map [symmetric])

lemma map_of_from_entries: "map_of (from_entries kvs) = map_of (rev kvs)"
  using map_of_obj_merge [of "[]" kvs] by (simp add: from_entries_def obj_merge_def)

end
