(* ===== verification/JsUri.thy ===== *)
theory JsUri
  imports JsPrelude
begin

section \<open>Percent-encoding: encodeURIComponent, decodeURIComponent, URLSearchParams\<close>

text \<open>
  The URI functions of ECMAScript and the serialiser of \<open>URLSearchParams\<close>, on UTF-16 code
  units. \<open>encode_uri_component\<close> throws \<open>URIError\<close> on a lone surrogate, as the language does;
  \<open>form_encode\<close> replaces one by U+FFFD, as the URL standard does. The main facts: decoding
  inverts encoding, encoding succeeds exactly on well-formed strings, and what it returns
  holds no character that could end the path segment it is put in.
\<close>

subsection \<open>UTF-8\<close>

definition is_lead :: "code_unit \<Rightarrow> bool" where
  "is_lead c \<longleftrightarrow> 0xD800 \<le> c \<and> c \<le> 0xDBFF"

definition is_trail :: "code_unit \<Rightarrow> bool" where
  "is_trail c \<longleftrightarrow> 0xDC00 \<le> c \<and> c \<le> 0xDFFF"

definition pair_value :: "code_unit \<Rightarrow> code_unit \<Rightarrow> nat" where
  "pair_value c d = 0x10000 + (unat c - 0xD800) * 0x400 + (unat d - 0xDC00)"

definition utf8 :: "nat \<Rightarrow> nat list" where
  "utf8 n =
     (if n < 0x80 then [n]
      else if n < 0x800 then [0xC0 + n div 64, 0x80 + n mod 64]
      else if n < 0x10000 then
        [0xE0 + n div 4096, 0x80 + n div 64 mod 64, 0x80 + n mod 64]
      else
        [0xF0 + n div 262144, 0x80 + n div 4096 mod 64, 0x80 + n div 64 mod 64,
         0x80 + n mod 64])"

fun utf8_value :: "nat list \<Rightarrow> nat" where
  "utf8_value [a] = a"
| "utf8_value [a, b] = (a - 0xC0) * 64 + (b - 0x80)"
| "utf8_value [a, b, c] = (a - 0xE0) * 4096 + (b - 0x80) * 64 + (c - 0x80)"
| "utf8_value [a, b, c, d] =
     (a - 0xF0) * 262144 + (b - 0x80) * 4096 + (c - 0x80) * 64 + (d - 0x80)"
| "utf8_value _ = 0"

text \<open>A byte sequence is valid when it is the encoding of a scalar value.\<close>

definition is_scalar :: "nat \<Rightarrow> bool" where
  "is_scalar n \<longleftrightarrow> n \<le> 0x10FFFF \<and> \<not> (0xD800 \<le> n \<and> n \<le> 0xDFFF)"

definition utf8_decode :: "nat list \<Rightarrow> nat option" where
  "utf8_decode bs =
     (let n = utf8_value bs in if is_scalar n \<and> utf8 n = bs then Some n else None)"

text \<open>The code units of a scalar value.\<close>

definition utf16 :: "nat \<Rightarrow> jstr" where
  "utf16 n =
     (if n < 0x10000 then [of_nat n]
      else [of_nat (0xD800 + (n - 0x10000) div 0x400), of_nat (0xDC00 + (n - 0x10000) mod 0x400)])"

subsection \<open>Percent escapes\<close>

definition hex_unit :: "nat \<Rightarrow> code_unit" where
  "hex_unit d = of_nat (if d < 10 then 48 + d else 55 + d)"

definition hex_value :: "code_unit \<Rightarrow> nat option" where
  "hex_value c =
     (let n = unat c in
      if 48 \<le> n \<and> n \<le> 57 then Some (n - 48)
      else if 65 \<le> n \<and> n \<le> 70 then Some (n - 55)
      else if 97 \<le> n \<and> n \<le> 102 then Some (n - 87)
      else None)"

definition percent_byte :: "nat \<Rightarrow> jstr" where
  "percent_byte b = [0x25, hex_unit (b div 16), hex_unit (b mod 16)]"

definition percent_bytes :: "nat list \<Rightarrow> jstr" where
  "percent_bytes bs = concat (map percent_byte bs)"

definition read_byte :: "jstr \<Rightarrow> nat option" where
  "read_byte s =
     (case s of
        p # h # l # _ \<Rightarrow>
          if p = 0x25 then
            (case (hex_value h, hex_value l) of
               (Some a, Some b) \<Rightarrow> Some (16 * a + b)
             | _ \<Rightarrow> None)
          else None
      | _ \<Rightarrow> None)"

fun read_bytes :: "nat \<Rightarrow> jstr \<Rightarrow> nat list option" where
  "read_bytes 0 s = Some []"
| "read_bytes (Suc n) s =
     (case read_byte s of
        None \<Rightarrow> None
      | Some b \<Rightarrow> map_option (\<lambda>bs. b # bs) (read_bytes n (drop 3 s)))"

subsection \<open>The encoders and the decoder\<close>

definition uri_unreserved :: "code_unit \<Rightarrow> bool" where
  "uri_unreserved c \<longleftrightarrow> is_alnum c \<or> c \<in> set (js ''-_.!~*'' @ [0x27] @ js ''()'')"

fun encode_uri_component :: "jstr \<Rightarrow> js_error + jstr" where
  "encode_uri_component [] = Inr []"
| "encode_uri_component (c # cs) =
     (if uri_unreserved c then map_sum id (\<lambda>r. c # r) (encode_uri_component cs)
      else if is_trail c then Inl URIError
      else if is_lead c then
        (case cs of
           [] \<Rightarrow> Inl URIError
         | d # ds \<Rightarrow>
             if is_trail d then
               map_sum id (\<lambda>r. percent_bytes (utf8 (pair_value c d)) @ r)
                 (encode_uri_component ds)
             else Inl URIError)
      else
        map_sum id (\<lambda>r. percent_bytes (utf8 (unat c)) @ r) (encode_uri_component cs))"

text \<open>The number of bytes a leading byte announces (\<open>None\<close>: it cannot lead).\<close>

definition utf8_length :: "nat \<Rightarrow> nat option" where
  "utf8_length b =
     (if b < 0x80 then Some 1
      else if b < 0xC0 then None
      else if b < 0xE0 then Some 2
      else if b < 0xF0 then Some 3
      else if b < 0xF8 then Some 4
      else None)"

fun decode_uri_component :: "jstr \<Rightarrow> js_error + jstr" where
  "decode_uri_component [] = Inr []"
| "decode_uri_component (c # cs) =
     (if c \<noteq> 0x25 then map_sum id (\<lambda>r. c # r) (decode_uri_component cs)
      else
        (case Option.bind (read_byte (c # cs)) utf8_length of
           None \<Rightarrow> Inl URIError
         | Some n \<Rightarrow>
             (case Option.bind (read_bytes n (c # cs)) utf8_decode of
                None \<Rightarrow> Inl URIError
              | Some v \<Rightarrow>
                  map_sum id (\<lambda>r. utf16 v @ r) (decode_uri_component (drop (3 * n - 1) cs)))))"

text \<open>
  The application/x-www-form-urlencoded serialiser: a space is a plus sign, a lone
  surrogate is U+FFFD (the arguments of \<open>URLSearchParams\<close> are USVStrings).
\<close>

definition form_safe :: "code_unit \<Rightarrow> bool" where
  "form_safe c \<longleftrightarrow> is_alnum c \<or> c \<in> set (js ''*-._'')"

fun form_encode :: "jstr \<Rightarrow> jstr" where
  "form_encode [] = []"
| "form_encode (c # cs) =
     (if c = 0x20 then 0x2B # form_encode cs
      else if form_safe c then c # form_encode cs
      else if is_lead c \<and> cs \<noteq> [] \<and> is_trail (hd cs) then
        percent_bytes (utf8 (pair_value c (hd cs))) @ form_encode (tl cs)
      else if is_lead c \<or> is_trail c then percent_bytes (utf8 0xFFFD) @ form_encode cs
      else percent_bytes (utf8 (unat c)) @ form_encode cs)"

type_synonym search_params = "(jstr \<times> jstr) list"

text \<open>\<open>query.set(name, value)\<close> and \<open>query.toString()\<close>.\<close>

definition params_set :: "jstr \<Rightarrow> jstr \<Rightarrow> search_params \<Rightarrow> search_params" where
  "params_set k v ps =
     (if k \<in> fst ` set ps then
        takeWhile (\<lambda>p. fst p \<noteq> k) ps @ [(k, v)]
          @ filter (\<lambda>p. fst p \<noteq> k) (tl (dropWhile (\<lambda>p. fst p \<noteq> k) ps))
      else ps @ [(k, v)])"

definition params_to_string :: "search_params \<Rightarrow> jstr" where
  "params_to_string ps =
     join_str [0x26] (map (\<lambda>(k, v). form_encode k @ [0x3D] @ form_encode v) ps)"

subsection \<open>UTF-8 round trip\<close>

lemma base64_digits:
  fixes n :: nat
  shows "n div 64 * 64 + n mod 64 = n"
    and "n div 4096 * 64 + n div 64 mod 64 = n div 64"
    and "n div 262144 * 64 + n div 4096 mod 64 = n div 4096"
  using div_mult_mod_eq [of n 64] div_mult_mod_eq [of "n div 64" 64]
    div_mult_mod_eq [of "n div 4096" 64] div_mult2_eq [of n 64 64] div_mult2_eq [of n 4096 64]
  by simp_all

lemma utf8_value_utf8: "utf8_value (utf8 n) = n"
proof -
  have two: "(n div 64) * 64 + n mod 64 = n"
    by (simp add: base64_digits)
  have three: "n div 4096 * 4096 + n div 64 mod 64 * 64 + n mod 64 = n"
    using base64_digits [of n] by linarith
  have "n div 262144 * 262144 + n div 4096 mod 64 * 4096 + n div 64 mod 64 * 64 + n mod 64 = n"
    using base64_digits [of n] by linarith
  with two three show ?thesis by (simp add: utf8_def)
qed

lemma utf8_decode_utf8: "is_scalar n \<Longrightarrow> utf8_decode (utf8 n) = Some n"
  by (simp add: utf8_decode_def utf8_value_utf8 is_scalar_def)

lemma utf8_nonempty [simp]: "utf8 n \<noteq> []"
  by (simp add: utf8_def)

lemma utf8_less_256: "n \<le> 0x10FFFF \<Longrightarrow> b \<in> set (utf8 n) \<Longrightarrow> b < 256"
  by (auto simp: utf8_def split: if_splits)

lemma utf8_length_hd: "n \<le> 0x10FFFF \<Longrightarrow> utf8_length (hd (utf8 n)) = Some (length (utf8 n))"
  by (auto simp: utf8_def utf8_length_def)

subsection \<open>Percent escapes round trip\<close>

lemma unat_hex_unit: "d < 16 \<Longrightarrow> unat (hex_unit d) = (if d < 10 then 48 + d else 55 + d)"
  unfolding hex_unit_def by (simp only: unat_of_nat) (auto simp: take_bit_nat_eq_self)

lemma hex_value_hex_unit: "d < 16 \<Longrightarrow> hex_value (hex_unit d) = Some d"
  by (auto simp: hex_value_def unat_hex_unit Let_def)

lemma read_byte_percent: "b < 256 \<Longrightarrow> read_byte (percent_byte b @ s) = Some b"
  by (simp add: read_byte_def percent_byte_def hex_value_hex_unit)

lemma percent_bytes_Cons: "percent_bytes (b # bs) = percent_byte b @ percent_bytes bs"
  by (simp add: percent_bytes_def)

lemma length_percent_byte [simp]: "length (percent_byte b) = 3"
  by (simp add: percent_byte_def)

lemma length_percent_bytes [simp]: "length (percent_bytes bs) = 3 * length bs"
  by (induction bs) (simp_all add: percent_bytes_Cons, simp add: percent_bytes_def)

lemma read_bytes_percent:
  "\<forall>b \<in> set bs. b < 256 \<Longrightarrow> read_bytes (length bs) (percent_bytes bs @ s) = Some bs"
proof (induction bs)
  case (Cons b bs)
  have "drop 3 (percent_bytes (b # bs) @ s) = percent_bytes bs @ s"
    by (simp add: percent_bytes_Cons percent_byte_def)
  moreover have "read_byte (percent_bytes (b # bs) @ s) = Some b"
    using Cons.prems by (simp add: percent_bytes_Cons read_byte_percent)
  ultimately show ?case using Cons by simp
qed simp

text \<open>One encoded scalar value decodes to its code units.\<close>

lemma decode_percent_utf8:
  assumes "is_scalar n"
  shows "decode_uri_component (percent_bytes (utf8 n) @ s)
    = map_sum id (\<lambda>r. utf16 n @ r) (decode_uri_component s)"
proof -
  let ?bs = "utf8 n" and ?t = "percent_bytes (utf8 n) @ s"
  from assms have n: "n \<le> 0x10FFFF" by (simp add: is_scalar_def)
  obtain b bs where bs: "?bs = b # bs" by (cases "?bs") auto
  then obtain cs where t: "?t = 0x25 # cs"
    by (simp add: percent_bytes_Cons percent_byte_def)
  have byte: "read_byte ?t = Some b"
    using bs utf8_less_256 [OF n] by (simp add: percent_bytes_Cons read_byte_percent)
  have len: "utf8_length b = Some (length ?bs)"
    using utf8_length_hd [OF n] bs by simp
  have bytes: "read_bytes (length ?bs) ?t = Some ?bs"
    using utf8_less_256 [OF n] by (intro read_bytes_percent) blast
  have "drop (3 * length ?bs) ?t = s" by simp
  then have rest: "drop (3 * length ?bs - 1) cs = s"
    unfolding t using bs by (simp add: drop_Cons')
  have "decode_uri_component (0x25 # cs)
    = map_sum id (\<lambda>r. utf16 n @ r) (decode_uri_component s)"
    using byte bytes len rest assms unfolding t
    by (simp add: utf8_decode_utf8 del: One_nat_def)
  then show ?thesis by (simp only: t)
qed

subsection \<open>decodeURIComponent inverts encodeURIComponent\<close>

lemma unreserved_not_percent: "uri_unreserved c \<Longrightarrow> c \<noteq> 0x25"
  by (auto simp: uri_unreserved_def is_alnum_def is_digit_def is_upper_def is_lower_def js_def)

lemma scalar_unit: "\<not> is_lead c \<Longrightarrow> \<not> is_trail c \<Longrightarrow> is_scalar (unat c) \<and> utf16 (unat c) = [c]"
  using unsigned_less [of c, where 'a = nat]
  by (auto simp: is_lead_def is_trail_def is_scalar_def utf16_def word_le_nat_alt)

lemma scalar_pair:
  assumes "is_lead c" and "is_trail d"
  shows "is_scalar (pair_value c d) \<and> utf16 (pair_value c d) = [c, d]"
proof -
  from assms have c: "0xD800 \<le> unat c" "unat c \<le> 0xDBFF"
    and d: "0xDC00 \<le> unat d" "unat d \<le> 0xDFFF"
    by (simp_all add: is_lead_def is_trail_def word_le_nat_alt)
  have "(pair_value c d - 0x10000) div 0x400 = unat c - 0xD800"
    and "(pair_value c d - 0x10000) mod 0x400 = unat d - 0xDC00"
    using d by (simp_all add: pair_value_def add_diff_eq [symmetric] del: add_diff_assoc)
  then have "utf16 (pair_value c d) = [of_nat (unat c), of_nat (unat d)]"
    using c d by (simp only: utf16_def) (simp add: pair_value_def)
  moreover have "pair_value c d \<le> 0x10FFFF" "0x10000 \<le> pair_value c d"
    using c d by (simp_all add: pair_value_def)
  ultimately show ?thesis by (simp add: is_scalar_def)
qed

lemma decode_encode:
  "encode_uri_component s = Inr e \<Longrightarrow> decode_uri_component e = Inr s"
proof (induction s arbitrary: e rule: encode_uri_component.induct)
  case (2 c cs)
  consider (plain) "uri_unreserved c"
    | (pair) d ds where "\<not> uri_unreserved c" "is_lead c" "\<not> is_trail c" "cs = d # ds" "is_trail d"
    | (single) "\<not> uri_unreserved c" "\<not> is_lead c" "\<not> is_trail c"
    using "2.prems" by (cases cs) (auto split: if_splits)
  then show ?case
  proof cases
    case plain
    with "2.prems" obtain r where r: "encode_uri_component cs = Inr r" and e: "e = c # r"
      by (cases "encode_uri_component cs") auto
    from "2.IH"(1) [OF plain r] e show ?thesis
      using unreserved_not_percent [OF plain] by simp
  next
    case pair
    with "2.prems" obtain r where r: "encode_uri_component ds = Inr r"
      and e: "e = percent_bytes (utf8 (pair_value c d)) @ r"
      by (cases "encode_uri_component ds") auto
    have "decode_uri_component r = Inr ds"
      using "2.IH"(2) pair r by blast
    with e pair(4) scalar_pair [OF pair(2,5)] show ?thesis
      by (simp add: decode_percent_utf8)
  next
    case single
    with "2.prems" obtain r where r: "encode_uri_component cs = Inr r"
      and e: "e = percent_bytes (utf8 (unat c)) @ r"
      by (cases "encode_uri_component cs") auto
    have "decode_uri_component r = Inr cs"
      using "2.IH"(3) single r by blast
    with e scalar_unit [OF single(2,3)] show ?thesis
      by (simp add: decode_percent_utf8)
  qed
qed simp

subsection \<open>When encoding succeeds, and what it returns\<close>

text \<open>No lone surrogates: every lead unit is followed by a trail unit, and no other is.\<close>

fun well_formed :: "jstr \<Rightarrow> bool" where
  "well_formed [] = True"
| "well_formed [c] = (\<not> is_lead c \<and> \<not> is_trail c)"
| "well_formed (c # d # cs) =
     (if is_lead c then is_trail d \<and> well_formed cs else \<not> is_trail c \<and> well_formed (d # cs))"

lemma unreserved_not_surrogate: "uri_unreserved c \<Longrightarrow> \<not> is_lead c \<and> \<not> is_trail c"
  by (auto simp: uri_unreserved_def is_alnum_def is_digit_def is_upper_def is_lower_def
      is_lead_def is_trail_def word_le_nat_alt js_def)

lemma encode_defined_iff: "(\<exists>e. encode_uri_component s = Inr e) \<longleftrightarrow> well_formed s"
proof (induction s rule: well_formed.induct)
  case (2 c)
  then show ?case using unreserved_not_surrogate [of c] by auto
next
  case (3 c d cs)
  have lead_trail: "is_lead c \<Longrightarrow> \<not> is_trail c"
    by (auto simp: is_lead_def is_trail_def word_le_nat_alt)
  have map_def: "(\<exists>e. map_sum id f m = Inr e) \<longleftrightarrow> (\<exists>e. m = Inr e)"
    for f :: "jstr \<Rightarrow> jstr" and m :: "js_error + jstr"
    by (cases m) auto
  show ?case
  proof (cases "is_lead c")
    case True
    then have "\<not> uri_unreserved c" using unreserved_not_surrogate by blast
    with True lead_trail "3.IH"(1) show ?thesis by (simp add: map_def)
  next
    case False
    with "3.IH"(2) unreserved_not_surrogate [of c] show ?thesis
      by (simp add: map_def)
  qed
qed simp

lemma encode_error: "encode_uri_component s = Inl e \<Longrightarrow> e = URIError"
proof (induction s rule: encode_uri_component.induct)
  case (2 c cs)
  have inl: "map_sum id f m = Inl e \<longleftrightarrow> m = Inl e" for f :: "jstr \<Rightarrow> jstr" and m
    by (cases m) auto
  from 2 show ?case by (auto simp: inl split: if_splits list.splits)
qed simp

lemma hex_unit_unreserved: "d < 16 \<Longrightarrow> uri_unreserved (hex_unit d) \<and> is_alnum (hex_unit d)"
proof -
  assume d: "d < 16"
  then have "is_alnum (hex_unit d)"
    by (auto simp: is_alnum_def is_digit_def is_upper_def word_le_nat_alt unat_hex_unit)
  then show ?thesis by (simp add: uri_unreserved_def)
qed

lemma percent_byte_units:
  "b < 256 \<Longrightarrow> c \<in> set (percent_byte b) \<Longrightarrow> c = 0x25 \<or> is_alnum c"
  using hex_unit_unreserved [of "b div 16"] hex_unit_unreserved [of "b mod 16"]
    div_less_iff_less_mult [of 16 b 16]
  by (auto simp: percent_byte_def)

lemma percent_utf8_units:
  assumes "n \<le> 0x10FFFF" and "c \<in> set (percent_bytes (utf8 n))"
  shows "c = 0x25 \<or> is_alnum c"
proof -
  from assms(2) obtain b where "b \<in> set (utf8 n)" and c: "c \<in> set (percent_byte b)"
    by (auto simp: percent_bytes_def)
  from this(1) have "b < 256" by (rule utf8_less_256 [OF assms(1)])
  then show ?thesis using c by (rule percent_byte_units)
qed

lemma pair_value_le: "is_lead c \<Longrightarrow> is_trail d \<Longrightarrow> pair_value c d \<le> 0x10FFFF"
  using scalar_pair by (auto simp: is_scalar_def)

lemma unit_value_le: "unat (c :: code_unit) \<le> 0x10FFFF"
  using unsigned_less [of c, where 'a = nat] by simp

lemma alnum_unreserved: "is_alnum c \<Longrightarrow> uri_unreserved c"
  by (simp add: uri_unreserved_def)

lemma encode_units:
  "encode_uri_component s = Inr e \<Longrightarrow> c \<in> set e \<Longrightarrow> c = 0x25 \<or> uri_unreserved c"
proof (induction s arbitrary: e rule: encode_uri_component.induct)
  case (2 d ds)
  have inr: "map_sum id f m = Inr x \<longleftrightarrow> (\<exists>y. m = Inr y \<and> x = f y)"
    for f :: "jstr \<Rightarrow> jstr" and m :: "js_error + jstr" and x
    by (cases m) auto
  from 2 show ?case
    by (auto simp: inr split: if_splits list.splits
        dest!: percent_utf8_units [OF unit_value_le] percent_utf8_units [OF pair_value_le, rotated 2]
        dest: alnum_unreserved)
qed simp

text \<open>The encoded text holds none of the delimiters of a path, nor a dollar sign or a brace.\<close>

lemma encode_no_delimiters:
  assumes "encode_uri_component s = Inr e"
  shows "set (js ''/?#${}&=+ '') \<inter> set e = {}"
proof -
  have "\<not> uri_unreserved c \<and> c \<noteq> 0x25" if "c \<in> set (js ''/?#${}&=+ '')" for c
    using that by (auto simp: js_def uri_unreserved_def is_alnum_def is_digit_def is_upper_def
        is_lower_def word_le_nat_alt)
  then show ?thesis using encode_units [OF assms] by blast
qed

lemma form_encode_units:
  "c \<in> set (form_encode s) \<Longrightarrow> c = 0x25 \<or> c = 0x2B \<or> form_safe c"
proof (induction s rule: form_encode.induct)
  case (2 d ds)
  have al: "is_alnum x \<Longrightarrow> form_safe x" for x by (simp add: form_safe_def)
  from 2 show ?case
    by (auto split: if_splits dest: percent_utf8_units [OF unit_value_le]
        percent_utf8_units [OF pair_value_le] percent_utf8_units [of 65533, simplified] intro: al)
qed simp

lemma form_encode_no_delimiters: "set (js ''?#&=/ '') \<inter> set (form_encode s) = {}"
proof -
  have "\<not> form_safe c \<and> c \<noteq> 0x25 \<and> c \<noteq> 0x2B" if "c \<in> set (js ''?#&=/ '')" for c
    using that by (auto simp: js_def form_safe_def is_alnum_def is_digit_def is_upper_def
        is_lower_def word_le_nat_alt)
  then show ?thesis using form_encode_units by blast
qed

subsection \<open>Query parameters\<close>

lemma params_set_fresh: "k \<notin> fst ` set ps \<Longrightarrow> params_set k v ps = ps @ [(k, v)]"
  by (simp add: params_set_def)

lemma params_to_string_eq_Nil [simp]: "params_to_string ps = [] \<longleftrightarrow> ps = []"
proof (cases ps)
  case (Cons p qs)
  then show ?thesis by (cases qs) (auto simp: params_to_string_def split: prod.splits)
qed (simp add: params_to_string_def)

end
