(* ===== verification/JsJson.thy ===== *)
theory JsJson
  imports JsUri
begin

section \<open>JSON.parse and JSON.stringify\<close>

text \<open>
  JSON values as JavaScript holds them, \<open>JSON.stringify(v)\<close> and \<open>JSON.stringify(v, null, 2)\<close>
  (\<open>ser\<close> with an empty gap and with a gap of two spaces), and \<open>JSON.parse\<close>
  (\<open>json_parse\<close>). A number is held as the text \<open>Number::toString\<close> gives for it; how a
  decimal literal is rounded to a double and printed again is the engine's, so \<open>json_parse\<close>
  takes that function as its argument \<open>num\<close>. The parser runs on fuel; \<open>parse_fuel_enough\<close>
  shows that the fuel \<open>json_parse\<close> starts with never runs out, so a failure is always a
  syntax error of the text. The main fact, \<open>parse_ser\<close>: parsing inverts printing, for every
  value the language can hold and for both layouts.
\<close>

datatype json =
    JNull
  | JBool bool
  | JNum jstr
  | JStr jstr
  | JArr "json list"
  | JObj "(jstr \<times> json) list"

subsection \<open>Printing\<close>

definition hex_lower :: "nat \<Rightarrow> code_unit" where
  "hex_lower d = of_nat (if d < 10 then 48 + d else 87 + d)"

definition unicode_escape :: "code_unit \<Rightarrow> jstr" where
  "unicode_escape c =
     (let n = unat c in
      [0x5C, 0x75, hex_lower (n div 4096), hex_lower (n div 256 mod 16),
       hex_lower (n div 16 mod 16), hex_lower (n mod 16)])"

definition short_escape :: "code_unit \<Rightarrow> code_unit option" where
  "short_escape c =
     map_of [(0x8, 0x62), (0x9, 0x74), (0xA, 0x6E), (0xC, 0x66), (0xD, 0x72),
             (0x22, 0x22), (0x5C, 0x5C)] c"

text \<open>QuoteJSONString without the quotes: a lone surrogate is escaped, a pair is not.\<close>

fun quote_units :: "jstr \<Rightarrow> jstr" where
  "quote_units [] = []"
| "quote_units (c # cs) =
     (case short_escape c of
        Some e \<Rightarrow> [0x5C, e] @ quote_units cs
      | None \<Rightarrow>
          if c < 0x20 then unicode_escape c @ quote_units cs
          else if is_lead c \<and> cs \<noteq> [] \<and> is_trail (hd cs) then c # hd cs # quote_units (tl cs)
          else if is_lead c \<or> is_trail c then unicode_escape c @ quote_units cs
          else c # quote_units cs)"

definition quote_str :: "jstr \<Rightarrow> jstr" where
  "quote_str s = 0x22 # quote_units s @ [0x22]"

definition finite_numeral :: "jstr \<Rightarrow> bool" where
  "finite_numeral l \<longleftrightarrow> l \<notin> set [js ''Infinity'', js ''-Infinity'', js ''NaN'']"

text \<open>The line break and indentation before a member: none without a gap.\<close>

definition nl :: "jstr \<Rightarrow> jstr \<Rightarrow> jstr" where
  "nl gap ind = (if gap = [] then [] else 0xA # ind)"

definition colon :: "jstr \<Rightarrow> jstr" where
  "colon gap = (if gap = [] then [0x3A] else [0x3A, 0x20])"

fun ser :: "jstr \<Rightarrow> jstr \<Rightarrow> json \<Rightarrow> jstr"
  and ser_items :: "jstr \<Rightarrow> jstr \<Rightarrow> json list \<Rightarrow> jstr"
  and ser_members :: "jstr \<Rightarrow> jstr \<Rightarrow> (jstr \<times> json) list \<Rightarrow> jstr" where
  "ser gap ind JNull = js ''null''"
| "ser gap ind (JBool b) = (if b then js ''true'' else js ''false'')"
| "ser gap ind (JNum l) = (if finite_numeral l then l else js ''null'')"
| "ser gap ind (JStr s) = quote_str s"
| "ser gap ind (JArr []) = js ''[]''"
| "ser gap ind (JArr (x # xs)) =
     0x5B # nl gap (ind @ gap) @ ser gap (ind @ gap) x @ ser_items gap (ind @ gap) xs
       @ nl gap ind @ [0x5D]"
| "ser gap ind (JObj []) = js ''{}''"
| "ser gap ind (JObj ((k, v) # kvs)) =
     0x7B # nl gap (ind @ gap) @ quote_str k @ colon gap @ ser gap (ind @ gap) v
       @ ser_members gap (ind @ gap) kvs @ nl gap ind @ [0x7D]"
| "ser_items gap ind [] = []"
| "ser_items gap ind (x # xs) = 0x2C # nl gap ind @ ser gap ind x @ ser_items gap ind xs"
| "ser_members gap ind [] = []"
| "ser_members gap ind ((k, v) # kvs) =
     0x2C # nl gap ind @ quote_str k @ colon gap @ ser gap ind v @ ser_members gap ind kvs"

text \<open>\<open>JSON.stringify(v)\<close> and \<open>JSON.stringify(v, null, 2)\<close>.\<close>

definition json_stringify :: "json \<Rightarrow> jstr" where
  "json_stringify v = ser [] [] v"

definition json_stringify2 :: "json \<Rightarrow> jstr" where
  "json_stringify2 v = ser [0x20, 0x20] [] v"

subsection \<open>Parsing\<close>

definition json_space :: "code_unit \<Rightarrow> bool" where
  "json_space c \<longleftrightarrow> c \<in> {0x9, 0xA, 0xD, 0x20}"

definition skip_ws :: "jstr \<Rightarrow> jstr" where
  "skip_ws s = dropWhile json_space s"

definition unescape :: "code_unit \<Rightarrow> code_unit option" where
  "unescape c =
     map_of [(0x62, 0x8), (0x74, 0x9), (0x6E, 0xA), (0x66, 0xC), (0x72, 0xD),
             (0x22, 0x22), (0x5C, 0x5C), (0x2F, 0x2F)] c"

definition read_hex4 :: "jstr \<Rightarrow> nat option" where
  "read_hex4 s =
     (case s of
        a # b # c # d # _ \<Rightarrow>
          (case (hex_value a, hex_value b, hex_value c, hex_value d) of
             (Some w, Some x, Some y, Some z) \<Rightarrow> Some (4096 * w + 256 * x + 16 * y + z)
           | _ \<Rightarrow> None)
      | _ \<Rightarrow> None)"

text \<open>The rest of a string token, after the opening quote.\<close>

fun read_str :: "jstr \<Rightarrow> (jstr \<times> jstr) option" where
  "read_str [] = None"
| "read_str (c # cs) =
     (if c = 0x22 then Some ([], cs)
      else if c = 0x5C then
        (case cs of
           [] \<Rightarrow> None
         | d # ds \<Rightarrow>
             if d = 0x75 then
               (case read_hex4 ds of
                  None \<Rightarrow> None
                | Some v \<Rightarrow> map_option (\<lambda>(s, r). (of_nat v # s, r)) (read_str (drop 4 ds)))
             else
               (case unescape d of
                  None \<Rightarrow> None
                | Some e \<Rightarrow> map_option (\<lambda>(s, r). (e # s, r)) (read_str ds)))
      else if c < 0x20 then None
      else map_option (\<lambda>(s, r). (c # s, r)) (read_str cs))"

text \<open>The parts of a number token: integer part, fraction and exponent.\<close>

definition read_int :: "jstr \<Rightarrow> (jstr \<times> jstr) option" where
  "read_int s =
     (case s of
        [] \<Rightarrow> None
      | c # cs \<Rightarrow>
          if c = 0x30 then Some ([c], cs)
          else if is_digit c then Some (takeWhile is_digit s, dropWhile is_digit s)
          else None)"

definition read_frac :: "jstr \<Rightarrow> (jstr \<times> jstr) option" where
  "read_frac s =
     (case s of
        c # cs \<Rightarrow>
          if c = 0x2E then
            (if takeWhile is_digit cs = [] then None
             else Some (c # takeWhile is_digit cs, dropWhile is_digit cs))
          else Some ([], s)
      | [] \<Rightarrow> Some ([], []))"

definition read_sign :: "code_unit list \<Rightarrow> jstr \<Rightarrow> jstr \<times> jstr" where
  "read_sign signs s =
     (case s of
        c # cs \<Rightarrow> if c \<in> set signs then ([c], cs) else ([], s)
      | [] \<Rightarrow> ([], []))"

definition read_exp :: "jstr \<Rightarrow> (jstr \<times> jstr) option" where
  "read_exp s =
     (case s of
        c # cs \<Rightarrow>
          if c = 0x65 \<or> c = 0x45 then
            (let (sg, r) = read_sign [0x2B, 0x2D] cs in
             if takeWhile is_digit r = [] then None
             else Some (c # sg @ takeWhile is_digit r, dropWhile is_digit r))
          else Some ([], s)
      | [] \<Rightarrow> Some ([], []))"

definition read_number :: "jstr \<Rightarrow> (jstr \<times> jstr) option" where
  "read_number s =
     (let (sg, s1) = read_sign [0x2D] s in
      case read_int s1 of
        None \<Rightarrow> None
      | Some (i, s2) \<Rightarrow>
          (case read_frac s2 of
             None \<Rightarrow> None
           | Some (f, s3) \<Rightarrow>
               (case read_exp s3 of
                  None \<Rightarrow> None
                | Some (e, s4) \<Rightarrow> Some (sg @ i @ f @ e, s4))))"

fun parse_value :: "(jstr \<Rightarrow> jstr) \<Rightarrow> nat \<Rightarrow> jstr \<Rightarrow> (json \<times> jstr) option"
  and parse_items :: "(jstr \<Rightarrow> jstr) \<Rightarrow> nat \<Rightarrow> jstr \<Rightarrow> (json list \<times> jstr) option"
  and parse_members ::
    "(jstr \<Rightarrow> jstr) \<Rightarrow> nat \<Rightarrow> json obj \<Rightarrow> jstr \<Rightarrow> (json obj \<times> jstr) option" where
  "parse_value num 0 s = None"
| "parse_value num (Suc n) s =
     (case skip_ws s of
        [] \<Rightarrow> None
      | c # cs \<Rightarrow>
          if c = 0x7B then
            (case skip_ws cs of
               [] \<Rightarrow> None
             | d # ds \<Rightarrow>
                 if d = 0x7D then Some (JObj [], ds)
                 else map_option (\<lambda>(ob, r). (JObj ob, r)) (parse_members num n [] cs))
          else if c = 0x5B then
            (case skip_ws cs of
               [] \<Rightarrow> None
             | d # ds \<Rightarrow>
                 if d = 0x5D then Some (JArr [], ds)
                 else map_option (\<lambda>(xs, r). (JArr xs, r)) (parse_items num n cs))
          else if c = 0x22 then map_option (\<lambda>(t, r). (JStr t, r)) (read_str cs)
          else if starts_with (c # cs) (js ''null'') then Some (JNull, drop 4 (c # cs))
          else if starts_with (c # cs) (js ''true'') then Some (JBool True, drop 4 (c # cs))
          else if starts_with (c # cs) (js ''false'') then Some (JBool False, drop 5 (c # cs))
          else map_option (\<lambda>(t, r). (JNum (num t), r)) (read_number (c # cs)))"
| "parse_items num 0 s = None"
| "parse_items num (Suc n) s =
     (case parse_value num n s of
        None \<Rightarrow> None
      | Some (v, r) \<Rightarrow>
          (case skip_ws r of
             [] \<Rightarrow> None
           | c # cs \<Rightarrow>
               if c = 0x2C then map_option (\<lambda>(xs, r'). (v # xs, r')) (parse_items num n cs)
               else if c = 0x5D then Some ([v], cs)
               else None))"
| "parse_members num 0 ob s = None"
| "parse_members num (Suc n) ob s =
     (case skip_ws s of
        [] \<Rightarrow> None
      | q # s1 \<Rightarrow>
          if q \<noteq> 0x22 then None
          else
            (case read_str s1 of
               None \<Rightarrow> None
             | Some (k, s2) \<Rightarrow>
                 (case skip_ws s2 of
                    [] \<Rightarrow> None
                  | d # s3 \<Rightarrow>
                      if d \<noteq> 0x3A then None
                      else
                        (case parse_value num n s3 of
                           None \<Rightarrow> None
                         | Some (v, r) \<Rightarrow>
                             (case skip_ws r of
                                [] \<Rightarrow> None
                              | c # cs \<Rightarrow>
                                  if c = 0x2C then parse_members num n (obj_set k v ob) cs
                                  else if c = 0x7D then Some (obj_set k v ob, cs)
                                  else None)))))"

definition parse_fuel :: "jstr \<Rightarrow> nat" where
  "parse_fuel s = 2 * length s + 1"

text \<open>\<open>JSON.parse(text)\<close>.\<close>

definition json_parse :: "(jstr \<Rightarrow> jstr) \<Rightarrow> jstr \<Rightarrow> js_error + json" where
  "json_parse num s =
     (case parse_value num (parse_fuel s) s of
        Some (v, r) \<Rightarrow> if skip_ws r = [] then Inr v else Inl SyntaxError
      | None \<Rightarrow> Inl SyntaxError)"

subsection \<open>Values the language can hold\<close>

text \<open>
  Objects list their properties in property order, numbers are in the form
  \<open>Number::toString\<close> gives them (a fixed point of \<open>num\<close>).
\<close>

definition numeral_ok :: "(jstr \<Rightarrow> jstr) \<Rightarrow> jstr \<Rightarrow> bool" where
  "numeral_ok num l \<longleftrightarrow> read_number l = Some (l, []) \<and> num l = l"

fun json_ok :: "(jstr \<Rightarrow> jstr) \<Rightarrow> json \<Rightarrow> bool" where
  "json_ok num (JNum l) = numeral_ok num l"
| "json_ok num (JArr xs) = (\<forall>x \<in> set xs. json_ok num x)"
| "json_ok num (JObj kvs) = (from_entries kvs = kvs \<and> (\<forall>(k, v) \<in> set kvs. json_ok num v))"
| "json_ok num _ = True"

subsection \<open>Strings round trip\<close>

lemma read_hex4_escape:
  "read_hex4 (tl (tl (unicode_escape c)) @ s) = Some (unat c)"
proof -
  have hex: "hex_value (hex_lower d) = Some d" if "d < 16" for d
  proof -
    have "unat (hex_lower d) = (if d < 10 then 48 + d else 87 + d)"
      unfolding hex_lower_def using that
      by (simp only: unat_of_nat) (auto simp: take_bit_nat_eq_self)
    then show ?thesis using that by (auto simp: hex_value_def Let_def)
  qed
  define n where "n = unat c"
  have n: "n < 65536" using unsigned_less [of c, where 'a = nat] by (simp add: n_def)
  have "4096 * (n div 4096) + 256 * (n div 256 mod 16) + 16 * (n div 16 mod 16) + n mod 16 = n"
  proof -
    have "n div 16 * 16 + n mod 16 = n" by simp
    moreover have "n div 256 * 16 + n div 16 mod 16 = n div 16"
      using div_mult_mod_eq [of "n div 16" 16] by (simp add: div_mult2_eq [of n 16 16, symmetric])
    moreover have "n div 4096 * 16 + n div 256 mod 16 = n div 256"
      using div_mult_mod_eq [of "n div 256" 16] by (simp add: div_mult2_eq [of n 256 16, symmetric])
    ultimately show ?thesis by linarith
  qed
  moreover have "n div 4096 < 16" using n by (simp add: div_less_iff_less_mult)
  ultimately show ?thesis
    by (simp add: read_hex4_def unicode_escape_def Let_def hex flip: n_def)
qed

lemma read_str_unicode_escape:
  "read_str (unicode_escape c @ s) = map_option (\<lambda>(t, r). (c # t, r)) (read_str s)"
proof -
  define h where "h = tl (tl (unicode_escape c))"
  have u: "unicode_escape c = 0x5C # 0x75 # h" and len: "length h = 4"
    by (simp_all add: h_def unicode_escape_def Let_def)
  have "read_hex4 (h @ s) = Some (unat c)"
    unfolding h_def by (rule read_hex4_escape)
  with len show ?thesis by (simp add: u)
qed

lemma short_escape_Some:
  assumes "short_escape c = Some e"
  shows "unescape e = Some c \<and> e \<noteq> 0x75"
  using assms by (auto simp: short_escape_def unescape_def split: if_splits)

lemma short_escape_None: "short_escape c = None \<Longrightarrow> c \<noteq> 0x22 \<and> c \<noteq> 0x5C"
  by (auto simp: short_escape_def split: if_splits)

lemma surrogate_not_control: "is_lead c \<or> is_trail c \<Longrightarrow> \<not> c < 0x20 \<and> c \<noteq> 0x22 \<and> c \<noteq> 0x5C"
  by (auto simp: is_lead_def is_trail_def word_le_nat_alt word_less_nat_alt)

lemma read_str_quote: "read_str (quote_units s @ 0x22 # rest) = Some (s, rest)"
proof (induction s rule: quote_units.induct)
  case (2 c cs)
  show ?case
  proof (cases "short_escape c")
    case (Some e)
    with 2(5) [OF Some] short_escape_Some [OF Some] show ?thesis by simp
  next
    case None
    consider (control) "c < 0x20"
      | (pair) d ds where "\<not> c < 0x20" "is_lead c" "cs = d # ds" "is_trail d"
      | (lone) "\<not> c < 0x20" "\<not> (is_lead c \<and> cs \<noteq> [] \<and> is_trail (hd cs))" "is_lead c \<or> is_trail c"
      | (plain) "\<not> c < 0x20" "\<not> is_lead c" "\<not> is_trail c"
      by (cases cs) auto
    then show ?thesis
    proof cases
      case control
      with 2(1) None show ?thesis by (simp add: read_str_unicode_escape)
    next
      case pair
      with 2(2) None surrogate_not_control [of c] surrogate_not_control [of d]
      show ?thesis by simp
    next
      case lone
      with 2(3) None show ?thesis by (auto simp: read_str_unicode_escape)
    next
      case plain
      with 2(4) None short_escape_None [OF None] show ?thesis by simp
    qed
  qed
qed simp

subsection \<open>Numbers round trip\<close>

text \<open>A token ends before whatever cannot continue a number.\<close>

definition number_unit :: "code_unit \<Rightarrow> bool" where
  "number_unit c \<longleftrightarrow> is_digit c \<or> c \<in> {0x2E, 0x65, 0x45}"

definition stops :: "jstr \<Rightarrow> bool" where
  "stops r \<longleftrightarrow> r = [] \<or> \<not> number_unit (hd r)"

lemma stops_cases: "stops r \<Longrightarrow> (r = [] \<Longrightarrow> P) \<Longrightarrow> (\<And>c cs. r = c # cs \<Longrightarrow> \<not> number_unit c \<Longrightarrow> P) \<Longrightarrow> P"
  by (cases r) (auto simp: stops_def)

lemma span_append:
  assumes "stops r"
  shows "takeWhile is_digit (s @ r) = takeWhile is_digit s"
    and "dropWhile is_digit (s @ r) = dropWhile is_digit s @ r"
proof -
  have "takeWhile is_digit (s @ r) = takeWhile is_digit s
    \<and> dropWhile is_digit (s @ r) = dropWhile is_digit s @ r"
  proof (induction s)
    case Nil
    from assms show ?case by (rule stops_cases) (auto simp: number_unit_def)
  qed auto
  then show "takeWhile is_digit (s @ r) = takeWhile is_digit s"
    and "dropWhile is_digit (s @ r) = dropWhile is_digit s @ r" by auto
qed

lemma read_int_append:
  "stops r \<Longrightarrow> read_int s = Some (a, b) \<Longrightarrow> read_int (s @ r) = Some (a, b @ r)"
  using span_append [of r s] by (auto simp: read_int_def split: list.splits if_splits)

lemma read_frac_append:
  "stops r \<Longrightarrow> read_frac s = Some (a, b) \<Longrightarrow> read_frac (s @ r) = Some (a, b @ r)"
  using span_append [of r "tl s"]
  by (auto simp: read_frac_def number_unit_def elim!: stops_cases split: list.splits if_splits)

lemma read_sign_append:
  "s \<noteq> [] \<Longrightarrow> read_sign sg (s @ r) = (let (a, b) = read_sign sg s in (a, b @ r))"
  by (cases s) (auto simp: read_sign_def)

lemma read_exp_append:
  assumes "stops r" and "read_exp s = Some (a, b)"
  shows "read_exp (s @ r) = Some (a, b @ r)"
proof (cases s)
  case Nil
  with assms show ?thesis
    by (auto simp: read_exp_def number_unit_def elim!: stops_cases)
next
  case (Cons c cs)
  show ?thesis
  proof (cases "c = 0x65 \<or> c = 0x45")
    case True
    then have "cs \<noteq> []"
      using assms(2) Cons by (auto simp: read_exp_def read_sign_def)
    then show ?thesis
      using assms(2) True Cons span_append [OF assms(1)]
      by (auto simp: read_exp_def read_sign_append split: prod.splits if_splits)
  next
    case False
    with assms(2) Cons show ?thesis by (auto simp: read_exp_def)
  qed
qed

lemma read_number_append:
  assumes r: "stops r" and "read_number s = Some (a, b)"
  shows "read_number (s @ r) = Some (a, b @ r)"
proof -
  obtain sg s1 where sg: "read_sign [0x2D] s = (sg, s1)" by fastforce
  from assms(2) sg obtain i s2 f s3 e where
    i: "read_int s1 = Some (i, s2)" and f: "read_frac s2 = Some (f, s3)"
    and e: "read_exp s3 = Some (e, b)" and a: "a = sg @ i @ f @ e"
    by (auto simp: read_number_def split: option.splits)
  from i sg have "s \<noteq> []" by (auto simp: read_int_def read_sign_def)
  then have "read_sign [0x2D] (s @ r) = (sg, s1 @ r)" by (simp add: read_sign_append sg)
  then show ?thesis
    using read_int_append [OF r i] read_frac_append [OF r f] read_exp_append [OF r e] a
    by (simp add: read_number_def)
qed

lemma read_number_hd:
  assumes "read_number s = Some (a, b)"
  shows "s \<noteq> [] \<and> (hd s = 0x2D \<or> is_digit (hd s))"
  using assms by (cases s)
    (auto simp: read_number_def read_sign_def read_int_def is_digit_def
      split: option.splits if_splits)

lemma numeral_finite: "numeral_ok num l \<Longrightarrow> finite_numeral l"
  using read_number_hd [of l l "[]"]
  by (auto simp: numeral_ok_def finite_numeral_def js_def is_digit_def word_le_nat_alt
      read_number_def read_sign_def read_int_def)


subsection \<open>Values round trip\<close>

text \<open>What the parser does with enough fuel.\<close>

definition parses :: "(jstr \<Rightarrow> jstr) \<Rightarrow> jstr \<Rightarrow> json \<Rightarrow> jstr \<Rightarrow> bool" where
  "parses num s v r \<longleftrightarrow> (\<exists>lo. \<forall>n \<ge> lo. parse_value num n s = Some (v, r))"

definition parses_items :: "(jstr \<Rightarrow> jstr) \<Rightarrow> jstr \<Rightarrow> json list \<Rightarrow> jstr \<Rightarrow> bool" where
  "parses_items num s xs r \<longleftrightarrow> (\<exists>lo. \<forall>n \<ge> lo. parse_items num n s = Some (xs, r))"

definition parses_members ::
  "(jstr \<Rightarrow> jstr) \<Rightarrow> json obj \<Rightarrow> jstr \<Rightarrow> json obj \<Rightarrow> jstr \<Rightarrow> bool" where
  "parses_members num ob s kvs r \<longleftrightarrow> (\<exists>lo. \<forall>n \<ge> lo. parse_members num n ob s = Some (kvs, r))"

definition blank :: "jstr \<Rightarrow> bool" where
  "blank w \<longleftrightarrow> list_all json_space w"

lemma blank_Nil [simp, intro]: "blank []" by (simp add: blank_def)

lemma blank_append [intro]: "blank a \<Longrightarrow> blank b \<Longrightarrow> blank (a @ b)"
  by (simp add: blank_def)

lemma blank_nl [intro]: "blank ind \<Longrightarrow> blank (nl gap ind)"
  by (simp add: blank_def nl_def json_space_def)

lemma skip_ws_blank [simp]: "blank w \<Longrightarrow> skip_ws (w @ s) = skip_ws s"
  by (simp add: blank_def skip_ws_def dropWhile_append2 list_all_iff)

lemma skip_ws_blank_only: "blank w \<Longrightarrow> skip_ws w = []"
  by (simp add: blank_def skip_ws_def dropWhile_eq_Nil_conv list_all_iff)

lemma skip_ws_Cons: "\<not> json_space c \<Longrightarrow> skip_ws (c # s) = c # s"
  by (simp add: skip_ws_def)

lemma json_space_lits [simp]:
  "\<not> json_space 0x7B" "\<not> json_space 0x7D" "\<not> json_space 0x5B" "\<not> json_space 0x5D"
  "\<not> json_space 0x22" "\<not> json_space 0x2C" "\<not> json_space 0x3A"
  by (simp_all add: json_space_def)

lemmas skip_ws_simps = skip_ws_blank skip_ws_Cons

lemma stops_lits [simp]:
  "stops (0x2C # s)" "stops (0x5D # s)" "stops (0x7D # s)" "stops (0xA # s)"
  by (simp_all add: stops_def number_unit_def is_digit_def)

lemma stops_nl: "stops s \<Longrightarrow> stops (nl gap ind @ s)"
  by (simp add: nl_def)

lemma stops_ser_items: "stops s \<Longrightarrow> stops (ser_items gap ind xs @ s)"
  by (cases xs) simp_all

lemma stops_ser_members: "stops s \<Longrightarrow> stops (ser_members gap ind kvs @ s)"
  by (cases kvs rule: list.exhaust) (auto split: prod.splits simp: stops_def number_unit_def is_digit_def)

lemma skip_ws_value: "parse_value num n (skip_ws s) = parse_value num n s"
proof -
  have "skip_ws (skip_ws s) = skip_ws s" by (simp add: skip_ws_def)
  then show ?thesis by (cases n) simp_all
qed

lemma parses_blank: "blank w \<Longrightarrow> parses num (w @ s) v r \<longleftrightarrow> parses num s v r"
  by (simp only: parses_def skip_ws_value [of num _ "w @ s", symmetric]
      skip_ws_value [of num _ s, symmetric] skip_ws_blank)

lemma parses_items_blank: "blank w \<Longrightarrow> parses_items num (w @ s) xs r \<longleftrightarrow> parses_items num s xs r"
proof -
  have eq: "parse_items num n (skip_ws t) = parse_items num n t" for n t
    by (cases n) (simp_all add: skip_ws_value)
  show "blank w \<Longrightarrow> ?thesis"
    by (simp only: parses_items_def eq [of _ "w @ s", symmetric] eq [of _ s, symmetric]
        skip_ws_blank)
qed

text \<open>Composition: an array, and an object, from their parts.\<close>

lemma parses_SucI:
  "(\<And>n. n \<ge> lo \<Longrightarrow> parse_value num (Suc n) s = Some (v, r)) \<Longrightarrow> parses num s v r"
  unfolding parses_def by (metis Suc_le_D Suc_le_mono)

lemma parses_items_SucI:
  "(\<And>n. n \<ge> lo \<Longrightarrow> parse_items num (Suc n) s = Some (v, r)) \<Longrightarrow> parses_items num s v r"
  unfolding parses_items_def by (metis Suc_le_D Suc_le_mono)

lemma parses_members_SucI:
  "(\<And>n. n \<ge> lo \<Longrightarrow> parse_members num (Suc n) ob s = Some (v, r)) \<Longrightarrow> parses_members num ob s v r"
  unfolding parses_members_def by (metis Suc_le_D Suc_le_mono)

lemma parses_items_last:
  assumes "parses num s v r" and "skip_ws r = 0x5D # t"
  shows "parses_items num s [v] t"
proof -
  from assms(1) obtain lo where "\<And>n. n \<ge> lo \<Longrightarrow> parse_value num n s = Some (v, r)"
    by (auto simp: parses_def)
  then show ?thesis by (intro parses_items_SucI [where lo = lo]) (simp add: assms(2))
qed

lemma parses_items_more:
  assumes "parses num s v r" and "skip_ws r = 0x2C # t" and "parses_items num t xs r'"
  shows "parses_items num s (v # xs) r'"
proof -
  from assms(1) obtain lo where v: "\<And>n. n \<ge> lo \<Longrightarrow> parse_value num n s = Some (v, r)"
    by (auto simp: parses_def)
  from assms(3) obtain lo2 where xs: "\<And>n. n \<ge> lo2 \<Longrightarrow> parse_items num n t = Some (xs, r')"
    by (auto simp: parses_items_def)
  show ?thesis by (rule parses_items_SucI [where lo = "max lo lo2"]) (simp add: assms(2) v xs)
qed

lemma parses_array:
  assumes "parses_items num s xs r" and "skip_ws s = c # cs" and "c \<noteq> 0x5D"
  shows "parses num (0x5B # s) (JArr xs) r"
proof -
  from assms(1) obtain lo where "\<And>n. n \<ge> lo \<Longrightarrow> parse_items num n s = Some (xs, r)"
    by (auto simp: parses_items_def)
  then show ?thesis
    by (intro parses_SucI [where lo = lo]) (simp add: skip_ws_Cons assms(2,3))
qed

lemma member_step:
  assumes w: "blank w"
    and v: "\<And>n. n \<ge> lo \<Longrightarrow> parse_value num n s = Some (v, r)" and n: "n \<ge> lo"
  shows "parse_members num (Suc n) ob (w @ quote_str k @ colon gap @ s) =
    (case skip_ws r of
       [] \<Rightarrow> None
     | c # cs \<Rightarrow>
         if c = 0x2C then parse_members num n (obj_set k v ob) cs
         else if c = 0x7D then Some (obj_set k v ob, cs)
         else None)"
proof -
  have "parse_value num n (tl (colon gap) @ s) = Some (v, r)"
    using v [OF n] skip_ws_value [of num n "tl (colon gap) @ s"] skip_ws_value [of num n s]
    by (auto simp: colon_def json_space_def skip_ws_def split: if_splits)
  moreover have "skip_ws (colon gap @ s) = 0x3A # tl (colon gap) @ s"
    by (simp add: colon_def skip_ws_Cons)
  ultimately show ?thesis
    using w read_str_quote [of k "colon gap @ s"]
    by (simp add: quote_str_def skip_ws_Cons)
qed

lemma parses_members_last:
  assumes "blank w" and "parses num s v r" and "skip_ws r = 0x7D # t"
  shows "parses_members num ob (w @ quote_str k @ colon gap @ s) (obj_set k v ob) t"
proof -
  from assms(2) obtain lo where "\<And>n. n \<ge> lo \<Longrightarrow> parse_value num n s = Some (v, r)"
    by (auto simp: parses_def)
  then show ?thesis
    by (intro parses_members_SucI [where lo = lo]) (subst member_step [OF assms(1)], auto simp: assms(3))
qed

lemma parses_members_more:
  assumes "blank w" and "parses num s v r" and "skip_ws r = 0x2C # t"
    and "parses_members num (obj_set k v ob) t kvs r'"
  shows "parses_members num ob (w @ quote_str k @ colon gap @ s) kvs r'"
proof -
  from assms(2) obtain lo where v: "\<And>n. n \<ge> lo \<Longrightarrow> parse_value num n s = Some (v, r)"
    by (auto simp: parses_def)
  from assms(4) obtain lo2 where
    m: "\<And>n. n \<ge> lo2 \<Longrightarrow> parse_members num n (obj_set k v ob) t = Some (kvs, r')"
    by (auto simp: parses_members_def)
  show ?thesis
    by (rule parses_members_SucI [where lo = "max lo lo2"])
      (subst member_step [OF assms(1) v, where lo = lo], auto simp: assms(3) m)
qed

lemma parses_object:
  assumes "parses_members num [] s kvs r" and "skip_ws s = c # cs" and "c \<noteq> 0x7D"
  shows "parses num (0x7B # s) (JObj kvs) r"
proof -
  from assms(1) obtain lo where "\<And>n. n \<ge> lo \<Longrightarrow> parse_members num n [] s = Some (kvs, r)"
    by (auto simp: parses_members_def)
  then show ?thesis
    by (intro parses_SucI [where lo = lo]) (simp add: skip_ws_Cons assms(2,3))
qed

text \<open>A printed value never begins with a blank or a closing bracket.\<close>

lemma ser_hd:
  assumes "json_ok num v"
  shows "\<exists>c cs. ser gap ind v @ s = c # cs \<and> \<not> json_space c \<and> c \<noteq> 0x5D"
proof (cases v)
  case (JNum l)
  with assms have l: "read_number l = Some (l, [])" and "finite_numeral l"
    by (auto simp: numeral_ok_def intro: numeral_finite)
  with JNum read_number_hd [OF l] show ?thesis
    by (cases l) (auto simp: json_space_def is_digit_def)
next
  case (JArr xs)
  then show ?thesis by (cases xs) (auto simp: js_def json_space_def)
next
  case (JObj kvs)
  then show ?thesis by (cases kvs) (auto simp: js_def json_space_def)
qed (auto simp: js_def json_space_def quote_str_def)

lemma parses_number:
  assumes "numeral_ok num l" and "stops r"
  shows "parses num (l @ r) (JNum l) r"
proof -
  from assms(1) have l: "read_number l = Some (l, [])" and num: "num l = l"
    by (auto simp: numeral_ok_def)
  from read_number_append [OF assms(2) l] have "read_number (l @ r) = Some (l, r)" by simp
  moreover obtain c cs where cs: "l @ r = c # cs" and "c = 0x2D \<or> is_digit c"
    using read_number_hd [OF l] by (cases l) auto
  moreover from this(2) have "\<not> json_space c" "c \<noteq> 0x7B" "c \<noteq> 0x5B" "c \<noteq> 0x22"
    "\<not> starts_with (c # cs) (js ''null'')" "\<not> starts_with (c # cs) (js ''true'')"
    "\<not> starts_with (c # cs) (js ''false'')"
    by (auto simp: is_digit_def json_space_def js_def)
  ultimately show ?thesis
    by (intro parses_SucI [where lo = 0]) (simp add: skip_ws_Cons num)
qed

lemma parses_items_ser:
  assumes "\<And>x rest. x \<in> set (x0 # xs) \<Longrightarrow> stops rest \<Longrightarrow> parses num (ser gap ind x @ rest) x rest"
    and ws: "blank ind" "blank w" and w: "stops (w @ 0x5D # r)"
  shows "parses_items num (ser gap ind x0 @ ser_items gap ind xs @ w @ 0x5D # r) (x0 # xs) r"
  using assms(1)
proof (induction xs arbitrary: x0)
  case Nil
  then have "parses num (ser gap ind x0 @ w @ 0x5D # r) x0 (w @ 0x5D # r)" using w by simp
  then show ?case
    using ws by (auto intro!: parses_items_last simp: skip_ws_simps)
next
  case (Cons x1 xs)
  let ?rest = "ser gap ind x1 @ ser_items gap ind xs @ w @ 0x5D # r"
  have "parses num (ser gap ind x0 @ 0x2C # nl gap ind @ ?rest) x0 (0x2C # nl gap ind @ ?rest)"
    using Cons.prems by simp
  moreover have "parses_items num ?rest (x1 # xs) r"
    using Cons.prems by (intro Cons.IH) auto
  then have "parses_items num (nl gap ind @ ?rest) (x1 # xs) r"
    using ws by (simp add: parses_items_blank blank_nl)
  ultimately show ?case
    by (auto intro: parses_items_more simp: skip_ws_Cons)
qed

lemma parses_members_ser:
  assumes "\<And>k v rest. (k, v) \<in> set ((k0, v0) # kvs) \<Longrightarrow> stops rest
      \<Longrightarrow> parses num (ser gap ind v @ rest) v rest"
    and ws: "blank ind" "blank w" "blank w0" and w: "stops (w @ 0x7D # r)"
  shows "parses_members num ob
    (w0 @ quote_str k0 @ colon gap @ ser gap ind v0 @ ser_members gap ind kvs @ w @ 0x7D # r)
    (foldl (\<lambda>ob (k, v). obj_set k v ob) ob ((k0, v0) # kvs)) r"
  using assms(1) ws(3)
proof (induction kvs arbitrary: k0 v0 ob w0)
  case Nil
  then have "parses num (ser gap ind v0 @ w @ 0x7D # r) v0 (w @ 0x7D # r)" using w by simp
  with Nil.prems(2) show ?case
    using ws by (auto intro!: parses_members_last simp: skip_ws_simps)
next
  case (Cons kv kvs)
  obtain k1 v1 where kv: "kv = (k1, v1)" by fastforce
  let ?rest = "nl gap ind @ quote_str k1 @ colon gap @ ser gap ind v1
    @ ser_members gap ind kvs @ w @ 0x7D # r"
  have "parses num (ser gap ind v0 @ 0x2C # ?rest) v0 (0x2C # ?rest)"
    using Cons.prems(1) [of k0 v0] by simp
  moreover have "parses_members num (obj_set k0 v0 ob) ?rest
      (foldl (\<lambda>ob (k, v). obj_set k v ob) (obj_set k0 v0 ob) ((k1, v1) # kvs)) r"
    using Cons.prems(1) ws(1) by (intro Cons.IH) (auto simp: kv)
  ultimately show ?case
    using Cons.prems(2) by (auto intro!: parses_members_more simp: skip_ws_Cons kv)
qed

text \<open>The printed text of a value parses to the value, whatever follows it.\<close>

lemma parses_ser:
  assumes gap: "blank gap"
  shows "json_ok num v \<Longrightarrow> blank ind \<Longrightarrow> stops rest \<Longrightarrow> parses num (ser gap ind v @ rest) v rest"
proof (induction v arbitrary: ind rest)
  case (JNum l)
  then show ?case using parses_number numeral_finite by simp
next
  case (JStr t)
  then show ?case using read_str_quote [of t rest]
    by (intro parses_SucI [where lo = 0]) (simp add: quote_str_def skip_ws_Cons)
next
  case (JArr xs)
  show ?case
  proof (cases xs)
    case Nil
    then show ?thesis by (intro parses_SucI [where lo = 0]) (simp add: js_def skip_ws_Cons)
  next
    case (Cons x0 xs')
    let ?ind = "ind @ gap"
    let ?s = "ser gap ?ind x0 @ ser_items gap ?ind xs' @ nl gap ind @ 0x5D # rest"
    have b: "blank ?ind" using gap JArr.prems(2) by blast
    have "parses_items num ?s (x0 # xs') rest"
      using JArr.prems b by (intro parses_items_ser JArr.IH)
        (auto simp: Cons blank_nl stops_nl)
    then have "parses_items num (nl gap ?ind @ ?s) (x0 # xs') rest"
      using b by (simp add: parses_items_blank blank_nl)
    moreover obtain c cs where "?s = c # cs" "\<not> json_space c" "c \<noteq> 0x5D"
      using ser_hd [of num x0 gap ?ind] JArr.prems(1) by (fastforce simp: Cons)
    moreover from this b have "skip_ws (nl gap ?ind @ ?s) = c # cs"
      by (simp add: skip_ws_Cons blank_nl)
    ultimately show ?thesis by (auto intro!: parses_array simp: Cons)
  qed
next
  case (JObj kvs)
  show ?case
  proof (cases kvs)
    case Nil
    then show ?thesis by (intro parses_SucI [where lo = 0]) (simp add: js_def skip_ws_Cons)
  next
    case (Cons kv kvs')
    obtain k0 v0 where kv: "kv = (k0, v0)" by fastforce
    let ?ind = "ind @ gap"
    let ?s = "quote_str k0 @ colon gap @ ser gap ?ind v0 @ ser_members gap ?ind kvs'
      @ nl gap ind @ 0x7D # rest"
    have b: "blank ?ind" using gap JObj.prems(2) by blast
    have "parses_members num [] (nl gap ?ind @ ?s)
        (foldl (\<lambda>ob (k, v). obj_set k v ob) [] ((k0, v0) # kvs')) rest"
    proof (rule parses_members_ser)
      fix k v rest'
      assume "(k, v) \<in> set ((k0, v0) # kvs')" and "stops rest'"
      with JObj.prems b show "parses num (ser gap ?ind v @ rest') v rest'"
        by (intro JObj.IH [of "(k, v)"]) (auto simp: Cons kv)
    qed (use b JObj.prems in \<open>auto simp: blank_nl stops_nl\<close>)
    moreover have "foldl (\<lambda>ob (k, v). obj_set k v ob) [] ((k0, v0) # kvs') = kvs"
      using JObj.prems(1) by (simp add: from_entries_def Cons kv)
    moreover have "skip_ws (nl gap ?ind @ ?s) = 0x22 # tl ?s"
      using b by (simp add: blank_nl quote_str_def skip_ws_Cons)
    ultimately show ?thesis
      by (auto intro!: parses_object simp: Cons kv)
  qed
qed (auto intro!: parses_SucI [where lo = 0] simp: js_def skip_ws_Cons json_space_def)

subsection \<open>The parser never runs out of fuel\<close>

lemma read_str_length: "read_str s = Some (t, r) \<Longrightarrow> length r < length s"
proof (induction s arbitrary: t rule: read_str.induct)
  case (2 c cs)
  then show ?case by (fastforce split: if_splits list.splits option.splits)
qed simp

lemma read_number_length:
  assumes "read_number s = Some (t, r)"
  shows "length r < length s"
proof -
  have span: "length (dropWhile is_digit x) \<le> length x" for x
    by (simp add: length_dropWhile_le)
  obtain sg s1 where sg: "read_sign [0x2D] s = (sg, s1)" by fastforce
  from assms sg obtain i s2 f s3 e where
    i: "read_int s1 = Some (i, s2)" and f: "read_frac s2 = Some (f, s3)"
    and e: "read_exp s3 = Some (e, r)"
    by (auto simp: read_number_def split: option.splits)
  have "length s1 \<le> length s" using sg by (auto simp: read_sign_def split: list.splits if_splits)
  moreover have "length s2 < length s1"
    using i span [of "tl s1"] by (auto simp: read_int_def split: list.splits if_splits)
  moreover have "length s3 \<le> length s2"
    using f span [of "tl s2"] by (auto simp: read_frac_def split: list.splits if_splits)
  moreover have "length (snd (read_sign [0x2B, 0x2D] (tl s3))) \<le> length s3"
    by (cases s3; cases "tl s3") (auto simp: read_sign_def)
  then have "length r \<le> length s3"
    using e span [of "snd (read_sign [0x2B, 0x2D] (tl s3))"]
    by (auto simp: read_exp_def split: list.splits if_splits prod.splits)
  ultimately show ?thesis by linarith
qed

lemma skip_ws_length: "length (skip_ws s) \<le> length s"
  by (simp add: skip_ws_def length_dropWhile_le)

lemma skip_ws_shorter: "skip_ws s = c # cs \<Longrightarrow> length cs < length s"
  using skip_ws_length [of s] by simp

lemma parse_length:
  "parse_value num n s = Some (v, r) \<Longrightarrow> length r < length s"
  "parse_items num n s = Some (xs, r) \<Longrightarrow> length r < length s"
  "parse_members num n ob s = Some (kvs, r) \<Longrightarrow> length r < length s"
proof (induction num n s and num n s and num n ob s arbitrary: v r and xs r and kvs r
    rule: parse_value_parse_items_parse_members.induct)
  case (2 num n s)
  obtain c cs where s: "skip_ws s = c # cs"
    using "2.prems" by (auto split: list.splits)
  have len: "length cs < length s" and len': "length (skip_ws cs) \<le> length cs"
    using skip_ws_shorter [OF s] skip_ws_length by auto
  show ?case
    using "2.prems" "2.IH" s len len' read_number_length [of "c # cs"] skip_ws_length [of s]
    by (fastforce dest: read_str_length split: if_splits list.splits)
next
  case (4 num n s)
  then obtain v' r' where v: "parse_value num n s = Some (v', r')"
    by (auto split: option.splits)
  with "4.IH"(1) have "length r' < length s" by blast
  moreover obtain c cs where cs: "skip_ws r' = c # cs"
    using "4.prems" v by (auto split: list.splits)
  moreover have "length r \<le> length cs"
    using "4.prems" v cs "4.IH"(2) [OF v refl cs] by (auto split: if_splits)
  ultimately show ?case using skip_ws_shorter [OF cs] by linarith
next
  case (6 num n ob s)
  obtain q s1 where s1: "skip_ws s = q # s1" and q: "q = 0x22"
    using "6.prems" by (auto split: list.splits if_splits)
  obtain k s2 where s2: "read_str s1 = Some (k, s2)"
    using "6.prems" s1 q by (auto split: option.splits)
  obtain d s3 where s3: "skip_ws s2 = d # s3" and d: "d = 0x3A"
    using "6.prems" s1 q s2 by (auto split: list.splits if_splits)
  obtain v' r' where v: "parse_value num n s3 = Some (v', r')"
    using "6.prems" s1 q s2 s3 d by (auto split: option.splits)
  obtain c cs where cs: "skip_ws r' = c # cs"
    using "6.prems" s1 q s2 s3 d v by (auto split: list.splits)
  have qd: "\<not> q \<noteq> 0x22" "\<not> d \<noteq> 0x3A" using q d by simp_all
  have "length r \<le> length cs"
    using "6.prems" s1 q s2 s3 d v cs "6.IH"(2) [OF s1 qd(1) s2 refl s3 qd(2) v refl cs]
    by (auto split: if_splits)
  moreover have "length r' < length s3"
    using "6.IH"(1) [OF s1 qd(1) s2 refl s3 qd(2)] v by blast
  ultimately show ?case
    using skip_ws_shorter [OF s1] read_str_length [OF s2] skip_ws_shorter [OF s3]
      skip_ws_shorter [OF cs] by linarith
qed simp_all

lemma fuel_enough:
  "(\<forall>s n m. length s \<le> L \<longrightarrow> 2 * L + 1 \<le> n \<longrightarrow> 2 * L + 1 \<le> m \<longrightarrow>
      parse_value num n s = parse_value num m s)
   \<and> (\<forall>s n m. length s \<le> L \<longrightarrow> 2 * L + 2 \<le> n \<longrightarrow> 2 * L + 2 \<le> m \<longrightarrow>
      parse_items num n s = parse_items num m s)
   \<and> (\<forall>s n m ob. length s \<le> L \<longrightarrow> 2 * L + 2 \<le> n \<longrightarrow> 2 * L + 2 \<le> m \<longrightarrow>
      parse_members num n ob s = parse_members num m ob s)"
proof (induction L rule: less_induct)
  case (less L)
  have vals: "parse_value num n s = parse_value num m s"
    if s: "length s \<le> L" and n: "2 * L + 1 \<le> n" and m: "2 * L + 1 \<le> m" for s n m
  proof -
    obtain n' m' where nm: "n = Suc n'" "m = Suc m'" using n m by (metis Suc_le_D add.commute plus_1_eq_Suc)
    show ?thesis
    proof (cases "skip_ws s")
      case Nil
      then show ?thesis by (simp add: nm)
    next
      case (Cons c cs)
      from skip_ws_shorter [OF Cons] s have L: "L - 1 < L" "length cs \<le> L - 1" by linarith+
      have "2 * (L - 1) + 2 \<le> n'" "2 * (L - 1) + 2 \<le> m'" using L n m nm by linarith+
      with less.IH [OF L(1)] L(2) have
        "parse_items num n' cs = parse_items num m' cs"
        "parse_members num n' [] cs = parse_members num m' [] cs" by blast+
      with Cons show ?thesis by (simp add: nm split: list.split)
    qed
  qed
  have items: "parse_items num n s = parse_items num m s"
    if s: "length s \<le> L" and n: "2 * L + 2 \<le> n" and m: "2 * L + 2 \<le> m" for s n m
  proof -
    obtain n' m' where nm: "n = Suc n'" "m = Suc m'" using n m by (metis Suc_le_D add_2_eq_Suc')
    then have v: "parse_value num n' s = parse_value num m' s"
      using s n m by (intro vals) linarith+
    have "parse_items num n' cs = parse_items num m' cs"
      if "parse_value num m' s = Some (v', r')" "skip_ws r' = c # cs" for v' r' c cs
    proof -
      have L: "L - 1 < L" "length cs \<le> L - 1"
        using parse_length(1) [OF that(1)] skip_ws_shorter [OF that(2)] s by linarith+
      have "2 * (L - 1) + 2 \<le> n'" "2 * (L - 1) + 2 \<le> m'" using L n m nm by linarith+
      with less.IH [OF L(1)] L(2) show ?thesis by blast
    qed
    then show ?thesis by (auto simp: nm v split: option.splits list.splits)
  qed
  have members: "parse_members num n ob s = parse_members num m ob s"
    if s: "length s \<le> L" and n: "2 * L + 2 \<le> n" and m: "2 * L + 2 \<le> m" for s n m ob
  proof -
    obtain n' m' where nm: "n = Suc n'" "m = Suc m'" using n m by (metis Suc_le_D add_2_eq_Suc')
    show ?thesis
    proof (cases "skip_ws s = [] \<or> read_str (tl (skip_ws s)) = None
        \<or> skip_ws (snd (the (read_str (tl (skip_ws s))))) = []")
      case True
      then show ?thesis
        by (cases "skip_ws s"; cases "read_str (tl (skip_ws s))") (auto simp: nm)
    next
      case False
      then obtain q s1 k s2 d s3 where s1: "skip_ws s = q # s1"
        and s2: "read_str s1 = Some (k, s2)" and s3: "skip_ws s2 = d # s3"
        by (cases "skip_ws s"; cases "read_str (tl (skip_ws s))")
          (auto simp: neq_Nil_conv)
      have "length s3 < L"
        using skip_ws_shorter [OF s1] read_str_length [OF s2] skip_ws_shorter [OF s3] s
        by linarith
      then have L: "L - 1 < L" "length s3 \<le> L - 1" by linarith+
      have fuel: "2 * (L - 1) + 2 \<le> n'" "2 * (L - 1) + 2 \<le> m'" using L n m nm by linarith+
      then have "2 * (L - 1) + 1 \<le> n'" "2 * (L - 1) + 1 \<le> m'" by linarith+
      then have v: "parse_value num n' s3 = parse_value num m' s3"
        using less.IH [OF L(1)] L(2) by blast
      have "parse_members num n' ob' cs = parse_members num m' ob' cs"
        if "parse_value num m' s3 = Some (v', r')" "skip_ws r' = c # cs" for v' r' c cs ob'
      proof -
        have "length cs \<le> L - 1"
          using parse_length(1) [OF that(1)] skip_ws_shorter [OF that(2)] L(2) by linarith
        with less.IH [OF L(1)] fuel show ?thesis by blast
      qed
      then show ?thesis by (auto simp: nm s1 s2 s3 v split: option.splits list.splits)
    qed
  qed
  show ?case
  proof (intro conjI)
    show "\<forall>s n m. length s \<le> L \<longrightarrow> 2 * L + 1 \<le> n \<longrightarrow> 2 * L + 1 \<le> m \<longrightarrow>
      parse_value num n s = parse_value num m s" using vals by iprover
    show "\<forall>s n m. length s \<le> L \<longrightarrow> 2 * L + 2 \<le> n \<longrightarrow> 2 * L + 2 \<le> m \<longrightarrow>
      parse_items num n s = parse_items num m s" using items by iprover
    show "\<forall>s n m ob. length s \<le> L \<longrightarrow> 2 * L + 2 \<le> n \<longrightarrow> 2 * L + 2 \<le> m \<longrightarrow>
      parse_members num n ob s = parse_members num m ob s" using members by iprover
  qed
qed

lemma parse_fuel_enough:
  "parse_fuel s \<le> n \<Longrightarrow> parse_value num n s = parse_value num (parse_fuel s) s"
  by (rule fuel_enough [of "length s" num, THEN conjunct1, rule_format])
    (simp_all add: parse_fuel_def)

lemma json_parse_eq:
  assumes "parses num s v r"
  shows "json_parse num s = (if skip_ws r = [] then Inr v else Inl SyntaxError)"
proof -
  from assms obtain lo where lo: "\<forall>n \<ge> lo. parse_value num n s = Some (v, r)"
    by (auto simp: parses_def)
  have "parse_value num (parse_fuel s) s = parse_value num (max lo (parse_fuel s)) s"
    by (rule parse_fuel_enough [symmetric]) simp
  with lo show ?thesis by (simp add: json_parse_def)
qed

lemma parse_ser:
  assumes "json_ok num v" and "blank gap"
  shows "json_parse num (ser gap [] v) = Inr v"
  using json_parse_eq [OF parses_ser [OF assms(2,1), of "[]" "[]"]]
  by (simp add: stops_def skip_ws_def)

lemma parse_stringify: "json_ok num v \<Longrightarrow> json_parse num (json_stringify v) = Inr v"
  unfolding json_stringify_def by (rule parse_ser) auto

lemma parse_stringify2: "json_ok num v \<Longrightarrow> json_parse num (json_stringify2 v) = Inr v"
  unfolding json_stringify2_def by (rule parse_ser) (auto simp: blank_def json_space_def)

lemma json_parse_error: "json_parse num s = Inl e \<Longrightarrow> e = SyntaxError"
  by (auto simp: json_parse_def split: option.splits if_splits)


end
