(* ===== verification/WbTypes.thy ===== *)
theory WbTypes
  imports JsJson
begin

section \<open>The workbench's data: types.ts, constants.ts and search-schema.ts\<close>

text \<open>
  The types of \<open>features/workbench/types.ts\<close> (a string union is a datatype, an interface a
  record, with a short prefix on the field names), the constants of \<open>constants.ts\<close> and the
  search parameters of \<open>search-schema.ts\<close>. A localised message \<open>m.key(args)\<close> is kept
  symbolic (\<open>Msg\<close>): the texts are generated from \<open>messages/*.json\<close> at build time.
\<close>

subsection \<open>Unions\<close>

datatype HttpMethod = GET | POST | PUT | PATCH | DELETE

fun method_text :: "HttpMethod \<Rightarrow> jstr" where
  "method_text GET = js ''GET''"
| "method_text POST = js ''POST''"
| "method_text PUT = js ''PUT''"
| "method_text PATCH = js ''PATCH''"
| "method_text DELETE = js ''DELETE''"

datatype EndpointGroup = Operations | Authentication | Account | Sessions | Security | Admin

datatype EndpointGroupFilter = AllGroups | OnlyGroup EndpointGroup

datatype AuthRequirement = PublicAuth | UserAuth | RecentAuth | AdminAuth

datatype AuthMode = Bearer | Cookie | ApiKey

datatype CatalogView = Comfortable | Compact

datatype PanelTab = RequestTab | ResponseTab

datatype SpecialAction = Social | Totp | PasskeyRegister | PasskeyAuth

datatype AppLocale = En | De | Tr

datatype ui_text = Lit jstr | Msg string "(string \<times> jstr) list"

fun group_text :: "EndpointGroup \<Rightarrow> jstr" where
  "group_text Operations = js ''operations''"
| "group_text Authentication = js ''authentication''"
| "group_text Account = js ''account''"
| "group_text Sessions = js ''sessions''"
| "group_text Security = js ''security''"
| "group_text Admin = js ''admin''"

fun auth_mode_text :: "AuthMode \<Rightarrow> jstr" where
  "auth_mode_text Bearer = js ''bearer''"
| "auth_mode_text Cookie = js ''cookie''"
| "auth_mode_text ApiKey = js ''apiKey''"

fun auth_requirement_text :: "AuthRequirement \<Rightarrow> jstr" where
  "auth_requirement_text PublicAuth = js ''public''"
| "auth_requirement_text UserAuth = js ''auth''"
| "auth_requirement_text RecentAuth = js ''recent''"
| "auth_requirement_text AdminAuth = js ''admin''"

text \<open>The groups in the order the source lists them.\<close>

fun group_index :: "EndpointGroup \<Rightarrow> nat" where
  "group_index Operations = 0"
| "group_index Authentication = 1"
| "group_index Account = 2"
| "group_index Sessions = 3"
| "group_index Security = 4"
| "group_index Admin = 5"

lemma group_index_inject [simp]: "group_index a = group_index b \<longleftrightarrow> a = b"
  by (cases a; cases b) simp_all

instantiation EndpointGroup :: linorder
begin

definition less_eq_EndpointGroup :: "EndpointGroup \<Rightarrow> EndpointGroup \<Rightarrow> bool" where
  "less_eq_EndpointGroup a b \<longleftrightarrow> group_index a \<le> group_index b"

definition less_EndpointGroup :: "EndpointGroup \<Rightarrow> EndpointGroup \<Rightarrow> bool" where
  "less_EndpointGroup a b \<longleftrightarrow> group_index a < group_index b"

instance
  by standard (auto simp: less_eq_EndpointGroup_def less_EndpointGroup_def)

end

subsection \<open>Interfaces\<close>

record LocalizedCopy =
  lc_title :: jstr
  lc_description :: jstr

record EndpointCopy =
  copy_en :: LocalizedCopy
  copy_de :: LocalizedCopy
  copy_tr :: LocalizedCopy

record EndpointParameter =
  param_name :: jstr
  param_value :: jstr

record EndpointDefinition =
  ep_id :: jstr
  ep_method :: HttpMethod
  ep_path :: jstr
  ep_copy :: EndpointCopy
  ep_group :: EndpointGroup
  ep_auth :: AuthRequirement
  ep_body :: "json option"
  ep_pathParams :: "EndpointParameter list"
  ep_query :: "EndpointParameter list"
  ep_destructive :: bool
  ep_special :: "SpecialAction option"

record WorkbenchVariables =
  accessToken :: jstr
  refreshToken :: jstr
  apiKey :: jstr
  csrfToken :: jstr
  totpSecret :: jstr
  totpCode :: jstr
  mfaTicket :: jstr
  credentialId :: jstr
  socialCode :: jstr
  socialState :: jstr
  verificationToken :: jstr
  passwordResetToken :: jstr

record RequestDraft =
  pathValues :: "jstr obj"
  queryValues :: "jstr obj"
  bodyText :: jstr

record ApiResult =
  res_status :: nat
  res_statusText :: jstr
  res_ok :: bool
  res_raw :: jstr
  res_data :: json
  res_elapsedMs :: int
  res_headers :: "jstr obj"

record WorkbenchResponse = ApiResult +
  resp_endpointId :: jstr
  resp_notice :: "ui_text option"

datatype tone = Neutral | ErrorTone

record ToastMessage =
  toast_id :: nat
  toast_title :: ui_text
  toast_description :: ui_text
  toast_tone :: tone

datatype service_state = Checking | Healthy | Unhealthy

record ServiceStatus =
  svc_state :: service_state
  svc_operationCount :: "nat option"

record WorkbenchSearch =
  search_q :: jstr
  search_group :: EndpointGroupFilter
  search_view :: CatalogView

subsection \<open>The keys of WorkbenchVariables\<close>

datatype VarName =
    AccessToken | RefreshToken | ApiKeyVar | CsrfToken | TotpSecret | TotpCode | MfaTicket
  | CredentialId | SocialCode | SocialState | VerificationToken | PasswordResetToken

definition var_names :: "VarName list" where
  "var_names =
     [AccessToken, RefreshToken, ApiKeyVar, CsrfToken, TotpSecret, TotpCode, MfaTicket,
      CredentialId, SocialCode, SocialState, VerificationToken, PasswordResetToken]"

fun var_text :: "VarName \<Rightarrow> jstr" where
  "var_text AccessToken = js ''accessToken''"
| "var_text RefreshToken = js ''refreshToken''"
| "var_text ApiKeyVar = js ''apiKey''"
| "var_text CsrfToken = js ''csrfToken''"
| "var_text TotpSecret = js ''totpSecret''"
| "var_text TotpCode = js ''totpCode''"
| "var_text MfaTicket = js ''mfaTicket''"
| "var_text CredentialId = js ''credentialId''"
| "var_text SocialCode = js ''socialCode''"
| "var_text SocialState = js ''socialState''"
| "var_text VerificationToken = js ''verificationToken''"
| "var_text PasswordResetToken = js ''passwordResetToken''"

fun get_var :: "WorkbenchVariables \<Rightarrow> VarName \<Rightarrow> jstr" where
  "get_var v AccessToken = accessToken v"
| "get_var v RefreshToken = refreshToken v"
| "get_var v ApiKeyVar = apiKey v"
| "get_var v CsrfToken = csrfToken v"
| "get_var v TotpSecret = totpSecret v"
| "get_var v TotpCode = totpCode v"
| "get_var v MfaTicket = mfaTicket v"
| "get_var v CredentialId = credentialId v"
| "get_var v SocialCode = socialCode v"
| "get_var v SocialState = socialState v"
| "get_var v VerificationToken = verificationToken v"
| "get_var v PasswordResetToken = passwordResetToken v"

text \<open>\<open>{ ...current, [name]: value }\<close>.\<close>

fun set_var :: "VarName \<Rightarrow> jstr \<Rightarrow> WorkbenchVariables \<Rightarrow> WorkbenchVariables" where
  "set_var AccessToken s v = v\<lparr>accessToken := s\<rparr>"
| "set_var RefreshToken s v = v\<lparr>refreshToken := s\<rparr>"
| "set_var ApiKeyVar s v = v\<lparr>apiKey := s\<rparr>"
| "set_var CsrfToken s v = v\<lparr>csrfToken := s\<rparr>"
| "set_var TotpSecret s v = v\<lparr>totpSecret := s\<rparr>"
| "set_var TotpCode s v = v\<lparr>totpCode := s\<rparr>"
| "set_var MfaTicket s v = v\<lparr>mfaTicket := s\<rparr>"
| "set_var CredentialId s v = v\<lparr>credentialId := s\<rparr>"
| "set_var SocialCode s v = v\<lparr>socialCode := s\<rparr>"
| "set_var SocialState s v = v\<lparr>socialState := s\<rparr>"
| "set_var VerificationToken s v = v\<lparr>verificationToken := s\<rparr>"
| "set_var PasswordResetToken s v = v\<lparr>passwordResetToken := s\<rparr>"

lemma get_set_var [simp]: "get_var (set_var n s v) m = (if m = n then s else get_var v m)"
  by (cases n; cases m) simp_all

lemma vars_eqI: "(\<And>n. get_var v n = get_var w n) \<Longrightarrow> v = (w :: WorkbenchVariables)"
proof -
  assume eq: "\<And>n. get_var v n = get_var w n"
  show "v = w"
    using eq [of AccessToken] eq [of RefreshToken] eq [of ApiKeyVar] eq [of CsrfToken]
      eq [of TotpSecret] eq [of TotpCode] eq [of MfaTicket] eq [of CredentialId]
      eq [of SocialCode] eq [of SocialState] eq [of VerificationToken]
      eq [of PasswordResetToken]
    by simp
qed

lemma set_var_names: "set var_names = UNIV"
proof -
  have "n \<in> set var_names" for n by (cases n) (simp_all add: var_names_def)
  then show ?thesis by blast
qed

lemma var_text_inject [simp]: "var_text a = var_text b \<longleftrightarrow> a = b"
  by (cases a; cases b) simp_all

subsection \<open>constants.ts\<close>

record DemoAccount =
  demo_id :: jstr
  demo_email :: jstr
  demo_password :: jstr

definition DEMO_admin :: DemoAccount where
  "DEMO_admin =
     \<lparr>demo_id = js ''0198f3a0-0000-7000-8001-000000000001'',
      demo_email = js ''admin@localhost.dev'',
      demo_password = js ''Dev_Admin_Password_1!''\<rparr>"

definition DEMO_user :: DemoAccount where
  "DEMO_user =
     \<lparr>demo_id = js ''0198f3a0-0000-7000-8001-000000000002'',
      demo_email = js ''user@localhost.dev'',
      demo_password = js ''Dev_User_Password_1!''\<rparr>"

definition DEMO_adminRoleId :: jstr where
  "DEMO_adminRoleId = js ''0198f3a0-0000-7000-8000-000000000001''"

definition DEMO_userRoleId :: jstr where
  "DEMO_userRoleId = js ''0198f3a0-0000-7000-8000-000000000002''"

definition DEMO_sessionId :: jstr where
  "DEMO_sessionId = js ''0198f3a0-0000-7000-8001-000000000101''"

definition DEMO_apiKeyId :: jstr where
  "DEMO_apiKeyId = js ''0198f3a0-0000-7000-8001-000000000301''"

definition DEMO_accountId :: jstr where
  "DEMO_accountId = js ''0198f3a0-0000-7000-8001-000000000401''"

definition DEMO_apiKey :: jstr where
  "DEMO_apiKey = js ''ak_demoAdmin01_Dev_Demo_Api_Key_Only_Local_2026''"

definition GROUPS :: "EndpointGroupFilter list" where
  "GROUPS =
     [AllGroups, OnlyGroup Operations, OnlyGroup Authentication, OnlyGroup Account,
      OnlyGroup Sessions, OnlyGroup Security, OnlyGroup Admin]"

definition SESSION_ISSUING_ENDPOINTS :: "jstr list" where
  "SESSION_ISSUING_ENDPOINTS =
     [js ''auth-login'', js ''auth-login-mfa'', js ''social-callback'',
      js ''passkey-auth-complete'']"

text \<open>The names of \<open>STORAGE_KEYS\<close>: nine variables and the authentication mode.\<close>

datatype StorageName = VarKey VarName | AuthModeKey

definition STORAGE_KEYS :: "(StorageName \<times> jstr) list" where
  "STORAGE_KEYS =
     [(VarKey AccessToken, js ''startpack.workbench.accessToken''),
      (VarKey RefreshToken, js ''startpack.workbench.refreshToken''),
      (VarKey ApiKeyVar, js ''startpack.workbench.apiKey''),
      (VarKey CsrfToken, js ''startpack.workbench.csrfToken''),
      (AuthModeKey, js ''startpack.workbench.authMode''),
      (VarKey TotpSecret, js ''startpack.workbench.totpSecret''),
      (VarKey MfaTicket, js ''startpack.workbench.mfaTicket''),
      (VarKey CredentialId, js ''startpack.workbench.credentialId''),
      (VarKey SocialCode, js ''startpack.workbench.socialCode''),
      (VarKey SocialState, js ''startpack.workbench.socialState'')]"

definition EMPTY_VARIABLES :: WorkbenchVariables where
  "EMPTY_VARIABLES =
     \<lparr>accessToken = [], refreshToken = [], apiKey = [], csrfToken = [], totpSecret = [],
      totpCode = [], mfaTicket = [], credentialId = [], socialCode = [], socialState = [],
      verificationToken = [], passwordResetToken = []\<rparr>"

lemma get_EMPTY [simp]: "get_var EMPTY_VARIABLES n = []"
  by (cases n) (simp_all add: EMPTY_VARIABLES_def)

subsection \<open>search-schema.ts\<close>

text \<open>
  \<open>z.string().catch("").default("")\<close> gives the string, or the empty string for any other
  value and for none; \<open>z.enum(names).catch(d).default(d)\<close> gives the name, or \<open>d\<close>.
\<close>

definition zod_string :: "json option \<Rightarrow> jstr" where
  "zod_string v = (case v of Some (JStr s) \<Rightarrow> s | _ \<Rightarrow> [])"

definition zod_enum :: "(jstr \<times> 'a) list \<Rightarrow> 'a \<Rightarrow> json option \<Rightarrow> 'a" where
  "zod_enum names d v =
     (case v of
        Some (JStr s) \<Rightarrow> (case map_of names s of Some x \<Rightarrow> x | None \<Rightarrow> d)
      | _ \<Rightarrow> d)"

definition group_names :: "(jstr \<times> EndpointGroupFilter) list" where
  "group_names =
     [(js ''all'', AllGroups), (js ''operations'', OnlyGroup Operations),
      (js ''authentication'', OnlyGroup Authentication), (js ''account'', OnlyGroup Account),
      (js ''sessions'', OnlyGroup Sessions), (js ''security'', OnlyGroup Security),
      (js ''admin'', OnlyGroup Admin)]"

definition view_names :: "(jstr \<times> CatalogView) list" where
  "view_names = [(js ''comfortable'', Comfortable), (js ''compact'', Compact)]"

definition workbenchSearchSchema :: "json obj \<Rightarrow> WorkbenchSearch" where
  "workbenchSearchSchema raw =
     \<lparr>search_q = zod_string (obj_get raw (js ''q'')),
      search_group = zod_enum group_names AllGroups (obj_get raw (js ''group'')),
      search_view = zod_enum view_names Comfortable (obj_get raw (js ''view''))\<rparr>"

text \<open>The search parameters a link carries for a state of the search.\<close>

fun filter_text :: "EndpointGroupFilter \<Rightarrow> jstr" where
  "filter_text AllGroups = js ''all''"
| "filter_text (OnlyGroup g) = group_text g"

fun view_text :: "CatalogView \<Rightarrow> jstr" where
  "view_text Comfortable = js ''comfortable''"
| "view_text Compact = js ''compact''"

definition search_params_of :: "WorkbenchSearch \<Rightarrow> json obj" where
  "search_params_of s =
     [(js ''q'', JStr (search_q s)), (js ''group'', JStr (filter_text (search_group s))),
      (js ''view'', JStr (view_text (search_view s)))]"

text \<open>\<open>GROUPS\<close> and the schema's enumeration name the same filters, and each once.\<close>

lemma GROUPS_schema: "map (\<lambda>g. (filter_text g, g)) GROUPS = group_names"
  by (simp add: GROUPS_def group_names_def)

lemma GROUPS_complete: "set GROUPS = UNIV" "distinct GROUPS"
proof -
  have "f \<in> set GROUPS" for f
    by (cases f; cases "case f of OnlyGroup g \<Rightarrow> g | _ \<Rightarrow> Admin") (auto simp: GROUPS_def)
  then show "set GROUPS = UNIV" by blast
  show "distinct GROUPS" by (simp add: GROUPS_def)
qed

lemma zod_enum_group [simp]:
  "zod_enum group_names d (Some (JStr (filter_text f))) = f"
proof (cases f)
  case (OnlyGroup g)
  then show ?thesis by (cases g) (simp_all add: zod_enum_def group_names_def)
qed (simp add: zod_enum_def group_names_def)

lemma zod_enum_view [simp]: "zod_enum view_names d (Some (JStr (view_text v))) = v"
  by (cases v) (simp_all add: zod_enum_def view_names_def)

end
