(* ===== verification/WbCatalog.thy ===== *)
theory WbCatalog
  imports WbTypes
begin

section \<open>The endpoint catalogue: catalog.ts\<close>

text \<open>
  The 45 entries of \<open>ENDPOINTS\<close>, one definition each (\<open>EP_\<close> and the identifier), the list
  in the source's order, and the look-ups \<open>endpointById\<close>, \<open>endpointCopy\<close> and
  \<open>normalizeLocale\<close>. The lemmas evaluate what the other components need of the catalogue:
  identifiers are distinct, every look-up of a fixed identifier succeeds, every path
  parameter occurs in its path, and every entry is well formed.
\<close>

definition copy ::
  "jstr \<Rightarrow> jstr \<Rightarrow> jstr \<Rightarrow> jstr \<Rightarrow> jstr \<Rightarrow> jstr \<Rightarrow> EndpointCopy" where
  "copy enTitle enDescription deTitle deDescription trTitle trDescription =
     \<lparr>copy_en = \<lparr>lc_title = enTitle, lc_description = enDescription\<rparr>,
      copy_de = \<lparr>lc_title = deTitle, lc_description = deDescription\<rparr>,
      copy_tr = \<lparr>lc_title = trTitle, lc_description = trDescription\<rparr>\<rparr>"

text \<open>The last argument is the spread of the options over the defaults.\<close>

definition endpoint ::
  "jstr \<Rightarrow> HttpMethod \<Rightarrow> jstr \<Rightarrow> EndpointCopy \<Rightarrow> EndpointGroup \<Rightarrow> AuthRequirement
     \<Rightarrow> (EndpointDefinition \<Rightarrow> EndpointDefinition) \<Rightarrow> EndpointDefinition" where
  "endpoint ident method path localized grp auth options =
     options
       (\<lparr>ep_id = ident, ep_method = method, ep_path = path, ep_copy = localized,
        ep_group = grp, ep_auth = auth, ep_body = None, ep_pathParams = [], ep_query = [],
        ep_destructive = False, ep_special = None\<rparr>)"

subsection \<open>The entries\<close>

definition EP_health_live :: EndpointDefinition where
  "EP_health_live =
     endpoint (js ''health-live'') GET (js ''/health/live'')
       (copy
          (js ''Liveness check'')
          (js ''A lightweight, database-independent process probe.'')
          (js ''Liveness pr'' @ [0xFC] @ js ''fen'')
          (js ''Leichter, datenbankunabh'' @ [0xE4] @ js ''ngiger Prozess-Probe.'')
          (js ''Liveness kontrol'' @ [0xFC])
          ([0x130, 0x15F] @ js ''lem ayakta m'' @ [0x131] @ js ''? Veritaban'' @ [0x131] @ js ''ndan ba'' @ [0x11F, 0x131] @ js ''ms'' @ [0x131] @ js ''z, hafif probe.''))
       Operations PublicAuth
       (\<lambda>e. e)"

definition EP_health_ready :: EndpointDefinition where
  "EP_health_ready =
     endpoint (js ''health-ready'') GET (js ''/health/ready'')
       (copy
          (js ''Readiness check'')
          (js ''Checks whether the API and PostgreSQL are ready for traffic.'')
          (js ''Readiness pr'' @ [0xFC] @ js ''fen'')
          (js ''Pr'' @ [0xFC] @ js ''ft, ob API und PostgreSQL f'' @ [0xFC] @ js ''r Traffic bereit sind.'')
          (js ''Readiness kontrol'' @ [0xFC])
          (js ''API ve PostgreSQL trafi'' @ [0x11F] @ js ''e haz'' @ [0x131] @ js ''r m'' @ [0x131] @ js ''?''))
       Operations PublicAuth
       (\<lambda>e. e)"

definition EP_jwks :: EndpointDefinition where
  "EP_jwks =
     endpoint (js ''jwks'') GET (js ''/.well-known/jwks.json'')
       (copy
          (js ''Public signing keys'')
          (js ''Returns active and retiring ES256 keys in JWKS format.'')
          ([0xD6] @ js ''ffentliche Signaturschl'' @ [0xFC] @ js ''ssel'')
          (js ''Liefert aktive und auslaufende ES256-Schl'' @ [0xFC] @ js ''ssel im JWKS-Format.'')
          (js ''Public signing keys'')
          (js ''Aktif ve retiring ES256 anahtarlar'' @ [0x131] @ js ''n'' @ [0x131] @ js '' JWKS bi'' @ [0xE7] @ js ''iminde d'' @ [0xF6] @ js ''nd'' @ [0xFC] @ js ''r'' @ [0xFC] @ js ''r.''))
       Operations PublicAuth
       (\<lambda>e. e)"

definition EP_auth_register :: EndpointDefinition where
  "EP_auth_register =
     endpoint (js ''auth-register'') POST (js ''/api/v1/auth/register'')
       (copy
          (js ''Register an account'')
          (js ''Creates an account and sends a verification email to Mailpit.'')
          (js ''Konto registrieren'')
          (js ''Erstellt ein Konto und sendet eine Best'' @ [0xE4] @ js ''tigungsmail an Mailpit.'')
          (js ''Yeni hesap kayd'' @ [0x131])
          (js ''Hesab'' @ [0x131] @ js '' olu'' @ [0x15F] @ js ''turur ve Mailpit'e do'' @ [0x11F] @ js ''rulama e-postas'' @ [0x131] @ js '' yollar.''))
       Authentication PublicAuth
       (\<lambda>e. e\<lparr>ep_body := Some (JObj [(js ''email'', JStr (js ''new-user@example.test'')), (js ''password'', JStr (js ''V4lid!River-Stone-Cobalt-47'')), (js ''displayName'', JStr (js ''New User''))])\<rparr>)"

definition EP_auth_login :: EndpointDefinition where
  "EP_auth_login =
     endpoint (js ''auth-login'') POST (js ''/api/v1/auth/login'')
       (copy
          (js ''Sign in with email and password'')
          (js ''Starts a bearer or cookie session; returns a ticket when MFA is enabled.'')
          (js ''Mit E-Mail und Passwort anmelden'')
          (js ''Startet eine Bearer- oder Cookie-Sitzung; bei MFA wird ein Ticket geliefert.'')
          (js ''E-posta ve parola ile giri'' @ [0x15F])
          (js ''Bearer/body ya da cookie ta'' @ [0x15F, 0x131] @ js ''mas'' @ [0x131] @ js ''yla yeni oturum a'' @ [0xE7] @ js ''ar; MFA etkinse ticket d'' @ [0xF6] @ js ''nd'' @ [0xFC] @ js ''r'' @ [0xFC] @ js ''r.''))
       Authentication PublicAuth
       (\<lambda>e. e\<lparr>ep_body := Some (JObj [(js ''email'', JStr (demo_email DEMO_user)), (js ''password'', JStr (demo_password DEMO_user))])\<rparr>)"

definition EP_auth_login_mfa :: EndpointDefinition where
  "EP_auth_login_mfa =
     endpoint (js ''auth-login-mfa'') POST (js ''/api/v1/auth/login/mfa'')
       (copy
          (js ''Complete MFA sign-in'')
          (js ''Completes the password ticket with TOTP or a recovery code.'')
          (js ''MFA-Anmeldung abschlie'' @ [0xDF] @ js ''en'')
          (js ''Schlie'' @ [0xDF] @ js ''t das Passwort-Ticket mit TOTP oder Recovery-Code ab.'')
          (js ''MFA giri'' @ [0x15F] @ js ''ini tamamla'')
          (js ''Parola ad'' @ [0x131] @ js ''m'' @ [0x131] @ js ''ndan gelen ticket'' @ [0x27] @ [0x131] @ js '' TOTP veya recovery code ile tamamlar.''))
       Authentication PublicAuth
       (\<lambda>e. e\<lparr>ep_body := Some (JObj [(js ''mfaTicket'', JStr (js ''{{mfaTicket}}'')), (js ''code'', JStr (js ''{{totpCode}}''))])\<rparr>)"

definition EP_auth_refresh :: EndpointDefinition where
  "EP_auth_refresh =
     endpoint (js ''auth-refresh'') POST (js ''/api/v1/auth/refresh'')
       (copy
          (js ''Refresh the token pair'')
          (js ''Rotates the refresh token atomically and revokes the session on reuse.'')
          (js ''Token-Paar erneuern'')
          (js ''Rotiert das Refresh-Token atomar und widerruft die Sitzung bei Wiederverwendung.'')
          (js ''Token '' @ [0xE7] @ js ''iftini yenile'')
          (js ''Refresh token'' @ [0x27] @ [0x131] @ js '' atomik olarak d'' @ [0xF6] @ js ''nd'' @ [0xFC] @ js ''r'' @ [0xFC] @ js ''r; eski token'' @ [0x27] @ [0x131] @ js ''n tekrar kullan'' @ [0x131] @ js ''m'' @ [0x131] @ js '' oturumu iptal eder.''))
       Authentication PublicAuth
       (\<lambda>e. e\<lparr>ep_body := Some (JObj [(js ''refreshToken'', JStr (js ''{{refreshToken}}''))])\<rparr>)"

definition EP_auth_logout :: EndpointDefinition where
  "EP_auth_logout =
     endpoint (js ''auth-logout'') POST (js ''/api/v1/auth/logout'')
       (copy
          (js ''End the active session'')
          (js ''Revokes the current session and clears authentication cookies.'')
          (js ''Aktive Sitzung beenden'')
          (js ''Widerruft die aktuelle Sitzung und l'' @ [0xF6] @ js ''scht Auth-Cookies.'')
          (js ''Aktif oturumu kapat'')
          (js ''Ge'' @ [0xE7] @ js ''erli oturumu iptal eder ve varsa auth cookie'lerini temizler.''))
       Authentication UserAuth
       (\<lambda>e. e\<lparr>ep_destructive := True\<rparr>)"

definition EP_auth_csrf :: EndpointDefinition where
  "EP_auth_csrf =
     endpoint (js ''auth-csrf'') GET (js ''/api/v1/auth/csrf'')
       (copy
          (js ''Create a CSRF token'')
          (js ''Creates a session-bound double-submit token for cookie mutations.'')
          (js ''CSRF-Token erzeugen'')
          (js ''Erzeugt ein sitzungsgebundenes Double-Submit-Token f'' @ [0xFC] @ js ''r Cookie-Mutationen.'')
          (js ''CSRF token '' @ [0xFC] @ js ''ret'')
          (js ''Cookie ta'' @ [0x15F, 0x131] @ js ''mas'' @ [0x131] @ js ''ndaki mutasyonlar i'' @ [0xE7] @ js ''in oturuma ba'' @ [0x11F] @ js ''l'' @ [0x131] @ js '' double-submit token '' @ [0xFC] @ js ''retir.''))
       Authentication UserAuth
       (\<lambda>e. e)"

definition EP_social_authorize :: EndpointDefinition where
  "EP_social_authorize =
     endpoint (js ''social-authorize'') GET (js ''/api/v1/auth/social/{provider}/authorize'')
       (copy
          (js ''Start social sign-in'')
          (js ''Returns a local fixture URL in Development or a real provider URL elsewhere.'')
          (js ''Social Login starten'')
          (js ''Liefert in Development eine Fixture-URL, sonst die echte Provider-URL.'')
          (js ''Sosyal giri'' @ [0x15F] @ js ''i ba'' @ [0x15F] @ js ''lat'')
          (js ''Development'ta yerel fixture URL'si; di'' @ [0x11F] @ js ''er ortamlarda ger'' @ [0xE7] @ js ''ek sa'' @ [0x11F] @ js ''lay'' @ [0x131] @ js ''c'' @ [0x131] @ js '' authorize URL'si d'' @ [0xF6] @ js ''ner.''))
       Authentication PublicAuth
       (\<lambda>e. e\<lparr>ep_pathParams := [\<lparr>param_name = js ''provider'', param_value = js ''google''\<rparr>],
          ep_special := Some Social\<rparr>)"

definition EP_social_callback :: EndpointDefinition where
  "EP_social_callback =
     endpoint (js ''social-callback'') GET (js ''/api/v1/auth/social/{provider}/callback'')
       (copy
          (js ''Complete social sign-in'')
          (js ''Consumes signed state, maps the provider identity, and starts a session.'')
          (js ''Social Login abschlie'' @ [0xDF] @ js ''en'')
          (js ''Verbraucht signierten State, ordnet die Provider-Identit'' @ [0xE4] @ js ''t zu und startet eine Sitzung.'')
          (js ''Sosyal giri'' @ [0x15F] @ js '' callback'')
          ([0x130] @ js ''mzal'' @ [0x131] @ js '' state'i t'' @ [0xFC] @ js ''ketir, sa'' @ [0x11F] @ js ''lay'' @ [0x131] @ js ''c'' @ [0x131] @ js '' kimli'' @ [0x11F] @ js ''ini yerel hesaba d'' @ [0xF6] @ js ''n'' @ [0xFC, 0x15F] @ js ''t'' @ [0xFC] @ js ''r'' @ [0xFC] @ js ''r ve oturum a'' @ [0xE7] @ js ''ar.''))
       Authentication PublicAuth
       (\<lambda>e. e\<lparr>ep_pathParams := [\<lparr>param_name = js ''provider'', param_value = js ''google''\<rparr>],
          ep_query := [\<lparr>param_name = js ''code'', param_value = js ''{{socialCode}}''\<rparr>,
            \<lparr>param_name = js ''state'', param_value = js ''{{socialState}}''\<rparr>,
            \<lparr>param_name = js ''error'', param_value = []\<rparr>]\<rparr>)"

definition EP_email_send :: EndpointDefinition where
  "EP_email_send =
     endpoint (js ''email-send'') POST (js ''/api/v1/email-verification/send'')
       (copy
          (js ''Resend verification email'')
          (js ''Sends the active user's verification link to the local Mailpit inbox.'')
          (js ''Best'' @ [0xE4] @ js ''tigungsmail erneut senden'')
          (js ''Sendet den Best'' @ [0xE4] @ js ''tigungslink des aktiven Benutzers an Mailpit.'')
          (js ''Do'' @ [0x11F] @ js ''rulama e-postas'' @ [0x131] @ js ''n'' @ [0x131] @ js '' yeniden g'' @ [0xF6] @ js ''nder'')
          (js ''Aktif kullan'' @ [0x131] @ js ''c'' @ [0x131] @ js ''n'' @ [0x131] @ js ''n do'' @ [0x11F] @ js ''rulama ba'' @ [0x11F] @ js ''lant'' @ [0x131] @ js ''s'' @ [0x131] @ js ''n'' @ [0x131] @ js '' yerel Mailpit inbox'' @ [0x27] @ [0x131] @ js ''na yollar.''))
       Authentication UserAuth
       (\<lambda>e. e)"

definition EP_email_confirm :: EndpointDefinition where
  "EP_email_confirm =
     endpoint (js ''email-confirm'') POST (js ''/api/v1/email-verification/confirm'')
       (copy
          (js ''Verify the email address'')
          (js ''Consumes the one-time verification token from the Mailpit message.'')
          (js ''E-Mail-Adresse best'' @ [0xE4] @ js ''tigen'')
          (js ''Verbraucht das einmalige Best'' @ [0xE4] @ js ''tigungstoken aus Mailpit.'')
          (js ''E-posta adresini do'' @ [0x11F] @ js ''rula'')
          (js ''Mailpit mesaj'' @ [0x131] @ js ''ndaki tek kullan'' @ [0x131] @ js ''ml'' @ [0x131] @ js ''k do'' @ [0x11F] @ js ''rulama token'' @ [0x27] @ [0x131] @ js ''n'' @ [0x131] @ js '' t'' @ [0xFC] @ js ''ketir.''))
       Authentication PublicAuth
       (\<lambda>e. e\<lparr>ep_body := Some (JObj [(js ''token'', JStr (js ''{{verificationToken}}''))])\<rparr>)"

definition EP_password_request :: EndpointDefinition where
  "EP_password_request =
     endpoint (js ''password-request'') POST (js ''/api/v1/password-reset/request'')
       (copy
          (js ''Request a password reset'')
          (js ''Sends a reset link to Mailpit without revealing account existence.'')
          (js ''Passwort-Reset anfordern'')
          (js ''Sendet einen Reset-Link an Mailpit, ohne die Existenz des Kontos offenzulegen.'')
          (js ''Parola s'' @ [0x131] @ js ''f'' @ [0x131] @ js ''rlama iste'')
          (js ''Hesap varl'' @ [0x131, 0x11F, 0x131] @ js ''n'' @ [0x131] @ js '' a'' @ [0xE7, 0x131, 0x11F] @ js ''a '' @ [0xE7, 0x131] @ js ''karmadan Mailpit'e s'' @ [0x131] @ js ''f'' @ [0x131] @ js ''rlama ba'' @ [0x11F] @ js ''lant'' @ [0x131] @ js ''s'' @ [0x131] @ js '' yollar.''))
       Authentication PublicAuth
       (\<lambda>e. e\<lparr>ep_body := Some (JObj [(js ''email'', JStr (demo_email DEMO_user))])\<rparr>)"

definition EP_password_confirm :: EndpointDefinition where
  "EP_password_confirm =
     endpoint (js ''password-confirm'') POST (js ''/api/v1/password-reset/confirm'')
       (copy
          (js ''Save a new password'')
          (js ''Consumes the token, rotates the security stamp, and revokes every session.'')
          (js ''Neues Passwort speichern'')
          (js ''Verbraucht das Token, rotiert den Security Stamp und widerruft alle Sitzungen.'')
          (js ''Yeni parolay'' @ [0x131] @ js '' kaydet'')
          (js ''Tek kullan'' @ [0x131] @ js ''ml'' @ [0x131] @ js ''k token'' @ [0x27] @ [0x131] @ js '' t'' @ [0xFC] @ js ''ketir, security stamp'i d'' @ [0xF6] @ js ''nd'' @ [0xFC] @ js ''r'' @ [0xFC] @ js ''r ve t'' @ [0xFC] @ js ''m oturumlar'' @ [0x131] @ js '' iptal eder.''))
       Authentication PublicAuth
       (\<lambda>e. e\<lparr>ep_body := Some (JObj [(js ''token'', JStr (js ''{{passwordResetToken}}'')), (js ''newPassword'', JStr (js ''N3w!River-Stone-Cobalt-82''))]),
          ep_destructive := True\<rparr>)"

definition EP_users_me :: EndpointDefinition where
  "EP_users_me =
     endpoint (js ''users-me'') GET (js ''/api/v1/users/me'')
       (copy
          (js ''Get my profile'')
          (js ''Resolves identity from the token subject and returns roles and security posture.'')
          (js ''Mein Profil abrufen'')
          (js ''L'' @ [0xF6] @ js ''st die Identit'' @ [0xE4] @ js ''t aus dem Token-Subject auf und liefert Rollen und Sicherheitsstatus.'')
          (js ''Profilimi getir'')
          (js ''Kimli'' @ [0x11F] @ js ''i token'daki subject'ten '' @ [0xE7, 0xF6] @ js ''zer; roller ve g'' @ [0xFC] @ js ''venlik duru'' @ [0x15F] @ js ''unu d'' @ [0xF6] @ js ''nd'' @ [0xFC] @ js ''r'' @ [0xFC] @ js ''r.''))
       Account UserAuth
       (\<lambda>e. e)"

definition EP_users_update :: EndpointDefinition where
  "EP_users_update =
     endpoint (js ''users-update'') PATCH (js ''/api/v1/users/me'')
       (copy
          (js ''Update my profile'')
          (js ''Updates only the display name.'')
          (js ''Mein Profil aktualisieren'')
          (js ''Aktualisiert ausschlie'' @ [0xDF] @ js ''lich den Anzeigenamen.'')
          (js ''Profilimi g'' @ [0xFC] @ js ''ncelle'')
          (js ''Yaln'' @ [0x131] @ js ''zca display name alan'' @ [0x131] @ js ''n'' @ [0x131] @ js '' g'' @ [0xFC] @ js ''nceller.''))
       Account UserAuth
       (\<lambda>e. e\<lparr>ep_body := Some (JObj [(js ''displayName'', JStr (js ''Workbench User''))])\<rparr>)"

definition EP_users_delete :: EndpointDefinition where
  "EP_users_delete =
     endpoint (js ''users-delete'') DELETE (js ''/api/v1/users/me'')
       (copy
          (js ''Delete my account'')
          (js ''Irreversibly deletes the account and credentials; requires recent sign-in.'')
          (js ''Mein Konto l'' @ [0xF6] @ js ''schen'')
          (js ''L'' @ [0xF6] @ js ''scht Konto und Zugangsdaten endg'' @ [0xFC] @ js ''ltig; aktuelle Anmeldung erforderlich.'')
          (js ''Hesab'' @ [0x131] @ js ''m'' @ [0x131] @ js '' sil'')
          (js ''Hesab'' @ [0x131] @ js '' ve t'' @ [0xFC] @ js ''m kimlik bilgilerini geri al'' @ [0x131] @ js ''namaz bi'' @ [0xE7] @ js ''imde siler; yak'' @ [0x131] @ js ''n zamanda giri'' @ [0x15F] @ js '' gerekir.''))
       Account RecentAuth
       (\<lambda>e. e\<lparr>ep_destructive := True\<rparr>)"

definition EP_users_password :: EndpointDefinition where
  "EP_users_password =
     endpoint (js ''users-password'') PUT (js ''/api/v1/users/me/password'')
       (copy
          (js ''Change my password'')
          (js ''Verifies the current password and revokes sibling sessions.'')
          (js ''Mein Passwort '' @ [0xE4] @ js ''ndern'')
          (js ''Pr'' @ [0xFC] @ js ''ft das aktuelle Passwort und widerruft parallele Sitzungen.'')
          (js ''Parolam'' @ [0x131] @ js '' de'' @ [0x11F] @ js ''i'' @ [0x15F] @ js ''tir'')
          (js ''Mevcut parolay'' @ [0x131] @ js '' do'' @ [0x11F] @ js ''rular, karde'' @ [0x15F] @ js '' oturumlar'' @ [0x131] @ js '' iptal eder.''))
       Account UserAuth
       (\<lambda>e. e\<lparr>ep_body := Some (JObj [(js ''currentPassword'', JStr (demo_password DEMO_user)), (js ''newPassword'', JStr (js ''N3w!River-Stone-Cobalt-82''))]),
          ep_destructive := True\<rparr>)"

definition EP_users_accounts :: EndpointDefinition where
  "EP_users_accounts =
     endpoint (js ''users-accounts'') GET (js ''/api/v1/users/me/accounts'')
       (copy
          (js ''List linked accounts'')
          (js ''Returns local IDs and provider data for Google and GitHub links.'')
          (js ''Verkn'' @ [0xFC] @ js ''pfte Konten auflisten'')
          (js ''Liefert lokale IDs und Provider-Daten f'' @ [0xFC] @ js ''r Google- und GitHub-Verkn'' @ [0xFC] @ js ''pfungen.'')
          (js ''Ba'' @ [0x11F] @ js ''l'' @ [0x131] @ js '' hesaplar'' @ [0x131] @ js '' listele'')
          (js ''Google/GitHub ba'' @ [0x11F] @ js ''lant'' @ [0x131] @ js ''lar'' @ [0x131] @ js ''n'' @ [0x131] @ js ''n yerel id ve provider bilgisini d'' @ [0xF6] @ js ''nd'' @ [0xFC] @ js ''r'' @ [0xFC] @ js ''r.''))
       Account UserAuth
       (\<lambda>e. e)"

definition EP_users_unlink :: EndpointDefinition where
  "EP_users_unlink =
     endpoint (js ''users-unlink'') DELETE (js ''/api/v1/users/me/accounts/{accountId}'')
       (copy
          (js ''Unlink a social account'')
          (js ''Prevents removing the last available sign-in method.'')
          (js ''Social-Konto trennen'')
          (js ''Verhindert das Entfernen der letzten Anmeldemethode.'')
          (js ''Sosyal hesab'' @ [0x131] @ js '' ay'' @ [0x131] @ js ''r'')
          (js ''Son giri'' @ [0x15F] @ js '' y'' @ [0xF6] @ js ''ntemini kald'' @ [0x131] @ js ''rmaya izin vermez.''))
       Account UserAuth
       (\<lambda>e. e\<lparr>ep_pathParams := [\<lparr>param_name = js ''accountId'', param_value = DEMO_accountId\<rparr>],
          ep_destructive := True\<rparr>)"

definition EP_sessions_list :: EndpointDefinition where
  "EP_sessions_list =
     endpoint (js ''sessions-list'') GET (js ''/api/v1/sessions'')
       (copy
          (js ''List my sessions'')
          (js ''Shows two fixture sessions and sessions created by sign-in.'')
          (js ''Meine Sitzungen auflisten'')
          (js ''Zeigt zwei Fixture-Sitzungen und durch Anmeldung erzeugte Sitzungen.'')
          (js ''Oturumlar'' @ [0x131] @ js ''m'' @ [0x131] @ js '' listele'')
          (js ''Haz'' @ [0x131] @ js ''r iki fixture oturumu ve giri'' @ [0x15F] @ js ''le olu'' @ [0x15F] @ js ''an g'' @ [0xFC] @ js ''ncel oturumu g'' @ [0xF6] @ js ''sterir.''))
       Sessions UserAuth
       (\<lambda>e. e)"

definition EP_sessions_revoke :: EndpointDefinition where
  "EP_sessions_revoke =
     endpoint (js ''sessions-revoke'') DELETE (js ''/api/v1/sessions/{sessionId}'')
       (copy
          (js ''Revoke a session'')
          (js ''Searches only within the caller's sessions; foreign IDs return 404.'')
          (js ''Sitzung widerrufen'')
          (js ''Sucht nur in den Sitzungen des Aufrufers; fremde IDs liefern 404.'')
          (js ''Bir oturumu iptal et'')
          (js ''Yaln'' @ [0x131] @ js ''zca '' @ [0xE7] @ js ''a'' @ [0x11F, 0x131] @ js ''ran'' @ [0x131] @ js ''n oturum uzay'' @ [0x131] @ js ''nda arar; di'' @ [0x11F] @ js ''er kullan'' @ [0x131] @ js ''c'' @ [0x131] @ js '' id'leri 404 d'' @ [0xF6] @ js ''ner.''))
       Sessions UserAuth
       (\<lambda>e. e\<lparr>ep_pathParams := [\<lparr>param_name = js ''sessionId'', param_value = DEMO_sessionId\<rparr>],
          ep_destructive := True\<rparr>)"

definition EP_sessions_revoke_others :: EndpointDefinition where
  "EP_sessions_revoke_others =
     endpoint (js ''sessions-revoke-others'') DELETE (js ''/api/v1/sessions'')
       (copy
          (js ''Revoke every other session'')
          (js ''Keeps the calling session and closes every other active session.'')
          (js ''Alle anderen Sitzungen widerrufen'')
          (js ''Beh'' @ [0xE4] @ js ''lt die aufrufende Sitzung und schlie'' @ [0xDF] @ js ''t alle anderen aktiven Sitzungen.'')
          (js ''Di'' @ [0x11F] @ js ''er t'' @ [0xFC] @ js ''m oturumlar'' @ [0x131] @ js '' iptal et'')
          ([0x130] @ js ''ste'' @ [0x11F] @ js ''i yapan oturumu koruyup di'' @ [0x11F] @ js ''er aktif oturumlar'' @ [0x131] @ js '' kapat'' @ [0x131] @ js ''r.''))
       Sessions UserAuth
       (\<lambda>e. e\<lparr>ep_destructive := True\<rparr>)"

definition EP_mfa_enroll :: EndpointDefinition where
  "EP_mfa_enroll =
     endpoint (js ''mfa-enroll'') POST (js ''/api/v1/mfa/totp/enroll'')
       (copy
          (js ''Start TOTP enrollment'')
          (js ''Creates a Base32 secret and otpauth URI; the workbench calculates a live code.'')
          (js ''TOTP-Einrichtung starten'')
          (js ''Erzeugt Base32-Secret und otpauth-URI; die Workbench berechnet einen Live-Code.'')
          (js ''TOTP kayd'' @ [0x131] @ js ''n'' @ [0x131] @ js '' ba'' @ [0x15F] @ js ''lat'')
          (js ''Yeni Base32 secret ve otpauth URI '' @ [0xFC] @ js ''retir; workbench canl'' @ [0x131] @ js '' kodu otomatik hesaplar.''))
       Security UserAuth
       (\<lambda>e. e\<lparr>ep_special := Some Totp\<rparr>)"

definition EP_mfa_confirm :: EndpointDefinition where
  "EP_mfa_confirm =
     endpoint (js ''mfa-confirm'') POST (js ''/api/v1/mfa/totp/confirm'')
       (copy
          (js ''Confirm TOTP enrollment'')
          (js ''Verifies the live code, enables MFA, and returns ten one-time recovery codes.'')
          (js ''TOTP-Einrichtung best'' @ [0xE4] @ js ''tigen'')
          (js ''Pr'' @ [0xFC] @ js ''ft den Live-Code, aktiviert MFA und liefert zehn einmalige Recovery-Codes.'')
          (js ''TOTP kayd'' @ [0x131] @ js ''n'' @ [0x131] @ js '' do'' @ [0x11F] @ js ''rula'')
          (js ''Canl'' @ [0x131] @ js '' kodu do'' @ [0x11F] @ js ''rular, MFA'y'' @ [0x131] @ js '' etkinle'' @ [0x15F] @ js ''tirir ve 10 tek kullan'' @ [0x131] @ js ''ml'' @ [0x131] @ js ''k recovery code d'' @ [0xF6] @ js ''nd'' @ [0xFC] @ js ''r'' @ [0xFC] @ js ''r.''))
       Security UserAuth
       (\<lambda>e. e\<lparr>ep_body := Some (JObj [(js ''code'', JStr (js ''{{totpCode}}''))]),
          ep_special := Some Totp\<rparr>)"

definition EP_mfa_disable :: EndpointDefinition where
  "EP_mfa_disable =
     endpoint (js ''mfa-disable'') DELETE (js ''/api/v1/mfa/totp'')
       (copy
          (js ''Disable TOTP'')
          (js ''Deletes the MFA credential and recovery codes after recent authentication.'')
          (js ''TOTP deaktivieren'')
          (js ''L'' @ [0xF6] @ js ''scht nach aktueller Authentifizierung MFA-Credential und Recovery-Codes.'')
          (js ''TOTP'yi kapat'')
          (js ''Yak'' @ [0x131] @ js ''n zamanda giri'' @ [0x15F] @ js '' '' @ [0x15F] @ js ''art'' @ [0x131] @ js ''yla MFA credential ve recovery code'lar'' @ [0x131] @ js '' siler.''))
       Security RecentAuth
       (\<lambda>e. e\<lparr>ep_destructive := True\<rparr>)"

definition EP_mfa_recovery :: EndpointDefinition where
  "EP_mfa_recovery =
     endpoint (js ''mfa-recovery'') POST (js ''/api/v1/mfa/recovery-codes/regenerate'')
       (copy
          (js ''Regenerate recovery codes'')
          (js ''Invalidates the previous batch and returns new codes that are shown once.'')
          (js ''Recovery-Codes neu erzeugen'')
          (js ''Macht den alten Satz ung'' @ [0xFC] @ js ''ltig und liefert neue, einmal sichtbare Codes.'')
          (js ''Recovery code'lar'' @ [0x131] @ js '' yenile'')
          ([0xD6] @ js ''nceki batch'i ge'' @ [0xE7] @ js ''ersiz k'' @ [0x131] @ js ''lar ve yaln'' @ [0x131] @ js ''zca bir kez g'' @ [0xF6] @ js ''sterilen yeni kodlar d'' @ [0xF6] @ js ''nd'' @ [0xFC] @ js ''r'' @ [0xFC] @ js ''r.''))
       Security RecentAuth
       (\<lambda>e. e\<lparr>ep_destructive := True\<rparr>)"

definition EP_passkey_registration_options :: EndpointDefinition where
  "EP_passkey_registration_options =
     endpoint (js ''passkey-registration-options'') POST (js ''/api/v1/passkeys/registration/options'')
       (copy
          (js ''Create passkey registration options'')
          (js ''Stores a one-time challenge and returns WebAuthn creation options.'')
          (js ''Passkey-Registrierungsoptionen'')
          (js ''Speichert eine einmalige Challenge und liefert WebAuthn-Erstellungsoptionen.'')
          (js ''Passkey kay'' @ [0x131] @ js ''t se'' @ [0xE7] @ js ''enekleri'')
          (js ''Sunucuda tek kullan'' @ [0x131] @ js ''ml'' @ [0x131] @ js ''k challenge saklar ve WebAuthn creation options d'' @ [0xF6] @ js ''nd'' @ [0xFC] @ js ''r'' @ [0xFC] @ js ''r.''))
       Security UserAuth
       (\<lambda>e. e\<lparr>ep_body := Some (JObj [(js ''label'', JStr (js ''Workbench passkey''))]),
          ep_special := Some PasskeyRegister\<rparr>)"

definition EP_passkey_registration_complete :: EndpointDefinition where
  "EP_passkey_registration_complete =
     endpoint (js ''passkey-registration-complete'') POST (js ''/api/v1/passkeys/registration/complete'')
       (copy
          (js ''Complete passkey registration'')
          (js ''Verifies navigator.credentials.create() and stores the public credential.'')
          (js ''Passkey-Registrierung abschlie'' @ [0xDF] @ js ''en'')
          (js ''Pr'' @ [0xFC] @ js ''ft navigator.credentials.create() und speichert das '' @ [0xF6] @ js ''ffentliche Credential.'')
          (js ''Passkey kayd'' @ [0x131] @ js ''n'' @ [0x131] @ js '' tamamla'')
          (js ''navigator.credentials.create() '' @ [0xE7, 0x131] @ js ''kt'' @ [0x131] @ js ''s'' @ [0x131] @ js ''n'' @ [0x131] @ js '' do'' @ [0x11F] @ js ''rular ve public credential'' @ [0x27] @ [0x131] @ js '' kaydeder.''))
       Security UserAuth
       (\<lambda>e. e\<lparr>ep_body := Some (JObj [(js ''attestationResponse'', JObj []), (js ''label'', JStr (js ''Workbench passkey''))])\<rparr>)"

definition EP_passkey_auth_options :: EndpointDefinition where
  "EP_passkey_auth_options =
     endpoint (js ''passkey-auth-options'') POST (js ''/api/v1/passkeys/authentication/options'')
       (copy
          (js ''Create passkey sign-in options'')
          (js ''Creates an anonymous WebAuthn assertion challenge.'')
          (js ''Passkey-Anmeldeoptionen'')
          (js ''Erzeugt eine anonyme WebAuthn-Assertion-Challenge.'')
          (js ''Passkey giri'' @ [0x15F] @ js '' se'' @ [0xE7] @ js ''enekleri'')
          (js ''Anonymous WebAuthn assertion challenge '' @ [0xFC] @ js ''retir.''))
       Security PublicAuth
       (\<lambda>e. e\<lparr>ep_body := Some (JObj []),
          ep_special := Some PasskeyAuth\<rparr>)"

definition EP_passkey_auth_complete :: EndpointDefinition where
  "EP_passkey_auth_complete =
     endpoint (js ''passkey-auth-complete'') POST (js ''/api/v1/passkeys/authentication/complete'')
       (copy
          (js ''Sign in with a passkey'')
          (js ''Verifies the assertion signature and counter, then starts a session.'')
          (js ''Mit Passkey anmelden'')
          (js ''Pr'' @ [0xFC] @ js ''ft Assertion-Signatur und Z'' @ [0xE4] @ js ''hler und startet eine Sitzung.'')
          (js ''Passkey ile giri'' @ [0x15F] @ js '' yap'')
          (js ''Assertion imzas'' @ [0x131] @ js ''n'' @ [0x131] @ js '' ve sayac'' @ [0x131] @ js ''n'' @ [0x131] @ js '' do'' @ [0x11F] @ js ''rular, yeni oturum a'' @ [0xE7] @ js ''ar.''))
       Security PublicAuth
       (\<lambda>e. e\<lparr>ep_body := Some (JObj [(js ''assertionResponse'', JObj [])])\<rparr>)"

definition EP_passkeys_list :: EndpointDefinition where
  "EP_passkeys_list =
     endpoint (js ''passkeys-list'') GET (js ''/api/v1/passkeys'')
       (copy
          (js ''List passkeys'')
          (js ''Returns credential ID, label, and last use without key material.'')
          (js ''Passkeys auflisten'')
          (js ''Liefert Credential-ID, Bezeichnung und letzte Nutzung ohne Schl'' @ [0xFC] @ js ''sselmaterial.'')
          (js ''Passkey'leri listele'')
          (js ''Credential id, etiket ve son kullan'' @ [0x131] @ js ''m bilgisini d'' @ [0xF6] @ js ''nd'' @ [0xFC] @ js ''r'' @ [0xFC] @ js ''r; anahtar materyali ta'' @ [0x15F, 0x131] @ js ''maz.''))
       Security UserAuth
       (\<lambda>e. e)"

definition EP_passkey_delete :: EndpointDefinition where
  "EP_passkey_delete =
     endpoint (js ''passkey-delete'') DELETE (js ''/api/v1/passkeys/{credentialId}'')
       (copy
          (js ''Remove a passkey'')
          (js ''Deletes the Base64url credential ID within the caller's account.'')
          (js ''Passkey entfernen'')
          (js ''L'' @ [0xF6] @ js ''scht die Base64url-Credential-ID im Konto des Aufrufers.'')
          (js ''Passkey'i kald'' @ [0x131] @ js ''r'')
          (js ''Base64url credential id'yi '' @ [0xE7] @ js ''a'' @ [0x11F, 0x131] @ js ''ran kullan'' @ [0x131] @ js ''c'' @ [0x131] @ js '' kapsam'' @ [0x131] @ js ''nda siler.''))
       Security UserAuth
       (\<lambda>e. e\<lparr>ep_pathParams := [\<lparr>param_name = js ''credentialId'', param_value = js ''{{credentialId}}''\<rparr>],
          ep_destructive := True\<rparr>)"

definition EP_api_key_create :: EndpointDefinition where
  "EP_api_key_create =
     endpoint (js ''api-key-create'') POST (js ''/api/v1/api-keys'')
       (copy
          (js ''Create an API key'')
          (js ''Shows the secret once; scopes cannot exceed the user's permissions.'')
          (js ''API-Key erstellen'')
          (js ''Zeigt das Secret einmal; Scopes d'' @ [0xFC] @ js ''rfen die Benutzerrechte nicht '' @ [0xFC] @ js ''berschreiten.'')
          (js ''API key olu'' @ [0x15F] @ js ''tur'')
          (js ''Secret'' @ [0x27] @ [0x131] @ js '' yaln'' @ [0x131] @ js ''zca bu yan'' @ [0x131] @ js ''tta g'' @ [0xF6] @ js ''sterir; kapsamlar kullan'' @ [0x131] @ js ''c'' @ [0x131] @ js ''n'' @ [0x131] @ js ''n izinlerini a'' @ [0x15F] @ js ''amaz.''))
       Security UserAuth
       (\<lambda>e. e\<lparr>ep_body := Some (JObj [(js ''name'', JStr (js ''Local automation'')), (js ''scopes'', JArr [JStr (js ''users:read:any''), JStr (js ''audit:read'')]), (js ''expiresAt'', JStr (js ''2027-12-31T00:00:00Z''))])\<rparr>)"

definition EP_api_keys_list :: EndpointDefinition where
  "EP_api_keys_list =
     endpoint (js ''api-keys-list'') GET (js ''/api/v1/api-keys'')
       (copy
          (js ''List API keys'')
          (js ''Returns prefix, scopes, use, and revocation data without secrets.'')
          (js ''API-Keys auflisten'')
          (js ''Liefert Prefix, Scopes, Nutzung und Widerruf ohne Secrets.'')
          (js ''API key'leri listele'')
          (js ''Secret olmadan prefix, kapsam, kullan'' @ [0x131] @ js ''m ve iptal bilgilerini d'' @ [0xF6] @ js ''nd'' @ [0xFC] @ js ''r'' @ [0xFC] @ js ''r.''))
       Security UserAuth
       (\<lambda>e. e)"

definition EP_api_key_revoke :: EndpointDefinition where
  "EP_api_key_revoke =
     endpoint (js ''api-key-revoke'') DELETE (js ''/api/v1/api-keys/{keyId}'')
       (copy
          (js ''Revoke an API key'')
          (js ''Irreversibly revokes the credential while retaining its audit record.'')
          (js ''API-Key widerrufen'')
          (js ''Widerruft das Credential endg'' @ [0xFC] @ js ''ltig und beh'' @ [0xE4] @ js ''lt den Audit-Datensatz.'')
          (js ''API key'i iptal et'')
          (js ''Credential'' @ [0x27] @ [0x131] @ js '' geri d'' @ [0xF6] @ js ''nd'' @ [0xFC] @ js ''r'' @ [0xFC] @ js ''lemez bi'' @ [0xE7] @ js ''imde iptal eder; audit ba'' @ [0x11F] @ js ''lant'' @ [0x131] @ js ''s'' @ [0x131] @ js '' i'' @ [0xE7] @ js ''in sat'' @ [0x131] @ js ''r'' @ [0x131] @ js '' korur.''))
       Security UserAuth
       (\<lambda>e. e\<lparr>ep_pathParams := [\<lparr>param_name = js ''keyId'', param_value = DEMO_apiKeyId\<rparr>],
          ep_destructive := True\<rparr>)"

definition EP_admin_users_list :: EndpointDefinition where
  "EP_admin_users_list =
     endpoint (js ''admin-users-list'') GET (js ''/api/v1/admin/users'')
       (copy
          (js ''List users'')
          (js ''A paginated, searchable, and filterable administration view.'')
          (js ''Benutzer auflisten'')
          (js ''Paginierte, durchsuchbare und filterbare Administrationsansicht.'')
          (js ''Kullan'' @ [0x131] @ js ''c'' @ [0x131] @ js ''lar'' @ [0x131] @ js '' listele'')
          (js ''Sayfal'' @ [0x131] @ js '', aranabilir, filtrelenebilir y'' @ [0xF6] @ js ''netim g'' @ [0xF6] @ js ''r'' @ [0xFC] @ js ''n'' @ [0xFC] @ js ''m'' @ [0xFC] @ js ''.''))
       Admin AdminAuth
       (\<lambda>e. e\<lparr>ep_query := [\<lparr>param_name = js ''page'', param_value = js ''1''\<rparr>,
            \<lparr>param_name = js ''pageSize'', param_value = js ''20''\<rparr>,
            \<lparr>param_name = js ''sort'', param_value = js ''createdAt:desc''\<rparr>,
            \<lparr>param_name = js ''search'', param_value = []\<rparr>,
            \<lparr>param_name = js ''role'', param_value = []\<rparr>,
            \<lparr>param_name = js ''emailVerified'', param_value = []\<rparr>,
            \<lparr>param_name = js ''locked'', param_value = []\<rparr>]\<rparr>)"

definition EP_admin_user_get :: EndpointDefinition where
  "EP_admin_user_get =
     endpoint (js ''admin-user-get'') GET (js ''/api/v1/admin/users/{userId}'')
       (copy
          (js ''Get user details'')
          (js ''Returns roles, providers, lockout, and active sessions.'')
          (js ''Benutzerdetails abrufen'')
          (js ''Liefert Rollen, Provider, Lockout und aktive Sitzungen.'')
          (js ''Kullan'' @ [0x131] @ js ''c'' @ [0x131] @ js '' detay'' @ [0x131] @ js ''n'' @ [0x131] @ js '' getir'')
          (js ''Roller, ba'' @ [0x11F] @ js ''l'' @ [0x131] @ js '' provider'lar, lockout ve aktif oturumlarla tam g'' @ [0xF6] @ js ''r'' @ [0xFC] @ js ''n'' @ [0xFC] @ js ''m.''))
       Admin AdminAuth
       (\<lambda>e. e\<lparr>ep_pathParams := [\<lparr>param_name = js ''userId'', param_value = demo_id DEMO_user\<rparr>]\<rparr>)"

definition EP_admin_user_update :: EndpointDefinition where
  "EP_admin_user_update =
     endpoint (js ''admin-user-update'') PATCH (js ''/api/v1/admin/users/{userId}'')
       (copy
          (js ''Update a user'')
          (js ''Patches display name, verification status, or lockout reset.'')
          (js ''Benutzer aktualisieren'')
          ([0xC4] @ js ''ndert Anzeigename, Best'' @ [0xE4] @ js ''tigungsstatus oder Lockout-Reset.'')
          (js ''Kullan'' @ [0x131] @ js ''c'' @ [0x131] @ js ''y'' @ [0x131] @ js '' g'' @ [0xFC] @ js ''ncelle'')
          (js ''Display name, do'' @ [0x11F] @ js ''rulama durumu veya lockout temizleme alanlar'' @ [0x131] @ js ''n'' @ [0x131] @ js '' patch eder.''))
       Admin AdminAuth
       (\<lambda>e. e\<lparr>ep_pathParams := [\<lparr>param_name = js ''userId'', param_value = demo_id DEMO_user\<rparr>],
          ep_body := Some (JObj [(js ''displayName'', JStr (js ''Reviewed User'')), (js ''emailVerified'', JBool True), (js ''unlock'', JBool True)])\<rparr>)"

definition EP_admin_user_delete :: EndpointDefinition where
  "EP_admin_user_delete =
     endpoint (js ''admin-user-delete'') DELETE (js ''/api/v1/admin/users/{userId}'')
       (copy
          (js ''Delete a user'')
          (js ''Deletes the user and credentials while preserving the audit trail.'')
          (js ''Benutzer l'' @ [0xF6] @ js ''schen'')
          (js ''L'' @ [0xF6] @ js ''scht Benutzer und Credentials, w'' @ [0xE4] @ js ''hrend der Audit-Trail erhalten bleibt.'')
          (js ''Kullan'' @ [0x131] @ js ''c'' @ [0x131] @ js ''y'' @ [0x131] @ js '' sil'')
          (js ''Kullan'' @ [0x131] @ js ''c'' @ [0x131] @ js ''y'' @ [0x131] @ js '' ve credential'lar'' @ [0x131] @ js ''n'' @ [0x131] @ js '' siler; audit trail ya'' @ [0x15F] @ js ''amaya devam eder.''))
       Admin AdminAuth
       (\<lambda>e. e\<lparr>ep_pathParams := [\<lparr>param_name = js ''userId'', param_value = demo_id DEMO_user\<rparr>],
          ep_destructive := True\<rparr>)"

definition EP_admin_role_grant :: EndpointDefinition where
  "EP_admin_role_grant =
     endpoint (js ''admin-role-grant'') POST (js ''/api/v1/admin/users/{userId}/roles'')
       (copy
          (js ''Grant a role'')
          (js ''Assigns a fixed role ID; it takes effect after the next token issue.'')
          (js ''Rolle vergeben'')
          (js ''Weist eine feste Rollen-ID zu; wirksam nach der n'' @ [0xE4] @ js ''chsten Token-Ausgabe.'')
          (js ''Rol ver'')
          (js ''Sabit rol id'sini kullan'' @ [0x131] @ js ''c'' @ [0x131] @ js ''ya atar; yeni token issuance sonras'' @ [0x131] @ js '' etkili olur.''))
       Admin AdminAuth
       (\<lambda>e. e\<lparr>ep_pathParams := [\<lparr>param_name = js ''userId'', param_value = demo_id DEMO_user\<rparr>],
          ep_body := Some (JObj [(js ''roleId'', JStr DEMO_adminRoleId)]),
          ep_destructive := True\<rparr>)"

definition EP_admin_role_revoke :: EndpointDefinition where
  "EP_admin_role_revoke =
     endpoint (js ''admin-role-revoke'') DELETE (js ''/api/v1/admin/users/{userId}/roles/{roleId}'')
       (copy
          (js ''Revoke a role'')
          (js ''Removes the grant; it takes effect after the next token issue.'')
          (js ''Rolle widerrufen'')
          (js ''Entfernt die Zuweisung; wirksam nach der n'' @ [0xE4] @ js ''chsten Token-Ausgabe.'')
          (js ''Rol'' @ [0xFC] @ js '' geri al'')
          (js ''Rol grant'' @ [0x27] @ [0x131] @ js ''n'' @ [0x131] @ js '' kald'' @ [0x131] @ js ''r'' @ [0x131] @ js ''r; yeni token issuance sonras'' @ [0x131] @ js '' etkili olur.''))
       Admin AdminAuth
       (\<lambda>e. e\<lparr>ep_pathParams := [\<lparr>param_name = js ''userId'', param_value = demo_id DEMO_user\<rparr>,
            \<lparr>param_name = js ''roleId'', param_value = DEMO_adminRoleId\<rparr>],
          ep_destructive := True\<rparr>)"

definition EP_admin_sessions_revoke :: EndpointDefinition where
  "EP_admin_sessions_revoke =
     endpoint (js ''admin-sessions-revoke'') DELETE (js ''/api/v1/admin/users/{userId}/sessions'')
       (copy
          (js ''Revoke a user's sessions'')
          (js ''Revokes every active session for incident response.'')
          (js ''Benutzersitzungen widerrufen'')
          (js ''Widerruft f'' @ [0xFC] @ js ''r Incident Response alle aktiven Sitzungen des Benutzers.'')
          (js ''Kullan'' @ [0x131] @ js ''c'' @ [0x131] @ js ''n'' @ [0x131] @ js ''n oturumlar'' @ [0x131] @ js ''n'' @ [0x131] @ js '' kapat'')
          (js ''Incident response i'' @ [0xE7] @ js ''in hedef kullan'' @ [0x131] @ js ''c'' @ [0x131] @ js ''n'' @ [0x131] @ js ''n t'' @ [0xFC] @ js ''m aktif oturumlar'' @ [0x131] @ js ''n'' @ [0x131] @ js '' iptal eder.''))
       Admin AdminAuth
       (\<lambda>e. e\<lparr>ep_pathParams := [\<lparr>param_name = js ''userId'', param_value = demo_id DEMO_user\<rparr>],
          ep_destructive := True\<rparr>)"

definition EP_admin_audit :: EndpointDefinition where
  "EP_admin_audit =
     endpoint (js ''admin-audit'') GET (js ''/api/v1/admin/audit-logs'')
       (copy
          (js ''Query the audit trail'')
          (js ''Returns fixture and runtime security events as a paginated result.'')
          (js ''Audit-Trail abfragen'')
          (js ''Liefert Fixture- und Laufzeit-Sicherheitsereignisse paginiert.'')
          (js ''Audit trail sorgula'')
          (js ''Haz'' @ [0x131] @ js ''r fixture kay'' @ [0x131] @ js ''tlar'' @ [0x131] @ js ''n'' @ [0x131] @ js '' ve '' @ [0xE7] @ js ''al'' @ [0x131, 0x15F] @ js ''ma s'' @ [0x131] @ js ''ras'' @ [0x131] @ js ''nda olu'' @ [0x15F] @ js ''an g'' @ [0xFC] @ js ''venlik olaylar'' @ [0x131] @ js ''n'' @ [0x131] @ js '' sayfal'' @ [0x131] @ js '' d'' @ [0xF6] @ js ''nd'' @ [0xFC] @ js ''r'' @ [0xFC] @ js ''r.''))
       Admin AdminAuth
       (\<lambda>e. e\<lparr>ep_query := [\<lparr>param_name = js ''page'', param_value = js ''1''\<rparr>,
            \<lparr>param_name = js ''pageSize'', param_value = js ''20''\<rparr>,
            \<lparr>param_name = js ''sort'', param_value = js ''occurredAt:desc''\<rparr>,
            \<lparr>param_name = js ''userId'', param_value = []\<rparr>,
            \<lparr>param_name = js ''eventType'', param_value = []\<rparr>,
            \<lparr>param_name = js ''from'', param_value = []\<rparr>,
            \<lparr>param_name = js ''to'', param_value = []\<rparr>,
            \<lparr>param_name = js ''correlationId'', param_value = []\<rparr>]\<rparr>)"

subsection \<open>The list and the look-ups\<close>

definition ENDPOINTS :: "EndpointDefinition list" where
  "ENDPOINTS =
     [EP_health_live, EP_health_ready, EP_jwks,
      EP_auth_register, EP_auth_login, EP_auth_login_mfa,
      EP_auth_refresh, EP_auth_logout, EP_auth_csrf,
      EP_social_authorize, EP_social_callback, EP_email_send,
      EP_email_confirm, EP_password_request, EP_password_confirm,
      EP_users_me, EP_users_update, EP_users_delete,
      EP_users_password, EP_users_accounts, EP_users_unlink,
      EP_sessions_list, EP_sessions_revoke, EP_sessions_revoke_others,
      EP_mfa_enroll, EP_mfa_confirm, EP_mfa_disable,
      EP_mfa_recovery, EP_passkey_registration_options, EP_passkey_registration_complete,
      EP_passkey_auth_options, EP_passkey_auth_complete, EP_passkeys_list,
      EP_passkey_delete, EP_api_key_create, EP_api_keys_list,
      EP_api_key_revoke, EP_admin_users_list, EP_admin_user_get,
      EP_admin_user_update, EP_admin_user_delete, EP_admin_role_grant,
      EP_admin_role_revoke, EP_admin_sessions_revoke, EP_admin_audit]"

definition endpointById :: "jstr \<Rightarrow> EndpointDefinition option" where
  "endpointById i = List.find (\<lambda>item. ep_id item = i) ENDPOINTS"

fun endpointCopy :: "EndpointDefinition \<Rightarrow> AppLocale \<Rightarrow> LocalizedCopy" where
  "endpointCopy item En = copy_en (ep_copy item)"
| "endpointCopy item De = copy_de (ep_copy item)"
| "endpointCopy item Tr = copy_tr (ep_copy item)"

definition normalizeLocale :: "jstr \<Rightarrow> AppLocale" where
  "normalizeLocale locale =
     (if locale = js ''de'' then De else if locale = js ''tr'' then Tr else En)"

lemmas EP_defs =
  EP_health_live_def EP_health_ready_def EP_jwks_def
  EP_auth_register_def EP_auth_login_def EP_auth_login_mfa_def
  EP_auth_refresh_def EP_auth_logout_def EP_auth_csrf_def
  EP_social_authorize_def EP_social_callback_def EP_email_send_def
  EP_email_confirm_def EP_password_request_def EP_password_confirm_def
  EP_users_me_def EP_users_update_def EP_users_delete_def
  EP_users_password_def EP_users_accounts_def EP_users_unlink_def
  EP_sessions_list_def EP_sessions_revoke_def EP_sessions_revoke_others_def
  EP_mfa_enroll_def EP_mfa_confirm_def EP_mfa_disable_def
  EP_mfa_recovery_def EP_passkey_registration_options_def EP_passkey_registration_complete_def
  EP_passkey_auth_options_def EP_passkey_auth_complete_def EP_passkeys_list_def
  EP_passkey_delete_def EP_api_key_create_def EP_api_keys_list_def
  EP_api_key_revoke_def EP_admin_users_list_def EP_admin_user_get_def
  EP_admin_user_update_def EP_admin_user_delete_def EP_admin_role_grant_def
  EP_admin_role_revoke_def EP_admin_sessions_revoke_def EP_admin_audit_def

lemma ENDPOINTS_ids:
  "map ep_id ENDPOINTS =
     map js
      [''health-live'', ''health-ready'', ''jwks'',
       ''auth-register'', ''auth-login'', ''auth-login-mfa'',
       ''auth-refresh'', ''auth-logout'', ''auth-csrf'',
       ''social-authorize'', ''social-callback'', ''email-send'',
       ''email-confirm'', ''password-request'', ''password-confirm'',
       ''users-me'', ''users-update'', ''users-delete'',
       ''users-password'', ''users-accounts'', ''users-unlink'',
       ''sessions-list'', ''sessions-revoke'', ''sessions-revoke-others'',
       ''mfa-enroll'', ''mfa-confirm'', ''mfa-disable'',
       ''mfa-recovery'', ''passkey-registration-options'', ''passkey-registration-complete'',
       ''passkey-auth-options'', ''passkey-auth-complete'', ''passkeys-list'',
       ''passkey-delete'', ''api-key-create'', ''api-keys-list'',
       ''api-key-revoke'', ''admin-users-list'', ''admin-user-get'',
       ''admin-user-update'', ''admin-user-delete'', ''admin-role-grant'',
       ''admin-role-revoke'', ''admin-sessions-revoke'', ''admin-audit'']"
  by (simp add: ENDPOINTS_def EP_defs endpoint_def)

lemma distinct_ids: "distinct (map ep_id ENDPOINTS)"
  by (simp add: ENDPOINTS_ids)

lemma length_ENDPOINTS: "length ENDPOINTS = 45"
  by (simp add: ENDPOINTS_def)

text \<open>A look-up finds exactly the catalogue's entries.\<close>

lemma find_distinct:
  "distinct (map f xs) \<Longrightarrow> x \<in> set xs \<Longrightarrow> List.find (\<lambda>y. f y = f x) xs = Some x"
  by (induction xs) auto

lemma endpointById_mem: "e \<in> set ENDPOINTS \<Longrightarrow> endpointById (ep_id e) = Some e"
  unfolding endpointById_def by (rule find_distinct [OF distinct_ids])

lemma endpointById_SomeD: "endpointById i = Some e \<Longrightarrow> e \<in> set ENDPOINTS \<and> ep_id e = i"
  by (auto simp: endpointById_def find_Some_iff)

lemma endpointById_iff: "endpointById i = Some e \<longleftrightarrow> e \<in> set ENDPOINTS \<and> ep_id e = i"
  using endpointById_mem endpointById_SomeD by blast

lemma EP_in_ENDPOINTS [simp]:
  "EP_health_live \<in> set ENDPOINTS" "EP_health_ready \<in> set ENDPOINTS"
  "EP_jwks \<in> set ENDPOINTS" "EP_auth_register \<in> set ENDPOINTS"
  "EP_auth_login \<in> set ENDPOINTS" "EP_auth_login_mfa \<in> set ENDPOINTS"
  "EP_auth_refresh \<in> set ENDPOINTS" "EP_auth_logout \<in> set ENDPOINTS"
  "EP_auth_csrf \<in> set ENDPOINTS" "EP_social_authorize \<in> set ENDPOINTS"
  "EP_social_callback \<in> set ENDPOINTS" "EP_email_send \<in> set ENDPOINTS"
  "EP_email_confirm \<in> set ENDPOINTS" "EP_password_request \<in> set ENDPOINTS"
  "EP_password_confirm \<in> set ENDPOINTS" "EP_users_me \<in> set ENDPOINTS"
  "EP_users_update \<in> set ENDPOINTS" "EP_users_delete \<in> set ENDPOINTS"
  "EP_users_password \<in> set ENDPOINTS" "EP_users_accounts \<in> set ENDPOINTS"
  "EP_users_unlink \<in> set ENDPOINTS" "EP_sessions_list \<in> set ENDPOINTS"
  "EP_sessions_revoke \<in> set ENDPOINTS" "EP_sessions_revoke_others \<in> set ENDPOINTS"
  "EP_mfa_enroll \<in> set ENDPOINTS" "EP_mfa_confirm \<in> set ENDPOINTS"
  "EP_mfa_disable \<in> set ENDPOINTS" "EP_mfa_recovery \<in> set ENDPOINTS"
  "EP_passkey_registration_options \<in> set ENDPOINTS" "EP_passkey_registration_complete \<in> set ENDPOINTS"
  "EP_passkey_auth_options \<in> set ENDPOINTS" "EP_passkey_auth_complete \<in> set ENDPOINTS"
  "EP_passkeys_list \<in> set ENDPOINTS" "EP_passkey_delete \<in> set ENDPOINTS"
  "EP_api_key_create \<in> set ENDPOINTS" "EP_api_keys_list \<in> set ENDPOINTS"
  "EP_api_key_revoke \<in> set ENDPOINTS" "EP_admin_users_list \<in> set ENDPOINTS"
  "EP_admin_user_get \<in> set ENDPOINTS" "EP_admin_user_update \<in> set ENDPOINTS"
  "EP_admin_user_delete \<in> set ENDPOINTS" "EP_admin_role_grant \<in> set ENDPOINTS"
  "EP_admin_role_revoke \<in> set ENDPOINTS" "EP_admin_sessions_revoke \<in> set ENDPOINTS"
  "EP_admin_audit \<in> set ENDPOINTS"
  by (simp_all add: ENDPOINTS_def)

lemma EP_id [simp]:
  "ep_id EP_health_live = js ''health-live''"
  "ep_id EP_health_ready = js ''health-ready''"
  "ep_id EP_jwks = js ''jwks''"
  "ep_id EP_auth_register = js ''auth-register''"
  "ep_id EP_auth_login = js ''auth-login''"
  "ep_id EP_auth_login_mfa = js ''auth-login-mfa''"
  "ep_id EP_auth_refresh = js ''auth-refresh''"
  "ep_id EP_auth_logout = js ''auth-logout''"
  "ep_id EP_auth_csrf = js ''auth-csrf''"
  "ep_id EP_social_authorize = js ''social-authorize''"
  "ep_id EP_social_callback = js ''social-callback''"
  "ep_id EP_email_send = js ''email-send''"
  "ep_id EP_email_confirm = js ''email-confirm''"
  "ep_id EP_password_request = js ''password-request''"
  "ep_id EP_password_confirm = js ''password-confirm''"
  "ep_id EP_users_me = js ''users-me''"
  "ep_id EP_users_update = js ''users-update''"
  "ep_id EP_users_delete = js ''users-delete''"
  "ep_id EP_users_password = js ''users-password''"
  "ep_id EP_users_accounts = js ''users-accounts''"
  "ep_id EP_users_unlink = js ''users-unlink''"
  "ep_id EP_sessions_list = js ''sessions-list''"
  "ep_id EP_sessions_revoke = js ''sessions-revoke''"
  "ep_id EP_sessions_revoke_others = js ''sessions-revoke-others''"
  "ep_id EP_mfa_enroll = js ''mfa-enroll''"
  "ep_id EP_mfa_confirm = js ''mfa-confirm''"
  "ep_id EP_mfa_disable = js ''mfa-disable''"
  "ep_id EP_mfa_recovery = js ''mfa-recovery''"
  "ep_id EP_passkey_registration_options = js ''passkey-registration-options''"
  "ep_id EP_passkey_registration_complete = js ''passkey-registration-complete''"
  "ep_id EP_passkey_auth_options = js ''passkey-auth-options''"
  "ep_id EP_passkey_auth_complete = js ''passkey-auth-complete''"
  "ep_id EP_passkeys_list = js ''passkeys-list''"
  "ep_id EP_passkey_delete = js ''passkey-delete''"
  "ep_id EP_api_key_create = js ''api-key-create''"
  "ep_id EP_api_keys_list = js ''api-keys-list''"
  "ep_id EP_api_key_revoke = js ''api-key-revoke''"
  "ep_id EP_admin_users_list = js ''admin-users-list''"
  "ep_id EP_admin_user_get = js ''admin-user-get''"
  "ep_id EP_admin_user_update = js ''admin-user-update''"
  "ep_id EP_admin_user_delete = js ''admin-user-delete''"
  "ep_id EP_admin_role_grant = js ''admin-role-grant''"
  "ep_id EP_admin_role_revoke = js ''admin-role-revoke''"
  "ep_id EP_admin_sessions_revoke = js ''admin-sessions-revoke''"
  "ep_id EP_admin_audit = js ''admin-audit''"
  by (simp_all add: EP_defs endpoint_def)

lemma EP_method [simp]:
  "ep_method EP_health_live = GET"
  "ep_method EP_health_ready = GET"
  "ep_method EP_jwks = GET"
  "ep_method EP_auth_register = POST"
  "ep_method EP_auth_login = POST"
  "ep_method EP_auth_login_mfa = POST"
  "ep_method EP_auth_refresh = POST"
  "ep_method EP_auth_logout = POST"
  "ep_method EP_auth_csrf = GET"
  "ep_method EP_social_authorize = GET"
  "ep_method EP_social_callback = GET"
  "ep_method EP_email_send = POST"
  "ep_method EP_email_confirm = POST"
  "ep_method EP_password_request = POST"
  "ep_method EP_password_confirm = POST"
  "ep_method EP_users_me = GET"
  "ep_method EP_users_update = PATCH"
  "ep_method EP_users_delete = DELETE"
  "ep_method EP_users_password = PUT"
  "ep_method EP_users_accounts = GET"
  "ep_method EP_users_unlink = DELETE"
  "ep_method EP_sessions_list = GET"
  "ep_method EP_sessions_revoke = DELETE"
  "ep_method EP_sessions_revoke_others = DELETE"
  "ep_method EP_mfa_enroll = POST"
  "ep_method EP_mfa_confirm = POST"
  "ep_method EP_mfa_disable = DELETE"
  "ep_method EP_mfa_recovery = POST"
  "ep_method EP_passkey_registration_options = POST"
  "ep_method EP_passkey_registration_complete = POST"
  "ep_method EP_passkey_auth_options = POST"
  "ep_method EP_passkey_auth_complete = POST"
  "ep_method EP_passkeys_list = GET"
  "ep_method EP_passkey_delete = DELETE"
  "ep_method EP_api_key_create = POST"
  "ep_method EP_api_keys_list = GET"
  "ep_method EP_api_key_revoke = DELETE"
  "ep_method EP_admin_users_list = GET"
  "ep_method EP_admin_user_get = GET"
  "ep_method EP_admin_user_update = PATCH"
  "ep_method EP_admin_user_delete = DELETE"
  "ep_method EP_admin_role_grant = POST"
  "ep_method EP_admin_role_revoke = DELETE"
  "ep_method EP_admin_sessions_revoke = DELETE"
  "ep_method EP_admin_audit = GET"
  by (simp_all add: EP_defs endpoint_def)

lemma EP_path [simp]:
  "ep_path EP_health_live = js ''/health/live''"
  "ep_path EP_health_ready = js ''/health/ready''"
  "ep_path EP_jwks = js ''/.well-known/jwks.json''"
  "ep_path EP_auth_register = js ''/api/v1/auth/register''"
  "ep_path EP_auth_login = js ''/api/v1/auth/login''"
  "ep_path EP_auth_login_mfa = js ''/api/v1/auth/login/mfa''"
  "ep_path EP_auth_refresh = js ''/api/v1/auth/refresh''"
  "ep_path EP_auth_logout = js ''/api/v1/auth/logout''"
  "ep_path EP_auth_csrf = js ''/api/v1/auth/csrf''"
  "ep_path EP_social_authorize = js ''/api/v1/auth/social/{provider}/authorize''"
  "ep_path EP_social_callback = js ''/api/v1/auth/social/{provider}/callback''"
  "ep_path EP_email_send = js ''/api/v1/email-verification/send''"
  "ep_path EP_email_confirm = js ''/api/v1/email-verification/confirm''"
  "ep_path EP_password_request = js ''/api/v1/password-reset/request''"
  "ep_path EP_password_confirm = js ''/api/v1/password-reset/confirm''"
  "ep_path EP_users_me = js ''/api/v1/users/me''"
  "ep_path EP_users_update = js ''/api/v1/users/me''"
  "ep_path EP_users_delete = js ''/api/v1/users/me''"
  "ep_path EP_users_password = js ''/api/v1/users/me/password''"
  "ep_path EP_users_accounts = js ''/api/v1/users/me/accounts''"
  "ep_path EP_users_unlink = js ''/api/v1/users/me/accounts/{accountId}''"
  "ep_path EP_sessions_list = js ''/api/v1/sessions''"
  "ep_path EP_sessions_revoke = js ''/api/v1/sessions/{sessionId}''"
  "ep_path EP_sessions_revoke_others = js ''/api/v1/sessions''"
  "ep_path EP_mfa_enroll = js ''/api/v1/mfa/totp/enroll''"
  "ep_path EP_mfa_confirm = js ''/api/v1/mfa/totp/confirm''"
  "ep_path EP_mfa_disable = js ''/api/v1/mfa/totp''"
  "ep_path EP_mfa_recovery = js ''/api/v1/mfa/recovery-codes/regenerate''"
  "ep_path EP_passkey_registration_options = js ''/api/v1/passkeys/registration/options''"
  "ep_path EP_passkey_registration_complete = js ''/api/v1/passkeys/registration/complete''"
  "ep_path EP_passkey_auth_options = js ''/api/v1/passkeys/authentication/options''"
  "ep_path EP_passkey_auth_complete = js ''/api/v1/passkeys/authentication/complete''"
  "ep_path EP_passkeys_list = js ''/api/v1/passkeys''"
  "ep_path EP_passkey_delete = js ''/api/v1/passkeys/{credentialId}''"
  "ep_path EP_api_key_create = js ''/api/v1/api-keys''"
  "ep_path EP_api_keys_list = js ''/api/v1/api-keys''"
  "ep_path EP_api_key_revoke = js ''/api/v1/api-keys/{keyId}''"
  "ep_path EP_admin_users_list = js ''/api/v1/admin/users''"
  "ep_path EP_admin_user_get = js ''/api/v1/admin/users/{userId}''"
  "ep_path EP_admin_user_update = js ''/api/v1/admin/users/{userId}''"
  "ep_path EP_admin_user_delete = js ''/api/v1/admin/users/{userId}''"
  "ep_path EP_admin_role_grant = js ''/api/v1/admin/users/{userId}/roles''"
  "ep_path EP_admin_role_revoke = js ''/api/v1/admin/users/{userId}/roles/{roleId}''"
  "ep_path EP_admin_sessions_revoke = js ''/api/v1/admin/users/{userId}/sessions''"
  "ep_path EP_admin_audit = js ''/api/v1/admin/audit-logs''"
  by (simp_all add: EP_defs endpoint_def)

lemma EP_group [simp]:
  "ep_group EP_health_live = Operations"
  "ep_group EP_health_ready = Operations"
  "ep_group EP_jwks = Operations"
  "ep_group EP_auth_register = Authentication"
  "ep_group EP_auth_login = Authentication"
  "ep_group EP_auth_login_mfa = Authentication"
  "ep_group EP_auth_refresh = Authentication"
  "ep_group EP_auth_logout = Authentication"
  "ep_group EP_auth_csrf = Authentication"
  "ep_group EP_social_authorize = Authentication"
  "ep_group EP_social_callback = Authentication"
  "ep_group EP_email_send = Authentication"
  "ep_group EP_email_confirm = Authentication"
  "ep_group EP_password_request = Authentication"
  "ep_group EP_password_confirm = Authentication"
  "ep_group EP_users_me = Account"
  "ep_group EP_users_update = Account"
  "ep_group EP_users_delete = Account"
  "ep_group EP_users_password = Account"
  "ep_group EP_users_accounts = Account"
  "ep_group EP_users_unlink = Account"
  "ep_group EP_sessions_list = Sessions"
  "ep_group EP_sessions_revoke = Sessions"
  "ep_group EP_sessions_revoke_others = Sessions"
  "ep_group EP_mfa_enroll = Security"
  "ep_group EP_mfa_confirm = Security"
  "ep_group EP_mfa_disable = Security"
  "ep_group EP_mfa_recovery = Security"
  "ep_group EP_passkey_registration_options = Security"
  "ep_group EP_passkey_registration_complete = Security"
  "ep_group EP_passkey_auth_options = Security"
  "ep_group EP_passkey_auth_complete = Security"
  "ep_group EP_passkeys_list = Security"
  "ep_group EP_passkey_delete = Security"
  "ep_group EP_api_key_create = Security"
  "ep_group EP_api_keys_list = Security"
  "ep_group EP_api_key_revoke = Security"
  "ep_group EP_admin_users_list = Admin"
  "ep_group EP_admin_user_get = Admin"
  "ep_group EP_admin_user_update = Admin"
  "ep_group EP_admin_user_delete = Admin"
  "ep_group EP_admin_role_grant = Admin"
  "ep_group EP_admin_role_revoke = Admin"
  "ep_group EP_admin_sessions_revoke = Admin"
  "ep_group EP_admin_audit = Admin"
  by (simp_all add: EP_defs endpoint_def)

lemma EP_auth [simp]:
  "ep_auth EP_health_live = PublicAuth"
  "ep_auth EP_health_ready = PublicAuth"
  "ep_auth EP_jwks = PublicAuth"
  "ep_auth EP_auth_register = PublicAuth"
  "ep_auth EP_auth_login = PublicAuth"
  "ep_auth EP_auth_login_mfa = PublicAuth"
  "ep_auth EP_auth_refresh = PublicAuth"
  "ep_auth EP_auth_logout = UserAuth"
  "ep_auth EP_auth_csrf = UserAuth"
  "ep_auth EP_social_authorize = PublicAuth"
  "ep_auth EP_social_callback = PublicAuth"
  "ep_auth EP_email_send = UserAuth"
  "ep_auth EP_email_confirm = PublicAuth"
  "ep_auth EP_password_request = PublicAuth"
  "ep_auth EP_password_confirm = PublicAuth"
  "ep_auth EP_users_me = UserAuth"
  "ep_auth EP_users_update = UserAuth"
  "ep_auth EP_users_delete = RecentAuth"
  "ep_auth EP_users_password = UserAuth"
  "ep_auth EP_users_accounts = UserAuth"
  "ep_auth EP_users_unlink = UserAuth"
  "ep_auth EP_sessions_list = UserAuth"
  "ep_auth EP_sessions_revoke = UserAuth"
  "ep_auth EP_sessions_revoke_others = UserAuth"
  "ep_auth EP_mfa_enroll = UserAuth"
  "ep_auth EP_mfa_confirm = UserAuth"
  "ep_auth EP_mfa_disable = RecentAuth"
  "ep_auth EP_mfa_recovery = RecentAuth"
  "ep_auth EP_passkey_registration_options = UserAuth"
  "ep_auth EP_passkey_registration_complete = UserAuth"
  "ep_auth EP_passkey_auth_options = PublicAuth"
  "ep_auth EP_passkey_auth_complete = PublicAuth"
  "ep_auth EP_passkeys_list = UserAuth"
  "ep_auth EP_passkey_delete = UserAuth"
  "ep_auth EP_api_key_create = UserAuth"
  "ep_auth EP_api_keys_list = UserAuth"
  "ep_auth EP_api_key_revoke = UserAuth"
  "ep_auth EP_admin_users_list = AdminAuth"
  "ep_auth EP_admin_user_get = AdminAuth"
  "ep_auth EP_admin_user_update = AdminAuth"
  "ep_auth EP_admin_user_delete = AdminAuth"
  "ep_auth EP_admin_role_grant = AdminAuth"
  "ep_auth EP_admin_role_revoke = AdminAuth"
  "ep_auth EP_admin_sessions_revoke = AdminAuth"
  "ep_auth EP_admin_audit = AdminAuth"
  by (simp_all add: EP_defs endpoint_def)

lemma EP_body [simp]:
  "ep_body EP_health_live = None"
  "ep_body EP_health_ready = None"
  "ep_body EP_jwks = None"
  "ep_body EP_auth_register = Some (JObj [(js ''email'', JStr (js ''new-user@example.test'')), (js ''password'', JStr (js ''V4lid!River-Stone-Cobalt-47'')), (js ''displayName'', JStr (js ''New User''))])"
  "ep_body EP_auth_login = Some (JObj [(js ''email'', JStr (demo_email DEMO_user)), (js ''password'', JStr (demo_password DEMO_user))])"
  "ep_body EP_auth_login_mfa = Some (JObj [(js ''mfaTicket'', JStr (js ''{{mfaTicket}}'')), (js ''code'', JStr (js ''{{totpCode}}''))])"
  "ep_body EP_auth_refresh = Some (JObj [(js ''refreshToken'', JStr (js ''{{refreshToken}}''))])"
  "ep_body EP_auth_logout = None"
  "ep_body EP_auth_csrf = None"
  "ep_body EP_social_authorize = None"
  "ep_body EP_social_callback = None"
  "ep_body EP_email_send = None"
  "ep_body EP_email_confirm = Some (JObj [(js ''token'', JStr (js ''{{verificationToken}}''))])"
  "ep_body EP_password_request = Some (JObj [(js ''email'', JStr (demo_email DEMO_user))])"
  "ep_body EP_password_confirm = Some (JObj [(js ''token'', JStr (js ''{{passwordResetToken}}'')), (js ''newPassword'', JStr (js ''N3w!River-Stone-Cobalt-82''))])"
  "ep_body EP_users_me = None"
  "ep_body EP_users_update = Some (JObj [(js ''displayName'', JStr (js ''Workbench User''))])"
  "ep_body EP_users_delete = None"
  "ep_body EP_users_password = Some (JObj [(js ''currentPassword'', JStr (demo_password DEMO_user)), (js ''newPassword'', JStr (js ''N3w!River-Stone-Cobalt-82''))])"
  "ep_body EP_users_accounts = None"
  "ep_body EP_users_unlink = None"
  "ep_body EP_sessions_list = None"
  "ep_body EP_sessions_revoke = None"
  "ep_body EP_sessions_revoke_others = None"
  "ep_body EP_mfa_enroll = None"
  "ep_body EP_mfa_confirm = Some (JObj [(js ''code'', JStr (js ''{{totpCode}}''))])"
  "ep_body EP_mfa_disable = None"
  "ep_body EP_mfa_recovery = None"
  "ep_body EP_passkey_registration_options = Some (JObj [(js ''label'', JStr (js ''Workbench passkey''))])"
  "ep_body EP_passkey_registration_complete = Some (JObj [(js ''attestationResponse'', JObj []), (js ''label'', JStr (js ''Workbench passkey''))])"
  "ep_body EP_passkey_auth_options = Some (JObj [])"
  "ep_body EP_passkey_auth_complete = Some (JObj [(js ''assertionResponse'', JObj [])])"
  "ep_body EP_passkeys_list = None"
  "ep_body EP_passkey_delete = None"
  "ep_body EP_api_key_create = Some (JObj [(js ''name'', JStr (js ''Local automation'')), (js ''scopes'', JArr [JStr (js ''users:read:any''), JStr (js ''audit:read'')]), (js ''expiresAt'', JStr (js ''2027-12-31T00:00:00Z''))])"
  "ep_body EP_api_keys_list = None"
  "ep_body EP_api_key_revoke = None"
  "ep_body EP_admin_users_list = None"
  "ep_body EP_admin_user_get = None"
  "ep_body EP_admin_user_update = Some (JObj [(js ''displayName'', JStr (js ''Reviewed User'')), (js ''emailVerified'', JBool True), (js ''unlock'', JBool True)])"
  "ep_body EP_admin_user_delete = None"
  "ep_body EP_admin_role_grant = Some (JObj [(js ''roleId'', JStr DEMO_adminRoleId)])"
  "ep_body EP_admin_role_revoke = None"
  "ep_body EP_admin_sessions_revoke = None"
  "ep_body EP_admin_audit = None"
  by (simp_all add: EP_defs endpoint_def)

lemma EP_pathParams [simp]:
  "ep_pathParams EP_health_live = []"
  "ep_pathParams EP_health_ready = []"
  "ep_pathParams EP_jwks = []"
  "ep_pathParams EP_auth_register = []"
  "ep_pathParams EP_auth_login = []"
  "ep_pathParams EP_auth_login_mfa = []"
  "ep_pathParams EP_auth_refresh = []"
  "ep_pathParams EP_auth_logout = []"
  "ep_pathParams EP_auth_csrf = []"
  "ep_pathParams EP_social_authorize = [\<lparr>param_name = js ''provider'', param_value = js ''google''\<rparr>]"
  "ep_pathParams EP_social_callback = [\<lparr>param_name = js ''provider'', param_value = js ''google''\<rparr>]"
  "ep_pathParams EP_email_send = []"
  "ep_pathParams EP_email_confirm = []"
  "ep_pathParams EP_password_request = []"
  "ep_pathParams EP_password_confirm = []"
  "ep_pathParams EP_users_me = []"
  "ep_pathParams EP_users_update = []"
  "ep_pathParams EP_users_delete = []"
  "ep_pathParams EP_users_password = []"
  "ep_pathParams EP_users_accounts = []"
  "ep_pathParams EP_users_unlink = [\<lparr>param_name = js ''accountId'', param_value = DEMO_accountId\<rparr>]"
  "ep_pathParams EP_sessions_list = []"
  "ep_pathParams EP_sessions_revoke = [\<lparr>param_name = js ''sessionId'', param_value = DEMO_sessionId\<rparr>]"
  "ep_pathParams EP_sessions_revoke_others = []"
  "ep_pathParams EP_mfa_enroll = []"
  "ep_pathParams EP_mfa_confirm = []"
  "ep_pathParams EP_mfa_disable = []"
  "ep_pathParams EP_mfa_recovery = []"
  "ep_pathParams EP_passkey_registration_options = []"
  "ep_pathParams EP_passkey_registration_complete = []"
  "ep_pathParams EP_passkey_auth_options = []"
  "ep_pathParams EP_passkey_auth_complete = []"
  "ep_pathParams EP_passkeys_list = []"
  "ep_pathParams EP_passkey_delete = [\<lparr>param_name = js ''credentialId'', param_value = js ''{{credentialId}}''\<rparr>]"
  "ep_pathParams EP_api_key_create = []"
  "ep_pathParams EP_api_keys_list = []"
  "ep_pathParams EP_api_key_revoke = [\<lparr>param_name = js ''keyId'', param_value = DEMO_apiKeyId\<rparr>]"
  "ep_pathParams EP_admin_users_list = []"
  "ep_pathParams EP_admin_user_get = [\<lparr>param_name = js ''userId'', param_value = demo_id DEMO_user\<rparr>]"
  "ep_pathParams EP_admin_user_update = [\<lparr>param_name = js ''userId'', param_value = demo_id DEMO_user\<rparr>]"
  "ep_pathParams EP_admin_user_delete = [\<lparr>param_name = js ''userId'', param_value = demo_id DEMO_user\<rparr>]"
  "ep_pathParams EP_admin_role_grant = [\<lparr>param_name = js ''userId'', param_value = demo_id DEMO_user\<rparr>]"
  "ep_pathParams EP_admin_role_revoke = [\<lparr>param_name = js ''userId'', param_value = demo_id DEMO_user\<rparr>, \<lparr>param_name = js ''roleId'', param_value = DEMO_adminRoleId\<rparr>]"
  "ep_pathParams EP_admin_sessions_revoke = [\<lparr>param_name = js ''userId'', param_value = demo_id DEMO_user\<rparr>]"
  "ep_pathParams EP_admin_audit = []"
  by (simp_all add: EP_defs endpoint_def)

lemma EP_query [simp]:
  "ep_query EP_health_live = []"
  "ep_query EP_health_ready = []"
  "ep_query EP_jwks = []"
  "ep_query EP_auth_register = []"
  "ep_query EP_auth_login = []"
  "ep_query EP_auth_login_mfa = []"
  "ep_query EP_auth_refresh = []"
  "ep_query EP_auth_logout = []"
  "ep_query EP_auth_csrf = []"
  "ep_query EP_social_authorize = []"
  "ep_query EP_social_callback = [\<lparr>param_name = js ''code'', param_value = js ''{{socialCode}}''\<rparr>, \<lparr>param_name = js ''state'', param_value = js ''{{socialState}}''\<rparr>, \<lparr>param_name = js ''error'', param_value = []\<rparr>]"
  "ep_query EP_email_send = []"
  "ep_query EP_email_confirm = []"
  "ep_query EP_password_request = []"
  "ep_query EP_password_confirm = []"
  "ep_query EP_users_me = []"
  "ep_query EP_users_update = []"
  "ep_query EP_users_delete = []"
  "ep_query EP_users_password = []"
  "ep_query EP_users_accounts = []"
  "ep_query EP_users_unlink = []"
  "ep_query EP_sessions_list = []"
  "ep_query EP_sessions_revoke = []"
  "ep_query EP_sessions_revoke_others = []"
  "ep_query EP_mfa_enroll = []"
  "ep_query EP_mfa_confirm = []"
  "ep_query EP_mfa_disable = []"
  "ep_query EP_mfa_recovery = []"
  "ep_query EP_passkey_registration_options = []"
  "ep_query EP_passkey_registration_complete = []"
  "ep_query EP_passkey_auth_options = []"
  "ep_query EP_passkey_auth_complete = []"
  "ep_query EP_passkeys_list = []"
  "ep_query EP_passkey_delete = []"
  "ep_query EP_api_key_create = []"
  "ep_query EP_api_keys_list = []"
  "ep_query EP_api_key_revoke = []"
  "ep_query EP_admin_users_list = [\<lparr>param_name = js ''page'', param_value = js ''1''\<rparr>, \<lparr>param_name = js ''pageSize'', param_value = js ''20''\<rparr>, \<lparr>param_name = js ''sort'', param_value = js ''createdAt:desc''\<rparr>, \<lparr>param_name = js ''search'', param_value = []\<rparr>, \<lparr>param_name = js ''role'', param_value = []\<rparr>, \<lparr>param_name = js ''emailVerified'', param_value = []\<rparr>, \<lparr>param_name = js ''locked'', param_value = []\<rparr>]"
  "ep_query EP_admin_user_get = []"
  "ep_query EP_admin_user_update = []"
  "ep_query EP_admin_user_delete = []"
  "ep_query EP_admin_role_grant = []"
  "ep_query EP_admin_role_revoke = []"
  "ep_query EP_admin_sessions_revoke = []"
  "ep_query EP_admin_audit = [\<lparr>param_name = js ''page'', param_value = js ''1''\<rparr>, \<lparr>param_name = js ''pageSize'', param_value = js ''20''\<rparr>, \<lparr>param_name = js ''sort'', param_value = js ''occurredAt:desc''\<rparr>, \<lparr>param_name = js ''userId'', param_value = []\<rparr>, \<lparr>param_name = js ''eventType'', param_value = []\<rparr>, \<lparr>param_name = js ''from'', param_value = []\<rparr>, \<lparr>param_name = js ''to'', param_value = []\<rparr>, \<lparr>param_name = js ''correlationId'', param_value = []\<rparr>]"
  by (simp_all add: EP_defs endpoint_def)

lemma EP_destructive [simp]:
  "ep_destructive EP_health_live = False"
  "ep_destructive EP_health_ready = False"
  "ep_destructive EP_jwks = False"
  "ep_destructive EP_auth_register = False"
  "ep_destructive EP_auth_login = False"
  "ep_destructive EP_auth_login_mfa = False"
  "ep_destructive EP_auth_refresh = False"
  "ep_destructive EP_auth_logout = True"
  "ep_destructive EP_auth_csrf = False"
  "ep_destructive EP_social_authorize = False"
  "ep_destructive EP_social_callback = False"
  "ep_destructive EP_email_send = False"
  "ep_destructive EP_email_confirm = False"
  "ep_destructive EP_password_request = False"
  "ep_destructive EP_password_confirm = True"
  "ep_destructive EP_users_me = False"
  "ep_destructive EP_users_update = False"
  "ep_destructive EP_users_delete = True"
  "ep_destructive EP_users_password = True"
  "ep_destructive EP_users_accounts = False"
  "ep_destructive EP_users_unlink = True"
  "ep_destructive EP_sessions_list = False"
  "ep_destructive EP_sessions_revoke = True"
  "ep_destructive EP_sessions_revoke_others = True"
  "ep_destructive EP_mfa_enroll = False"
  "ep_destructive EP_mfa_confirm = False"
  "ep_destructive EP_mfa_disable = True"
  "ep_destructive EP_mfa_recovery = True"
  "ep_destructive EP_passkey_registration_options = False"
  "ep_destructive EP_passkey_registration_complete = False"
  "ep_destructive EP_passkey_auth_options = False"
  "ep_destructive EP_passkey_auth_complete = False"
  "ep_destructive EP_passkeys_list = False"
  "ep_destructive EP_passkey_delete = True"
  "ep_destructive EP_api_key_create = False"
  "ep_destructive EP_api_keys_list = False"
  "ep_destructive EP_api_key_revoke = True"
  "ep_destructive EP_admin_users_list = False"
  "ep_destructive EP_admin_user_get = False"
  "ep_destructive EP_admin_user_update = False"
  "ep_destructive EP_admin_user_delete = True"
  "ep_destructive EP_admin_role_grant = True"
  "ep_destructive EP_admin_role_revoke = True"
  "ep_destructive EP_admin_sessions_revoke = True"
  "ep_destructive EP_admin_audit = False"
  by (simp_all add: EP_defs endpoint_def)

lemma EP_special [simp]:
  "ep_special EP_health_live = None"
  "ep_special EP_health_ready = None"
  "ep_special EP_jwks = None"
  "ep_special EP_auth_register = None"
  "ep_special EP_auth_login = None"
  "ep_special EP_auth_login_mfa = None"
  "ep_special EP_auth_refresh = None"
  "ep_special EP_auth_logout = None"
  "ep_special EP_auth_csrf = None"
  "ep_special EP_social_authorize = Some Social"
  "ep_special EP_social_callback = None"
  "ep_special EP_email_send = None"
  "ep_special EP_email_confirm = None"
  "ep_special EP_password_request = None"
  "ep_special EP_password_confirm = None"
  "ep_special EP_users_me = None"
  "ep_special EP_users_update = None"
  "ep_special EP_users_delete = None"
  "ep_special EP_users_password = None"
  "ep_special EP_users_accounts = None"
  "ep_special EP_users_unlink = None"
  "ep_special EP_sessions_list = None"
  "ep_special EP_sessions_revoke = None"
  "ep_special EP_sessions_revoke_others = None"
  "ep_special EP_mfa_enroll = Some Totp"
  "ep_special EP_mfa_confirm = Some Totp"
  "ep_special EP_mfa_disable = None"
  "ep_special EP_mfa_recovery = None"
  "ep_special EP_passkey_registration_options = Some PasskeyRegister"
  "ep_special EP_passkey_registration_complete = None"
  "ep_special EP_passkey_auth_options = Some PasskeyAuth"
  "ep_special EP_passkey_auth_complete = None"
  "ep_special EP_passkeys_list = None"
  "ep_special EP_passkey_delete = None"
  "ep_special EP_api_key_create = None"
  "ep_special EP_api_keys_list = None"
  "ep_special EP_api_key_revoke = None"
  "ep_special EP_admin_users_list = None"
  "ep_special EP_admin_user_get = None"
  "ep_special EP_admin_user_update = None"
  "ep_special EP_admin_user_delete = None"
  "ep_special EP_admin_role_grant = None"
  "ep_special EP_admin_role_revoke = None"
  "ep_special EP_admin_sessions_revoke = None"
  "ep_special EP_admin_audit = None"
  by (simp_all add: EP_defs endpoint_def)

lemma endpointById_EP [simp]:
  "endpointById (js ''health-live'') = Some EP_health_live"
  "endpointById (js ''health-ready'') = Some EP_health_ready"
  "endpointById (js ''jwks'') = Some EP_jwks"
  "endpointById (js ''auth-register'') = Some EP_auth_register"
  "endpointById (js ''auth-login'') = Some EP_auth_login"
  "endpointById (js ''auth-login-mfa'') = Some EP_auth_login_mfa"
  "endpointById (js ''auth-refresh'') = Some EP_auth_refresh"
  "endpointById (js ''auth-logout'') = Some EP_auth_logout"
  "endpointById (js ''auth-csrf'') = Some EP_auth_csrf"
  "endpointById (js ''social-authorize'') = Some EP_social_authorize"
  "endpointById (js ''social-callback'') = Some EP_social_callback"
  "endpointById (js ''email-send'') = Some EP_email_send"
  "endpointById (js ''email-confirm'') = Some EP_email_confirm"
  "endpointById (js ''password-request'') = Some EP_password_request"
  "endpointById (js ''password-confirm'') = Some EP_password_confirm"
  "endpointById (js ''users-me'') = Some EP_users_me"
  "endpointById (js ''users-update'') = Some EP_users_update"
  "endpointById (js ''users-delete'') = Some EP_users_delete"
  "endpointById (js ''users-password'') = Some EP_users_password"
  "endpointById (js ''users-accounts'') = Some EP_users_accounts"
  "endpointById (js ''users-unlink'') = Some EP_users_unlink"
  "endpointById (js ''sessions-list'') = Some EP_sessions_list"
  "endpointById (js ''sessions-revoke'') = Some EP_sessions_revoke"
  "endpointById (js ''sessions-revoke-others'') = Some EP_sessions_revoke_others"
  "endpointById (js ''mfa-enroll'') = Some EP_mfa_enroll"
  "endpointById (js ''mfa-confirm'') = Some EP_mfa_confirm"
  "endpointById (js ''mfa-disable'') = Some EP_mfa_disable"
  "endpointById (js ''mfa-recovery'') = Some EP_mfa_recovery"
  "endpointById (js ''passkey-registration-options'') = Some EP_passkey_registration_options"
  "endpointById (js ''passkey-registration-complete'') = Some EP_passkey_registration_complete"
  "endpointById (js ''passkey-auth-options'') = Some EP_passkey_auth_options"
  "endpointById (js ''passkey-auth-complete'') = Some EP_passkey_auth_complete"
  "endpointById (js ''passkeys-list'') = Some EP_passkeys_list"
  "endpointById (js ''passkey-delete'') = Some EP_passkey_delete"
  "endpointById (js ''api-key-create'') = Some EP_api_key_create"
  "endpointById (js ''api-keys-list'') = Some EP_api_keys_list"
  "endpointById (js ''api-key-revoke'') = Some EP_api_key_revoke"
  "endpointById (js ''admin-users-list'') = Some EP_admin_users_list"
  "endpointById (js ''admin-user-get'') = Some EP_admin_user_get"
  "endpointById (js ''admin-user-update'') = Some EP_admin_user_update"
  "endpointById (js ''admin-user-delete'') = Some EP_admin_user_delete"
  "endpointById (js ''admin-role-grant'') = Some EP_admin_role_grant"
  "endpointById (js ''admin-role-revoke'') = Some EP_admin_role_revoke"
  "endpointById (js ''admin-sessions-revoke'') = Some EP_admin_sessions_revoke"
  "endpointById (js ''admin-audit'') = Some EP_admin_audit"
  by (simp_all add: endpointById_iff)

end
