(* ===== verification/WbDomain.thy ===== *)
theory WbDomain
  imports WbCatalog
begin

section \<open>Request materialisation: the pure part of domain.ts\<close>

text \<open>
  Template resolution, drafts, paths, headers, header redaction and the cURL command of
  \<open>domain.ts\<close>. A function whose source may throw returns \<open>js_error + 'a\<close>: \<open>buildPath\<close>
  throws \<open>URIError\<close> on a lone surrogate in a path value, \<open>buildHeaders\<close> on a malformed
  CSRF cookie, \<open>parseRequestBody\<close> fails on text that is not JSON.
\<close>

subsection \<open>Templates\<close>

text \<open>
  \<open>variables[name]\<close> for a name matched by \<open>[a-zA-Z0-9]+\<close>: an own property, or else a method
  that every object inherits from \<open>Object.prototype\<close>; a method is truthy and turns into its
  source text when it replaces the match (in V8's layout).
\<close>

definition inherited_methods :: "(jstr \<times> jstr) list" where
  "inherited_methods =
     [(js ''constructor'', js ''Object''), (js ''hasOwnProperty'', js ''hasOwnProperty''),
      (js ''isPrototypeOf'', js ''isPrototypeOf''),
      (js ''propertyIsEnumerable'', js ''propertyIsEnumerable''),
      (js ''toLocaleString'', js ''toLocaleString''), (js ''toString'', js ''toString''),
      (js ''valueOf'', js ''valueOf'')]"

definition native_function_text :: "jstr \<Rightarrow> jstr" where
  "native_function_text f = js ''function '' @ f @ js ''() { [native code] }''"

definition lookup_variable :: "WorkbenchVariables \<Rightarrow> jstr \<Rightarrow> jstr option" where
  "lookup_variable variables name =
     (case List.find (\<lambda>n. var_text n = name) var_names of
        Some n \<Rightarrow> Some (get_var variables n)
      | None \<Rightarrow> map_option native_function_text (map_of inherited_methods name))"

text \<open>A match of \<open>\{\{([a-zA-Z0-9]+)\}\}\<close> at the start: the name and the text after it.\<close>

definition match_template :: "jstr \<Rightarrow> (jstr \<times> jstr) option" where
  "match_template s =
     (case s of
        a # b # r \<Rightarrow>
          if a = 0x7B \<and> b = 0x7B \<and> takeWhile is_alnum r \<noteq> []
             \<and> starts_with (dropWhile is_alnum r) (js ''}}'')
          then Some (takeWhile is_alnum r, drop 2 (dropWhile is_alnum r))
          else None
      | _ \<Rightarrow> None)"

definition template_replacement :: "WorkbenchVariables \<Rightarrow> jstr \<Rightarrow> jstr" where
  "template_replacement variables name =
     (case lookup_variable variables name of
        Some replacement \<Rightarrow>
          if replacement \<noteq> [] then replacement else js ''{{'' @ name @ js ''}}''
      | None \<Rightarrow> js ''{{'' @ name @ js ''}}'')"

lemma match_template_shorter: "match_template s = Some (name, rest) \<Longrightarrow> length rest < length s"
  using length_dropWhile_le [of is_alnum "tl (tl s)"]
  by (auto simp: match_template_def split: list.splits if_splits)

function resolveTemplateString :: "jstr \<Rightarrow> WorkbenchVariables \<Rightarrow> jstr" where
  "resolveTemplateString [] variables = []"
| "resolveTemplateString (c # cs) variables =
     (case match_template (c # cs) of
        Some (name, rest) \<Rightarrow>
          template_replacement variables name @ resolveTemplateString rest variables
      | None \<Rightarrow> c # resolveTemplateString cs variables)"
  by pat_completeness auto
termination
  by (relation "measure (\<lambda>(s, _). length s)") (auto dest: match_template_shorter)

fun materialize :: "json \<Rightarrow> WorkbenchVariables \<Rightarrow> json" where
  "materialize (JArr xs) variables = JArr (map (\<lambda>item. materialize item variables) xs)"
| "materialize (JObj kvs) variables =
     JObj (from_entries (map (\<lambda>(key, child). (key, materialize child variables)) kvs))"
| "materialize (JStr s) variables = JStr (resolveTemplateString s variables)"
| "materialize v variables = v"

subsection \<open>Bodies and drafts\<close>

text \<open>\<open>None\<close> in the result is \<open>undefined\<close>: an endpoint without a body.\<close>

definition parseRequestBody ::
  "(jstr \<Rightarrow> jstr) \<Rightarrow> EndpointDefinition \<Rightarrow> jstr \<Rightarrow> WorkbenchVariables \<Rightarrow> js_error + json option"
where
  "parseRequestBody num e body_text variables =
     (case ep_body e of
        None \<Rightarrow> Inr None
      | Some _ \<Rightarrow>
          map_sum id (\<lambda>v. Some (materialize v variables))
            (json_parse num (if body_text = [] then js ''{}'' else body_text)))"

definition parseResponse :: "(jstr \<Rightarrow> jstr) \<Rightarrow> jstr \<Rightarrow> json" where
  "parseResponse num raw =
     (if raw = [] then JNull
      else (case json_parse num raw of Inr v \<Rightarrow> v | Inl _ \<Rightarrow> JStr raw))"

text \<open>\<open>typeof v === "object" && v !== null\<close>.\<close>

fun is_object :: "json \<Rightarrow> bool" where
  "is_object (JArr _) = True"
| "is_object (JObj _) = True"
| "is_object _ = False"

definition formatResponse :: "'a ApiResult_scheme \<Rightarrow> jstr \<Rightarrow> jstr" where
  "formatResponse result emptyLabel =
     (if res_raw result = [] then emptyLabel
      else if is_object (res_data result) then json_stringify2 (res_data result)
      else res_raw result)"

definition resolved_parameters ::
  "EndpointParameter list \<Rightarrow> WorkbenchVariables \<Rightarrow> jstr obj" where
  "resolved_parameters ps variables =
     from_entries
       (map (\<lambda>p. (param_name p, resolveTemplateString (param_value p) variables)) ps)"

definition createDraft :: "EndpointDefinition \<Rightarrow> WorkbenchVariables \<Rightarrow> RequestDraft" where
  "createDraft e variables =
     \<lparr>pathValues = resolved_parameters (ep_pathParams e) variables,
      queryValues = resolved_parameters (ep_query e) variables,
      bodyText =
        (case ep_body e of
           None \<Rightarrow> []
         | Some b \<Rightarrow> json_stringify2 (materialize b variables))\<rparr>"

subsection \<open>Paths\<close>

text \<open>\<open>values[parameter.name] ?? parameter.value\<close>, resolved.\<close>

definition parameter_text ::
  "jstr obj \<Rightarrow> EndpointParameter \<Rightarrow> WorkbenchVariables \<Rightarrow> jstr" where
  "parameter_text values p variables =
     resolveTemplateString
       (case obj_get values (param_name p) of Some v \<Rightarrow> v | None \<Rightarrow> param_value p) variables"

fun fill_path ::
  "jstr obj \<Rightarrow> WorkbenchVariables \<Rightarrow> EndpointParameter list \<Rightarrow> jstr \<Rightarrow> js_error + jstr" where
  "fill_path values variables [] path = Inr path"
| "fill_path values variables (p # ps) path =
     and_then (encode_uri_component (parameter_text values p variables))
       (\<lambda>v. fill_path values variables ps
              (replace_first (js ''{'' @ param_name p @ js ''}'') v path))"

definition add_query ::
  "jstr obj \<Rightarrow> WorkbenchVariables \<Rightarrow> search_params \<Rightarrow> EndpointParameter \<Rightarrow> search_params" where
  "add_query values variables query p =
     (let v = parameter_text values p variables in
      if v \<noteq> [] \<and> \<not> starts_with v (js ''{{'') then params_set (param_name p) v query
      else query)"

definition build_query ::
  "jstr obj \<Rightarrow> WorkbenchVariables \<Rightarrow> EndpointParameter list \<Rightarrow> search_params" where
  "build_query values variables ps = foldl (add_query values variables) [] ps"

definition buildPath ::
  "EndpointDefinition \<Rightarrow> RequestDraft \<Rightarrow> WorkbenchVariables \<Rightarrow> js_error + jstr" where
  "buildPath e draft variables =
     and_then (fill_path (pathValues draft) variables (ep_pathParams e) (ep_path e))
       (\<lambda>path.
          let encoded = params_to_string (build_query (queryValues draft) variables (ep_query e))
          in Inr (if encoded \<noteq> [] then path @ js ''?'' @ encoded else path))"

definition buildPathFromDefinition ::
  "EndpointDefinition \<Rightarrow> WorkbenchVariables \<Rightarrow> js_error + jstr" where
  "buildPathFromDefinition e variables = buildPath e (createDraft e variables) variables"

subsection \<open>Headers\<close>

definition isUnsafe :: "jstr \<Rightarrow> bool" where
  "isUnsafe m \<longleftrightarrow> m \<notin> set [js ''GET'', js ''HEAD'', js ''OPTIONS'', js ''TRACE'']"

definition readCookie :: "jstr \<Rightarrow> jstr \<Rightarrow> js_error + jstr" where
  "readCookie name cookieValue =
     and_then (encode_uri_component name)
       (\<lambda>n.
          let prefix = n @ js ''='' in
          case List.find (\<lambda>c. starts_with c prefix) (split_str (js ''; '') cookieValue) of
            Some pair \<Rightarrow>
              if pair \<noteq> [] then decode_uri_component (slice_from (length prefix) pair) else Inr []
          | None \<Rightarrow> Inr [])"

definition base_headers :: "EndpointDefinition \<Rightarrow> jstr obj" where
  "base_headers e =
     (let headers = [(js ''Accept'', js ''application/json'')] in
      if ep_body e \<noteq> None
      then obj_set (js ''Content-Type'') (js ''application/json'') headers
      else headers)"

definition authorization_headers ::
  "EndpointDefinition \<Rightarrow> AuthMode \<Rightarrow> WorkbenchVariables \<Rightarrow> jstr obj \<Rightarrow> jstr obj" where
  "authorization_headers e authMode variables headers =
     (if ep_auth e \<noteq> PublicAuth then
        (let h1 =
           (if authMode = Bearer \<and> accessToken variables \<noteq> [] then
              obj_set (js ''Authorization'') (js ''Bearer '' @ accessToken variables) headers
            else headers)
         in
           if authMode = ApiKey \<and> apiKey variables \<noteq> [] then
             obj_set (js ''Authorization'') (js ''ApiKey '' @ apiKey variables) h1
           else h1)
      else headers)"

definition csrf_headers ::
  "EndpointDefinition \<Rightarrow> AuthMode \<Rightarrow> WorkbenchVariables \<Rightarrow> jstr \<Rightarrow> jstr obj
     \<Rightarrow> js_error + jstr obj" where
  "csrf_headers e authMode variables cookieValue headers =
     (if authMode = Cookie \<and> isUnsafe (method_text (ep_method e)) then
        and_then (readCookie (js ''__Host-auth.csrf'') cookieValue)
          (\<lambda>c.
             let csrf = (if c \<noteq> [] then c else csrfToken variables) in
             Inr (if csrf \<noteq> [] then obj_set (js ''X-CSRF-Token'') csrf headers else headers))
      else Inr headers)"

definition transport_headers :: "EndpointDefinition \<Rightarrow> AuthMode \<Rightarrow> jstr obj \<Rightarrow> jstr obj" where
  "transport_headers e authMode headers =
     (if authMode = Cookie \<and> ep_id e \<in> set SESSION_ISSUING_ENDPOINTS
      then obj_set (js ''X-Auth-Transport'') (js ''cookie'') headers
      else headers)"

definition buildHeaders ::
  "EndpointDefinition \<Rightarrow> AuthMode \<Rightarrow> WorkbenchVariables \<Rightarrow> jstr \<Rightarrow> js_error + jstr obj" where
  "buildHeaders e authMode variables cookieValue =
     map_sum id (transport_headers e authMode)
       (csrf_headers e authMode variables cookieValue
          (authorization_headers e authMode variables (base_headers e)))"

text \<open>
  \<open>name.toLowerCase()\<close> compared with an ASCII literal without a k: no unit above ASCII
  lower-cases to one of its letters alone, so only the ASCII letters matter.
\<close>

definition ascii_lower :: "jstr \<Rightarrow> jstr" where
  "ascii_lower s = map (\<lambda>c. if is_upper c then c + 0x20 else c) s"

definition redactHeader :: "jstr \<Rightarrow> jstr \<Rightarrow> jstr" where
  "redactHeader name v =
     (if ascii_lower name \<noteq> js ''authorization'' then v
      else
        (let parts = take 2 (split_str (js '' '') v);
             scheme = (case parts of s # _ \<Rightarrow> s | [] \<Rightarrow> []);
             token = (case parts of _ # t # _ \<Rightarrow> t | _ \<Rightarrow> [])
         in
           if length token < 20 then scheme @ js '' '' @ replicate 8 0x2022
           else scheme @ js '' '' @ slice_to 12 token @ [0x2026] @ slice_last 5 token))"

subsection \<open>The cURL command\<close>

text \<open>A single quote ends the quoting, is quoted by double quotes, and opens it again.\<close>

definition shellEscape :: "jstr \<Rightarrow> jstr" where
  "shellEscape v = replace_unit 0x27 [0x27, 0x22, 0x27, 0x22, 0x27] v"

definition quoted :: "jstr \<Rightarrow> jstr" where
  "quoted v = [0x27] @ shellEscape v @ [0x27]"

text \<open>A space, a backslash, a line feed and two spaces.\<close>

definition continuation :: jstr where
  "continuation = [0x20, 0x5C, 0xA, 0x20, 0x20]"

definition createCurl ::
  "jstr \<Rightarrow> EndpointDefinition \<Rightarrow> jstr \<Rightarrow> json option \<Rightarrow> jstr obj \<Rightarrow> jstr" where
  "createCurl apiBase e path body headers =
     (let url = apiBase @ path;
          headerArguments =
            join_str continuation
              (map (\<lambda>(name, v). js ''-H '' @ quoted (name @ js '': '' @ v)) headers);
          bodyArgument =
            (case body of
               None \<Rightarrow> []
             | Some b \<Rightarrow> continuation @ js ''--data '' @ quoted (json_stringify b))
      in
        js ''curl -i -X '' @ method_text (ep_method e) @ js '' '' @ quoted url
          @ (if headerArguments \<noteq> [] then continuation @ headerArguments else [])
          @ bodyArgument)"

subsection \<open>Lemmas: templates\<close>

lemma match_template_brace: "match_template s \<noteq> None \<Longrightarrow> \<exists>t. s = js ''{{'' @ t"
  by (auto simp: match_template_def js_def split: list.splits if_splits)

text \<open>Text without an opening double brace is left alone.\<close>

lemma resolve_plain: "\<not> includes_str s (js ''{{'') \<Longrightarrow> resolveTemplateString s v = s"
proof (induction s)
  case (Cons c cs)
  have "match_template (c # cs) = None"
  proof (rule ccontr)
    assume "match_template (c # cs) \<noteq> None"
    from match_template_brace [OF this] Cons.prems show False by (auto simp: starts_with_iff)
  qed
  with Cons show ?case by simp
qed simp

lemma includes_brace: "0x7B \<notin> set s \<Longrightarrow> \<not> includes_str s (js ''{{'')"
  by (auto simp: includes_str_iff js_def)

lemma resolve_no_brace: "0x7B \<notin> set s \<Longrightarrow> resolveTemplateString s v = s"
  by (intro resolve_plain includes_brace)

lemma match_template_name:
  assumes "name \<noteq> []" and "list_all is_alnum name"
  shows "match_template (js ''{{'' @ name @ js ''}}'' @ rest) = Some (name, rest)"
proof -
  have b: "\<not> is_alnum 0x7D"
    by (simp add: is_alnum_def is_digit_def is_upper_def is_lower_def)
  have "takeWhile is_alnum (name @ js ''}}'' @ rest) = name
    \<and> dropWhile is_alnum (name @ js ''}}'' @ rest) = js ''}}'' @ rest"
    using assms(2) b by (induction name) (auto simp: js_def)
  with assms(1) show ?thesis by (simp add: match_template_def js_def starts_with_def)
qed

lemma resolve_template:
  assumes "name \<noteq> []" and "list_all is_alnum name"
  shows "resolveTemplateString (js ''{{'' @ name @ js ''}}'' @ rest) v
    = template_replacement v name @ resolveTemplateString rest v"
proof -
  have "match_template (0x7B # 0x7B # name @ js ''}}'' @ rest) = Some (name, rest)"
    using match_template_name [OF assms, of rest] by (simp add: js_def)
  then show ?thesis by (simp add: js_def)
qed

lemma var_text_alnum: "var_text n \<noteq> [] \<and> list_all is_alnum (var_text n)"
  by (cases n) (simp_all add: js_def is_alnum_def is_digit_def is_upper_def is_lower_def)

lemma lookup_variable_var [simp]: "lookup_variable v (var_text n) = Some (get_var v n)"
proof -
  have "List.find (\<lambda>m. var_text m = var_text n) var_names = Some n"
    by (cases n) (simp_all add: var_names_def)
  then show ?thesis by (simp add: lookup_variable_def)
qed

text \<open>A value of the vault replaces its template; an empty one leaves it as it is.\<close>

lemma resolve_variable:
  "resolveTemplateString (js ''{{'' @ var_text n @ js ''}}'') v
    = (if get_var v n \<noteq> [] then get_var v n else js ''{{'' @ var_text n @ js ''}}'')"
  using resolve_template [of "var_text n" "[]" v] var_text_alnum [of n]
  by (simp add: template_replacement_def)

subsection \<open>Lemmas: materialize keeps values well formed\<close>

lemma obj_update_map: "obj_update k (f v) (map (map_prod id f) ob) = map (map_prod id f) (obj_update k v ob)"
  by (induction k v ob rule: obj_update.induct) auto

lemma obj_insert_index_map:
  "obj_insert_index k (f v) (map (map_prod id f) ob) = map (map_prod id f) (obj_insert_index k v ob)"
  by (induction k v ob rule: obj_insert_index.induct) auto

lemma obj_set_map: "obj_set k (f v) (map (map_prod id f) ob) = map (map_prod id f) (obj_set k v ob)"
proof -
  have "fst ` set (map (map_prod id f) ob) = fst ` set ob" by force
  then show ?thesis by (simp add: obj_set_def obj_update_map obj_insert_index_map)
qed

lemma obj_merge_map:
  "obj_merge (map (map_prod id f) a) (map (map_prod id f) b) = map (map_prod id f) (obj_merge a b)"
  unfolding obj_merge_def
  by (induction b arbitrary: a) (auto simp: obj_set_map)

lemma from_entries_map: "from_entries (map (map_prod id f) kvs) = map (map_prod id f) (from_entries kvs)"
  using obj_merge_map [of f "[]" kvs] by (simp add: from_entries_def obj_merge_def)

lemma materialize_ok: "json_ok num v \<Longrightarrow> json_ok num (materialize v vars)"
proof (induction v vars rule: materialize.induct)
  case (2 kvs vars)
  let ?f = "\<lambda>c. materialize c vars"
  have eq: "map (\<lambda>(k, c). (k, materialize c vars)) kvs = map (map_prod id ?f) kvs" by auto
  from "2.prems" have "from_entries kvs = kvs" by simp
  then have ordered: "from_entries (map (map_prod id ?f) kvs) = map (map_prod id ?f) kvs"
    by (simp add: from_entries_map)
  have "json_ok num (materialize c vars)" if "(k, c) \<in> set kvs" for k c
    using 2 that by fastforce
  then have members: "\<forall>(k, c) \<in> set (map (map_prod id ?f) kvs). json_ok num c" by auto
  have "materialize (JObj kvs) vars = JObj (map (map_prod id ?f) kvs)"
    by (simp only: materialize.simps eq ordered)
  then show ?case
    by (simp only: json_ok.simps(3) ordered) (use members in blast)
qed auto

subsection \<open>Lemmas: drafts\<close>

text \<open>What the draft of an endpoint's body says is what parsing it gives back.\<close>

lemma parse_draft_body:
  assumes "\<And>b. ep_body e = Some b \<Longrightarrow> json_ok num b"
  shows "parseRequestBody num e (bodyText (createDraft e v)) w
    = Inr (map_option (\<lambda>b. materialize (materialize b v) w) (ep_body e))"
proof (cases "ep_body e")
  case (Some b)
  let ?t = "json_stringify2 (materialize b v)"
  have ok: "json_parse num ?t = Inr (materialize b v)"
    using assms [OF Some] by (intro parse_stringify2 materialize_ok)
  then have "?t \<noteq> []"
    by (auto simp: json_parse_def parse_fuel_def skip_ws_def)
  with ok Some show ?thesis
    by (simp add: parseRequestBody_def createDraft_def)
qed (simp add: parseRequestBody_def)

lemma ENDPOINTS_bodies_ok: "e \<in> set ENDPOINTS \<Longrightarrow> ep_body e = Some b \<Longrightarrow> json_ok num b"
  by (auto simp: ENDPOINTS_def EP_defs endpoint_def DEMO_user_def from_entries_def
      obj_set_def is_index_def js_def is_digit_def)

lemma parseRequestBody_error: "parseRequestBody num e t v = Inl err \<Longrightarrow> err = SyntaxError"
  by (cases "json_parse num (if t = [] then js ''{}'' else t)")
    (auto simp: parseRequestBody_def split: option.splits dest: json_parse_error)

subsection \<open>Lemmas: paths\<close>

text \<open>The placeholders of a path, in the order of its parameters.\<close>

definition not_brace :: "code_unit \<Rightarrow> bool" where
  "not_brace c \<longleftrightarrow> c \<noteq> 0x7B"

fun placeholders_ok :: "jstr list \<Rightarrow> jstr \<Rightarrow> bool" where
  "placeholders_ok [] path = list_all not_brace path"
| "placeholders_ok (n # ns) path =
     (list_all not_brace n
       \<and> starts_with (dropWhile not_brace path) (js ''{'' @ n @ js ''}'')
       \<and> placeholders_ok ns (drop (length n + 2) (dropWhile not_brace path)))"

fun expand_path :: "jstr list \<Rightarrow> jstr list \<Rightarrow> jstr \<Rightarrow> jstr" where
  "expand_path (n # ns) (v # vs) path =
     takeWhile not_brace path @ v
       @ expand_path ns vs (drop (length n + 2) (dropWhile not_brace path))"
| "expand_path _ _ path = path"

lemma replace_placeholder:
  assumes "list_all not_brace pre" and "0x24 \<notin> set v"
  shows "replace_first (js ''{'' @ n @ js ''}'') v (pre @ (js ''{'' @ n @ js ''}'') @ post)
    = pre @ v @ post"
proof (rule replace_first_plain [OF assms(2)])
  fix a b
  let ?pat = "js ''{'' @ n @ js ''}''"
  assume eq: "pre @ ?pat @ post = a @ ?pat @ b"
  show "length pre \<le> length a"
  proof (rule ccontr)
    assume "\<not> length pre \<le> length a"
    then have less: "length a < length pre" by simp
    have "(pre @ ?pat @ post) ! length a = pre ! length a" by (simp add: nth_append less)
    moreover have "(a @ ?pat @ b) ! length a = 0x7B" by (simp add: nth_append js_def)
    ultimately have "pre ! length a = 0x7B" using eq by simp
    moreover have "not_brace (pre ! length a)" using assms(1) less by (simp add: list_all_length)
    ultimately show False by (simp add: not_brace_def)
  qed
qed

lemma encoded_not_brace:
  "encode_uri_component s = Inr v \<Longrightarrow> list_all not_brace v \<and> 0x24 \<notin> set v"
  using encode_no_delimiters [of s v] by (auto simp: js_def not_brace_def list_all_iff)

lemma fill_path_expand:
  assumes "placeholders_ok (map param_name ps) path" and "list_all not_brace q"
    and "list_all2 (\<lambda>p v. encode_uri_component (parameter_text vals p vars) = Inr v) ps vs"
  shows "fill_path vals vars ps (q @ path) = Inr (q @ expand_path (map param_name ps) vs path)"
  using assms
proof (induction ps arbitrary: q path vs)
  case (Cons p ps)
  let ?n = "param_name p" and ?pre = "takeWhile not_brace path"
  let ?post = "drop (length ?n + 2) (dropWhile not_brace path)"
  from Cons.prems(3) obtain v vs' where vs: "vs = v # vs'"
    and v: "encode_uri_component (parameter_text vals p vars) = Inr v"
    and vs': "list_all2 (\<lambda>p v. encode_uri_component (parameter_text vals p vars) = Inr v) ps vs'"
    by (auto simp: list_all2_Cons1)
  from Cons.prems(1) obtain t where "dropWhile not_brace path = (js ''{'' @ ?n @ js ''}'') @ t"
    by (auto simp: starts_with_iff)
  then have drop: "dropWhile not_brace path = (js ''{'' @ ?n @ js ''}'') @ ?post"
    by (simp add: js_def)
  have pre: "list_all not_brace (q @ ?pre)"
    using Cons.prems(2) by (auto simp: list_all_iff dest: set_takeWhileD)
  have "q @ path = (q @ ?pre) @ (js ''{'' @ ?n @ js ''}'') @ ?post"
    using drop takeWhile_dropWhile_id [of not_brace path] by (metis append_assoc)
  then have "replace_first (js ''{'' @ ?n @ js ''}'') v (q @ path) = (q @ ?pre @ v) @ ?post"
    using replace_placeholder [OF pre, of v ?n ?post] encoded_not_brace [OF v] by simp
  moreover have "list_all not_brace (q @ ?pre @ v)"
    using pre encoded_not_brace [OF v] by simp
  then have "fill_path vals vars ps ((q @ ?pre @ v) @ ?post)
      = Inr ((q @ ?pre @ v) @ expand_path (map param_name ps) vs' ?post)"
    using Cons.prems(1) vs' by (intro Cons.IH) simp_all
  ultimately show ?case by (simp add: v vs)
qed simp

lemma fill_path_Inr_values:
  "fill_path vals vars ps path = Inr r \<Longrightarrow>
     \<exists>vs. list_all2 (\<lambda>p v. encode_uri_component (parameter_text vals p vars) = Inr v) ps vs"
proof (induction ps arbitrary: path)
  case (Cons p ps)
  from Cons.prems obtain v where v: "encode_uri_component (parameter_text vals p vars) = Inr v"
    and rest: "fill_path vals vars ps (replace_first (js ''{'' @ param_name p @ js ''}'') v path) = Inr r"
    by (auto simp: and_then_Inr_iff)
  from Cons.IH [OF rest] v show ?case by (auto simp: list_all2_Cons1)
qed (auto intro: exI [of _ "[]"])

lemma fill_path_error:
  "fill_path vals vars ps path = Inl err \<Longrightarrow> err = URIError"
  by (induction ps arbitrary: path) (auto simp: and_then_Inl_iff dest: encode_error)

lemma fill_path_defined:
  "(\<exists>r. fill_path vals vars ps path = Inr r)
    \<longleftrightarrow> (\<forall>p \<in> set ps. well_formed (parameter_text vals p vars))"
proof (induction ps arbitrary: path)
  case (Cons p ps)
  show ?case
  proof (cases "encode_uri_component (parameter_text vals p vars)")
    case (Inl err)
    then have "\<not> well_formed (parameter_text vals p vars)"
      using encode_defined_iff [of "parameter_text vals p vars"] by simp
    with Inl show ?thesis by simp
  next
    case (Inr v)
    then have "well_formed (parameter_text vals p vars)"
      using encode_defined_iff [of "parameter_text vals p vars"] by blast
    with Inr Cons.IH show ?thesis by simp
  qed
qed simp

lemma ENDPOINTS_placeholders:
  "\<forall>e \<in> set ENDPOINTS. placeholders_ok (map param_name (ep_pathParams e)) (ep_path e)"
  by (simp add: ENDPOINTS_def not_brace_def js_def starts_with_def)

definition query_suffix :: "search_params \<Rightarrow> jstr" where
  "query_suffix q = (if q = [] then [] else js ''?'' @ params_to_string q)"

lemma buildPath_eq:
  "buildPath e d v =
     map_sum id (\<lambda>path. path @ query_suffix (build_query (queryValues d) v (ep_query e)))
       (fill_path (pathValues d) v (ep_pathParams e) (ep_path e))"
  by (cases "fill_path (pathValues d) v (ep_pathParams e) (ep_path e)")
    (auto simp: buildPath_def query_suffix_def Let_def)

subsection \<open>Lemmas: the cURL command in a shell\<close>

text \<open>
  The words a POSIX shell splits a command into, for commands that use only single quotes,
  double quotes around plain text, escaped line feeds and unquoted plain characters.
  \<open>None\<close>: the command is unfinished, or something in it would be expanded or would end it.
\<close>

datatype shell_mode = Between | Bare | Single | Double

definition shell_plain :: "code_unit \<Rightarrow> bool" where
  "shell_plain c \<longleftrightarrow> is_alnum c \<or> c \<in> set (js ''-./:_'')"

fun shell_words :: "shell_mode \<Rightarrow> jstr \<Rightarrow> jstr \<Rightarrow> jstr list option" where
  "shell_words Between cur [] = Some []"
| "shell_words Bare cur [] = Some [rev cur]"
| "shell_words Single cur [] = None"
| "shell_words Double cur [] = None"
| "shell_words Single cur (c # cs) =
     (if c = 0x27 then shell_words Bare cur cs else shell_words Single (c # cur) cs)"
| "shell_words Double cur (c # cs) =
     (if c = 0x22 then shell_words Bare cur cs
      else if c \<in> set (js ''$`'') \<or> c = 0x5C then None
      else shell_words Double (c # cur) cs)"
| "shell_words Between cur (c # cs) =
     (if c = 0x20 then shell_words Between [] cs
      else if c = 0x5C then
        (case cs of d # ds \<Rightarrow> if d = 0xA then shell_words Between [] ds else None | [] \<Rightarrow> None)
      else if c = 0x27 then shell_words Single [] cs
      else if c = 0x22 then shell_words Double [] cs
      else if shell_plain c then shell_words Bare [c] cs
      else None)"
| "shell_words Bare cur (c # cs) =
     (if c = 0x20 then map_option (\<lambda>ws. rev cur # ws) (shell_words Between [] cs)
      else if c = 0x5C then
        (case cs of d # ds \<Rightarrow> if d = 0xA then shell_words Bare cur ds else None | [] \<Rightarrow> None)
      else if c = 0x27 then shell_words Single cur cs
      else if c = 0x22 then shell_words Double cur cs
      else if shell_plain c then shell_words Bare (c # cur) cs
      else None)"

lemma shell_single_escape:
  "shell_words Single cur (shellEscape v @ 0x27 # rest) = shell_words Bare (rev v @ cur) rest"
proof (induction v arbitrary: cur)
  case (Cons c v)
  then show ?case
    by (simp add: shellEscape_def replace_unit_Cons js_def)
qed (simp add: shellEscape_def)

lemma shell_plain_not_special:
  "shell_plain c \<Longrightarrow> c \<noteq> 0x20 \<and> c \<noteq> 0x5C \<and> c \<noteq> 0x27 \<and> c \<noteq> 0x22"
  by (auto simp: shell_plain_def is_alnum_def is_digit_def is_upper_def is_lower_def js_def)

lemma shell_bare_plain:
  "list_all shell_plain w \<Longrightarrow> shell_words Bare cur (w @ rest) = shell_words Bare (rev w @ cur) rest"
proof (induction w arbitrary: cur)
  case (Cons c w)
  then show ?case using shell_plain_not_special [of c] by simp
qed simp

lemma shell_between_plain:
  "w \<noteq> [] \<Longrightarrow> list_all shell_plain w \<Longrightarrow>
     shell_words Between cur (w @ rest) = shell_words Bare (rev w) rest"
  using shell_plain_not_special [of "hd w"] shell_bare_plain [of "tl w" "[hd w]" rest]
  by (cases w) auto

text \<open>A plain word and a quoted word, each followed by a blank.\<close>

lemma shell_word_plain:
  "w \<noteq> [] \<Longrightarrow> list_all shell_plain w \<Longrightarrow>
     shell_words Between cur (w @ 0x20 # rest) = map_option (\<lambda>ws. w # ws) (shell_words Between [] rest)"
  by (simp add: shell_between_plain)

lemma shell_word_quoted:
  "shell_words Between cur (quoted v @ rest) = shell_words Bare (rev v) rest"
  by (simp add: quoted_def shell_single_escape)

lemma shell_continuation:
  "shell_words Bare cur (continuation @ rest)
    = map_option (\<lambda>ws. rev cur # ws) (shell_words Between [] rest)"
  by (simp add: continuation_def)

lemma shell_plain_lits [simp]:
  "list_all shell_plain (js ''curl'')" "list_all shell_plain (js ''-i'')"
  "list_all shell_plain (js ''-X'')" "list_all shell_plain (js ''-H'')"
  "list_all shell_plain (js ''--data'')" "list_all shell_plain (method_text m)"
  by (simp_all add: js_def shell_plain_def is_alnum_def is_digit_def is_upper_def is_lower_def)
    (cases m; simp add: js_def shell_plain_def is_alnum_def is_digit_def is_upper_def is_lower_def)

lemma method_text_nonempty [simp]: "method_text m \<noteq> []"
  by (cases m) simp_all

definition header_argument :: "jstr \<times> jstr \<Rightarrow> jstr" where
  "header_argument h = fst h @ js '': '' @ snd h"

lemma shell_headers:
  assumes rest: "\<And>cur. shell_words Bare cur rest = map_option (\<lambda>ws. rev cur # ws) tail"
    and "hs \<noteq> []"
  shows "shell_words Between []
      (join_str continuation (map (\<lambda>(name, v). js ''-H '' @ quoted (name @ js '': '' @ v)) hs) @ rest)
    = map_option (\<lambda>ws. concat (map (\<lambda>h. [js ''-H'', header_argument h]) hs) @ ws) tail"
  using assms(2)
proof (induction hs)
  case (Cons h hs)
  obtain n v where h: "h = (n, v)" by fastforce
  have H: "js ''-H '' @ t = js ''-H'' @ 0x20 # t" for t by (simp add: js_def)
  show ?case
  proof (cases hs)
    case Nil
    then show ?thesis
      by (simp add: h H shell_word_plain shell_word_quoted rest header_argument_def
          option.map_comp comp_def)
  next
    case (Cons h' hs')
    with Cons.IH show ?thesis
      by (simp add: h H shell_word_plain shell_word_quoted shell_continuation header_argument_def
          option.map_comp comp_def)
  qed
qed simp

lemma shell_data:
  "shell_words Bare cur
     (case body of None \<Rightarrow> [] | Some b \<Rightarrow> continuation @ js ''--data '' @ quoted (json_stringify b))
    = Some (rev cur # (case body of None \<Rightarrow> [] | Some b \<Rightarrow> [js ''--data'', json_stringify b]))"
proof -
  have D: "js ''--data '' @ t = js ''--data'' @ 0x20 # t" for t by (simp add: js_def)
  show ?thesis
    using shell_word_quoted [of "[]" _ "[]"]
    by (cases body) (simp_all add: shell_continuation D shell_word_plain)
qed

lemma curl_words:
  "shell_words Between [] (createCurl apiBase e path body headers)
    = Some ([js ''curl'', js ''-i'', js ''-X'', method_text (ep_method e), apiBase @ path]
        @ concat (map (\<lambda>h. [js ''-H'', header_argument h]) headers)
        @ (case body of None \<Rightarrow> [] | Some b \<Rightarrow> [js ''--data'', json_stringify b]))"
proof -
  let ?data = "case body of None \<Rightarrow> [] | Some b \<Rightarrow> continuation @ js ''--data '' @ quoted (json_stringify b)"
  let ?hs = "join_str continuation
      (map (\<lambda>(name, v). js ''-H '' @ quoted (name @ js '': '' @ v)) headers)"
  have C: "js ''curl -i -X '' @ t = js ''curl'' @ 0x20 # js ''-i'' @ 0x20 # js ''-X'' @ 0x20 # t"
    and S: "js '' '' @ t = 0x20 # t" for t
    by (simp_all add: js_def)
  have Nil_iff: "?hs = [] \<longleftrightarrow> headers = []"
    by (cases headers; cases "tl headers") (auto simp: js_def)
  show ?thesis
  proof (cases headers)
    case Nil
    then show ?thesis
      by (simp add: createCurl_def Let_def C S shell_word_plain shell_word_quoted shell_data)
  next
    case (Cons h hs)
    then have "?hs \<noteq> []" using Nil_iff by simp
    moreover have "shell_words Between [] (?hs @ ?data) =
        Some (concat (map (\<lambda>h. [js ''-H'', header_argument h]) headers)
          @ (case body of None \<Rightarrow> [] | Some b \<Rightarrow> [js ''--data'', json_stringify b]))"
      using shell_headers [of ?data
          "Some (case body of None \<Rightarrow> [] | Some b \<Rightarrow> [js ''--data'', json_stringify b])" headers]
      by (simp add: shell_data Cons)
    ultimately show ?thesis
      by (simp add: createCurl_def Let_def C S shell_word_plain shell_word_quoted
          shell_continuation)
  qed
qed

subsection \<open>Lemmas: redaction\<close>

lemma split_go_no_sep:
  "c \<notin> set s \<Longrightarrow> split_go [c] acc 0 s = [rev acc @ s]"
  by (induction s arbitrary: acc) auto

lemma split_go_first:
  "c \<notin> set s \<Longrightarrow> split_go [c] acc 0 (s @ c # t) = (rev acc @ s) # split_go [c] [] 0 t"
  by (induction s arbitrary: acc) auto

lemma split_scheme_token:
  assumes "0x20 \<notin> set scheme" and "0x20 \<notin> set token"
  shows "split_str (js '' '') (scheme @ js '' '' @ token) = [scheme, token]"
  using assms by (simp add: split_str_def js_def split_go_first split_go_no_sep)

lemma redact_authorization:
  assumes "ascii_lower name = js ''authorization''"
    and "0x20 \<notin> set scheme" and "0x20 \<notin> set token"
  shows "redactHeader name (scheme @ js '' '' @ token) =
    (if length token < 20 then scheme @ js '' '' @ replicate 8 0x2022
     else scheme @ js '' '' @ take 12 token @ [0x2026] @ drop (length token - 5) token)"
  by (simp add: redactHeader_def assms(1) split_scheme_token [OF assms(2,3)] slice_to_def
      slice_last_def)

subsection \<open>Lemmas: cookies\<close>

lemma split_go_cookie:
  "0x3B \<notin> set p \<Longrightarrow> rest = [] \<or> (\<exists>r. rest = js ''; '' @ r) \<Longrightarrow>
     \<exists>ps. split_go (js ''; '') acc 0 (p @ rest) = (rev acc @ p) # ps"
proof (induction p arbitrary: acc)
  case Nil
  then show ?case by (auto simp: js_def)
next
  case (Cons c p)
  from Cons.prems have no: "\<not> starts_with ((c # p) @ rest) (js ''; '')" by (auto simp: js_def)
  from Cons.IH [of "c # acc"] Cons.prems
  obtain ps where "split_go (js ''; '') (c # acc) 0 (p @ rest) = (rev (c # acc) @ p) # ps" by auto
  with no show ?case by simp
qed

lemma readCookie_first:
  assumes n: "encode_uri_component name = Inr n" and v: "encode_uri_component v = Inr ev"
    and tail: "rest = [] \<or> (\<exists>r. rest = js ''; '' @ r)"
  shows "readCookie name (n @ js ''='' @ ev @ rest) = Inr v"
proof -
  let ?pair = "n @ js ''='' @ ev"
  have plain: "0x3B \<notin> set ?pair"
  proof -
    have "\<not> uri_unreserved 0x3B" "(0x3B :: code_unit) \<noteq> 0x25"
      by (auto simp: js_def uri_unreserved_def is_alnum_def is_digit_def is_upper_def is_lower_def)
    then have "0x3B \<notin> set n" "0x3B \<notin> set ev"
      using encode_units [OF n, of "0x3B"] encode_units [OF v, of "0x3B"] by auto
    then show ?thesis by (simp add: js_def)
  qed
  obtain ps where "split_str (js ''; '') (?pair @ rest) = ?pair # ps"
    using split_go_cookie [OF plain tail, of "[]"] by (auto simp: split_str_def)
  then have "split_str (js ''; '') (n @ js ''='' @ ev @ rest) = ?pair # ps" by simp
  moreover have "decode_uri_component ev = Inr v" using v by (rule decode_encode)
  ultimately show ?thesis
    using starts_with_append [of "n @ js ''=''" ev]
    by (simp add: readCookie_def n slice_from_def)
qed

lemma decode_error: "decode_uri_component s = Inl e \<Longrightarrow> e = URIError"
proof (induction s rule: decode_uri_component.induct)
  case (2 c cs)
  have inl: "map_sum id f m = Inl e \<longleftrightarrow> m = Inl e" for f :: "jstr \<Rightarrow> jstr" and m
    by (cases m) auto
  from 2 show ?case by (auto simp: inl split: if_splits option.splits)
qed simp

lemma readCookie_error: "readCookie name c = Inl e \<Longrightarrow> e = URIError"
  by (auto simp: readCookie_def and_then_Inl_iff Let_def
      dest: encode_error decode_error split: option.splits if_splits)

lemma readCookie_empty:
  "encode_uri_component name = Inr n \<Longrightarrow> readCookie name [] = Inr []"
  by (simp add: readCookie_def split_str_def js_def)

lemma csrf_cookie_name: "encode_uri_component (js ''__Host-auth.csrf'') = Inr (js ''__Host-auth.csrf'')"
  by (simp add: js_def uri_unreserved_def is_alnum_def is_digit_def is_upper_def is_lower_def)

subsection \<open>Lemmas: headers\<close>

lemma isUnsafe_method: "isUnsafe (method_text m) \<longleftrightarrow> m \<noteq> GET"
  by (cases m) (simp_all add: isUnsafe_def)

definition csrf_value :: "WorkbenchVariables \<Rightarrow> jstr \<Rightarrow> jstr" where
  "csrf_value variables cookie = (if cookie \<noteq> [] then cookie else csrfToken variables)"

text \<open>The value of each header, read off the request's mode and the vault.\<close>

definition authorization_of ::
  "EndpointDefinition \<Rightarrow> AuthMode \<Rightarrow> WorkbenchVariables \<Rightarrow> jstr option" where
  "authorization_of e m v =
     (if ep_auth e = PublicAuth then None
      else case m of
        Bearer \<Rightarrow> if accessToken v \<noteq> [] then Some (js ''Bearer '' @ accessToken v) else None
      | ApiKey \<Rightarrow> if apiKey v \<noteq> [] then Some (js ''ApiKey '' @ apiKey v) else None
      | Cookie \<Rightarrow> None)"

definition headers_of ::
  "EndpointDefinition \<Rightarrow> AuthMode \<Rightarrow> WorkbenchVariables \<Rightarrow> jstr \<Rightarrow> jstr \<Rightarrow> jstr option" where
  "headers_of e m v cookie =
     [js ''Accept'' \<mapsto> js ''application/json'']
       (js ''Content-Type'' := (if ep_body e \<noteq> None then Some (js ''application/json'') else None),
        js ''Authorization'' := authorization_of e m v,
        js ''X-CSRF-Token'' :=
          (if m = Cookie \<and> ep_method e \<noteq> GET \<and> csrf_value v cookie \<noteq> []
           then Some (csrf_value v cookie) else None),
        js ''X-Auth-Transport'' :=
          (if m = Cookie \<and> ep_id e \<in> set SESSION_ISSUING_ENDPOINTS
           then Some (js ''cookie'') else None))"

lemma map_of_authorization_headers:
  "map_of (authorization_headers e m v h) =
    (case authorization_of e m v of None \<Rightarrow> map_of h | Some a \<Rightarrow> (map_of h)(js ''Authorization'' \<mapsto> a))"
  by (cases m) (simp_all add: authorization_headers_def authorization_of_def Let_def)

lemma map_of_transport_headers:
  "map_of (transport_headers e m h) =
    (if m = Cookie \<and> ep_id e \<in> set SESSION_ISSUING_ENDPOINTS
     then (map_of h)(js ''X-Auth-Transport'' \<mapsto> js ''cookie'') else map_of h)"
  by (simp add: transport_headers_def)

lemma csrf_headers_Inr:
  assumes "m = Cookie \<Longrightarrow> ep_method e \<noteq> GET \<Longrightarrow> readCookie (js ''__Host-auth.csrf'') cookies = Inr c"
  shows "\<exists>h'. csrf_headers e m v cookies h = Inr h' \<and>
    map_of h' = (if m = Cookie \<and> ep_method e \<noteq> GET \<and> csrf_value v c \<noteq> []
      then (map_of h)(js ''X-CSRF-Token'' \<mapsto> csrf_value v c) else map_of h)"
  using assms by (cases "m = Cookie \<and> ep_method e \<noteq> GET")
    (auto simp: csrf_headers_def isUnsafe_method csrf_value_def Let_def)

lemma map_of_base_headers:
  "map_of (base_headers e) =
    (if ep_body e \<noteq> None
     then [js ''Accept'' \<mapsto> js ''application/json'', js ''Content-Type'' \<mapsto> js ''application/json'']
     else [js ''Accept'' \<mapsto> js ''application/json''])"
  by (simp add: base_headers_def Let_def)

lemma buildHeaders_eq:
  assumes "m = Cookie \<Longrightarrow> ep_method e \<noteq> GET \<Longrightarrow> readCookie (js ''__Host-auth.csrf'') cookies = Inr c"
  shows "\<exists>h. buildHeaders e m v cookies = Inr h \<and> map_of h = headers_of e m v c"
proof -
  let ?h1 = "authorization_headers e m v (base_headers e)"
  obtain h2 where "csrf_headers e m v cookies ?h1 = Inr h2" and "map_of h2 =
      (if m = Cookie \<and> ep_method e \<noteq> GET \<and> csrf_value v c \<noteq> []
       then (map_of ?h1)(js ''X-CSRF-Token'' \<mapsto> csrf_value v c) else map_of ?h1)"
    using csrf_headers_Inr [of m e cookies c v ?h1] assms by blast
  then show ?thesis
    by (auto simp: buildHeaders_def map_of_transport_headers map_of_authorization_headers
        map_of_base_headers headers_of_def fun_eq_iff split: option.splits)
qed

lemma buildHeaders_error:
  "buildHeaders e m v cookies = Inl err \<Longrightarrow>
     err = URIError \<and> m = Cookie \<and> ep_method e \<noteq> GET"
  by (cases "csrf_headers e m v cookies (authorization_headers e m v (base_headers e))")
    (auto simp: buildHeaders_def csrf_headers_def and_then_Inl_iff isUnsafe_method Let_def
      dest: readCookie_error split: if_splits)

subsection \<open>Properties of drafts and paths\<close>

lemma count_takeWhile_drop:
  "placeholders_ok (n # ns) path \<Longrightarrow>
     count_list path c = count_list (takeWhile not_brace path) c
       + count_list (js ''{'' @ n @ js ''}'') c
       + count_list (drop (length n + 2) (dropWhile not_brace path)) c"
proof -
  assume ok: "placeholders_ok (n # ns) path"
  then obtain t where t: "dropWhile not_brace path = (js ''{'' @ n @ js ''}'') @ t"
    by (auto simp: starts_with_iff)
  then have "drop (length n + 2) (dropWhile not_brace path) = t" by (simp add: js_def)
  then show ?thesis
    using takeWhile_dropWhile_id [of not_brace path] t count_list_append by (metis group_cancel.add1)
qed

lemma count_expand_path:
  assumes "placeholders_ok ns path" and "length vs = length ns"
    and "c \<notin> set (js ''{}'')" and "\<forall>n \<in> set ns. c \<notin> set n" and "\<forall>v \<in> set vs. c \<notin> set v"
  shows "count_list (expand_path ns vs path) c = count_list path c"
  using assms
proof (induction ns vs path rule: expand_path.induct)
  case (1 n ns v vs path)
  have "count_list v c = 0" "count_list (js ''{'' @ n @ js ''}'') c = 0"
    using "1.prems" by (simp_all add: js_def)
  with 1 count_takeWhile_drop [OF "1.prems"(1)] show ?case by simp
qed simp_all

lemma ENDPOINTS_plain_names:
  "\<forall>e \<in> set ENDPOINTS. \<forall>n \<in> set (map param_name (ep_pathParams e)). set (js ''/?#'') \<inter> set n = {}"
  by (simp add: ENDPOINTS_def js_def)

lemma count_query_suffix:
  assumes "c \<in> set (js ''/?#'')"
  shows "count_list (query_suffix q) c = (if c = 0x3F \<and> q \<noteq> [] then 1 else 0)"
proof -
  have no: "c \<notin> set (form_encode s)" for s
    using assms form_encode_no_delimiters [of s] by (auto simp: js_def)
  have "c \<notin> set (params_to_string q)"
    unfolding params_to_string_def
  proof (induction q)
    case (Cons p q)
    then show ?case using assms no by (cases q; cases p) (auto simp: js_def)
  qed simp
  then show ?thesis by (auto simp: query_suffix_def js_def)
qed

text \<open>C16: For every endpoint of the catalogue, the body text of a fresh draft is valid
  JSON whatever the vault holds, and parsing it for sending gives exactly the endpoint's body
  with the vault's values put in (\<open>undefined\<close> when it has no body).\<close>

theorem draft_body:
  "e \<in> set ENDPOINTS \<Longrightarrow>
     parseRequestBody num e (bodyText (createDraft e v)) w
       = Inr (map_option (\<lambda>b. materialize (materialize b v) w) (ep_body e))"
  by (intro parse_draft_body ENDPOINTS_bodies_ok)

theorem draft_body_witness:
  "parseRequestBody id EP_auth_login (bodyText (createDraft EP_auth_login EMPTY_VARIABLES)) EMPTY_VARIABLES
     = Inr (map_option (\<lambda>b. materialize (materialize b EMPTY_VARIABLES) EMPTY_VARIABLES)
         (ep_body EP_auth_login))"
  by (rule draft_body) (simp add: EP_in_ENDPOINTS)

lemma buildPath_catalogue:
  assumes "e \<in> set ENDPOINTS"
  shows "buildPath e d v = Inr r \<longleftrightarrow>
    (\<exists>vs. list_all2 (\<lambda>p x. encode_uri_component (parameter_text (pathValues d) p v) = Inr x)
            (ep_pathParams e) vs
       \<and> r = expand_path (map param_name (ep_pathParams e)) vs (ep_path e)
               @ query_suffix (build_query (queryValues d) v (ep_query e)))"
    (is "?l \<longleftrightarrow> ?r")
proof -
  have ok: "placeholders_ok (map param_name (ep_pathParams e)) (ep_path e)"
    using assms ENDPOINTS_placeholders by blast
  note expand = fill_path_expand [OF ok, of "[]", simplified]
  show ?thesis
  proof
    assume ?l
    then obtain p where p: "fill_path (pathValues d) v (ep_pathParams e) (ep_path e) = Inr p"
      and r: "r = p @ query_suffix (build_query (queryValues d) v (ep_query e))"
      by (cases "fill_path (pathValues d) v (ep_pathParams e) (ep_path e)")
        (auto simp: buildPath_eq)
    from fill_path_Inr_values [OF p] obtain vs where vs: "list_all2
        (\<lambda>p x. encode_uri_component (parameter_text (pathValues d) p v) = Inr x) (ep_pathParams e) vs"
      by blast
    from expand [OF vs] p r vs show ?r by auto
  next
    assume ?r
    then show ?l by (auto simp: buildPath_eq dest: expand)
  qed
qed

text \<open>C17: For every endpoint of the catalogue, the path that is built is the
  endpoint's path with each placeholder replaced by its own encoded value, in order, with
  the query string after it; there is no other result.\<close>

theorem path_expansion:
  assumes "e \<in> set ENDPOINTS"
  shows "buildPath e d v = Inr r \<longleftrightarrow>
    (\<exists>vs. list_all2 (\<lambda>p x. encode_uri_component (parameter_text (pathValues d) p v) = Inr x)
            (ep_pathParams e) vs
       \<and> r = expand_path (map param_name (ep_pathParams e)) vs (ep_path e)
               @ query_suffix (build_query (queryValues d) v (ep_query e)))"
  using assms by (rule buildPath_catalogue)

theorem path_expansion_witness:
  "buildPath EP_auth_login (createDraft EP_auth_login EMPTY_VARIABLES) EMPTY_VARIABLES
     = Inr (js ''/api/v1/auth/login'')"
  using path_expansion [of EP_auth_login "createDraft EP_auth_login EMPTY_VARIABLES" EMPTY_VARIABLES
      "js ''/api/v1/auth/login''"]
  by (simp add: EP_in_ENDPOINTS query_suffix_def build_query_def)

text \<open>C18: No value typed into a parameter adds a segment, a second query or a
  fragment to the path of an endpoint of the catalogue: the built path has the slashes of
  the endpoint's path, no \<open>#\<close>, and one \<open>?\<close> exactly when the query is not empty.\<close>

theorem path_injection:
  assumes "e \<in> set ENDPOINTS" and "buildPath e d v = Inr r"
  shows "count_list r 0x2F = count_list (ep_path e) 0x2F \<and> 0x23 \<notin> set r
    \<and> count_list r 0x3F = (if build_query (queryValues d) v (ep_query e) = [] then 0 else 1)"
proof -
  let ?ns = "map param_name (ep_pathParams e)" and ?q = "build_query (queryValues d) v (ep_query e)"
  have ok: "placeholders_ok ?ns (ep_path e)" using assms(1) ENDPOINTS_placeholders by blast
  have clean: "count_list (ep_path e) 0x3F = 0 \<and> count_list (ep_path e) 0x23 = 0"
  proof -
    have "\<forall>e \<in> set ENDPOINTS. count_list (ep_path e) 0x3F = 0 \<and> count_list (ep_path e) 0x23 = 0"
      by (simp add: ENDPOINTS_def js_def)
    then show ?thesis using assms(1) by blast
  qed
  obtain vs where enc: "list_all2
      (\<lambda>p x. encode_uri_component (parameter_text (pathValues d) p v) = Inr x) (ep_pathParams e) vs"
    and r: "r = expand_path ?ns vs (ep_path e) @ query_suffix ?q"
    using buildPath_catalogue [OF assms(1), of d v r] assms(2) by blast
  have "count_list r c = count_list (ep_path e) c + (if c = 0x3F \<and> ?q \<noteq> [] then 1 else 0)"
    if c: "c \<in> set (js ''/?#'')" for c
  proof -
    have "\<forall>x \<in> set vs. c \<notin> set x"
      using enc c encode_no_delimiters by (fastforce simp: list_all2_conv_all_nth in_set_conv_nth js_def)
    moreover have "\<forall>n \<in> set ?ns. c \<notin> set n"
      using ENDPOINTS_plain_names assms(1) c by blast
    moreover have "c \<notin> set (js ''{}'')" using c by (auto simp: js_def)
    ultimately have "count_list (expand_path ?ns vs (ep_path e)) c = count_list (ep_path e) c"
      using enc by (intro count_expand_path ok) (auto dest: list_all2_lengthD)
    then show ?thesis using count_query_suffix [OF c, of ?q] by (simp add: r)
  qed
  from this [of "0x2F"] this [of "0x23"] this [of "0x3F"] clean show ?thesis
    by (simp add: js_def count_list_0_iff)
qed
theorem path_injection_witness:
  "count_list (js ''/api/v1/auth/login'') 0x2F = count_list (ep_path EP_auth_login) 0x2F
     \<and> 0x23 \<notin> set (js ''/api/v1/auth/login'') \<and> count_list (js ''/api/v1/auth/login'') 0x3F = 0"
proof -
  let ?d = "createDraft EP_auth_login EMPTY_VARIABLES"
  have "fill_path (pathValues ?d) EMPTY_VARIABLES (ep_pathParams EP_auth_login) (ep_path EP_auth_login)
      = Inr (js ''/api/v1/auth/login'')" by simp
  then have "buildPath EP_auth_login ?d EMPTY_VARIABLES = Inr (js ''/api/v1/auth/login'')"
    by (simp add: buildPath_eq query_suffix_def build_query_def)
  from path_injection [OF _ this] show ?thesis by (simp add: EP_in_ENDPOINTS build_query_def)
qed

text \<open>Building a path fails exactly when some path value holds a lone surrogate,
  and then with a \<open>URIError\<close>.\<close>

theorem path_errors:
  "buildPath e d v = Inl err \<longleftrightarrow>
     err = URIError \<and>
     \<not> list_all (\<lambda>p. well_formed (parameter_text (pathValues d) p v)) (ep_pathParams e)"
  using fill_path_defined [of "pathValues d" v "ep_pathParams e" "ep_path e"]
    fill_path_error [of "pathValues d" v "ep_pathParams e" "ep_path e"]
  by (cases "fill_path (pathValues d) v (ep_pathParams e) (ep_path e)")
    (auto simp: buildPath_eq list_all_iff)

text \<open>A template: plain text without a brace, and names of the vault in double braces.\<close>

datatype segment = Plain jstr | Hole VarName

fun segment_text :: "segment \<Rightarrow> jstr" where
  "segment_text (Plain s) = s"
| "segment_text (Hole n) = js ''{{'' @ var_text n @ js ''}}''"

fun segment_value :: "WorkbenchVariables \<Rightarrow> segment \<Rightarrow> jstr" where
  "segment_value v (Plain s) = s"
| "segment_value v (Hole n) =
     (if get_var v n \<noteq> [] then get_var v n else js ''{{'' @ var_text n @ js ''}}'')"

fun segment_ok :: "segment \<Rightarrow> bool" where
  "segment_ok (Plain s) = (0x7B \<notin> set s)"
| "segment_ok (Hole n) = True"

lemma resolve_plain_prefix:
  "0x7B \<notin> set s \<Longrightarrow> resolveTemplateString (s @ t) v = s @ resolveTemplateString t v"
proof (induction s)
  case (Cons c s)
  have "match_template (c # s @ t) = None"
  proof (rule ccontr)
    assume "match_template (c # s @ t) \<noteq> None"
    from match_template_brace [OF this] Cons.prems show False by (auto simp: js_def)
  qed
  with Cons show ?case by simp
qed simp

lemma resolve_segments:
  "list_all segment_ok ss \<Longrightarrow>
     resolveTemplateString (concat (map segment_text ss)) v = concat (map (segment_value v) ss)"
proof (induction ss)
  case (Cons s ss)
  show ?case
  proof (cases s)
    case (Plain t)
    with Cons show ?thesis by (simp add: resolve_plain_prefix)
  next
    case (Hole n)
    with Cons resolve_template [of "var_text n" "concat (map segment_text ss)" v] var_text_alnum [of n]
    show ?thesis by (simp add: template_replacement_def)
  qed
qed simp

text \<open>C19: Resolving a template replaces every name of the vault in double
  braces by its value, in place and in one pass (a value that looks like a template is not
  resolved again), leaves a name whose value is empty as it stands, and leaves the text
  between the names unchanged.\<close>

theorem template_resolution:
  "list_all segment_ok ss \<Longrightarrow>
     resolveTemplateString (concat (map segment_text ss)) v = concat (map (segment_value v) ss)"
  by (rule resolve_segments)

theorem template_resolution_witness:
  "resolveTemplateString (js ''/users/{{accessToken}}/{{mfaTicket}}'')
       (EMPTY_VARIABLES\<lparr>accessToken := js ''{{apiKey}}''\<rparr>)
     = js ''/users/{{apiKey}}/{{mfaTicket}}''"
  using template_resolution [of "[Plain (js ''/users/''), Hole AccessToken, Plain (js ''/''), Hole MfaTicket]"
      "EMPTY_VARIABLES\<lparr>accessToken := js ''{{apiKey}}''\<rparr>"]
  by (simp add: js_def EMPTY_VARIABLES_def)

lemma inherited_not_var:
  assumes "m \<in> set inherited_methods"
  shows "fst m \<noteq> [] \<and> list_all is_alnum (fst m) \<and> var_text n \<noteq> fst m"
proof -
  have "\<forall>m \<in> set inherited_methods. fst m \<noteq> [] \<and> list_all is_alnum (fst m)"
    by (simp add: inherited_methods_def js_def is_alnum_def is_digit_def is_upper_def is_lower_def)
  moreover have "\<forall>m \<in> set inherited_methods. var_text n \<noteq> fst m"
    by (cases n) (simp_all add: inherited_methods_def)
  ultimately show ?thesis using assms by blast
qed

lemma lookup_inherited:
  assumes "m \<in> set inherited_methods"
  shows "lookup_variable v (fst m) = Some (native_function_text (snd m))"
proof -
  have "List.find (\<lambda>n. var_text n = fst m) var_names = None"
    using inherited_not_var [OF assms] by (auto simp: find_None_iff)
  moreover have "distinct (map fst inherited_methods)" by (simp add: inherited_methods_def)
  then have "map_of inherited_methods (fst m) = Some (snd m)"
    using assms by (metis map_of_is_SomeI prod.collapse)
  ultimately show ?thesis by (simp add: lookup_variable_def)
qed

text \<open>C20: The lookup of a template name is not limited to the vault: a name that
  every object inherits, like \<open>constructor\<close> or \<open>toString\<close>, is replaced by the source text
  of a native function, whatever the vault holds.\<close>

theorem inherited_names:
  "m \<in> set inherited_methods \<Longrightarrow>
     resolveTemplateString (js ''{{'' @ fst m @ js ''}}'') v = native_function_text (snd m)"
  using resolve_template [of "fst m" "[]" v] inherited_not_var [of m] lookup_inherited [of m v]
  by (simp add: template_replacement_def) (simp add: native_function_text_def)

theorem inherited_names_witness:
  "resolveTemplateString (js ''{{toString}}'') EMPTY_VARIABLES
     = js ''function toString() { [native code] }''"
  using inherited_names [of "(js ''toString'', js ''toString'')" EMPTY_VARIABLES]
  by (simp add: inherited_methods_def native_function_text_def js_def)

subsection \<open>Properties of headers, redaction, cookies and the cURL command\<close>

text \<open>C21: The headers of a request are exactly those of the table \<open>headers_of\<close>:
  credentials only for an endpoint that needs them and only of the selected mode, a CSRF
  token only for an unsafe method in cookie mode (the cookie's value before the vault's),
  the transport header only for an endpoint that issues a session in cookie mode. The only
  failure is a CSRF cookie that does not decode.\<close>

theorem header_table:
  "case buildHeaders e m v cookies of
     Inr h \<Rightarrow> map_of h =
       headers_of e m v (case readCookie (js ''__Host-auth.csrf'') cookies of Inr c \<Rightarrow> c | Inl _ \<Rightarrow> [])
   | Inl err \<Rightarrow> err = URIError \<and> m = Cookie \<and> ep_method e \<noteq> GET
                \<and> readCookie (js ''__Host-auth.csrf'') cookies = Inl URIError"
proof (cases "readCookie (js ''__Host-auth.csrf'') cookies")
  case (Inr c)
  with buildHeaders_eq [of m e cookies c v] show ?thesis by auto
next
  case (Inl err)
  note URI = readCookie_error [OF Inl]
  show ?thesis
  proof (cases "m = Cookie \<and> ep_method e \<noteq> GET")
    case True
    with Inl URI show ?thesis by (simp add: buildHeaders_def csrf_headers_def isUnsafe_method)
  next
    case False
    with Inl buildHeaders_eq [of m e cookies "[]" v] show ?thesis by auto
  qed
qed

text \<open>C22: Changing one value of the vault changes nothing in the headers, unless it is
  the access token in bearer mode or the API key in API-key mode, for an endpoint that is
  not public, or the CSRF token in cookie mode.\<close>

theorem header_secrets:
  assumes "n = AccessToken \<Longrightarrow> m \<noteq> Bearer \<or> ep_auth e = PublicAuth"
    and "n = ApiKeyVar \<Longrightarrow> m \<noteq> ApiKey \<or> ep_auth e = PublicAuth"
    and "n = CsrfToken \<Longrightarrow> m \<noteq> Cookie"
  shows "buildHeaders e m (set_var n s v) cookies = buildHeaders e m v cookies"
  using assms
  by (cases n; cases m)
    (simp_all add: buildHeaders_def csrf_headers_def authorization_headers_def cong: if_cong)

theorem header_secrets_witness:
  "buildHeaders EP_auth_login Bearer (set_var AccessToken (js ''secret'') EMPTY_VARIABLES) []
     = buildHeaders EP_auth_login Bearer EMPTY_VARIABLES []"
  by (rule header_secrets) simp_all

lemma split_str_hd:
  "0x20 \<notin> set scheme \<Longrightarrow>
     split_str (js '' '') (scheme @ js '' '' @ t) = scheme # split_str (js '' '') t"
  by (simp add: split_str_def js_def split_go_first)

lemma split_str_takeWhile:
  "\<exists>ws. split_str (js '' '') t = takeWhile (\<lambda>c. c \<noteq> 0x20) t # ws"
proof -
  let ?w = "takeWhile (\<lambda>c. c \<noteq> 0x20) t"
  have plain: "0x20 \<notin> set ?w" by (auto dest: set_takeWhileD)
  show ?thesis
  proof (cases "dropWhile (\<lambda>c. c \<noteq> 0x20) t")
    case Nil
    then have "?w = t" using takeWhile_dropWhile_id [of "\<lambda>c. c \<noteq> 0x20" t] by simp
    moreover have "split_str (js '' '') ?w = [?w]"
      using split_go_no_sep [OF plain, of "[]"] by (simp add: split_str_def js_def)
    ultimately show ?thesis by metis
  next
    case (Cons c r)
    then have "c = 0x20" using hd_dropWhile [of "\<lambda>c. c \<noteq> 0x20" t] by simp
    then have "t = ?w @ 0x20 # r"
      using takeWhile_dropWhile_id [of "\<lambda>c. c \<noteq> 0x20" t] Cons by simp
    then have "split_str (js '' '') t = ?w # split_go [0x20] [] 0 r"
      using split_go_first [OF plain, of "[]" r] by (simp add: split_str_def js_def)
    then show ?thesis by blast
  qed
qed

lemma redactHeader_scheme:
  assumes "ascii_lower name = js ''authorization''" and "0x20 \<notin> set scheme"
  shows "redactHeader name (scheme @ js '' '' @ t) =
    (let token = takeWhile (\<lambda>c. c \<noteq> 0x20) t in
     if length token < 20 then scheme @ js '' '' @ replicate 8 0x2022
     else scheme @ js '' '' @ take 12 token @ [0x2026] @ drop (length token - 5) token)"
proof -
  obtain ws where "split_str (js '' '') t = takeWhile (\<lambda>c. c \<noteq> 0x20) t # ws"
    using split_str_takeWhile by blast
  then show ?thesis
    by (simp add: redactHeader_def assms split_str_hd slice_to_def slice_last_def Let_def)
qed

text \<open>What a redacted credential may show: nothing of a short one, else its two ends.\<close>

definition credential_ends :: "jstr \<Rightarrow> (jstr \<times> jstr) option" where
  "credential_ends t =
     (let token = takeWhile (\<lambda>c. c \<noteq> 0x20) t in
      if length token < 20 then None else Some (take 12 token, drop (length token - 5) token))"

text \<open>The redacted value of an authorization header depends on the scheme and on at
  most the first twelve and the last five units of the credential, and on nothing of a
  credential shorter than twenty units: two credentials that agree on these are shown
  alike, and ones that do not are told apart.\<close>

theorem redaction:
  assumes "ascii_lower name = js ''authorization''" and "0x20 \<notin> set scheme"
  shows "redactHeader name (scheme @ js '' '' @ s) = redactHeader name (scheme @ js '' '' @ t)
    \<longleftrightarrow> credential_ends s = credential_ends t"
proof -
  let ?s = "takeWhile (\<lambda>c. c \<noteq> 0x20) s" and ?t = "takeWhile (\<lambda>c. c \<noteq> 0x20) t"
  have neq: "replicate 8 0x2022 \<noteq> take 12 u @ [0x2026] @ drop (length u - 5) u"
    if "\<not> length u < 20" for u :: jstr
  proof
    assume "replicate 8 0x2022 = take 12 u @ [0x2026] @ drop (length u - 5) u"
    from arg_cong [OF this, of length] that show False by simp
  qed
  have eq: "take 12 u @ [0x2026] @ drop (length u - 5) u = take 12 w @ [0x2026] @ drop (length w - 5) w
      \<longleftrightarrow> take 12 u = take 12 w \<and> drop (length u - 5) u = drop (length w - 5) w"
    if "\<not> length u < 20" "\<not> length w < 20" for u w :: jstr
    using that by (subst append_eq_append_conv) auto
  show ?thesis
    unfolding redactHeader_scheme [OF assms] credential_ends_def Let_def
    using neq [of ?s] neq [of ?t] eq [of ?s ?t] by (auto simp del: takeWhile_eq_take)
qed

theorem redaction_witness:
  "redactHeader (js ''Authorization'') (js ''Bearer'' @ js '' '' @ js ''abc'')
     = redactHeader (js ''Authorization'') (js ''Bearer'' @ js '' '' @ js ''xyz'')"
  by (subst redaction) (simp_all add: js_def ascii_lower_def is_upper_def credential_ends_def)
lemma before_unique: "c \<notin> set a \<Longrightarrow> c \<notin> set b \<Longrightarrow> a @ c # s = b @ c # t \<Longrightarrow> a = b"
proof (induction a arbitrary: b)
  case (Cons x a)
  then show ?case by (cases b) auto
qed (auto simp: Cons_eq_append_conv)

lemma encode_inject:
  "encode_uri_component a = Inr e \<Longrightarrow> encode_uri_component b = Inr e \<Longrightarrow> a = b"
  by (metis decode_encode sum.inject(2))

text \<open>A cookie string: encoded names and values, as \<open>document.cookie\<close> lists them.\<close>

fun jar_entries :: "(jstr \<times> jstr) list \<Rightarrow> js_error + jstr list" where
  "jar_entries [] = Inr []"
| "jar_entries ((n, v) # jar) =
     and_then (encode_uri_component n) (\<lambda>en.
       and_then (encode_uri_component v) (\<lambda>ev.
         and_then (jar_entries jar) (\<lambda>es. Inr ((en @ js ''='' @ ev) # es))))"

definition cookie_string :: "(jstr \<times> jstr) list \<Rightarrow> js_error + jstr" where
  "cookie_string jar = map_sum id (join_str (js ''; '')) (jar_entries jar)"

lemma encoded_no_semicolon:
  assumes "encode_uri_component s = Inr e"
  shows "0x3B \<notin> set e \<and> 0x3D \<notin> set e"
proof -
  have "\<not> uri_unreserved 0x3B" "\<not> uri_unreserved 0x3D"
    by (auto simp: js_def uri_unreserved_def is_alnum_def is_digit_def is_upper_def is_lower_def)
  then show ?thesis
    using encode_units [OF assms, of "0x3B"] encode_units [OF assms, of "0x3D"] by auto
qed

lemma jar_entries_plain: "jar_entries jar = Inr es \<Longrightarrow> x \<in> set es \<Longrightarrow> 0x3B \<notin> set x"
proof (induction jar arbitrary: es)
  case (Cons c jar)
  obtain n v where c: "c = (n, v)" by fastforce
  from Cons.prems(1) obtain en ev es' where "encode_uri_component n = Inr en"
    and "encode_uri_component v = Inr ev" and "jar_entries jar = Inr es'"
    and "es = (en @ js ''='' @ ev) # es'"
    by (auto simp: c and_then_Inr_iff)
  with Cons encoded_no_semicolon [of n en] encoded_no_semicolon [of v ev]
  show ?case by (auto simp: js_def)
qed simp

lemma split_go_cookie_more:
  "0x3B \<notin> set p \<Longrightarrow>
     split_go (js ''; '') acc 0 (p @ js ''; '' @ r) = (rev acc @ p) # split_go (js ''; '') [] 0 r"
proof (induction p arbitrary: acc)
  case Nil
  show ?case by (simp add: js_def)
next
  case (Cons c p)
  then have no: "\<not> starts_with ((c # p) @ js ''; '' @ r) (js ''; '')" by (auto simp: js_def)
  from Cons have "split_go (js ''; '') (c # acc) 0 (p @ js ''; '' @ r)
      = (rev (c # acc) @ p) # split_go (js ''; '') [] 0 r" by simp
  with no show ?case by simp
qed

lemma split_go_cookie_last:
  "0x3B \<notin> set p \<Longrightarrow> split_go (js ''; '') acc 0 p = [rev acc @ p]"
proof (induction p arbitrary: acc)
  case (Cons c p)
  then have "\<not> starts_with (c # p) (js ''; '')" by (auto simp: js_def)
  with Cons show ?case by simp
qed simp

lemma split_join_cookies:
  "es \<noteq> [] \<Longrightarrow> \<forall>x \<in> set es. 0x3B \<notin> set x \<Longrightarrow> split_str (js ''; '') (join_str (js ''; '') es) = es"
proof (induction "js ''; ''" es rule: join_str.induct)
  case (2 x)
  then show ?case by (simp add: split_str_def split_go_cookie_last)
next
  case (3 x y zs)
  then show ?case using split_go_cookie_more [of x "[]" "join_str (js ''; '') (y # zs)"]
    by (simp add: split_str_def)
qed simp

lemma find_jar:
  assumes "encode_uri_component name = Inr n" and "jar_entries jar = Inr es"
  shows "List.find (\<lambda>c. starts_with c (n @ js ''='')) es =
    (case map_of jar name of
       None \<Rightarrow> None
     | Some v \<Rightarrow> Some (n @ js ''='' @ projr (encode_uri_component v)))
    \<and> (\<forall>v. map_of jar name = Some v \<longrightarrow> (\<exists>ev. encode_uri_component v = Inr ev))"
  using assms(2)
proof (induction jar arbitrary: es)
  case (Cons c jar)
  obtain k v where c: "c = (k, v)" by fastforce
  from Cons.prems obtain ek ev es' where k: "encode_uri_component k = Inr ek"
    and v: "encode_uri_component v = Inr ev" and es': "jar_entries jar = Inr es'"
    and es: "es = (ek @ js ''='' @ ev) # es'"
    by (auto simp: c and_then_Inr_iff)
  have "starts_with (ek @ js ''='' @ ev) (n @ js ''='') \<longleftrightarrow> k = name"
  proof
    assume "starts_with (ek @ js ''='' @ ev) (n @ js ''='')"
    then obtain t where "ek @ js ''='' @ ev = n @ js ''='' @ t" by (auto simp: starts_with_iff)
    then have "ek @ 0x3D # ev = n @ 0x3D # t" by (simp add: js_def)
    moreover have "0x3D \<notin> set ek" "0x3D \<notin> set n"
      using encoded_no_semicolon [OF k] encoded_no_semicolon [OF assms(1)] by simp_all
    ultimately have "ek = n" by (blast intro: before_unique)
    then show "k = name" using encode_inject [OF k] assms(1) by simp
  next
    assume "k = name"
    with k assms(1) have "ek = n" by simp
    then show "starts_with (ek @ js ''='' @ ev) (n @ js ''='')"
      using starts_with_append [of "n @ js ''=''" ev] by simp
  qed
  with Cons.IH [OF es'] k v assms(1) show ?case by (auto simp: c es)
qed simp

text \<open>C23: Reading a cookie by name from the browser's cookie string gives the value the
  cookie was set to (whatever its text, the other cookies' names and its place), and the
  empty string when no cookie has the name.\<close>

theorem cookie_jar:
  assumes "encode_uri_component name = Inr n" and "cookie_string jar = Inr c"
  shows "readCookie name c = Inr (case map_of jar name of Some v \<Rightarrow> v | None \<Rightarrow> [])"
proof -
  from assms(2) obtain es where es: "jar_entries jar = Inr es" and c: "c = join_str (js ''; '') es"
    by (cases "jar_entries jar") (auto simp: cookie_string_def)
  show ?thesis
  proof (cases "es = []")
    case True
    with es have "jar = []" by (cases jar) (auto simp: and_then_Inr_iff)
    then show ?thesis using readCookie_empty [OF assms(1)] True c by simp
  next
    case False
    then have split: "split_str (js ''; '') c = es"
      unfolding c using jar_entries_plain [OF es] by (intro split_join_cookies) auto
    note find = find_jar [OF assms(1) es]
    show ?thesis
    proof (cases "map_of jar name")
      case None
      with find split show ?thesis by (simp add: readCookie_def assms(1))
    next
      case (Some v)
      with find obtain ev where ev: "encode_uri_component v = Inr ev" by blast
      have "decode_uri_component ev = Inr v" using ev by (rule decode_encode)
      with find split Some ev show ?thesis
        by (simp add: readCookie_def assms(1) slice_from_def)
    qed
  qed
qed

theorem cookie_jar_witness:
  "readCookie (js ''b'') (js ''a=1; b=x%3By'') = Inr (js ''x;y'')"
proof -
  have "cookie_string [(js ''a'', js ''1''), (js ''b'', js ''x;y'')] = Inr (js ''a=1; b=x%3By'')"
    by code_simp
  moreover have "encode_uri_component (js ''b'') = Inr (js ''b'')" by code_simp
  ultimately show ?thesis using cookie_jar by fastforce
qed

text \<open>C24: A POSIX shell splits the copied cURL command into exactly the words
  \<open>curl -i -X METHOD URL -H NAME: VALUE ... --data BODY\<close>, nothing in the URL, a header or
  the body is expanded and nothing ends the command early, whatever text they hold.\<close>

theorem curl_command:
  "shell_words Between [] (createCurl apiBase e path body headers)
    = Some ([js ''curl'', js ''-i'', js ''-X'', method_text (ep_method e), apiBase @ path]
        @ concat (map (\<lambda>h. [js ''-H'', header_argument h]) headers)
        @ (case body of None \<Rightarrow> [] | Some b \<Rightarrow> [js ''--data'', json_stringify b]))"
  by (rule curl_words)


end
