(* ===== verification/WbVault.thy ===== *)
theory WbVault
  imports WbDomain
begin

section \<open>The session vault: readVault, writeVaultValue and clearVaultStorage of domain.ts\<close>

text \<open>
  The tab's \<open>sessionStorage\<close> and the three effects of \<open>domain.ts\<close> over it. Storage may be
  blocked (every access throws) or full (\<open>setItem\<close> throws); the effects turn a throw into
  \<open>StorageError\<close>, which stands for \<open>BrowserStorageError\<close>. A failed effect changes nothing.
  The abstract vault is a function from the persisted names to texts, with a mode.
\<close>

subsection \<open>The contract of a keyed store\<close>

locale keyed_store =
  fixes get :: "'s \<Rightarrow> jstr \<Rightarrow> jstr option"
    and put :: "jstr \<Rightarrow> jstr \<Rightarrow> 's \<Rightarrow> js_error + 's"
    and del :: "jstr \<Rightarrow> 's \<Rightarrow> js_error + 's"
  assumes get_put: "put k v s = Inr s' \<Longrightarrow> get s' l = (if l = k then Some v else get s l)"
    and get_del: "del k s = Inr s' \<Longrightarrow> get s' l = (if l = k then None else get s l)"
begin

text \<open>Deleting a list of keys, in order, until one deletion fails.\<close>

primrec del_all :: "jstr list \<Rightarrow> 's \<Rightarrow> js_error + 's" where
  "del_all [] s = Inr s"
| "del_all (k # ks) s = and_then (del k s) (del_all ks)"

lemma get_del_all:
  "del_all ks s = Inr s' \<Longrightarrow> get s' l = (if l \<in> set ks then None else get s l)"
proof (induction ks arbitrary: s)
  case (Cons k ks)
  then obtain t where "del k s = Inr t" and "del_all ks t = Inr s'"
    by (auto simp: and_then_Inr_iff)
  with Cons.IH [of t] get_del [of k s t l] show ?case by auto
qed simp

text \<open>A value, with the empty text for none.\<close>

definition text_at :: "'s \<Rightarrow> jstr \<Rightarrow> jstr" where
  "text_at s k = (case get s k of Some v \<Rightarrow> v | None \<Rightarrow> [])"

definition store_text :: "jstr \<Rightarrow> jstr \<Rightarrow> 's \<Rightarrow> js_error + 's" where
  "store_text k v s = (if v \<noteq> [] then put k v s else del k s)"

lemma text_at_store_text:
  "store_text k v s = Inr s' \<Longrightarrow> text_at s' l = (if l = k then v else text_at s l)"
  using get_put [of k v s s' l] get_del [of k s s' l]
  by (auto simp: store_text_def text_at_def split: if_splits)

lemma text_at_del_all:
  "del_all ks s = Inr s' \<Longrightarrow> text_at s' l = (if l \<in> set ks then [] else text_at s l)"
  using get_del_all [of ks s s' l] by (simp add: text_at_def)

end

subsection \<open>sessionStorage\<close>

record session_storage =
  st_items :: "jstr obj"
  st_blocked :: bool
  st_quota :: "nat option"

text \<open>The space the items take, in code units (the quota \<open>None\<close> is never reached).\<close>

definition items_size :: "jstr obj \<Rightarrow> nat" where
  "items_size items = sum_list (map (\<lambda>(k, v). length k + length v) items)"

definition over_quota :: "session_storage \<Rightarrow> jstr obj \<Rightarrow> bool" where
  "over_quota s items = (case st_quota s of None \<Rightarrow> False | Some q \<Rightarrow> q < items_size items)"

definition storage_getItem :: "session_storage \<Rightarrow> jstr \<Rightarrow> js_error + jstr option" where
  "storage_getItem s k = (if st_blocked s then Inl StorageError else Inr (obj_get (st_items s) k))"

definition storage_setItem :: "jstr \<Rightarrow> jstr \<Rightarrow> session_storage \<Rightarrow> js_error + session_storage" where
  "storage_setItem k v s =
     (if st_blocked s \<or> over_quota s (obj_set k v (st_items s)) then Inl StorageError
      else Inr (s\<lparr>st_items := obj_set k v (st_items s)\<rparr>))"

definition storage_removeItem :: "jstr \<Rightarrow> session_storage \<Rightarrow> js_error + session_storage" where
  "storage_removeItem k s =
     (if st_blocked s then Inl StorageError
      else Inr (s\<lparr>st_items := filter (\<lambda>p. fst p \<noteq> k) (st_items s)\<rparr>))"

lemma map_of_filter_key: "map_of (filter (\<lambda>p. fst p \<noteq> k) ob) l = (if l = k then None else map_of ob l)"
  by (induction ob) auto

interpretation session: keyed_store "\<lambda>s k. obj_get (st_items s) k" storage_setItem storage_removeItem
  by unfold_locales
    (auto simp: storage_setItem_def storage_removeItem_def map_of_filter_key split: if_splits)

subsection \<open>The effects\<close>

text \<open>\<open>STORAGE_KEYS[name]\<close>, as a storage key (a missing name turns into the text undefined).\<close>

definition storage_key :: "StorageName \<Rightarrow> jstr" where
  "storage_key n = (case map_of STORAGE_KEYS n of Some k \<Rightarrow> k | None \<Rightarrow> js ''undefined'')"

text \<open>\<open>sessionStorage.getItem(key) || ""\<close>.\<close>

definition stored_text :: "session_storage \<Rightarrow> StorageName \<Rightarrow> js_error + jstr" where
  "stored_text s n =
     map_sum id (\<lambda>v. case v of Some t \<Rightarrow> t | None \<Rightarrow> []) (storage_getItem s (storage_key n))"

definition vault_names :: "VarName list" where
  "vault_names =
     [AccessToken, RefreshToken, ApiKeyVar, CsrfToken, TotpSecret, MfaTicket, CredentialId,
      SocialCode, SocialState]"

record vault =
  vault_authMode :: AuthMode
  vault_values :: "(VarName \<times> jstr) list"

fun read_values :: "session_storage \<Rightarrow> VarName list \<Rightarrow> js_error + (VarName \<times> jstr) list" where
  "read_values s [] = Inr []"
| "read_values s (n # ns) =
     and_then (stored_text s (VarKey n)) (\<lambda>t.
       map_sum id (\<lambda>vs. (n, t) # vs) (read_values s ns))"

definition stored_mode :: "jstr option \<Rightarrow> AuthMode" where
  "stored_mode authModeValue =
     (if authModeValue = Some (js ''cookie'') then Cookie
      else if authModeValue = Some (js ''apiKey'') then ApiKey
      else Bearer)"

definition readVault :: "session_storage \<Rightarrow> js_error + vault" where
  "readVault s =
     and_then (storage_getItem s (storage_key AuthModeKey)) (\<lambda>authModeValue.
       map_sum id (\<lambda>vs. \<lparr>vault_authMode = stored_mode authModeValue, vault_values = vs\<rparr>)
         (read_values s vault_names))"

definition writeVaultValue :: "StorageName \<Rightarrow> jstr \<Rightarrow> session_storage \<Rightarrow> js_error + session_storage" where
  "writeVaultValue name v s =
     (if v \<noteq> [] then storage_setItem (storage_key name) v s
      else storage_removeItem (storage_key name) s)"

fun remove_entries ::
  "(StorageName \<times> jstr) list \<Rightarrow> session_storage \<Rightarrow> js_error + session_storage" where
  "remove_entries [] s = Inr s"
| "remove_entries ((name, key) # entries) s =
     (if name \<noteq> AuthModeKey
      then and_then (storage_removeItem key s) (remove_entries entries)
      else remove_entries entries s)"

definition clearVaultStorage :: "session_storage \<Rightarrow> js_error + session_storage" where
  "clearVaultStorage s = remove_entries STORAGE_KEYS s"

subsection \<open>The abstract vault\<close>

text \<open>The stored text of a persisted variable, and the stored mode, of a store that answers.\<close>

definition vault_text :: "session_storage \<Rightarrow> VarName \<Rightarrow> jstr" where
  "vault_text s n = session.text_at s (storage_key (VarKey n))"

definition vault_mode :: "session_storage \<Rightarrow> AuthMode" where
  "vault_mode s = stored_mode (obj_get (st_items s) (storage_key AuthModeKey))"

text \<open>\<open>{ ...current, ...storedVariables }\<close>.\<close>

definition restore :: "(VarName \<times> jstr) list \<Rightarrow> WorkbenchVariables \<Rightarrow> WorkbenchVariables" where
  "restore vs current = foldl (\<lambda>v (n, t). set_var n t v) current vs"

lemma vault_names_set: "n \<in> set vault_names \<longleftrightarrow> VarKey n \<in> fst ` set STORAGE_KEYS"
  by (cases n) (simp_all add: vault_names_def STORAGE_KEYS_def)

lemma storage_key_inj:
  "VarKey n \<in> fst ` set STORAGE_KEYS \<Longrightarrow> storage_key (VarKey n) = storage_key m \<Longrightarrow>
     m \<in> fst ` set STORAGE_KEYS \<Longrightarrow> m = VarKey n"
  by (auto simp: STORAGE_KEYS_def storage_key_def)

lemma storage_key_mode: "n \<in> set vault_names \<Longrightarrow> storage_key (VarKey n) \<noteq> storage_key AuthModeKey"
  by (auto simp: STORAGE_KEYS_def storage_key_def vault_names_def)

lemma storage_key_eq:
  "n \<in> set vault_names \<Longrightarrow> m \<in> set vault_names \<Longrightarrow>
     storage_key (VarKey n) = storage_key (VarKey m) \<longleftrightarrow> n = m"
  using storage_key_inj [of n "VarKey m"] vault_names_set by auto

lemma writeVaultValue_store: "writeVaultValue n v s = session.store_text (storage_key n) v s"
  by (simp add: writeVaultValue_def session.store_text_def)

lemma remove_entries_del_all:
  "remove_entries es s =
     session.del_all (map snd (filter (\<lambda>e. fst e \<noteq> AuthModeKey) es)) s"
  by (induction es s rule: remove_entries.induct) (auto intro!: arg_cong2 [where f = and_then])

lemma cleared_keys:
  "map snd (filter (\<lambda>e. fst e \<noteq> AuthModeKey) STORAGE_KEYS) = map (\<lambda>n. storage_key (VarKey n)) vault_names"
  by (simp add: STORAGE_KEYS_def storage_key_def vault_names_def)

lemma read_values_eq:
  "\<not> st_blocked s \<Longrightarrow> read_values s ns = Inr (map (\<lambda>n. (n, vault_text s n)) ns)"
  by (induction ns)
    (simp_all add: stored_text_def storage_getItem_def vault_text_def session.text_at_def)

lemma readVault_eq:
  "readVault s =
    (if st_blocked s then Inl StorageError
     else Inr \<lparr>vault_authMode = vault_mode s,
               vault_values = map (\<lambda>n. (n, vault_text s n)) vault_names\<rparr>)"
  by (simp add: readVault_def storage_getItem_def read_values_eq vault_mode_def)

lemma get_restore:
  "distinct ns \<Longrightarrow>
     get_var (restore (map (\<lambda>n. (n, f n)) ns) v) m = (if m \<in> set ns then f m else get_var v m)"
  unfolding restore_def by (induction ns arbitrary: v) auto

lemma vault_text_write:
  assumes "writeVaultValue (VarKey n) v s = Inr s'" and "n \<in> set vault_names" and "m \<in> set vault_names"
  shows "vault_text s' m = (if m = n then v else vault_text s m)"
  using session.text_at_store_text [of "storage_key (VarKey n)" v s s' "storage_key (VarKey m)"]
    storage_key_eq [OF assms(3,2)] assms(1)
  by (simp add: vault_text_def writeVaultValue_store)

lemma write_storage_flags:
  "writeVaultValue n v s = Inr s' \<Longrightarrow> st_blocked s' = st_blocked s \<and> st_quota s' = st_quota s"
  by (auto simp: writeVaultValue_def storage_setItem_def storage_removeItem_def split: if_splits)

lemma vault_mode_write:
  assumes "writeVaultValue (VarKey n) v s = Inr s'" and "n \<in> set vault_names"
  shows "vault_mode s' = vault_mode s"
  using assms storage_key_mode [OF assms(2)]
  by (auto simp: vault_mode_def writeVaultValue_def storage_setItem_def storage_removeItem_def
      map_of_filter_key split: if_splits)

lemma vault_write_mode:
  assumes "writeVaultValue AuthModeKey (auth_mode_text m) s = Inr s'"
  shows "vault_mode s' = m" and "n \<in> set vault_names \<Longrightarrow> vault_text s' n = vault_text s n"
proof -
  have t: "auth_mode_text m \<noteq> []" by (cases m) simp_all
  then show "vault_mode s' = m" using assms
    by (cases m) (auto simp: vault_mode_def stored_mode_def writeVaultValue_def storage_setItem_def
        split: if_splits)
  show "vault_text s' n = vault_text s n" if "n \<in> set vault_names"
    using session.text_at_store_text [of "storage_key AuthModeKey" "auth_mode_text m" s s'
        "storage_key (VarKey n)"] storage_key_mode [OF that] assms
    by (simp add: vault_text_def writeVaultValue_store)
qed

lemma clear_values:
  assumes "clearVaultStorage s = Inr s'"
  shows "n \<in> set vault_names \<Longrightarrow> vault_text s' n = []" and "vault_mode s' = vault_mode s"
    and "st_blocked s' = st_blocked s"
proof -
  let ?ks = "map (\<lambda>n. storage_key (VarKey n)) vault_names"
  have del: "session.del_all ?ks s = Inr s'"
    using assms by (simp only: clearVaultStorage_def remove_entries_del_all cleared_keys)
  show "vault_text s' n = []" if "n \<in> set vault_names"
    using session.text_at_del_all [OF del, of "storage_key (VarKey n)"] that
    by (simp add: vault_text_def)
  have "storage_key AuthModeKey \<notin> set ?ks"
  proof
    assume "storage_key AuthModeKey \<in> set ?ks"
    then obtain n where "n \<in> set vault_names" "storage_key (VarKey n) = storage_key AuthModeKey"
      by auto
    with storage_key_mode show False by blast
  qed
  with session.get_del_all [OF del, of "storage_key AuthModeKey"]
  show "vault_mode s' = vault_mode s" by (simp add: vault_mode_def)
  have "session.del_all ks s = Inr s' \<Longrightarrow> st_blocked s' = st_blocked s" for ks
    by (induction ks arbitrary: s)
      (auto simp: and_then_Inr_iff storage_removeItem_def split: if_splits)
  from this [OF del] show "st_blocked s' = st_blocked s" .
qed

subsection \<open>Properties\<close>

text \<open>C26: Writing a persisted variable makes the next reading of the vault give the
  new text for it (none stored and the empty text are the same), and the old texts for the
  others and the mode; two names never share a storage key.\<close>

theorem vault_write:
  assumes "writeVaultValue (VarKey n) t s = Inr s'" and "n \<in> set vault_names"
  shows "readVault s' =
    map_sum id (\<lambda>old. old\<lparr>vault_values :=
        map (\<lambda>(m, u). (m, if m = n then t else u)) (vault_values old)\<rparr>) (readVault s)"
proof -
  have "vault_text s' m = (if m = n then t else vault_text s m)" if "m \<in> set vault_names" for m
    using vault_text_write [OF assms that] .
  then show ?thesis
    using vault_mode_write [OF assms] write_storage_flags [OF assms(1)]
    by (simp add: readVault_eq)
qed

theorem vault_write_witness:
  "readVault \<lparr>st_items = [(js ''startpack.workbench.apiKey'', js ''k'')], st_blocked = False, st_quota = Some 100\<rparr>
     = map_sum id (\<lambda>old. old\<lparr>vault_values :=
         map (\<lambda>(m, u). (m, if m = ApiKeyVar then js ''k'' else u)) (vault_values old)\<rparr>)
       (readVault \<lparr>st_items = [], st_blocked = False, st_quota = Some 100\<rparr>)"
  by (rule vault_write)
    (simp_all add: writeVaultValue_def storage_setItem_def storage_key_def STORAGE_KEYS_def
      items_size_def over_quota_def obj_set_def is_index_def js_def is_digit_def vault_names_def)

text \<open>Clearing the vault empties every persisted variable and keeps the
  authentication mode and every item of the tab that is not the workbench's.\<close>

theorem vault_clear:
  assumes "clearVaultStorage s = Inr s'"
  shows "readVault s' = Inr \<lparr>vault_authMode = vault_mode s, vault_values = map (\<lambda>n. (n, [])) vault_names\<rparr>
    \<and> obj_get (st_items s') k =
        (if k \<in> set (map snd (filter (\<lambda>e. fst e \<noteq> AuthModeKey) STORAGE_KEYS)) then None
         else obj_get (st_items s) k)"
proof -
  have "\<not> st_blocked s" using assms
    by (auto simp: clearVaultStorage_def STORAGE_KEYS_def storage_removeItem_def)
  moreover have "session.del_all (map snd (filter (\<lambda>e. fst e \<noteq> AuthModeKey) STORAGE_KEYS)) s = Inr s'"
    using assms by (simp only: clearVaultStorage_def remove_entries_del_all)
  ultimately show ?thesis
    using clear_values [OF assms] session.get_del_all by (simp add: readVault_eq)
qed

theorem vault_clear_witness:
  "readVault \<lparr>st_items = [(js ''startpack.workbench.authMode'', js ''cookie'')], st_blocked = False,
      st_quota = Some 100\<rparr>
     = Inr \<lparr>vault_authMode = Cookie, vault_values = map (\<lambda>n. (n, [])) vault_names\<rparr>"
  using vault_clear [of "\<lparr>st_items = [(js ''startpack.workbench.authMode'', js ''cookie''),
      (js ''startpack.workbench.apiKey'', js ''k'')], st_blocked = False, st_quota = Some 100\<rparr>"
      "\<lparr>st_items = [(js ''startpack.workbench.authMode'', js ''cookie'')], st_blocked = False,
      st_quota = Some 100\<rparr>"]
  by (simp add: clearVaultStorage_def STORAGE_KEYS_def storage_removeItem_def vault_mode_def
      stored_mode_def storage_key_def)

text \<open>With storage blocked, reading, writing and clearing the vault all fail with
  the storage error and never with another; a store that answers fails only a write that
  does not fit.\<close>

theorem vault_blocked:
  "(case readVault s of Inl err \<Rightarrow> err = StorageError \<and> st_blocked s | Inr _ \<Rightarrow> \<not> st_blocked s)
   \<and> (case writeVaultValue name t s of
        Inl err \<Rightarrow> err = StorageError \<and> (st_blocked s \<or> t \<noteq> []
          \<and> over_quota s (obj_set (storage_key name) t (st_items s)))
      | Inr _ \<Rightarrow> \<not> st_blocked s)
   \<and> (case clearVaultStorage s of Inl err \<Rightarrow> err = StorageError \<and> st_blocked s | Inr _ \<Rightarrow> \<not> st_blocked s)"
  by (auto simp: readVault_eq writeVaultValue_def storage_setItem_def storage_removeItem_def
      clearVaultStorage_def STORAGE_KEYS_def)

end
