(* ===== verification/WbFetch.thy ===== *)
theory WbFetch
  imports WbDomain Complex_Main
begin

section \<open>Requests: requestEndpoint, probeService and copyText of domain.ts\<close>

text \<open>
  An effect over the network is split at the call of \<open>fetch\<close>: the request that is handed to
  it, and what the effect makes of its outcome. The outcome is the environment's: a
  rejection with its reason, or a response whose body can be read or fails to be. Times are
  rational milliseconds, as \<open>performance.now()\<close> gives them.
\<close>

datatype credentials = IncludeCredentials | OmitCredentials

record FetchRequest =
  fetch_url :: jstr
  fetch_method :: jstr
  fetch_headers :: "jstr obj"
  fetch_body :: "jstr option"
  fetch_credentials :: credentials

text \<open>The body's text, or the reason its reading fails for.\<close>

record FetchResponse =
  fres_status :: nat
  fres_statusText :: jstr
  fres_ok :: bool
  fres_text :: "jstr + jstr"
  fres_headers :: "(jstr \<times> jstr) list"

type_synonym fetch_outcome = "jstr + FetchResponse"

text \<open>The failures of the effects, with the reason text of \<open>NetworkRequestError\<close>.\<close>

datatype effect_error = NetworkRequestError jstr | ClipboardError

subsection \<open>requestEndpoint\<close>

record ApiRequestInput =
  in_apiBase :: jstr
  in_endpoint :: EndpointDefinition
  in_path :: jstr
  in_body :: "json option"
  in_headers :: "jstr obj"
  in_authMode :: AuthMode

definition endpoint_request :: "ApiRequestInput \<Rightarrow> FetchRequest" where
  "endpoint_request input =
     \<lparr>fetch_url = in_apiBase input @ in_path input,
      fetch_method = method_text (ep_method (in_endpoint input)),
      fetch_headers = in_headers input,
      fetch_body = map_option json_stringify (in_body input),
      fetch_credentials =
        (if in_authMode input = Cookie then IncludeCredentials else OmitCredentials)\<rparr>"

text \<open>\<open>Math.round\<close>.\<close>

definition js_round :: "rat \<Rightarrow> int" where
  "js_round x = \<lfloor>x + 1 / 2\<rfloor>"

definition endpoint_result ::
  "(jstr \<Rightarrow> jstr) \<Rightarrow> rat \<Rightarrow> rat \<Rightarrow> fetch_outcome \<Rightarrow> effect_error + ApiResult" where
  "endpoint_result num started finished outcome =
     (case outcome of
        Inl reason \<Rightarrow> Inl (NetworkRequestError reason)
      | Inr response \<Rightarrow>
          (case fres_text response of
             Inl reason \<Rightarrow> Inl (NetworkRequestError reason)
           | Inr raw \<Rightarrow>
               Inr \<lparr>res_status = fres_status response,
                    res_statusText = fres_statusText response,
                    res_ok = fres_ok response,
                    res_raw = raw,
                    res_data = parseResponse num raw,
                    res_elapsedMs = js_round (finished - started),
                    res_headers = from_entries (fres_headers response)\<rparr>))"

definition requestEndpoint ::
  "(jstr \<Rightarrow> jstr) \<Rightarrow> (FetchRequest \<Rightarrow> fetch_outcome) \<Rightarrow> rat \<Rightarrow> rat \<Rightarrow> ApiRequestInput
     \<Rightarrow> effect_error + ApiResult" where
  "requestEndpoint num fetch started finished input =
     endpoint_result num started finished (fetch (endpoint_request input))"

subsection \<open>probeService\<close>

definition openapi_methods :: "jstr list" where
  "openapi_methods = [js ''get'', js ''post'', js ''put'', js ''patch'', js ''delete'']"

text \<open>
  \<open>Object.values\<close> and \<open>Object.keys\<close> of a value that \<open>JSON.parse\<close> returned and that is an
  object or an array.
\<close>

fun object_values :: "json \<Rightarrow> json list" where
  "object_values (JObj kvs) = map snd kvs"
| "object_values (JArr xs) = xs"
| "object_values _ = []"

fun object_keys :: "json \<Rightarrow> jstr list" where
  "object_keys (JObj kvs) = map fst kvs"
| "object_keys (JArr xs) = map nat_to_js [0..<length xs]"
| "object_keys _ = []"

text \<open>\<open>document.paths\<close>, when the document is an object with that property.\<close>

fun paths_of :: "json \<Rightarrow> json option" where
  "paths_of (JObj kvs) = obj_get kvs (js ''paths'')"
| "paths_of _ = None"

definition countOpenApiOperations :: "json \<Rightarrow> nat" where
  "countOpenApiOperations document =
     (case paths_of document of
        None \<Rightarrow> 0
      | Some paths \<Rightarrow>
          if \<not> is_object paths then 0
          else
            foldl (\<lambda>total pathItem.
                if \<not> is_object pathItem then total
                else total + length (filter (\<lambda>k. k \<in> set openapi_methods) (object_keys pathItem)))
              0 (object_values paths))"

definition probe_request :: "jstr \<Rightarrow> bool \<Rightarrow> FetchRequest" where
  "probe_request url isOpenApi =
     \<lparr>fetch_url = url,
      fetch_method = js ''GET'',
      fetch_headers =
        [(js ''Accept'', if isOpenApi then js ''application/json'' else js ''text/plain'')],
      fetch_body = None,
      fetch_credentials = IncludeCredentials\<rparr>"

record ProbeResult =
  probe_ok :: bool
  probe_operationCount :: "nat option"

text \<open>\<open>response.json()\<close>: reading fails, or the text is not JSON, or the value.\<close>

definition response_json :: "(jstr \<Rightarrow> jstr) \<Rightarrow> FetchResponse \<Rightarrow> json option" where
  "response_json num response =
     (case fres_text response of
        Inl _ \<Rightarrow> None
      | Inr raw \<Rightarrow> (case json_parse num raw of Inl _ \<Rightarrow> None | Inr v \<Rightarrow> Some v))"

definition probe_result ::
  "(jstr \<Rightarrow> jstr) \<Rightarrow> bool \<Rightarrow> fetch_outcome \<Rightarrow> effect_error + ProbeResult" where
  "probe_result num isOpenApi outcome =
     (case outcome of
        Inl reason \<Rightarrow> Inl (NetworkRequestError reason)
      | Inr response \<Rightarrow>
          if \<not> fres_ok response then
            Inl (NetworkRequestError (js ''HTTP '' @ nat_to_js (fres_status response)))
          else if \<not> isOpenApi then Inr \<lparr>probe_ok = True, probe_operationCount = None\<rparr>
          else
            (case response_json num response of
               None \<Rightarrow> Inl (NetworkRequestError (js ''Invalid OpenAPI document''))
             | Some document \<Rightarrow>
                 Inr \<lparr>probe_ok = True,
                      probe_operationCount = Some (countOpenApiOperations document)\<rparr>))"

definition probeService ::
  "(jstr \<Rightarrow> jstr) \<Rightarrow> (FetchRequest \<Rightarrow> fetch_outcome) \<Rightarrow> jstr \<Rightarrow> bool \<Rightarrow> effect_error + ProbeResult"
where
  "probeService num fetch url isOpenApi =
     probe_result num isOpenApi (fetch (probe_request url isOpenApi))"

subsection \<open>copyText\<close>

text \<open>The clipboard accepts the text, or refuses it.\<close>

definition copyText :: "(jstr \<Rightarrow> bool) \<Rightarrow> jstr \<Rightarrow> effect_error + unit" where
  "copyText writeText t = (if writeText t then Inr () else Inl ClipboardError)"

subsection \<open>Lemmas: counting operations\<close>

lemma foldl_count:
  "foldl (\<lambda>total x. if \<not> P x then total else total + f x) n xs
    = (n :: nat) + sum_list (map f (filter P xs))"
  by (induction xs arbitrary: n) auto

lemma nat_to_js_not_method: "nat_to_js n \<notin> set openapi_methods"
proof
  assume "nat_to_js n \<in> set openapi_methods"
  then have "\<not> list_all is_digit (nat_to_js n)"
    by (auto simp: openapi_methods_def js_def is_digit_def)
  with nat_to_js_digits show False by blast
qed

text \<open>The operations an item names: those of its keys that are methods.\<close>

definition item_methods :: "json \<Rightarrow> jstr set" where
  "item_methods item =
     (case item of JObj kvs \<Rightarrow> {k \<in> fst ` set kvs. k \<in> set openapi_methods} | _ \<Rightarrow> {})"

lemma length_item_methods:
  assumes "json_ok num item"
  shows "length (filter (\<lambda>k. k \<in> set openapi_methods) (object_keys item)) = card (item_methods item)"
proof (cases item)
  case (JObj kvs)
  with assms have "from_entries kvs = kvs" by simp
  then have "obj_ok kvs" using obj_ok_from_entries [of kvs] by simp
  then have "distinct (map fst kvs)" by (simp add: obj_ok_def)
  then have "length (filter (\<lambda>k. k \<in> set openapi_methods) (map fst kvs))
      = card (set (filter (\<lambda>k. k \<in> set openapi_methods) (map fst kvs)))"
    by (intro distinct_card [symmetric] distinct_filter)
  also have "set (filter (\<lambda>k. k \<in> set openapi_methods) (map fst kvs)) = item_methods item"
    by (auto simp: JObj item_methods_def)
  finally show ?thesis by (simp add: JObj)
next
  case (JArr xs)
  have "filter (\<lambda>k. k \<in> set openapi_methods) (map nat_to_js [0..<length xs]) = []"
    using nat_to_js_not_method by (auto simp: filter_empty_conv)
  then show ?thesis by (simp add: JArr item_methods_def)
qed (simp_all add: item_methods_def)

lemma item_methods_object: "\<not> is_object item \<Longrightarrow> item_methods item = {}"
  by (cases item) (simp_all add: item_methods_def)

lemma finite_item_methods [simp]: "finite (item_methods item)"
  by (cases item) (simp_all add: item_methods_def)

lemma count_paths:
  assumes "json_ok num (JObj paths)"
  shows "sum_list (map (\<lambda>item. length (filter (\<lambda>k. k \<in> set openapi_methods) (object_keys item)))
           (filter is_object (map snd paths)))
       = card (SIGMA p : fst ` set paths. item_methods (the (map_of paths p)))"
proof -
  let ?n = "\<lambda>item. length (filter (\<lambda>k. k \<in> set openapi_methods) (object_keys item))"
  from assms have fe: "from_entries paths = paths" and ok: "\<forall>(k, v) \<in> set paths. json_ok num v"
    by simp_all
  from fe have "obj_ok paths" using obj_ok_from_entries [of paths] by simp
  then have dist: "distinct (map fst paths)" by (simp add: obj_ok_def)
  have "sum_list (map ?n (filter is_object (map snd paths)))
      = sum_list (map (\<lambda>item. card (item_methods item)) (map snd paths))"
    using ok
  proof (induction paths)
    case (Cons p ps)
    then show ?case
      using length_item_methods [of num "snd p"] item_methods_object [of "snd p"] by (cases p) auto
  qed simp
  also have "\<dots> = (\<Sum>p \<leftarrow> map fst paths. card (item_methods (the (map_of paths p))))"
    using dist by (auto intro!: arg_cong [of _ _ sum_list] simp: comp_def)
  also have "\<dots> = (\<Sum>p \<in> fst ` set paths. card (item_methods (the (map_of paths p))))"
    using dist by (subst sum_list_distinct_conv_sum_set) simp_all
  also have "\<dots> = card (SIGMA p : fst ` set paths. item_methods (the (map_of paths p)))"
    by (simp add: card_SigmaI)
  finally show ?thesis .
qed

subsection \<open>Lemmas: the result of a request\<close>

lemma js_round_iff:
  "n = js_round x \<longleftrightarrow>
     real_of_int n - 1 / 2 \<le> real_of_rat x \<and> real_of_rat x < real_of_int n + 1 / 2"
proof -
  have "real_of_int n - 1 / 2 = real_of_rat (of_int n - 1 / 2)"
    and "real_of_int n + 1 / 2 = real_of_rat (of_int n + 1 / 2)"
    by (simp_all add: of_rat_diff of_rat_add of_rat_divide)
  then have "real_of_int n - 1 / 2 \<le> real_of_rat x \<and> real_of_rat x < real_of_int n + 1 / 2
      \<longleftrightarrow> of_int n - 1 / 2 \<le> x \<and> x < of_int n + 1 / 2"
    by (simp add: of_rat_less_eq of_rat_less)
  also have "\<dots> \<longleftrightarrow> \<lfloor>x + 1 / 2\<rfloor> = n"
    by (subst floor_eq_iff) (auto simp: field_simps)
  finally show ?thesis by (auto simp: js_round_def)
qed

lemma endpoint_result_iff:
  "endpoint_result num started finished outcome = Inr r \<longleftrightarrow>
    (\<exists>response raw. outcome = Inr response
       \<and> fres_text response = Inr raw
       \<and> res_status r = fres_status response \<and> res_statusText r = fres_statusText response
       \<and> res_ok r = fres_ok response \<and> res_raw r = raw \<and> res_data r = parseResponse num raw
       \<and> real_of_int (res_elapsedMs r) - 1 / 2 \<le> real_of_rat (finished - started)
       \<and> real_of_rat (finished - started) < real_of_int (res_elapsedMs r) + 1 / 2
       \<and> res_headers r = from_entries (fres_headers response))"
proof (cases outcome)
  case (Inr response)
  then show ?thesis
    using js_round_iff [of "res_elapsedMs r" "finished - started"]
    by (cases "fres_text response") (auto simp: endpoint_result_def)
qed (simp add: endpoint_result_def)

subsection \<open>Properties\<close>


text \<open>The operation count of an OpenAPI document is the number of pairs of a path
  and one of the five methods among the keys of its item; a document without a paths object
  counts zero.\<close>

theorem operation_count:
  assumes "json_ok num document" and "paths_of document = Some (JObj paths)"
  shows "countOpenApiOperations document =
    card {(p, k). \<exists>item. map_of paths p = Some (JObj item) \<and> k \<in> fst ` set item
            \<and> k \<in> set openapi_methods}"
proof -
  from assms obtain kvs where doc: "document = JObj kvs" by (cases document) auto
  with assms have "(js ''paths'', JObj paths) \<in> set kvs" by (simp add: map_of_SomeD)
  with assms(1) doc have ok: "json_ok num (JObj paths)"
    by (metis (no_types, lifting) case_prodD json_ok.simps(3))
  have "countOpenApiOperations document = sum_list (map (\<lambda>item. length (filter
      (\<lambda>k. k \<in> set openapi_methods) (object_keys item))) (filter is_object (map snd paths)))"
    using assms(2) by (simp add: countOpenApiOperations_def foldl_count)
  also have "\<dots> = card (SIGMA p : fst ` set paths. item_methods (the (map_of paths p)))"
    by (rule count_paths [OF ok])
  also have "(SIGMA p : fst ` set paths. item_methods (the (map_of paths p))) =
      {(p, k). \<exists>item. map_of paths p = Some (JObj item) \<and> k \<in> fst ` set item
            \<and> k \<in> set openapi_methods}"
  proof -
    have dom: "p \<in> fst ` set paths \<longleftrightarrow> (\<exists>x. map_of paths p = Some x)" for p
      by (metis domD domI dom_map_of_conv_image_fst)
    have "p \<in> fst ` set paths \<and> k \<in> item_methods (the (map_of paths p)) \<longleftrightarrow>
        (\<exists>item. map_of paths p = Some (JObj item) \<and> k \<in> fst ` set item
            \<and> k \<in> set openapi_methods)" for p k
      unfolding dom by (auto simp: item_methods_def split: json.splits)
    then show ?thesis by blast
  qed
  finally show ?thesis .
qed

theorem operation_count_witness:
  "countOpenApiOperations (JObj [(js ''paths'', JObj [(js ''a'', JObj [(js ''get'', JNull)])])])
    = card {(p, k). \<exists>item. map_of [(js ''a'', JObj [(js ''get'', JNull)])] p = Some (JObj item)
          \<and> k \<in> fst ` set item \<and> k \<in> set openapi_methods}"
  by (rule operation_count [of id])
    (simp_all add: from_entries_def obj_set_def is_index_def js_def is_digit_def)

end
