(* ===== verification/WbTotp.thy ===== *)
theory WbTotp
  imports WbTypes
begin

section \<open>One-time passwords: decodeBase32 and computeTotp of browser-effects.ts\<close>

text \<open>
  The Base32 decoder works on a text of bits, as the source does. \<open>computeTotp\<close> takes the
  two operations of WebCrypto it awaits (\<open>importKey\<close> and \<open>sign\<close>, for HMAC with SHA-1) as
  parameters that may fail. A byte is an \<open>8 word\<close>, the truncated code a \<open>32 word\<close>; times
  are whole milliseconds (for times a clock shows, the division of the source is exact
  enough not to cross a step).
\<close>

unbundle bit_operations_syntax

type_synonym byte = "8 word"

datatype totp_error = InvalidBase32 | CryptoFailure

subsection \<open>Base32\<close>

definition base32_alphabet :: jstr where
  "base32_alphabet = js ''ABCDEFGHIJKLMNOPQRSTUVWXYZ234567''"

fun index_of :: "'a list \<Rightarrow> 'a \<Rightarrow> nat option" where
  "index_of [] c = None"
| "index_of (x # xs) c = (if x = c then Some 0 else map_option Suc (index_of xs c))"

text \<open>
  \<open>toUpperCase\<close>, as far as the alphabet can tell: the ASCII letters, and the other units
  whose upper case consists of ASCII letters.
\<close>

definition special_upper :: "(code_unit \<times> jstr) list" where
  "special_upper =
     [(0x131, js ''I''), (0x17F, js ''S''), (0xDF, js ''SS''), (0xFB00, js ''FF''),
      (0xFB01, js ''FI''), (0xFB02, js ''FL''), (0xFB03, js ''FFI''), (0xFB04, js ''FFL''),
      (0xFB05, js ''ST''), (0xFB06, js ''ST'')]"

definition upper_units :: "code_unit \<Rightarrow> jstr" where
  "upper_units c =
     (if is_lower c then [c - 0x20]
      else case map_of special_upper c of Some s \<Rightarrow> s | None \<Rightarrow> [c])"

definition strip_trailing :: "'a \<Rightarrow> 'a list \<Rightarrow> 'a list" where
  "strip_trailing c s = rev (dropWhile (\<lambda>x. x = c) (rev s))"

definition clean_base32 :: "jstr \<Rightarrow> jstr" where
  "clean_base32 v =
     filter (\<lambda>c. \<not> is_space c) (strip_trailing 0x3D (concat (map upper_units v)))"

fun base32_bits :: "jstr \<Rightarrow> totp_error + jstr" where
  "base32_bits [] = Inr []"
| "base32_bits (c # cs) =
     (case index_of base32_alphabet c of
        None \<Rightarrow> Inl InvalidBase32
      | Some i \<Rightarrow> map_sum id (\<lambda>bits. pad_start 5 0x30 (nat_to_bin i) @ bits) (base32_bits cs))"

text \<open>\<open>Number.parseInt(text, 2)\<close> for a text of zeros and ones.\<close>

definition parse_bin :: "jstr \<Rightarrow> nat" where
  "parse_bin s = foldl (\<lambda>n c. 2 * n + (if c = 0x31 then 1 else 0)) 0 s"

function bits_to_bytes :: "jstr \<Rightarrow> byte list" where
  "bits_to_bytes bits =
     (if length bits < 8 then []
      else word_of_nat (parse_bin (take 8 bits)) # bits_to_bytes (drop 8 bits))"
  by pat_completeness auto
termination by (relation "measure length") auto

declare bits_to_bytes.simps [simp del]

definition decodeBase32 :: "jstr \<Rightarrow> totp_error + byte list" where
  "decodeBase32 v = map_sum id bits_to_bytes (base32_bits (clean_base32 v))"

subsection \<open>The code\<close>

text \<open>The loop over the counter's bytes, from the last index down to the first.\<close>

fun counter_loop :: "nat \<Rightarrow> int \<Rightarrow> byte list \<Rightarrow> byte list" where
  "counter_loop 0 remaining bs = bs"
| "counter_loop (Suc index) remaining bs =
     counter_loop index (remaining div 256) (bs[index := word_of_int (remaining AND 0xFF)])"

definition counter_bytes :: "int \<Rightarrow> byte list" where
  "counter_bytes counter = counter_loop 8 counter (replicate 8 0)"

text \<open>\<open>digest[i] ?? 0\<close>.\<close>

definition byte_at :: "byte list \<Rightarrow> nat \<Rightarrow> byte" where
  "byte_at ds i = (if i < length ds then ds ! i else 0)"

definition truncate_digest :: "byte list \<Rightarrow> 32 word" where
  "truncate_digest digest =
     (let offset = unat ((if digest = [] then 0 else last digest) AND 0x0F) in
        push_bit 24 (ucast (byte_at digest offset AND 0x7F))
        OR push_bit 16 (ucast (byte_at digest (offset + 1)))
        OR push_bit 8 (ucast (byte_at digest (offset + 2)))
        OR ucast (byte_at digest (offset + 3)))"

definition totp_text :: "32 word \<Rightarrow> jstr" where
  "totp_text binary = pad_start 6 0x30 (nat_to_js (unat binary mod 1000000))"

definition computeTotp ::
  "(byte list \<Rightarrow> 'k option) \<Rightarrow> ('k \<Rightarrow> byte list \<Rightarrow> byte list option) \<Rightarrow> jstr \<Rightarrow> int
     \<Rightarrow> totp_error + jstr" where
  "computeTotp importKey sign secret now =
     (case decodeBase32 secret of
        Inl err \<Rightarrow> Inl err
      | Inr keyBytes \<Rightarrow>
          let counterBytes = counter_bytes (now div 1000 div 30) in
          (case importKey keyBytes of
             None \<Rightarrow> Inl CryptoFailure
           | Some key \<Rightarrow>
               (case sign key counterBytes of
                  None \<Rightarrow> Inl CryptoFailure
                | Some digest \<Rightarrow> Inr (totp_text (truncate_digest digest)))))"

subsection \<open>Lemmas: numerals\<close>

lemma nat_digits_value: "2 \<le> b \<Longrightarrow> foldl (\<lambda>m d. b * m + d) 0 (nat_digits b n) = n"
proof (induction b n rule: nat_digits.induct)
  case (1 b n)
  show ?case
  proof (cases "n < b")
    case True
    then show ?thesis by (simp add: nat_digits.simps [of b n])
  next
    case False
    with 1 have "foldl (\<lambda>m d. b * m + d) 0 (nat_digits b (n div b)) = n div b" by simp
    with 1 False show ?thesis by (simp add: nat_digits.simps [of b n])
  qed
qed

lemma nat_digits_length: "2 \<le> b \<Longrightarrow> n < b ^ k \<Longrightarrow> 0 < k \<Longrightarrow> length (nat_digits b n) \<le> k"
proof (induction b n arbitrary: k rule: nat_digits.induct)
  case (1 b n)
  show ?case
  proof (cases "n < b")
    case True
    with 1 show ?thesis by (simp add: nat_digits.simps [of b n])
  next
    case False
    then obtain j where k: "k = Suc j" and j: "0 < j"
      using "1.prems" by (cases k; cases "k - 1") auto
    have "n div b < b ^ j"
      using "1.prems" k by (simp add: less_mult_imp_div_less mult.commute)
    with "1.IH" "1.prems" False j have "length (nat_digits b (n div b)) \<le> j" by simp
    with False "1.prems"(1) k show ?thesis by (simp add: nat_digits.simps [of b n])
  qed
qed

lemma unat_digit_unit: "d < 10 \<Longrightarrow> unat (digit_unit d) = 48 + d"
  by (simp only: digit_unit_def if_True unat_of_nat) (simp add: take_bit_nat_eq_self)

text \<open>The number a decimal text stands for.\<close>

definition dec_value :: "jstr \<Rightarrow> nat" where
  "dec_value s = foldl (\<lambda>n c. 10 * n + (unat c - 48)) 0 s"

lemma dec_value_nat_to_js: "dec_value (nat_to_js n) = n"
proof -
  have "foldl (\<lambda>n c. 10 * n + (unat c - 48)) m (map digit_unit ds) = foldl (\<lambda>m d. 10 * m + d) m ds"
    if "\<forall>d \<in> set ds. d < 10" for m ds
    using that by (induction ds arbitrary: m) (simp_all add: unat_digit_unit)
  then show ?thesis
    using nat_digits_value [of 10 n] nat_digits_less [of 10 _ n]
    by (simp add: dec_value_def nat_to_js_def)
qed

lemma dec_value_pad: "dec_value (pad_start k 0x30 s) = dec_value s"
proof -
  have "foldl (\<lambda>n c. 10 * n + (unat c - 48)) 0 (replicate j (0x30 :: code_unit)) = 0" for j
    by (induction j) simp_all
  then show ?thesis by (simp add: dec_value_def pad_start_def)
qed

lemma totp_text_shape:
  "length (totp_text w) = 6 \<and> list_all is_digit (totp_text w)
     \<and> dec_value (totp_text w) = unat w mod 1000000"
proof -
  have "length (nat_digits 10 (unat w mod 1000000)) \<le> 6" by (rule nat_digits_length) simp_all
  then have len: "length (nat_to_js (unat w mod 1000000)) \<le> 6" by (simp add: nat_to_js_def)
  have "list_all is_digit (replicate j 0x30)" for j
    by (induction j) (simp_all add: is_digit_def)
  then have "list_all is_digit (totp_text w)"
    using nat_to_js_digits by (simp add: totp_text_def pad_start_def)
  with len show ?thesis
    by (simp add: totp_text_def dec_value_pad dec_value_nat_to_js)
qed

subsection \<open>Lemmas: the counter and the truncation\<close>

text \<open>The number a list of bytes stands for, the first byte first.\<close>

definition be_value :: "byte list \<Rightarrow> int" where
  "be_value bs = foldl (\<lambda>n b. 256 * n + uint b) 0 bs"

lemma be_value_snoc [simp]: "be_value (bs @ [b]) = 256 * be_value bs + uint b"
  by (simp add: be_value_def)

lemma be_value_Nil [simp]: "be_value [] = 0"
  by (simp add: be_value_def)

lemma counter_loop_value:
  "n \<le> length bs \<Longrightarrow>
     length (counter_loop n r bs) = length bs
     \<and> drop n (counter_loop n r bs) = drop n bs
     \<and> be_value (take n (counter_loop n r bs)) = r mod 256 ^ n"
proof (induction n arbitrary: r bs)
  case (Suc n)
  let ?w = "word_of_int (r AND 0xFF) :: byte"
  let ?x = "counter_loop n (r div 256) (bs[n := ?w])"
  have IH: "length ?x = length bs" "drop n ?x = drop n (bs[n := ?w])"
      "be_value (take n ?x) = (r div 256) mod 256 ^ n"
    using Suc.IH [of "bs[n := ?w]" "r div 256"] Suc.prems by simp_all
  have nth: "?x ! n = ?w"
  proof -
    have "?x ! n = drop n ?x ! 0" using IH(1) Suc.prems by simp
    also have "\<dots> = (bs[n := ?w]) ! n" using Suc.prems by (simp add: IH(2))
    finally show ?thesis using Suc.prems by simp
  qed
  have "r AND 0xFF = r mod 256"
    using take_bit_eq_mask [of 8 r] by (simp add: take_bit_eq_mod mask_eq_exp_minus_1)
  then have w: "uint ?w = r mod 256" by (simp add: uint_word_of_int)
  have "take (Suc n) ?x = take n ?x @ [?w]"
    using take_Suc_conv_app_nth [of n ?x] IH(1) Suc.prems nth by simp
  then have "be_value (take (Suc n) ?x) = 256 * ((r div 256) mod 256 ^ n) + r mod 256"
    using IH(3) w by simp
  also have "\<dots> = r mod 256 ^ Suc n"
    using zmod_zmult2_eq [of "256 ^ n" r 256] by simp
  finally have be: "be_value (take (Suc n) ?x) = r mod 256 ^ Suc n" .
  have "drop (Suc n) ?x = drop 1 (drop n ?x)" by simp
  also have "\<dots> = drop (Suc n) bs" by (simp only: IH(2)) simp
  finally show ?case using IH(1) be by simp
qed simp

lemma length_counter_bytes: "length (counter_bytes c) = 8"
  using counter_loop_value [of 8 "replicate 8 0" c] by (simp add: counter_bytes_def)

lemma be_value_counter_bytes: "be_value (counter_bytes c) = c mod 2 ^ 64"
proof -
  have "be_value (take 8 (counter_bytes c)) = c mod 256 ^ 8"
    using counter_loop_value [of 8 "replicate 8 0" c, THEN conjunct2, THEN conjunct2]
    by (simp only: counter_bytes_def length_replicate order_refl)
  moreover have "take 8 (counter_bytes c) = counter_bytes c" by (simp add: length_counter_bytes)
  ultimately show ?thesis by simp
qed

lemma unat_push_byte:
  "n \<le> 24 \<Longrightarrow> unat (push_bit n (ucast (b :: byte) :: 32 word)) = 2 ^ n * unat b"
proof -
  assume n: "n \<le> 24"
  have "unat b < 2 ^ 8" using unsigned_less [of b, where 'a = nat] by simp
  then have "2 ^ n * unat b < 2 ^ n * 2 ^ 8" by simp
  also have "\<dots> \<le> 2 ^ 32" using power_increasing [of "n + 8" 32 "2 :: nat"] n by (simp add: power_add)
  finally have "2 ^ n * unat b < 2 ^ 32" .
  then have "take_bit 32 (2 ^ n * unat b) = 2 ^ n * unat b" by (intro take_bit_nat_eq_self)
  moreover have "unat (ucast b :: 32 word) = unat b"
    using \<open>unat b < 2 ^ 8\<close> by (simp add: unsigned_ucast_eq take_bit_nat_eq_self)
  moreover have "unat (push_bit n (ucast b :: 32 word)) = take_bit LENGTH(32) (push_bit n (unat (ucast b :: 32 word)))"
    by (rule unsigned_push_bit_eq)
  ultimately show ?thesis
    by (simp add: push_bit_eq_mult mult.commute)
qed

lemma bit_push_byte:
  "bit (push_bit n (ucast (b :: byte) :: 32 word)) i \<longleftrightarrow> n \<le> i \<and> i < 32 \<and> bit b (i - n)"
  by (auto simp: bit_push_bit_iff bit_ucast_iff dest: bit_imp_le_length)

lemma or_bytes:
  "unat (push_bit 24 (ucast (a :: byte)) OR push_bit 16 (ucast (b :: byte))
      OR push_bit 8 (ucast (c :: byte)) OR ucast (d :: byte) :: 32 word)
    = 2 ^ 24 * unat a + 2 ^ 16 * unat b + 2 ^ 8 * unat c + unat d"
proof -
  let ?w = "\<lambda>n x. push_bit n (ucast (x :: byte)) :: 32 word"
  have lt: "unat (x :: byte) < 256" for x using unsigned_less [of x, where 'a = nat] by simp
  have bits: "bit (x :: byte) i \<Longrightarrow> i < 8" for x i by (auto dest: bit_imp_le_length)
  have "?w 8 c OR ?w 0 d = ?w 8 c + ?w 0 d"
    by (rule disjunctive_add [symmetric]) (auto simp: bit_push_byte simp del: push_bit_0_id dest: bits)
  moreover have "unat (?w 8 c + ?w 0 d) = unat (?w 8 c) + unat (?w 0 d)"
    by (rule unat_add_lem [THEN iffD1]) (use lt [of c] lt [of d] in \<open>simp add: unat_push_byte del: push_bit_0_id\<close>)
  ultimately have e1: "unat (?w 8 c OR ?w 0 d) = 2 ^ 8 * unat c + unat d"
    by (simp add: unat_push_byte del: push_bit_0_id)
  have "?w 16 b OR (?w 8 c OR ?w 0 d) = ?w 16 b + (?w 8 c OR ?w 0 d)"
    by (rule disjunctive_add [symmetric])
      (auto simp: bit_push_byte bit_or_iff simp del: push_bit_0_id dest: bits)
  moreover have "unat (?w 16 b + (?w 8 c OR ?w 0 d)) = unat (?w 16 b) + unat (?w 8 c OR ?w 0 d)"
    by (rule unat_add_lem [THEN iffD1])
      (use lt [of b] lt [of c] lt [of d] in \<open>simp add: e1 unat_push_byte del: push_bit_0_id\<close>)
  ultimately have e2: "unat (?w 16 b OR (?w 8 c OR ?w 0 d)) = 2 ^ 16 * unat b + (2 ^ 8 * unat c + unat d)"
    by (simp add: e1 unat_push_byte del: push_bit_0_id)
  have "?w 24 a OR (?w 16 b OR (?w 8 c OR ?w 0 d)) = ?w 24 a + (?w 16 b OR (?w 8 c OR ?w 0 d))"
    by (rule disjunctive_add [symmetric])
      (auto simp: bit_push_byte bit_or_iff simp del: push_bit_0_id dest: bits)
  moreover have "unat (?w 24 a + (?w 16 b OR (?w 8 c OR ?w 0 d)))
      = unat (?w 24 a) + unat (?w 16 b OR (?w 8 c OR ?w 0 d))"
    by (rule unat_add_lem [THEN iffD1])
      (use lt [of a] lt [of b] lt [of c] lt [of d] in \<open>simp add: e2 unat_push_byte del: push_bit_0_id\<close>)
  ultimately show ?thesis using e2 by (simp add: unat_push_byte or.assoc)
qed

lemma unat_and_7F: "unat ((b :: byte) AND 0x7F) = unat b mod 128"
proof -
  have "b AND 0x7F = take_bit 7 b" by (simp add: take_bit_eq_mask mask_eq_exp_minus_1)
  then show ?thesis by (simp only: unsigned_take_bit_eq) (simp add: take_bit_eq_mod)
qed

lemma unat_and_0F: "unat ((b :: byte) AND 0x0F) = unat b mod 16"
proof -
  have "b AND 0x0F = take_bit 4 b" by (simp add: take_bit_eq_mask mask_eq_exp_minus_1)
  then show ?thesis by (simp only: unsigned_take_bit_eq) (simp add: take_bit_eq_mod)
qed

text \<open>The dynamic truncation as the standard states it.\<close>

definition truncated_value :: "byte list \<Rightarrow> int" where
  "truncated_value digest =
     be_value (take 4 (drop (unat (last digest) mod 16) digest)) mod 2 ^ 31"

lemma four_or_more: "4 \<le> length ys \<Longrightarrow> \<exists>a b c d r. ys = a # b # c # d # r"
  by (auto simp: numeral_eq_Suc Suc_le_length_iff)

lemma take_four:
  assumes "i + 3 < length xs"
  shows "take 4 (drop i xs) = [xs ! i, xs ! (i + 1), xs ! (i + 2), xs ! (i + 3)]"
proof -
  have "4 \<le> length (drop i xs)" using assms by simp
  then obtain a b c d r where drop: "drop i xs = a # b # c # d # r"
    by (metis four_or_more)
  have "xs ! (i + k) = drop i xs ! k" for k using assms by simp
  from this [of 0] this [of 1] this [of 2] this [of 3] show ?thesis by (simp add: drop)
qed

lemma be_value_four: "be_value [a, b, c, d] = int (2 ^ 24 * unat a + 2 ^ 16 * unat b + 2 ^ 8 * unat c + unat d)"
  by (simp add: be_value_def)

lemma mod_four_bytes:
  assumes "b < 256" "c < 256" "d < (256 :: nat)"
  shows "(2 ^ 24 * a + 2 ^ 16 * b + 2 ^ 8 * c + d) mod 2 ^ 31
    = 2 ^ 24 * (a mod 128) + 2 ^ 16 * b + 2 ^ 8 * c + d"
proof -
  let ?r = "2 ^ 24 * (a mod 128) + 2 ^ 16 * b + 2 ^ 8 * c + d"
  have "16777216 * a = 2147483648 * (a div 128) + 16777216 * (a mod 128)"
    using mult_div_mod_eq [of 128 a] by linarith
  then have "2 ^ 24 * a + 2 ^ 16 * b + 2 ^ 8 * c + d = ?r + 2 ^ 31 * (a div 128)" by simp
  moreover have "?r < 2 ^ 31" using assms mod_less_divisor [of 128 a] by simp
  ultimately show ?thesis by (simp only: mod_mult_self2 mod_less)
qed

lemma truncate_digest_value:
  assumes "length digest = 20"
  shows "int (unat (truncate_digest digest)) = truncated_value digest"
proof -
  let ?o = "unat (last digest) mod 16"
  have o: "?o + 3 < length digest" using assms mod_less_divisor [of 16 "unat (last digest)"] by linarith
  have four: "take 4 (drop ?o digest) = [digest ! ?o, digest ! (?o + 1), digest ! (?o + 2), digest ! (?o + 3)]"
    using o by (rule take_four)
  have at: "byte_at digest ?o = digest ! ?o" "byte_at digest (?o + 1) = digest ! (?o + 1)"
      "byte_at digest (?o + 2) = digest ! (?o + 2)" "byte_at digest (?o + 3) = digest ! (?o + 3)"
    using o by (simp_all add: byte_at_def)
  have off: "unat ((if digest = [] then 0 else last digest) AND 0x0F) = ?o"
    using assms by (auto simp: unat_and_0F)
  have "unat (truncate_digest digest) = 2 ^ 24 * (unat (digest ! ?o) mod 128)
      + 2 ^ 16 * unat (digest ! (?o + 1)) + 2 ^ 8 * unat (digest ! (?o + 2)) + unat (digest ! (?o + 3))"
    unfolding truncate_digest_def Let_def off or_bytes unat_and_7F at ..
  moreover have "truncated_value digest = int (2 ^ 24 * (unat (digest ! ?o) mod 128)
      + 2 ^ 16 * unat (digest ! (?o + 1)) + 2 ^ 8 * unat (digest ! (?o + 2)) + unat (digest ! (?o + 3)))"
  proof -
    have lt: "unat (x :: byte) < 256" for x using unsigned_less [of x, where 'a = nat] by simp
    have "truncated_value digest = int ((2 ^ 24 * unat (digest ! ?o) + 2 ^ 16 * unat (digest ! (?o + 1))
        + 2 ^ 8 * unat (digest ! (?o + 2)) + unat (digest ! (?o + 3))) mod 2 ^ 31)"
      unfolding truncated_value_def four be_value_four by (simp only: zmod_int) simp
    then show ?thesis by (simp only: mod_four_bytes [OF lt lt lt])
  qed
  ultimately show ?thesis by simp
qed

subsection \<open>Lemmas: Base32\<close>

definition bit_text :: "jstr \<Rightarrow> bool" where
  "bit_text s \<longleftrightarrow> set s \<subseteq> {0x30, 0x31}"

lemma parse_bin_pad: "parse_bin (pad_start k 0x30 s) = parse_bin s"
proof -
  have "foldl (\<lambda>n c. 2 * n + (if c = 0x31 then 1 else 0)) 0 (replicate j (0x30 :: code_unit)) = (0 :: nat)" for j
    by (induction j) simp_all
  then show ?thesis by (simp add: parse_bin_def pad_start_def)
qed

lemma digit_bits: "d < 2 \<Longrightarrow> digit_unit d = (if d = 1 then 0x31 else 0x30)"
  by (auto simp: digit_unit_def less_2_cases_iff)

lemma parse_bin_nat_to_bin: "parse_bin (nat_to_bin n) = n"
proof -
  have "foldl (\<lambda>n c. 2 * n + (if c = 0x31 then 1 else 0)) m (map digit_unit ds)
      = foldl (\<lambda>m d. 2 * m + d) m ds" if "\<forall>d \<in> set ds. d < 2" for m ds
    using that by (induction ds arbitrary: m) (auto simp: digit_bits less_2_cases_iff)
  then show ?thesis
    using nat_digits_value [of 2 n] nat_digits_less [of 2 _ n]
    by (simp add: parse_bin_def nat_to_bin_def)
qed

lemma bit_text_nat_to_bin: "bit_text (nat_to_bin n)"
  using nat_digits_less [of 2 _ n] by (auto simp: bit_text_def nat_to_bin_def digit_bits)

lemma bit_text_pad: "bit_text s \<Longrightarrow> bit_text (pad_start k 0x30 s)"
  by (auto simp: bit_text_def pad_start_def)

lemma length_nat_to_bin: "n < 2 ^ k \<Longrightarrow> 0 < k \<Longrightarrow> length (nat_to_bin n) \<le> k"
  using nat_digits_length [of 2 n k] by (simp add: nat_to_bin_def)

lemma double_bit:
  "2 * a + (if P then 1 else 0) = 2 * b + (if Q then 1 else (0 :: nat)) \<Longrightarrow> (P = Q) \<and> a = b"
  by (cases P; cases Q) (simp_all, presburger+)

text \<open>Bit texts of one length are told apart by their value.\<close>

lemma parse_bin_snoc [simp]: "parse_bin (s @ [c]) = 2 * parse_bin s + (if c = 0x31 then 1 else 0)"
  by (simp add: parse_bin_def)

lemma parse_bin_less: "parse_bin s < 2 ^ length s"
  by (induction s rule: rev_induct) (auto simp: parse_bin_def)

lemma parse_bin_inject:
  "length s = length t \<Longrightarrow> bit_text s \<Longrightarrow> bit_text t \<Longrightarrow> parse_bin s = parse_bin t \<Longrightarrow> s = t"
proof (induction s arbitrary: t rule: rev_induct)
  case (snoc c s)
  then obtain d u where t: "t = u @ [d]" by (cases t rule: rev_cases) auto
  from snoc.prems have bits: "c \<in> {0x30, 0x31}" "d \<in> {0x30, 0x31}" "bit_text s" "bit_text u"
    by (auto simp: t bit_text_def)
  have eq: "2 * parse_bin s + (if c = 0x31 then 1 else 0) = 2 * parse_bin u + (if d = 0x31 then 1 else 0)"
    using snoc.prems(4) by (simp add: t)
  from double_bit [OF eq] snoc.IH [of u] snoc.prems(1) bits show ?case by (auto simp: t)
qed simp

text \<open>The text of the bits of a number, in k places.\<close>

definition bits_of :: "nat \<Rightarrow> nat \<Rightarrow> jstr" where
  "bits_of k n = pad_start k 0x30 (nat_to_bin n)"

lemma bits_of:
  assumes "n < 2 ^ k" "0 < k"
  shows "length (bits_of k n) = k \<and> bit_text (bits_of k n) \<and> parse_bin (bits_of k n) = n"
  using length_nat_to_bin [OF assms]
  by (simp add: bits_of_def bit_text_pad bit_text_nat_to_bin parse_bin_pad parse_bin_nat_to_bin)

lemma bits_of_parse:
  assumes "bit_text s" and "s \<noteq> []"
  shows "bits_of (length s) (parse_bin s) = s"
  using bits_of [of "parse_bin s" "length s"] parse_bin_less [of s] assms
  by (intro parse_bin_inject) simp_all

text \<open>The encoding that the decoder undoes: the bits of the bytes, in groups of five.\<close>

function base32_letters :: "jstr \<Rightarrow> jstr" where
  "base32_letters bits =
     (if bits = [] then []
      else base32_alphabet ! parse_bin (pad_end 5 0x30 (take 5 bits)) # base32_letters (drop 5 bits))"
  by pat_completeness auto
termination by (relation "measure length") auto

declare base32_letters.simps [simp del]

definition byte_bits :: "byte list \<Rightarrow> jstr" where
  "byte_bits bs = concat (map (\<lambda>b. bits_of 8 (unat b)) bs)"

definition base32_encode :: "byte list \<Rightarrow> jstr" where
  "base32_encode bs = base32_letters (byte_bits bs)"

lemma index_of_nth: "distinct xs \<Longrightarrow> i < length xs \<Longrightarrow> index_of xs (xs ! i) = Some i"
proof (induction xs arbitrary: i)
  case (Cons x xs)
  then show ?case by (cases i) (auto simp: nth_mem)
qed simp

lemma index_of_less: "index_of xs c = Some i \<Longrightarrow> i < length xs"
  by (induction xs arbitrary: i) (auto split: if_splits)

lemma index_of_None: "index_of xs c = None \<longleftrightarrow> c \<notin> set xs"
  by (induction xs) auto

lemma base32_alphabet_props: "distinct base32_alphabet" "length base32_alphabet = 32"
  by (simp_all add: base32_alphabet_def js_def)

lemma base32_bits_letters:
  "bit_text bits \<Longrightarrow>
     \<exists>k < 5. base32_bits (base32_letters bits) = Inr (bits @ replicate k 0x30)"
proof (induction bits rule: base32_letters.induct)
  case (1 bits)
  show ?case
  proof (cases "bits = []")
    case False
    let ?g = "pad_end 5 0x30 (take 5 bits)"
    have g: "bit_text ?g" "length ?g = 5"
      using "1.prems" by (auto simp: bit_text_def pad_end_def dest: in_set_takeD)
    have idx: "index_of base32_alphabet (base32_alphabet ! parse_bin ?g) = Some (parse_bin ?g)"
      using parse_bin_less [of ?g] g(2) base32_alphabet_props by (intro index_of_nth) simp_all
    have "bits_of 5 (parse_bin ?g) = ?g" using bits_of_parse [of ?g] g by (cases ?g) auto
    then have head: "pad_start 5 0x30 (nat_to_bin (parse_bin ?g)) = ?g" by (simp add: bits_of_def)
    have "bit_text (drop 5 bits)" using "1.prems" by (auto simp: bit_text_def dest: in_set_dropD)
    then obtain k where k: "k < 5"
      and rest: "base32_bits (base32_letters (drop 5 bits)) = Inr (drop 5 bits @ replicate k 0x30)"
      using "1.IH" False by blast
    have "base32_bits (base32_letters bits) = Inr (?g @ drop 5 bits @ replicate k 0x30)"
      using False by (simp add: base32_letters.simps [of bits] idx head rest)
    moreover have "\<exists>j < 5. ?g @ drop 5 bits @ replicate k 0x30 = bits @ replicate j 0x30"
    proof (cases "5 \<le> length bits")
      case True
      then have "?g = take 5 bits" by (simp add: pad_end_def)
      with k show ?thesis by auto
    next
      case short: False
      then have d: "drop 5 bits = []" and t: "take 5 bits = bits" by simp_all
      from rest d have "k = 0" by (simp add: base32_letters.simps)
      with d t short False show ?thesis
        by (intro exI [of _ "5 - length bits"]) (cases bits; simp add: pad_end_def)
    qed
    ultimately show ?thesis by metis
  qed (simp add: base32_letters.simps)
qed

lemma bits_to_bytes_byte_bits:
  "k < 8 \<Longrightarrow> bits_to_bytes (byte_bits bs @ replicate k 0x30) = bs"
proof (induction bs)
  case Nil
  then show ?case by (simp add: byte_bits_def bits_to_bytes.simps)
next
  case (Cons b bs)
  have "unat b < 2 ^ 8" using unsigned_less [of b, where 'a = nat] by simp
  note b = bits_of [OF this]
  have "byte_bits (b # bs) @ replicate k 0x30 = bits_of 8 (unat b) @ byte_bits bs @ replicate k 0x30"
    by (simp add: byte_bits_def)
  with Cons b show ?case
    by (subst bits_to_bytes.simps) simp
qed

lemma byte_bits_text: "bit_text (byte_bits bs)"
proof -
  have "bit_text (bits_of 8 (unat b))" for b :: byte
    using bits_of [of "unat b" 8] unsigned_less [of b, where 'a = nat] by simp
  then show ?thesis by (auto simp: bit_text_def byte_bits_def)
qed

lemma base32_letters_alphabet:
  "bit_text bits \<Longrightarrow> set (base32_letters bits) \<subseteq> set base32_alphabet"
proof (induction bits rule: base32_letters.induct)
  case (1 bits)
  have "bit_text (drop 5 bits)" using "1.prems" by (auto simp: bit_text_def dest: in_set_dropD)
  moreover have "parse_bin (pad_end 5 0x30 (take 5 bits)) < length base32_alphabet"
    if "bits \<noteq> []"
    using parse_bin_less [of "pad_end 5 0x30 (take 5 bits)"] base32_alphabet_props by simp
  ultimately show ?case
    using "1.IH" by (subst base32_letters.simps) (auto intro: nth_mem)
qed

lemma length_five_bits: "index_of base32_alphabet c = Some i \<Longrightarrow> length (pad_start 5 0x30 (nat_to_bin i)) = 5"
  using index_of_less [of base32_alphabet c i] bits_of [of i 5] base32_alphabet_props
  by (simp add: bits_of_def)

lemma base32_bits_length: "base32_bits s = Inr bits \<Longrightarrow> length bits = 5 * length s"
proof (induction s arbitrary: bits)
  case (Cons c s)
  then show ?case
    by (cases "base32_bits s") (auto split: option.splits simp del: length_pad_start dest!: length_five_bits)
qed simp

lemma base32_bits_iff: "(\<exists>bits. base32_bits s = Inr bits) \<longleftrightarrow> set s \<subseteq> set base32_alphabet"
proof (induction s)
  case (Cons c s)
  then show ?case
    using index_of_None [of base32_alphabet c]
    by (cases "index_of base32_alphabet c"; cases "base32_bits s") auto
qed simp

lemma length_bits_to_bytes: "length (bits_to_bytes bits) = length bits div 8"
proof (induction bits rule: bits_to_bytes.induct)
  case (1 bits)
  show ?case
  proof (cases "length bits < 8")
    case False
    with 1 show ?thesis by (subst bits_to_bytes.simps) (simp add: le_div_geq)
  qed (simp add: bits_to_bytes.simps)
qed

lemma strip_trailing_append: "c \<notin> set s \<Longrightarrow> strip_trailing c (s @ replicate k c) = s"
proof -
  assume "c \<notin> set s"
  then have "dropWhile (\<lambda>x. x = c) (rev s) = rev s" by (cases s rule: rev_cases) auto
  moreover have "dropWhile (\<lambda>x. x = c) (replicate k c @ t) = dropWhile (\<lambda>x. x = c) t" for t
    by (induction k) simp_all
  ultimately show ?thesis by (simp add: strip_trailing_def)
qed

lemma equals_not_base32: "0x3D \<notin> set base32_alphabet" "\<not> is_space 0x3D"
  by (simp_all add: base32_alphabet_def js_def is_space_def white_space_def)

lemma upper_units_equals: "upper_units 0x3D = [0x3D]"
  by (simp add: upper_units_def special_upper_def is_lower_def)

lemma clean_base32_padded:
  assumes "filter (\<lambda>c. \<not> is_space c) (concat (map upper_units w)) = base32_encode bs"
  shows "clean_base32 (w @ replicate k 0x3D) = base32_encode bs"
proof -
  have "0x3D \<notin> set (base32_encode bs)"
    using base32_letters_alphabet [OF byte_bits_text] equals_not_base32
    by (auto simp: base32_encode_def)
  then have "0x3D \<notin> set (concat (map upper_units w))"
    using equals_not_base32(2) unfolding assms [symmetric] by auto
  then have "strip_trailing 0x3D (concat (map upper_units w) @ replicate k 0x3D)
      = concat (map upper_units w)" by (rule strip_trailing_append)
  moreover have "concat (map upper_units (replicate k 0x3D)) = replicate k 0x3D"
    by (induction k) (simp_all add: upper_units_equals)
  ultimately show ?thesis by (simp add: clean_base32_def assms)
qed

subsection \<open>Properties\<close>

text \<open>C28: Decoding the Base32 text of some bytes gives the bytes back, whether its
  letters are in upper or lower case, with white space anywhere between them, and with any
  padding after them.\<close>

theorem base32_roundtrip:
  assumes "filter (\<lambda>c. \<not> is_space c) (concat (map upper_units w)) = base32_encode bs"
  shows "decodeBase32 (w @ replicate k 0x3D) = Inr bs"
proof -
  obtain j where "j < 5" and "base32_bits (base32_encode bs) = Inr (byte_bits bs @ replicate j 0x30)"
    using base32_bits_letters [OF byte_bits_text, of bs] by (auto simp: base32_encode_def)
  then show ?thesis
    using bits_to_bytes_byte_bits [of j bs] clean_base32_padded [OF assms, of k]
    by (simp add: decodeBase32_def)
qed

theorem base32_roundtrip_witness:
  "decodeBase32 (js ''mz xw6=='' @ replicate 1 0x3D) = Inr [0x66, 0x6F, 0x6F]"
proof -
  have "filter (\<lambda>c. \<not> is_space c) (concat (map upper_units (js ''mz xw6''))) = base32_encode [0x66, 0x6F, 0x6F]"
    by code_simp
  from base32_roundtrip [OF this, of 3] show ?thesis by (simp add: js_def numeral_eq_Suc)
qed

lemma base32_bits_error: "base32_bits s = Inl e \<Longrightarrow> e = InvalidBase32"
proof (induction s)
  case (Cons c s)
  then show ?case by (cases "base32_bits s") (auto split: option.splits)
qed simp

text \<open>Decoding fails exactly when the text, without white space and padding and
  in upper case, holds something outside the alphabet; otherwise n letters give 5n/8 bytes.\<close>

theorem base32_errors:
  "(case decodeBase32 v of
      Inl err \<Rightarrow> err = InvalidBase32 \<and> \<not> set (clean_base32 v) \<subseteq> set base32_alphabet
    | Inr bs \<Rightarrow> set (clean_base32 v) \<subseteq> set base32_alphabet
        \<and> length bs = 5 * length (clean_base32 v) div 8)"
proof (cases "base32_bits (clean_base32 v)")
  case (Inl err)
  then show ?thesis using base32_bits_iff [of "clean_base32 v"]
    base32_bits_error [OF Inl]
    by (auto simp: decodeBase32_def)
next
  case (Inr bits)
  then show ?thesis using base32_bits_iff [of "clean_base32 v"] base32_bits_length [OF Inr]
    by (auto simp: decodeBase32_def length_bits_to_bytes)
qed

text \<open>C29: A one-time password that is computed is the six decimal digits of the dynamic
  truncation (31 bits at the offset the digest's last four bits give) of the digest of the
  30-second step counter, as eight bytes with the highest first, under the decoded key.\<close>

theorem totp_code:
  assumes "\<And>key m d. sign key m = Some d \<Longrightarrow> length d = 20"
    and "computeTotp importKey sign secret now = Inr t"
  shows "\<exists>keyBytes key counter digest.
    decodeBase32 secret = Inr keyBytes \<and> importKey keyBytes = Some key
    \<and> length counter = 8 \<and> be_value counter = (now div 30000) mod 2 ^ 64
    \<and> sign key counter = Some digest
    \<and> length t = 6 \<and> list_all is_digit t \<and> int (dec_value t) = truncated_value digest mod 1000000"
proof -
  let ?c = "counter_bytes (now div 1000 div 30)"
  from assms(2) obtain keyBytes key digest where k: "decodeBase32 secret = Inr keyBytes"
    and i: "importKey keyBytes = Some key" and s: "sign key ?c = Some digest"
    and t: "t = totp_text (truncate_digest digest)"
    by (auto simp: computeTotp_def Let_def split: sum.splits option.splits)
  note shape = totp_text_shape [of "truncate_digest digest", folded t]
  have "int (dec_value t) = int (unat (truncate_digest digest)) mod 1000000"
    using shape by (simp add: zmod_int)
  then have code: "int (dec_value t) = truncated_value digest mod 1000000"
    by (simp only: truncate_digest_value [OF assms(1) [OF s]])
  have "now div 1000 div 30 = now div 30000" by (simp add: zdiv_zmult2_eq [symmetric])
  then have counter: "be_value ?c = (now div 30000) mod 2 ^ 64"
    by (simp only: be_value_counter_bytes)
  show ?thesis
    by (intro exI conjI) (rule k, rule i, rule length_counter_bytes, rule counter, rule s,
        use shape code in \<open>simp_all only: simp_thms\<close>)
qed

text \<open>The digest of the example in RFC 4226, section 5.4.\<close>

definition sample_digest :: "byte list" where
  "sample_digest =
     [0x1f, 0x86, 0x98, 0x69, 0x0e, 0x02, 0xca, 0x16, 0x61, 0x85,
      0x50, 0xef, 0x7f, 0x19, 0xda, 0x8e, 0x94, 0x5b, 0x55, 0x5a]"

lemma sample_totp:
  "computeTotp (\<lambda>k. Some k) (\<lambda>k m. Some sample_digest) (js ''JBSWY3DP'') 59000 = Inr (js ''872921'')"
proof -
  have "decodeBase32 (js ''JBSWY3DP'') = Inr [0x48, 0x65, 0x6C, 0x6C, 0x6F]" by code_simp
  moreover have "truncate_digest sample_digest = 0x50EF7F19"
    by (simp add: truncate_digest_def sample_digest_def byte_at_def)
  moreover have "totp_text 0x50EF7F19 = js ''872921''"
    by (simp add: totp_text_def nat_to_js_def nat_digits.simps digit_unit_def pad_start_def js_def)
  ultimately show ?thesis by (auto simp: computeTotp_def)
qed

theorem totp_code_witness:
  "int (dec_value (js ''872921'')) = truncated_value sample_digest mod 1000000"
proof -
  have "length sample_digest = 20" by (simp add: sample_digest_def)
  then show ?thesis
    using totp_code [OF _ sample_totp] by auto
qed
end
