(* ===== verification/WbProvider.thy ===== *)
theory WbProvider
  imports WbVault WbFetch WbTotp
begin

section \<open>The workbench's state: workbench-context.tsx\<close>

text \<open>
  \<open>WorkbenchProvider\<close> as a state machine. The record holds the React state, the two refs and
  what the browser still owes the component: requests in flight, probes in flight, toast
  timers and one-time-password computations. An operation is one synchronous run of the
  source's code (a callback up to its first \<open>await\<close>, the code after an \<open>await\<close>, an effect with
  the render that triggers it). A callback made at an earlier render sees that render's
  values: they are its \<open>closure\<close>. A request carries a value \<open>'k\<close> of its caller, the caller's
  code after the \<open>await\<close>.
\<close>

subsection \<open>The browser\<close>

text \<open>What \<open>new URL(text, base)\<close> gives: its path, its query with the question mark, and its
  query parameters; \<open>None\<close> when it throws.\<close>

record url_parts =
  url_pathname :: jstr
  url_search :: jstr
  url_params :: "(jstr \<times> jstr) list"

text \<open>How numbers print, and the URL parser; both are the browser's.\<close>

record browser =
  br_num :: "jstr \<Rightarrow> jstr"
  br_url :: "jstr \<Rightarrow> jstr \<Rightarrow> url_parts option"

subsection \<open>State\<close>

record RunRequestOptions =
  opt_endpoint :: EndpointDefinition
  opt_path :: "jstr option"
  opt_body :: "json option"
  opt_headers :: "jstr obj"
  opt_display :: bool
  opt_reportError :: bool
  opt_authMode :: "AuthMode option"

record closure =
  cl_apiBase :: jstr
  cl_authMode :: AuthMode
  cl_variables :: WorkbenchVariables

record 'k pending =
  pd_controller :: nat
  pd_options :: RunRequestOptions
  pd_closure :: closure
  pd_input :: ApiRequestInput
  pd_started :: rat
  pd_continuation :: 'k

datatype service = Live | Ready | Openapi

record services =
  svc_live :: ServiceStatus
  svc_ready :: ServiceStatus
  svc_openapi :: ServiceStatus

record probe =
  probe_service :: service
  probe_url :: jstr
  probe_isOpenApi :: bool

record 'k provider =
  pv_apiBase :: jstr
  pv_authMode :: AuthMode
  pv_variables :: WorkbenchVariables
  pv_response :: "(nat \<times> WorkbenchResponse) option"
  pv_isRunning :: bool
  pv_services :: services
  pv_toasts :: "ToastMessage list"
  pv_abortRef :: "nat option"
  pv_toastId :: nat
  pv_storage :: session_storage
  pv_controllers :: nat
  pv_aborted :: "nat list"
  pv_pending :: "'k pending list"
  pv_probes :: "probe list"
  pv_timers :: "nat list"
  pv_totpRun :: nat
  pv_totpPending :: "(nat \<times> jstr) list"

definition checking_status :: ServiceStatus where
  "checking_status = \<lparr>svc_state = Checking, svc_operationCount = None\<rparr>"

definition INITIAL_SERVICES :: services where
  "INITIAL_SERVICES = \<lparr>svc_live = checking_status, svc_ready = checking_status, svc_openapi = checking_status\<rparr>"

text \<open>
  The response object on display is kept with the number of the request it came from: two
  objects with the same contents are different to the source's \<open>!==\<close>.
\<close>

text \<open>The values a callback made at this render sees.\<close>

definition closure_of :: "'k provider \<Rightarrow> closure" where
  "closure_of st =
     \<lparr>cl_apiBase = pv_apiBase st, cl_authMode = pv_authMode st, cl_variables = pv_variables st\<rparr>"

subsection \<open>Toasts\<close>

definition dismissToast :: "nat \<Rightarrow> 'k provider \<Rightarrow> 'k provider" where
  "dismissToast i st = st\<lparr>pv_toasts := filter (\<lambda>toast. toast_id toast \<noteq> i) (pv_toasts st)\<rparr>"

definition pushToast :: "ui_text \<Rightarrow> ui_text \<Rightarrow> tone \<Rightarrow> 'k provider \<Rightarrow> 'k provider" where
  "pushToast title description tn st =
     (let i = Suc (pv_toastId st) in
        st\<lparr>pv_toastId := i,
           pv_toasts := pv_toasts st @
             [\<lparr>toast_id = i, toast_title = title, toast_description = description,
               toast_tone = tn\<rparr>],
           pv_timers := (if tn = Neutral then pv_timers st @ [i] else pv_timers st)\<rparr>)"

text \<open>The callback of \<open>setTimeout\<close>, 4200 milliseconds later.\<close>

definition timer_fires :: "nat \<Rightarrow> 'k provider \<Rightarrow> 'k provider" where
  "timer_fires i st = dismissToast i (st\<lparr>pv_timers := filter (\<lambda>j. j \<noteq> i) (pv_timers st)\<rparr>)"

subsection \<open>Variables, the mode and the vault\<close>

text \<open>
  A new value of the variables; when \<open>totpSecret\<close> changes, the cleanup ends the running
  one-time-password effect (its number is over) and a new one starts with a computation.
\<close>

definition set_variables :: "WorkbenchVariables \<Rightarrow> 'k provider \<Rightarrow> 'k provider" where
  "set_variables vs st =
     (if totpSecret vs = totpSecret (pv_variables st) then st\<lparr>pv_variables := vs\<rparr>
      else
        st\<lparr>pv_variables := vs,
           pv_totpRun := Suc (pv_totpRun st),
           pv_totpPending :=
             (if totpSecret vs \<noteq> []
              then pv_totpPending st @ [(Suc (pv_totpRun st), totpSecret vs)]
              else pv_totpPending st)\<rparr>)"

text \<open>An effect over storage whose failure is dropped (\<open>Effect.catchAll(() => Effect.void)\<close>).\<close>

definition try_storage ::
  "(session_storage \<Rightarrow> js_error + session_storage) \<Rightarrow> 'k provider \<Rightarrow> 'k provider" where
  "try_storage f st =
     (case f (pv_storage st) of Inl _ \<Rightarrow> st | Inr s \<Rightarrow> st\<lparr>pv_storage := s\<rparr>)"

definition setVariable :: "VarName \<Rightarrow> jstr \<Rightarrow> 'k provider \<Rightarrow> 'k provider" where
  "setVariable name v st =
     (let st1 = set_variables (set_var name v (pv_variables st)) st in
        if VarKey name \<in> fst ` set STORAGE_KEYS
        then try_storage (writeVaultValue (VarKey name) v) st1
        else st1)"

definition setAuthMode :: "AuthMode \<Rightarrow> 'k provider \<Rightarrow> 'k provider" where
  "setAuthMode mode st =
     try_storage (writeVaultValue AuthModeKey (auth_mode_text mode)) (st\<lparr>pv_authMode := mode\<rparr>)"

definition clearVault :: "'k provider \<Rightarrow> 'k provider" where
  "clearVault st =
     pushToast (Msg ''vault_cleared'' []) (Msg ''vault_cleared_description'' []) Neutral
       (try_storage clearVaultStorage (set_variables EMPTY_VARIABLES st))"

definition clearResponse :: "'k provider \<Rightarrow> 'k provider" where
  "clearResponse st = st\<lparr>pv_response := None\<rparr>"

subsection \<open>What a response leaves in the vault\<close>

text \<open>\<open>asRecord(value)?.name\<close>: only an object has one of the names the source reads.\<close>

fun field :: "json \<Rightarrow> jstr \<Rightarrow> json option" where
  "field (JObj kvs) name = obj_get kvs name"
| "field _ name = None"

definition text_field :: "json \<Rightarrow> jstr \<Rightarrow> jstr option" where
  "text_field data name = (case field data name of Some (JStr s) \<Rightarrow> Some s | _ \<Rightarrow> None)"

definition set_captured :: "jstr option \<Rightarrow> VarName \<Rightarrow> 'k provider \<Rightarrow> 'k provider" where
  "set_captured v name st = (case v of Some s \<Rightarrow> setVariable name s st | None \<Rightarrow> st)"

definition capture_tokens :: "EndpointDefinition \<Rightarrow> json \<Rightarrow> 'k provider \<Rightarrow> 'k provider" where
  "capture_tokens e data st =
     (let st1 = set_captured (text_field data (js ''accessToken'')) AccessToken st;
          st2 = set_captured (text_field data (js ''refreshToken'')) RefreshToken st1;
          st3 = set_captured (text_field data (js ''key'')) ApiKeyVar st2;
          st4 = set_captured (text_field data (js ''mfaTicket'')) MfaTicket st3;
          st5 = set_captured (text_field data (js ''secret'')) TotpSecret st4
      in if ep_id e = js ''auth-csrf''
         then set_captured (text_field data (js ''token'')) CsrfToken st5
         else st5)"

text \<open>\<open>url.searchParams.get(name) || ""\<close>.\<close>

definition url_param :: "url_parts \<Rightarrow> jstr \<Rightarrow> jstr" where
  "url_param url name = (case map_of (url_params url) name of Some v \<Rightarrow> v | None \<Rightarrow> [])"

definition capture_social ::
  "browser \<Rightarrow> closure \<Rightarrow> EndpointDefinition \<Rightarrow> json \<Rightarrow> 'k provider \<Rightarrow> js_error option \<times> 'k provider"
where
  "capture_social br cl e data st =
     (case text_field data (js ''authorizationUrl'') of
        Some u \<Rightarrow>
          if ep_id e = js ''social-authorize'' then
            (case br_url br u (cl_apiBase cl) of
               None \<Rightarrow> (Some TypeError, st)
             | Some url \<Rightarrow>
                 (None, setVariable SocialState (url_param url (js ''state''))
                    (setVariable SocialCode (url_param url (js ''code'')) st)))
          else (None, st)
      | None \<Rightarrow> (None, st))"

definition capture_passkey :: "EndpointDefinition \<Rightarrow> json \<Rightarrow> 'k provider \<Rightarrow> 'k provider" where
  "capture_passkey e data st =
     (case data of
        JArr (first # _) \<Rightarrow>
          if ep_id e = js ''passkeys-list''
          then set_captured (text_field first (js ''credentialId'')) CredentialId st
          else st
      | _ \<Rightarrow> st)"

definition data_notice :: "json \<Rightarrow> ui_text option" where
  "data_notice data =
     (if text_field data (js ''accessToken'') \<noteq> None then Some (Msg ''response_notice_tokens'' [])
      else if text_field data (js ''key'') \<noteq> None then Some (Msg ''response_notice_key'' [])
      else if text_field data (js ''secret'') \<noteq> None then Some (Msg ''response_notice_totp'' [])
      else
        (case field data (js ''codes'') of
           Some (JArr _) \<Rightarrow> Some (Msg ''response_notice_recovery'' [])
         | _ \<Rightarrow> None))"

text \<open>The mode is the closure's, not the request's.\<close>

definition capture_notice ::
  "closure \<Rightarrow> jstr \<Rightarrow> EndpointDefinition \<Rightarrow> ApiResult \<Rightarrow> 'k provider
     \<Rightarrow> (js_error + ui_text option) \<times> 'k provider" where
  "capture_notice cl cookie e result st =
     (if ep_id e = js ''auth-login'' \<and> res_status result = 202 then
        (Inr (Some (Msg ''response_notice_mfa'' [])), st)
      else if ep_id e \<in> set SESSION_ISSUING_ENDPOINTS \<and> res_ok result \<and> cl_authMode cl = Cookie then
        (case readCookie (js ''__Host-auth.csrf'') cookie of
           Inl err \<Rightarrow> (Inl err, st)
         | Inr csrf \<Rightarrow>
             (Inr (Some (Msg ''response_notice_cookie'' [])),
              if csrf \<noteq> [] then setVariable CsrfToken csrf st else st))
      else (Inr (data_notice (res_data result)), st))"

definition captureResponseData ::
  "browser \<Rightarrow> closure \<Rightarrow> jstr \<Rightarrow> EndpointDefinition \<Rightarrow> ApiResult \<Rightarrow> 'k provider
     \<Rightarrow> (js_error + ui_text option) \<times> 'k provider" where
  "captureResponseData br cl cookie e result st =
     (if \<not> is_object (res_data result) then (Inr None, st)
      else
        (case capture_social br cl e (res_data result) (capture_tokens e (res_data result) st) of
           (Some err, st1) \<Rightarrow> (Inl err, st1)
         | (None, st1) \<Rightarrow>
             capture_notice cl cookie e result (capture_passkey e (res_data result) st1)))"

subsection \<open>Requests\<close>

definition begin_request :: "'k provider \<Rightarrow> 'k provider" where
  "begin_request st =
     st\<lparr>pv_aborted :=
          (case pv_abortRef st of Some c \<Rightarrow> c # pv_aborted st | None \<Rightarrow> pv_aborted st),
        pv_abortRef := Some (pv_controllers st),
        pv_controllers := Suc (pv_controllers st),
        pv_isRunning := True\<rparr>"

definition request_input ::
  "closure \<Rightarrow> RunRequestOptions \<Rightarrow> jstr \<Rightarrow> js_error + ApiRequestInput" where
  "request_input cl options cookieValue =
     (let effectiveAuthMode =
            (case opt_authMode options of Some mode \<Rightarrow> mode | None \<Rightarrow> cl_authMode cl)
      in
        and_then
          (case opt_path options of
             Some path \<Rightarrow> Inr path
           | None \<Rightarrow> buildPathFromDefinition (opt_endpoint options) (cl_variables cl))
          (\<lambda>path.
             map_sum id
               (\<lambda>headers.
                  \<lparr>in_apiBase = cl_apiBase cl,
                   in_endpoint = opt_endpoint options,
                   in_path = path,
                   in_body = opt_body options,
                   in_headers = obj_merge headers (opt_headers options),
                   in_authMode = effectiveAuthMode\<rparr>)
               (buildHeaders (opt_endpoint options) effectiveAuthMode (cl_variables cl)
                  cookieValue)))"

text \<open>\<open>runRequest\<close> up to its \<open>await\<close>: an error is thrown to the caller.\<close>

definition runRequest ::
  "closure \<Rightarrow> RunRequestOptions \<Rightarrow> jstr \<Rightarrow> rat \<Rightarrow> 'k \<Rightarrow> 'k provider
     \<Rightarrow> js_error option \<times> 'k provider" where
  "runRequest cl options cookieValue started k st =
     (let st1 = begin_request st in
      case request_input cl options cookieValue of
        Inl err \<Rightarrow> (Some err, st1)
      | Inr input \<Rightarrow>
          (None,
           st1\<lparr>pv_pending := pv_pending st1 @
                 [\<lparr>pd_controller = pv_controllers st, pd_options = options, pd_closure = cl,
                   pd_input = input, pd_started = started, pd_continuation = k\<rparr>]\<rparr>))"

text \<open>How the effect ends: \<open>None\<close> when its signal interrupted it.\<close>

definition exit_of ::
  "browser \<Rightarrow> 'k pending \<Rightarrow> rat \<Rightarrow> fetch_outcome option \<Rightarrow> (effect_error + ApiResult) option" where
  "exit_of br p finished outcome =
     map_option (endpoint_result (br_num br) (pd_started p) finished) outcome"

definition end_request :: "nat \<Rightarrow> 'k provider \<Rightarrow> 'k provider" where
  "end_request c st =
     (if pv_abortRef st = Some c then st\<lparr>pv_abortRef := None, pv_isRunning := False\<rparr> else st)"

fun failure_reason :: "effect_error \<Rightarrow> jstr" where
  "failure_reason (NetworkRequestError reason) = reason"
| "failure_reason ClipboardError = []"

definition report_failure :: "RunRequestOptions \<Rightarrow> effect_error \<Rightarrow> 'k provider \<Rightarrow> 'k provider" where
  "report_failure options failure st =
     (if opt_reportError options then
        pushToast (Msg ''request_failed'' [])
          (Msg ''request_failed_description'' [(''reason'', failure_reason failure)]) ErrorTone st
      else st)"

definition show_result ::
  "nat \<Rightarrow> RunRequestOptions \<Rightarrow> ApiResult \<Rightarrow> ui_text option \<Rightarrow> 'k provider \<Rightarrow> 'k provider"
where
  "show_result c options result notice st =
     (if opt_display options then
        st\<lparr>pv_response := Some (c, ApiResult.extend result
             \<lparr>resp_endpointId = ep_id (opt_endpoint options), resp_notice = notice\<rparr>)\<rparr>
      else st)"

text \<open>\<open>runRequest\<close> after its \<open>await\<close>: what it returns (or throws) to its caller.\<close>

definition finish_request ::
  "browser \<Rightarrow> jstr \<Rightarrow> rat \<Rightarrow> fetch_outcome option \<Rightarrow> 'k pending \<Rightarrow> 'k provider
     \<Rightarrow> (js_error + ApiResult option) \<times> 'k provider" where
  "finish_request br cookie finished outcome p st =
     (let st1 = end_request (pd_controller p)
            (st\<lparr>pv_pending :=
                 filter (\<lambda>q. pd_controller q \<noteq> pd_controller p) (pv_pending st)\<rparr>);
          options = pd_options p
      in
        case exit_of br p finished outcome of
          None \<Rightarrow> (Inr None, st1)
        | Some (Inl failure) \<Rightarrow> (Inr None, report_failure options failure st1)
        | Some (Inr result) \<Rightarrow>
            (case captureResponseData br (pd_closure p) cookie (opt_endpoint options) result st1 of
               (Inl err, st2) \<Rightarrow> (Inl err, st2)
             | (Inr notice, st2) \<Rightarrow>
                 (Inr (Some result), show_result (pd_controller p) options result notice st2)))"

subsection \<open>Services\<close>

definition service_probe :: "jstr \<Rightarrow> service \<Rightarrow> probe" where
  "service_probe apiBase s =
     (case s of
        Live \<Rightarrow> \<lparr>probe_service = Live, probe_url = apiBase @ js ''/health/live'', probe_isOpenApi = False\<rparr>
      | Ready \<Rightarrow> \<lparr>probe_service = Ready, probe_url = apiBase @ js ''/health/ready'', probe_isOpenApi = False\<rparr>
      | Openapi \<Rightarrow> \<lparr>probe_service = Openapi, probe_url = apiBase @ js ''/openapi/v1.json'', probe_isOpenApi = True\<rparr>)"

definition checkServices :: "jstr \<Rightarrow> 'k provider \<Rightarrow> 'k provider" where
  "checkServices apiBase st =
     (if apiBase = [] then st
      else
        st\<lparr>pv_services := INITIAL_SERVICES,
           pv_probes := pv_probes st @ map (service_probe apiBase) [Live, Ready, Openapi]\<rparr>)"

fun set_service :: "service \<Rightarrow> ServiceStatus \<Rightarrow> services \<Rightarrow> services" where
  "set_service Live status current = current\<lparr>svc_live := status\<rparr>"
| "set_service Ready status current = current\<lparr>svc_ready := status\<rparr>"
| "set_service Openapi status current = current\<lparr>svc_openapi := status\<rparr>"

definition service_status :: "effect_error + ProbeResult \<Rightarrow> ServiceStatus" where
  "service_status exit =
     (case exit of
        Inr r \<Rightarrow> \<lparr>svc_state = Healthy, svc_operationCount = probe_operationCount r\<rparr>
      | Inl _ \<Rightarrow> \<lparr>svc_state = Unhealthy, svc_operationCount = None\<rparr>)"

definition finish_probe :: "browser \<Rightarrow> fetch_outcome \<Rightarrow> probe \<Rightarrow> 'k provider \<Rightarrow> 'k provider" where
  "finish_probe br outcome p st =
     st\<lparr>pv_probes := remove1 p (pv_probes st),
        pv_services :=
          set_service (probe_service p)
            (service_status (probe_result (br_num br) (probe_isOpenApi p) outcome))
            (pv_services st)\<rparr>"

subsection \<open>The base address, mounting and unmounting\<close>

text \<open>A new base address, with the effect it triggers at the next render.\<close>

definition set_api_base :: "jstr \<Rightarrow> 'k provider \<Rightarrow> 'k provider" where
  "set_api_base v st =
     (if v = pv_apiBase st then st else checkServices v (st\<lparr>pv_apiBase := v\<rparr>))"

definition setApiBase :: "jstr \<Rightarrow> 'k provider \<Rightarrow> 'k provider" where
  "setApiBase v st = set_api_base (strip_trailing 0x2F v) st"

definition initial_provider :: "session_storage \<Rightarrow> 'k provider" where
  "initial_provider s =
     \<lparr>pv_apiBase = [], pv_authMode = Bearer, pv_variables = EMPTY_VARIABLES, pv_response = None,
      pv_isRunning = False, pv_services = INITIAL_SERVICES, pv_toasts = [], pv_abortRef = None,
      pv_toastId = 0, pv_storage = s, pv_controllers = 0, pv_aborted = [], pv_pending = [],
      pv_probes = [], pv_timers = [], pv_totpRun = 0, pv_totpPending = []\<rparr>"

definition load_vault :: "'k provider \<Rightarrow> 'k provider" where
  "load_vault st =
     (case readVault (pv_storage st) of
        Inl _ \<Rightarrow> st
      | Inr v \<Rightarrow>
          set_variables (restore (vault_values v) (pv_variables st))
            (st\<lparr>pv_authMode := vault_authMode v\<rparr>))"

definition mount :: "jstr \<Rightarrow> session_storage \<Rightarrow> 'k provider" where
  "mount origin s = load_vault (set_api_base origin (initial_provider s))"

definition unmount :: "'k provider \<Rightarrow> 'k provider" where
  "unmount st =
     st\<lparr>pv_aborted := (case pv_abortRef st of Some c \<Rightarrow> c # pv_aborted st | None \<Rightarrow> pv_aborted st)\<rparr>"

subsection \<open>One-time passwords\<close>

text \<open>The interval's \<open>update\<close>, and the end of a computation: \<open>active\<close> holds in the last run only.\<close>

definition totp_tick :: "'k provider \<Rightarrow> 'k provider" where
  "totp_tick st =
     (if totpSecret (pv_variables st) = [] then st
      else st\<lparr>pv_totpPending :=
                pv_totpPending st @ [(pv_totpRun st, totpSecret (pv_variables st))]\<rparr>)"

definition finish_totp ::
  "(nat \<times> jstr) \<Rightarrow> totp_error + jstr \<Rightarrow> 'k provider \<Rightarrow> 'k provider" where
  "finish_totp job exit st =
     (let st1 = st\<lparr>pv_totpPending := remove1 job (pv_totpPending st)\<rparr> in
      case exit of
        Inr code \<Rightarrow> if fst job = pv_totpRun st then setVariable TotpCode code st1 else st1
      | Inl _ \<Rightarrow> st1)"

subsection \<open>Steps and reachable states\<close>

text \<open>
  What may happen next: a callback of the interface, or the end of something pending. A
  callback may be an old one (any closure), and an interrupted request may still end with an
  outcome; the relation allows more than the browser does.
\<close>

inductive step :: "browser \<Rightarrow> 'k provider \<Rightarrow> 'k provider \<Rightarrow> bool" for br where
  step_variable: "step br st (setVariable n v st)"
| step_mode: "step br st (setAuthMode m st)"
| step_clear: "step br st (clearVault st)"
| step_base: "step br st (setApiBase v st)"
| step_clear_response: "step br st (clearResponse st)"
| step_toast: "step br st (pushToast title description tn st)"
| step_dismiss: "step br st (dismissToast i st)"
| step_timer: "i \<in> set (pv_timers st) \<Longrightarrow> step br st (timer_fires i st)"
| step_run: "runRequest cl options cookie started k st = (err, st') \<Longrightarrow> step br st st'"
| step_finish: "p \<in> set (pv_pending st) \<Longrightarrow>
    finish_request br cookie finished outcome p st = (r, st') \<Longrightarrow> step br st st'"
| step_check: "step br st (checkServices base st)"
| step_probe: "p \<in> set (pv_probes st) \<Longrightarrow> step br st (finish_probe br outcome p st)"
| step_tick: "step br st (totp_tick st)"
| step_totp: "job \<in> set (pv_totpPending st) \<Longrightarrow> step br st (finish_totp job exit st)"

inductive reachable :: "browser \<Rightarrow> session_storage \<Rightarrow> 'k provider \<Rightarrow> bool" for br s where
  reachable_mount: "reachable br s (mount origin s)"
| reachable_step: "reachable br s st \<Longrightarrow> step br st st' \<Longrightarrow> reachable br s st'"

subsection \<open>What the operations leave alone\<close>

text \<open>The part of the state that belongs to requests and toasts, and the part of the vault.\<close>

definition core_of :: "'k provider \<Rightarrow> (bool \<times> nat option \<times> nat \<times> nat list \<times> 'k pending list)
    \<times> (ToastMessage list \<times> nat \<times> nat list)" where
  "core_of st =
     ((pv_isRunning st, pv_abortRef st, pv_controllers st, pv_aborted st, pv_pending st),
      (pv_toasts st, pv_toastId st, pv_timers st))"

definition vault_of :: "'k provider \<Rightarrow> (WorkbenchVariables \<times> AuthMode \<times> session_storage)
    \<times> (nat \<times> (nat \<times> jstr) list)" where
  "vault_of st =
     ((pv_variables st, pv_authMode st, pv_storage st), (pv_totpRun st, pv_totpPending st))"

lemma core_set_variables [simp]: "core_of (set_variables vs st) = core_of st"
  by (simp add: set_variables_def core_of_def)

lemma core_try_storage [simp]: "core_of (try_storage f st) = core_of st"
  by (simp add: try_storage_def core_of_def split: sum.split)

lemma core_setVariable [simp]: "core_of (setVariable n v st) = core_of st"
  by (simp add: setVariable_def Let_def)

lemma core_setAuthMode [simp]: "core_of (setAuthMode m st) = core_of st"
  by (simp add: setAuthMode_def) (simp add: core_of_def)

lemma core_set_captured [simp]: "core_of (set_captured v n st) = core_of st"
  by (simp add: set_captured_def split: option.split)

lemma core_capture_tokens [simp]: "core_of (capture_tokens e data st) = core_of st"
  by (simp add: capture_tokens_def Let_def)

lemma core_capture_social [simp]: "core_of (snd (capture_social br cl e data st)) = core_of st"
  by (simp add: capture_social_def split: option.split)

lemma core_capture_passkey [simp]: "core_of (capture_passkey e data st) = core_of st"
  by (simp add: capture_passkey_def split: json.split list.split)

lemma core_capture_notice [simp]: "core_of (snd (capture_notice cl cookie e result st)) = core_of st"
  by (simp add: capture_notice_def split: sum.split)

lemma core_captureResponseData [simp]:
  "core_of (snd (captureResponseData br cl cookie e result st)) = core_of st"
proof -
  obtain err st1 where s: "capture_social br cl e (res_data result)
      (capture_tokens e (res_data result) st) = (err, st1)" by fastforce
  with core_capture_social [of br cl e "res_data result" "capture_tokens e (res_data result) st"]
  have "core_of st1 = core_of st" by simp
  with s show ?thesis by (cases err) (simp_all add: captureResponseData_def)
qed

lemma core_checkServices [simp]: "core_of (checkServices b st) = core_of st"
  by (simp add: checkServices_def core_of_def)

lemma core_set_api_base [simp]: "core_of (set_api_base v st) = core_of st"
  by (simp add: set_api_base_def) (simp add: core_of_def)

lemma core_setApiBase [simp]: "core_of (setApiBase v st) = core_of st"
  by (simp add: setApiBase_def)

lemma core_finish_probe [simp]: "core_of (finish_probe br outcome p st) = core_of st"
  by (simp add: finish_probe_def core_of_def)

lemma core_totp_tick [simp]: "core_of (totp_tick st) = core_of st"
  by (simp add: totp_tick_def core_of_def)

lemma core_finish_totp [simp]: "core_of (finish_totp job exit st) = core_of st"
  by (simp add: finish_totp_def Let_def split: sum.split) (simp add: core_of_def)

lemma core_clearResponse [simp]: "core_of (clearResponse st) = core_of st"
  by (simp add: clearResponse_def core_of_def)

lemma core_show_result [simp]: "core_of (show_result c options result notice st) = core_of st"
  by (simp add: show_result_def core_of_def)

lemma core_load_vault [simp]: "core_of (load_vault st) = core_of st"
  by (simp add: load_vault_def split: sum.split) (simp add: core_of_def)

lemma vault_pushToast [simp]: "vault_of (pushToast t d tn st) = vault_of st"
  by (simp add: pushToast_def vault_of_def Let_def)

lemma vault_dismissToast [simp]: "vault_of (dismissToast i st) = vault_of st"
  by (simp add: dismissToast_def vault_of_def)

lemma vault_timer_fires [simp]: "vault_of (timer_fires i st) = vault_of st"
  by (simp add: timer_fires_def) (simp add: vault_of_def)

lemma vault_clearResponse [simp]: "vault_of (clearResponse st) = vault_of st"
  by (simp add: clearResponse_def vault_of_def)

lemma vault_begin_request [simp]: "vault_of (begin_request st) = vault_of st"
  by (simp add: begin_request_def vault_of_def)

lemma vault_runRequest [simp]: "vault_of (snd (runRequest cl options cookie t k st)) = vault_of st"
  using vault_begin_request [of st, unfolded vault_of_def]
  by (simp add: runRequest_def Let_def split: sum.split) (simp add: vault_of_def)

lemma vault_end_request [simp]: "vault_of (end_request c st) = vault_of st"
  by (simp add: end_request_def vault_of_def)

lemma vault_report_failure [simp]: "vault_of (report_failure options failure st) = vault_of st"
  by (simp add: report_failure_def)

lemma vault_show_result [simp]: "vault_of (show_result c options result notice st) = vault_of st"
  by (simp add: show_result_def vault_of_def)

lemma vault_checkServices [simp]: "vault_of (checkServices b st) = vault_of st"
  by (simp add: checkServices_def vault_of_def)

lemma vault_set_api_base [simp]: "vault_of (set_api_base v st) = vault_of st"
  by (simp add: set_api_base_def) (simp add: vault_of_def)

lemma vault_setApiBase [simp]: "vault_of (setApiBase v st) = vault_of st"
  by (simp add: setApiBase_def)

lemma vault_finish_probe [simp]: "vault_of (finish_probe br outcome p st) = vault_of st"
  by (simp add: finish_probe_def vault_of_def)

subsection \<open>The invariant of requests and toasts\<close>

definition requests_ok :: "'k provider \<Rightarrow> bool" where
  "requests_ok st \<longleftrightarrow>
     (pv_isRunning st \<longleftrightarrow> pv_abortRef st \<noteq> None)
     \<and> (\<forall>c. pv_abortRef st = Some c \<longrightarrow> c < pv_controllers st)
     \<and> distinct (map pd_controller (pv_pending st))
     \<and> (\<forall>p \<in> set (pv_pending st). pd_controller p < pv_controllers st
          \<and> (pv_abortRef st = Some (pd_controller p) \<or> pd_controller p \<in> set (pv_aborted st)))"

definition toasts_ok :: "'k provider \<Rightarrow> bool" where
  "toasts_ok st \<longleftrightarrow>
     distinct (map toast_id (pv_toasts st))
     \<and> (\<forall>t \<in> set (pv_toasts st). toast_id t \<le> pv_toastId st
          \<and> (toast_tone t = Neutral \<longrightarrow> toast_id t \<in> set (pv_timers st)))
     \<and> (\<forall>i \<in> set (pv_timers st). i \<le> pv_toastId st)"

definition wf_provider :: "'k provider \<Rightarrow> bool" where
  "wf_provider st \<longleftrightarrow> requests_ok st \<and> toasts_ok st"

lemma wf_core: "core_of st' = core_of st \<Longrightarrow> wf_provider st' = wf_provider st"
  by (simp add: core_of_def wf_provider_def requests_ok_def toasts_ok_def)

lemmas wf_core_simps [simp] =
  core_set_variables [THEN wf_core] core_try_storage [THEN wf_core] core_setVariable [THEN wf_core]
  core_setAuthMode [THEN wf_core] core_checkServices [THEN wf_core] core_set_api_base [THEN wf_core]
  core_setApiBase [THEN wf_core] core_finish_probe [THEN wf_core] core_totp_tick [THEN wf_core]
  core_finish_totp [THEN wf_core] core_clearResponse [THEN wf_core] core_show_result [THEN wf_core]
  core_load_vault [THEN wf_core]

lemma wf_pushToast [wf_intros]: "wf_provider st \<Longrightarrow> wf_provider (pushToast title d tn st)"
  by (fastforce simp: wf_provider_def requests_ok_def toasts_ok_def pushToast_def Let_def)

lemma wf_dismissToast [wf_intros]: "wf_provider st \<Longrightarrow> wf_provider (dismissToast i st)"
  by (auto simp: wf_provider_def requests_ok_def toasts_ok_def dismissToast_def distinct_map
      intro: inj_on_subset)

lemma wf_timer_fires [wf_intros]: "wf_provider st \<Longrightarrow> wf_provider (timer_fires i st)"
  by (auto simp: wf_provider_def requests_ok_def toasts_ok_def dismissToast_def timer_fires_def
      distinct_map intro: inj_on_subset)

lemma wf_begin_request: "wf_provider st \<Longrightarrow> wf_provider (begin_request st)"
  by (auto simp: wf_provider_def requests_ok_def toasts_ok_def begin_request_def less_Suc_eq)

lemma wf_runRequest [wf_intros]:
  assumes "wf_provider st"
  shows "wf_provider (snd (runRequest cl options cookie t k st))"
proof (cases "request_input cl options cookie")
  case (Inl err)
  with wf_begin_request [OF assms] show ?thesis by (simp add: runRequest_def Let_def)
next
  case (Inr input)
  from assms have fresh: "pv_controllers st \<notin> pd_controller ` set (pv_pending st)"
    by (auto simp: wf_provider_def requests_ok_def)
  from wf_begin_request [OF assms] fresh Inr show ?thesis
    by (auto simp: runRequest_def Let_def wf_provider_def requests_ok_def toasts_ok_def
        begin_request_def)
qed

lemma wf_end_request:
  assumes "wf_provider st"
  shows "wf_provider (end_request c (st\<lparr>pv_pending :=
      filter (\<lambda>q. pd_controller q \<noteq> c) (pv_pending st)\<rparr>))"
  using assms
  by (auto simp: wf_provider_def requests_ok_def toasts_ok_def end_request_def distinct_map
      intro: inj_on_subset)

lemma wf_report_failure: "wf_provider st \<Longrightarrow> wf_provider (report_failure options failure st)"
  by (simp add: report_failure_def wf_pushToast)

lemma wf_finish_request [wf_intros]:
  assumes "wf_provider st"
  shows "wf_provider (snd (finish_request br cookie finished outcome p st))"
proof -
  let ?st1 = "end_request (pd_controller p) (st\<lparr>pv_pending :=
      filter (\<lambda>q. pd_controller q \<noteq> pd_controller p) (pv_pending st)\<rparr>)"
  have wf1: "wf_provider ?st1" using assms by (rule wf_end_request)
  show ?thesis
  proof (cases "exit_of br p finished outcome")
    case None
    with wf1 show ?thesis by (simp add: finish_request_def Let_def)
  next
    case (Some exit)
    show ?thesis
    proof (cases exit)
      case (Inl failure)
      with Some wf1 show ?thesis by (simp add: finish_request_def Let_def wf_report_failure)
    next
      case (Inr result)
      obtain r st2 where c: "captureResponseData br (pd_closure p) cookie
          (opt_endpoint (pd_options p)) result ?st1 = (r, st2)" by fastforce
      have "core_of st2 = core_of ?st1"
        using core_captureResponseData [of br "pd_closure p" cookie "opt_endpoint (pd_options p)"
            result ?st1] c by simp
      from wf_core [OF this] wf1 have "wf_provider st2" by simp
      with Some Inr c show ?thesis
        by (cases r) (simp_all add: finish_request_def Let_def)
    qed
  qed
qed

lemma wf_clearVault [wf_intros]: "wf_provider st \<Longrightarrow> wf_provider (clearVault st)"
  unfolding clearVault_def by (rule wf_pushToast) simp

lemma wf_step: "step br st st' \<Longrightarrow> wf_provider st \<Longrightarrow> wf_provider st'"
proof (induction rule: step.induct)
  case (step_run cl options cookie started k st err st')
  then show ?case using wf_runRequest [of st cl options cookie started k] by simp
next
  case (step_finish p st cookie finished outcome r st')
  then show ?case using wf_finish_request [of st br cookie finished outcome p] by simp
qed (simp_all add: wf_intros)

lemma wf_mount: "wf_provider (mount origin s)"
proof -
  have "wf_provider (initial_provider s)"
    by (simp add: initial_provider_def wf_provider_def requests_ok_def toasts_ok_def)
  then show ?thesis by (simp add: mount_def)
qed

lemma wf_reachable: "reachable br s st \<Longrightarrow> wf_provider st"
  by (induction rule: reachable.induct) (auto intro: wf_mount wf_step)
subsection \<open>The vault of the page and the vault of the tab\<close>

text \<open>
  Storage that takes every write; the state agrees with it on what is persisted, and the
  pending one-time passwords of the current run are those of the current secret.
\<close>

definition storage_works :: "session_storage \<Rightarrow> bool" where
  "storage_works s \<longleftrightarrow> \<not> st_blocked s \<and> st_quota s = None"

definition mirrors :: "WorkbenchVariables \<Rightarrow> AuthMode \<Rightarrow> session_storage \<Rightarrow> bool" where
  "mirrors v m s \<longleftrightarrow>
     storage_works s \<and> vault_mode s = m \<and> list_all (\<lambda>n. vault_text s n = get_var v n) vault_names"

definition mirrored :: "'k provider \<Rightarrow> bool" where
  "mirrored st \<longleftrightarrow> mirrors (pv_variables st) (pv_authMode st) (pv_storage st)"

definition totp_ok :: "'k provider \<Rightarrow> bool" where
  "totp_ok st \<longleftrightarrow>
     (\<forall>(run, secret) \<in> set (pv_totpPending st).
        run \<le> pv_totpRun st \<and> (run = pv_totpRun st \<longrightarrow> secret = totpSecret (pv_variables st)))"

lemma mirrored_vault: "vault_of st' = vault_of st \<Longrightarrow> mirrored st' = mirrored st"
  by (simp add: vault_of_def mirrored_def)

lemma totp_ok_vault: "vault_of st' = vault_of st \<Longrightarrow> totp_ok st' = totp_ok st"
  by (simp add: vault_of_def totp_ok_def)

lemmas mirrored_simps [simp] =
  vault_pushToast [THEN mirrored_vault] vault_dismissToast [THEN mirrored_vault]
  vault_timer_fires [THEN mirrored_vault] vault_clearResponse [THEN mirrored_vault]
  vault_runRequest [THEN mirrored_vault] vault_end_request [THEN mirrored_vault]
  vault_report_failure [THEN mirrored_vault] vault_show_result [THEN mirrored_vault]
  vault_checkServices [THEN mirrored_vault] vault_set_api_base [THEN mirrored_vault]
  vault_setApiBase [THEN mirrored_vault] vault_finish_probe [THEN mirrored_vault]

lemmas totp_ok_simps [simp] =
  vault_pushToast [THEN totp_ok_vault] vault_dismissToast [THEN totp_ok_vault]
  vault_timer_fires [THEN totp_ok_vault] vault_clearResponse [THEN totp_ok_vault]
  vault_runRequest [THEN totp_ok_vault] vault_end_request [THEN totp_ok_vault]
  vault_report_failure [THEN totp_ok_vault] vault_show_result [THEN totp_ok_vault]
  vault_checkServices [THEN totp_ok_vault] vault_set_api_base [THEN totp_ok_vault]
  vault_setApiBase [THEN totp_ok_vault] vault_finish_probe [THEN totp_ok_vault]

lemma set_variables_fields [simp]:
  "pv_variables (set_variables vs st) = vs" "pv_authMode (set_variables vs st) = pv_authMode st"
  "pv_storage (set_variables vs st) = pv_storage st"
  by (simp_all add: set_variables_def)

lemma try_storage_fields [simp]:
  "pv_variables (try_storage f st) = pv_variables st"
  "pv_authMode (try_storage f st) = pv_authMode st"
  "pv_totpRun (try_storage f st) = pv_totpRun st"
  "pv_totpPending (try_storage f st) = pv_totpPending st"
  by (simp_all add: try_storage_def split: sum.split)

lemma write_works:
  "storage_works s \<Longrightarrow> \<exists>s'. writeVaultValue n v s = Inr s' \<and> storage_works s'"
  by (simp add: storage_works_def writeVaultValue_def storage_setItem_def storage_removeItem_def
      over_quota_def)

lemma clear_works:
  "storage_works s \<Longrightarrow> \<exists>s'. clearVaultStorage s = Inr s' \<and> storage_works s'"
  by (auto simp: storage_works_def clearVaultStorage_def STORAGE_KEYS_def storage_removeItem_def)

lemma mirrors_setVariable:
  assumes "mirrors v m s" and "writeVaultValue (VarKey n) t s = Inr s'" and "n \<in> set vault_names"
  shows "mirrors (set_var n t v) m s'"
  using assms vault_text_write [OF assms(2,3)] vault_mode_write [OF assms(2,3)]
    write_storage_flags [OF assms(2)]
  by (auto simp: mirrors_def list_all_iff storage_works_def)

lemma mirrors_unstored: "mirrors v m s \<Longrightarrow> n \<notin> set vault_names \<Longrightarrow> mirrors (set_var n t v) m s"
  by (auto simp: mirrors_def list_all_iff)

lemma mirrored_setVariable [wf_intros]: "mirrored st \<Longrightarrow> mirrored (setVariable n t st)"
proof -
  assume m: "mirrored st"
  then obtain s' where w: "writeVaultValue (VarKey n) t (pv_storage st) = Inr s'"
    using write_works [of "pv_storage st" "VarKey n" t] by (auto simp: mirrored_def mirrors_def)
  show ?thesis
  proof (cases "n \<in> set vault_names")
    case True
    with m w show ?thesis
      by (simp add: setVariable_def vault_names_set [symmetric] mirrored_def try_storage_def
          mirrors_setVariable)
  next
    case False
    with m show ?thesis
      by (simp add: setVariable_def vault_names_set [symmetric] mirrored_def mirrors_unstored)
  qed
qed

lemma mirrored_setAuthMode [wf_intros]: "mirrored st \<Longrightarrow> mirrored (setAuthMode m st)"
proof -
  assume mi: "mirrored st"
  then obtain s' where w: "writeVaultValue AuthModeKey (auth_mode_text m) (pv_storage st) = Inr s'"
    and ok: "storage_works s'"
    using write_works by (metis mirrored_def mirrors_def)
  with mi vault_write_mode [OF w] show ?thesis
    by (simp add: setAuthMode_def mirrored_def try_storage_def mirrors_def list_all_iff)
qed

lemma mirrored_clearVault [wf_intros]: "mirrored st \<Longrightarrow> mirrored (clearVault st)"
proof -
  assume m: "mirrored st"
  then obtain s' where w: "clearVaultStorage (pv_storage st) = Inr s'" and ok: "storage_works s'"
    using clear_works by (metis mirrored_def mirrors_def)
  with m clear_values [OF w] show ?thesis
    by (simp add: clearVault_def) (simp add: mirrored_def mirrors_def try_storage_def list_all_iff)
qed

lemma mirrored_set_captured [wf_intros]: "mirrored st \<Longrightarrow> mirrored (set_captured v n st)"
  by (simp add: set_captured_def mirrored_setVariable split: option.split)

lemma totp_ok_set_variables: "totp_ok st \<Longrightarrow> totp_ok (set_variables vs st)"
  by (fastforce simp: totp_ok_def set_variables_def)

lemma totp_ok_try_storage [simp]: "totp_ok (try_storage f st) = totp_ok st"
  by (simp add: totp_ok_def)

lemma totp_ok_setVariable [wf_intros]: "totp_ok st \<Longrightarrow> totp_ok (setVariable n t st)"
  by (simp add: setVariable_def totp_ok_set_variables Let_def)

lemma totp_ok_setAuthMode [wf_intros]: "totp_ok st \<Longrightarrow> totp_ok (setAuthMode m st)"
  by (simp add: setAuthMode_def) (simp add: totp_ok_def)

lemma totp_ok_clearVault [wf_intros]: "totp_ok st \<Longrightarrow> totp_ok (clearVault st)"
  by (simp add: clearVault_def totp_ok_set_variables)

lemma totp_ok_set_captured [wf_intros]: "totp_ok st \<Longrightarrow> totp_ok (set_captured v n st)"
  by (simp add: set_captured_def totp_ok_setVariable split: option.split)

text \<open>Capturing only sets variables, so it keeps whatever setting a variable keeps.\<close>

lemma capture_keeps:
  assumes set: "\<And>n t (st :: 'k provider). P st \<Longrightarrow> P (setVariable n t st)" and "P st"
  shows "P (snd (captureResponseData br cl cookie e result st))"
proof -
  let ?d = "res_data result"
  have cap: "P (set_captured v n st)" if "P st" for v n st
    using that set by (simp add: set_captured_def split: option.split)
  have tokens: "P (capture_tokens e ?d st)"
    using assms(2) by (simp add: capture_tokens_def cap Let_def)
  obtain err st1 where s: "capture_social br cl e ?d (capture_tokens e ?d st) = (err, st1)"
    by fastforce
  have st1: "P st1"
    using s tokens set by (auto simp: capture_social_def split: option.splits if_splits)
  have pk: "P (capture_passkey e ?d st1)"
    using st1 by (simp add: capture_passkey_def cap split: json.split list.split)
  have "P (snd (capture_notice cl cookie e result (capture_passkey e ?d st1)))"
    using pk set by (simp add: capture_notice_def split: sum.split)
  with s st1 assms(2) show ?thesis
    by (cases err) (simp_all add: captureResponseData_def)
qed

lemma finish_keeps:
  assumes set: "\<And>n t (st :: 'k provider). P st \<Longrightarrow> P (setVariable n t st)"
    and vault: "\<And>st st' :: 'k provider. vault_of st' = vault_of st \<Longrightarrow> P st' = P st" and "P st"
  shows "P (snd (finish_request br cookie finished outcome p st))"
proof -
  let ?st1 = "end_request (pd_controller p) (st\<lparr>pv_pending :=
      filter (\<lambda>q. pd_controller q \<noteq> pd_controller p) (pv_pending st)\<rparr>)"
  have "vault_of ?st1 = vault_of st" by simp (simp add: vault_of_def)
  with vault assms(3) have st1: "P ?st1" by blast
  show ?thesis
  proof (cases "exit_of br p finished outcome")
    case None
    with st1 show ?thesis by (simp add: finish_request_def Let_def)
  next
    case (Some exit)
    show ?thesis
    proof (cases exit)
      case (Inl failure)
      with Some st1 vault [OF vault_report_failure] show ?thesis
        by (simp add: finish_request_def Let_def)
    next
      case (Inr result)
      obtain r st2 where c: "captureResponseData br (pd_closure p) cookie
          (opt_endpoint (pd_options p)) result ?st1 = (r, st2)" by fastforce
      have "P st2" using capture_keeps [of P, OF set st1] c by (metis snd_conv)
      with Some Inr c vault [OF vault_show_result] show ?thesis
        by (cases r) (simp_all add: finish_request_def Let_def)
    qed
  qed
qed

lemma mirrored_finish_request: "mirrored st \<Longrightarrow> mirrored (snd (finish_request br cookie t outcome p st))"
  by (rule finish_keeps [of mirrored, OF mirrored_setVariable mirrored_vault])

lemma totp_ok_finish_request: "totp_ok st \<Longrightarrow> totp_ok (snd (finish_request br cookie t outcome p st))"
  by (rule finish_keeps [of totp_ok, OF totp_ok_setVariable totp_ok_vault])

lemma mirrored_finish_totp [wf_intros]: "mirrored st \<Longrightarrow> mirrored (finish_totp job exit st)"
proof -
  assume "mirrored st"
  then have "mirrored (st\<lparr>pv_totpPending := x\<rparr>)" for x by (simp add: mirrored_def)
  then show ?thesis by (simp add: finish_totp_def Let_def mirrored_setVariable split: sum.split)
qed

lemma totp_ok_finish_totp [wf_intros]: "totp_ok st \<Longrightarrow> totp_ok (finish_totp job exit st)"
proof -
  assume "totp_ok st"
  then have "totp_ok (st\<lparr>pv_totpPending := remove1 job (pv_totpPending st)\<rparr>)"
    by (auto simp: totp_ok_def dest: notin_set_remove1)
  then show ?thesis by (simp add: finish_totp_def Let_def totp_ok_setVariable split: sum.split)
qed

lemma totp_tick_keeps [wf_intros]:
  "mirrored st \<Longrightarrow> mirrored (totp_tick st)" "totp_ok st \<Longrightarrow> totp_ok (totp_tick st)"
  by (auto simp: totp_tick_def mirrored_def totp_ok_def)

lemma mirrored_step: "step br st st' \<Longrightarrow> mirrored st \<Longrightarrow> mirrored st'"
proof (induction rule: step.induct)
  case (step_run cl options cookie started k st err st')
  then show ?case using mirrored_simps(5) [of cl options cookie started k st] by simp
next
  case (step_finish p st cookie finished outcome r st')
  then show ?case using mirrored_finish_request [of st br cookie finished outcome p] by simp
qed (simp_all add: wf_intros)

lemma totp_ok_step: "step br st st' \<Longrightarrow> totp_ok st \<Longrightarrow> totp_ok st'"
proof (induction rule: step.induct)
  case (step_run cl options cookie started k st err st')
  then show ?case using totp_ok_simps(5) [of cl options cookie started k st] by simp
next
  case (step_finish p st cookie finished outcome r st')
  then show ?case using totp_ok_finish_request [of st br cookie finished outcome p] by simp
qed (simp_all add: wf_intros)

lemma distinct_vault_names: "distinct vault_names"
  by (simp add: vault_names_def)

text \<open>The state after mounting, with storage that answers.\<close>

lemma mount_vault:
  assumes "\<not> st_blocked s"
  shows "pv_authMode (mount origin s :: 'k provider) = vault_mode s"
    and "get_var (pv_variables (mount origin s :: 'k provider)) n
      = (if n \<in> set vault_names then vault_text s n else [])"
    and "pv_storage (mount origin s :: 'k provider) = s"
proof -
  have "vault_of (set_api_base origin (initial_provider s) :: 'k provider)
      = vault_of (initial_provider s :: 'k provider)"
    by (rule vault_set_api_base)
  then have init: "pv_storage (set_api_base origin (initial_provider s) :: 'k provider) = s"
      "pv_variables (set_api_base origin (initial_provider s) :: 'k provider) = EMPTY_VARIABLES"
    by (simp_all add: vault_of_def initial_provider_def)
  have read: "readVault s = Inr \<lparr>vault_authMode = vault_mode s,
      vault_values = map (\<lambda>n. (n, vault_text s n)) vault_names\<rparr>"
    using assms by (simp add: readVault_eq)
  show "pv_authMode (mount origin s :: 'k provider) = vault_mode s"
    and "get_var (pv_variables (mount origin s :: 'k provider)) n
      = (if n \<in> set vault_names then vault_text s n else [])"
    and "pv_storage (mount origin s :: 'k provider) = s"
    by (simp_all add: mount_def load_vault_def init read get_restore distinct_vault_names)
qed

lemma mirrored_mount: "storage_works s \<Longrightarrow> mirrored (mount origin s)"
  by (simp add: mirrored_def mirrors_def storage_works_def list_all_iff mount_vault)

lemma totp_ok_mount: "totp_ok (mount origin s :: 'k provider)"
proof -
  have "totp_ok (set_api_base origin (initial_provider s) :: 'k provider)"
    by simp (simp add: totp_ok_def initial_provider_def)
  moreover have "totp_ok (st\<lparr>pv_authMode := m\<rparr>) = totp_ok st" for m and st :: "'k provider"
    by (simp add: totp_ok_def)
  ultimately show ?thesis
    by (simp add: mount_def load_vault_def totp_ok_set_variables split: sum.split)
qed

lemma mirrored_reachable: "reachable br s st \<Longrightarrow> storage_works s \<Longrightarrow> mirrored st"
  by (induction rule: reachable.induct) (auto intro: mirrored_mount mirrored_step)

lemma totp_ok_reachable: "reachable br s st \<Longrightarrow> totp_ok st"
  by (induction rule: reachable.induct) (auto intro: totp_ok_mount totp_ok_step)
subsection \<open>Lemmas: how requests end, and requests that never do\<close>

lemma core_running:
  "core_of st' = core_of st \<Longrightarrow> pv_isRunning st' = pv_isRunning st"
  "core_of st' = core_of st \<Longrightarrow> pv_abortRef st' = pv_abortRef st"
  "core_of st' = core_of st \<Longrightarrow> pv_pending st' = pv_pending st"
  "core_of st' = core_of st \<Longrightarrow> pv_controllers st' = pv_controllers st"
  by (simp_all add: core_of_def)

lemmas core_fields [simp] =
  core_set_variables [THEN core_running(1)] core_try_storage [THEN core_running(1)]
  core_setVariable [THEN core_running(1)] core_setAuthMode [THEN core_running(1)]
  core_checkServices [THEN core_running(1)] core_set_api_base [THEN core_running(1)]
  core_setApiBase [THEN core_running(1)] core_finish_probe [THEN core_running(1)]
  core_totp_tick [THEN core_running(1)] core_finish_totp [THEN core_running(1)]
  core_clearResponse [THEN core_running(1)] core_show_result [THEN core_running(1)]
  core_load_vault [THEN core_running(1)]
  core_set_variables [THEN core_running(2)] core_try_storage [THEN core_running(2)]
  core_setVariable [THEN core_running(2)] core_setAuthMode [THEN core_running(2)]
  core_checkServices [THEN core_running(2)] core_set_api_base [THEN core_running(2)]
  core_setApiBase [THEN core_running(2)] core_finish_probe [THEN core_running(2)]
  core_totp_tick [THEN core_running(2)] core_finish_totp [THEN core_running(2)]
  core_clearResponse [THEN core_running(2)] core_show_result [THEN core_running(2)]
  core_load_vault [THEN core_running(2)]
  core_set_variables [THEN core_running(3)] core_try_storage [THEN core_running(3)]
  core_setVariable [THEN core_running(3)] core_setAuthMode [THEN core_running(3)]
  core_checkServices [THEN core_running(3)] core_set_api_base [THEN core_running(3)]
  core_setApiBase [THEN core_running(3)] core_finish_probe [THEN core_running(3)]
  core_totp_tick [THEN core_running(3)] core_finish_totp [THEN core_running(3)]
  core_clearResponse [THEN core_running(3)] core_show_result [THEN core_running(3)]
  core_load_vault [THEN core_running(3)]
  core_set_variables [THEN core_running(4)] core_try_storage [THEN core_running(4)]
  core_setVariable [THEN core_running(4)] core_setAuthMode [THEN core_running(4)]
  core_checkServices [THEN core_running(4)] core_set_api_base [THEN core_running(4)]
  core_setApiBase [THEN core_running(4)] core_finish_probe [THEN core_running(4)]
  core_totp_tick [THEN core_running(4)] core_finish_totp [THEN core_running(4)]
  core_clearResponse [THEN core_running(4)] core_show_result [THEN core_running(4)]
  core_load_vault [THEN core_running(4)]

lemma pushToast_fields [simp]:
  "pv_isRunning (pushToast t d tn st) = pv_isRunning st"
  "pv_abortRef (pushToast t d tn st) = pv_abortRef st"
  "pv_pending (pushToast t d tn st) = pv_pending st"
  "pv_controllers (pushToast t d tn st) = pv_controllers st"
  by (simp_all add: pushToast_def Let_def)

lemma finish_request_fields:
  "pv_isRunning (snd (finish_request br cookie finished outcome p st))
     = (pv_isRunning st \<and> pv_abortRef st \<noteq> Some (pd_controller p))"
  "pv_abortRef (snd (finish_request br cookie finished outcome p st))
     = (if pv_abortRef st = Some (pd_controller p) then None else pv_abortRef st)"
  "pv_pending (snd (finish_request br cookie finished outcome p st))
     = filter (\<lambda>q. pd_controller q \<noteq> pd_controller p) (pv_pending st)"
  "pv_controllers (snd (finish_request br cookie finished outcome p st)) = pv_controllers st"
proof -
  let ?st1 = "end_request (pd_controller p) (st\<lparr>pv_pending :=
      filter (\<lambda>q. pd_controller q \<noteq> pd_controller p) (pv_pending st)\<rparr>)"
  let ?st2 = "snd (finish_request br cookie finished outcome p st)"
  have "(pv_isRunning ?st2, pv_abortRef ?st2, pv_pending ?st2, pv_controllers ?st2)
      = (pv_isRunning ?st1, pv_abortRef ?st1, pv_pending ?st1, pv_controllers ?st1)"
  proof (cases "exit_of br p finished outcome")
    case None
    then show ?thesis by (simp add: finish_request_def Let_def)
  next
    case (Some exit)
    show ?thesis
    proof (cases exit)
      case (Inl failure)
      with Some show ?thesis by (simp add: finish_request_def Let_def report_failure_def)
    next
      case (Inr result)
      obtain r st3 where c: "captureResponseData br (pd_closure p) cookie
          (opt_endpoint (pd_options p)) result ?st1 = (r, st3)" by fastforce
      have "core_of st3 = core_of ?st1"
        using core_captureResponseData [of br "pd_closure p" cookie "opt_endpoint (pd_options p)"
            result ?st1] c by simp
      note core = core_running [OF this]
      with Some Inr c show ?thesis
        by (cases r) (simp_all add: finish_request_def Let_def)
    qed
  qed
  then show
    "pv_isRunning (snd (finish_request br cookie finished outcome p st))
       = (pv_isRunning st \<and> pv_abortRef st \<noteq> Some (pd_controller p))"
    "pv_abortRef (snd (finish_request br cookie finished outcome p st))
       = (if pv_abortRef st = Some (pd_controller p) then None else pv_abortRef st)"
    "pv_pending (snd (finish_request br cookie finished outcome p st))
       = filter (\<lambda>q. pd_controller q \<noteq> pd_controller p) (pv_pending st)"
    "pv_controllers (snd (finish_request br cookie finished outcome p st)) = pv_controllers st"
    by (simp_all add: end_request_def)
qed

lemma buildPath_error: "buildPath e d v = Inl err \<Longrightarrow> err = URIError"
  by (cases "fill_path (pathValues d) v (ep_pathParams e) (ep_path e)")
    (auto simp: buildPath_eq dest: fill_path_error)

lemma request_input_error: "request_input cl options cookie = Inl err \<Longrightarrow> err = URIError"
proof -
  have inl: "map_sum id f m = Inl e \<longleftrightarrow> m = Inl e"
    for f :: "jstr obj \<Rightarrow> ApiRequestInput" and m :: "js_error + jstr obj" and e
    by (cases m) auto
  assume "request_input cl options cookie = Inl err"
  then show ?thesis
    by (auto simp: request_input_def Let_def and_then_Inl_iff inl buildPathFromDefinition_def
        split: option.splits dest: buildPath_error buildHeaders_error)
qed

text \<open>A request that runs although nothing pending will end it.\<close>

definition stuck :: "'k provider \<Rightarrow> bool" where
  "stuck st \<longleftrightarrow>
     pv_isRunning st \<and> (\<exists>c. pv_abortRef st = Some c \<and> c \<notin> pd_controller ` set (pv_pending st))"

lemma runRequest_controllers:
  "runRequest cl options cookie started k st = (err, st') \<Longrightarrow> pv_controllers st' = Suc (pv_controllers st)"
  by (auto simp: runRequest_def Let_def begin_request_def split: sum.splits)

lemma step_controllers: "step br st st' \<Longrightarrow> pv_controllers st \<le> pv_controllers st'"
proof (induction rule: step.induct)
  case (step_run cl options cookie started k st err st')
  then show ?case using runRequest_controllers by fastforce
next
  case (step_finish p st cookie finished outcome r st')
  then show ?case using finish_request_fields(4) [of br cookie finished outcome p st] by simp
qed (simp_all add: clearVault_def timer_fires_def dismissToast_def)

lemma stuck_step:
  "step br st st' \<Longrightarrow> stuck st \<Longrightarrow> pv_controllers st' = pv_controllers st \<Longrightarrow> stuck st'"
proof (induction rule: step.induct)
  case (step_run cl options cookie started k st err st')
  then show ?case using runRequest_controllers by fastforce
next
  case (step_finish p st cookie finished outcome r st')
  moreover from step_finish have "pv_abortRef st \<noteq> Some (pd_controller p)"
    by (auto simp: stuck_def)
  ultimately show ?case
    using finish_request_fields(1-3) [of br cookie finished outcome p st] by (auto simp: stuck_def)
qed (simp_all add: stuck_def clearVault_def timer_fires_def dismissToast_def)

lemma stuck_steps:
  "(step br)\<^sup>*\<^sup>* st st' \<Longrightarrow> stuck st \<Longrightarrow>
     pv_controllers st \<le> pv_controllers st' \<and> (pv_controllers st' = pv_controllers st \<longrightarrow> stuck st')"
proof (induction rule: rtranclp_induct)
  case (step y z)
  then show ?case using step_controllers [OF step.hyps(2)] stuck_step [OF step.hyps(2)]
    by (metis le_antisym le_trans)
qed simp
subsection \<open>Properties\<close>


definition plain_browser :: browser where
  "plain_browser = \<lparr>br_num = (\<lambda>s. s), br_url = (\<lambda>u b. None)\<rparr>"

definition plain_storage :: session_storage where
  "plain_storage = \<lparr>st_items = [], st_blocked = False, st_quota = None\<rparr>"

lemma plain_storage_vault [simp]: "vault_text plain_storage n = []" "vault_mode plain_storage = Bearer"
  by (simp_all add: plain_storage_def vault_text_def session.text_at_def vault_mode_def stored_mode_def)

lemma mount_plain: "mount origin plain_storage = (set_api_base origin (initial_provider plain_storage) :: 'k provider)"
proof -
  let ?st = "set_api_base origin (initial_provider plain_storage) :: 'k provider"
  have "vault_of ?st = vault_of (initial_provider plain_storage :: 'k provider)" by (rule vault_set_api_base)
  then have f: "pv_variables ?st = EMPTY_VARIABLES" "pv_authMode ?st = Bearer" "pv_storage ?st = plain_storage"
    by (simp_all add: vault_of_def initial_provider_def)
  have "restore (map (\<lambda>n. (n, [])) vault_names) EMPTY_VARIABLES = EMPTY_VARIABLES"
    using get_restore [OF distinct_vault_names, of "\<lambda>n. []" EMPTY_VARIABLES] by (intro vars_eqI) simp
  then have r: "restore (map (\<lambda>n. (n, vault_text plain_storage n)) vault_names) EMPTY_VARIABLES = EMPTY_VARIABLES"
    by simp
  have "\<not> st_blocked plain_storage" by (simp add: plain_storage_def)
  then show ?thesis
    by (simp add: mount_def load_vault_def f readVault_eq r set_variables_def del: plain_storage_vault(1))
qed

definition csrf_options :: RunRequestOptions where
  "csrf_options =
     \<lparr>opt_endpoint = EP_auth_csrf, opt_path = Some (js ''/x''), opt_body = None, opt_headers = [],
      opt_display = True, opt_reportError = True, opt_authMode = Some Bearer\<rparr>"

text \<open>A page on which one request was started, and then another.\<close>

definition one_request :: "unit provider" where
  "one_request =
     (let st = mount (js ''http://a'') plain_storage in
      snd (runRequest (closure_of st) csrf_options [] 0 () st))"

lemma one_request_reachable: "reachable plain_browser plain_storage one_request"
proof -
  let ?st = "mount (js ''http://a'') plain_storage :: unit provider"
  have "step plain_browser ?st one_request"
    unfolding one_request_def Let_def by (rule step_run) (rule surjective_pairing)
  then show ?thesis by (intro reachable_step [OF reachable_mount])
qed


text \<open>In every reachable state the toasts on the page have different numbers,
  none above the counter, and every neutral one has a timer that will dismiss it.\<close>

theorem toast_invariant:
  assumes "reachable br s st"
  shows "distinct (map toast_id (pv_toasts st))
    \<and> (\<forall>t \<in> set (pv_toasts st). toast_id t \<le> pv_toastId st
         \<and> (toast_tone t = Neutral \<longrightarrow> toast_id t \<in> set (pv_timers st)
              \<and> t \<notin> set (pv_toasts (timer_fires (toast_id t) st))))"
  using wf_reachable [OF assms]
  by (auto simp: wf_provider_def toasts_ok_def timer_fires_def dismissToast_def)

theorem toast_invariant_witness: "distinct (map toast_id (pv_toasts one_request))"
  using toast_invariant [OF one_request_reachable] by blast

text \<open>When a request ends, in whatever way, the page stops running exactly if the
  request was the current one; the end of a superseded request never clears the state of
  the one that superseded it, and an interrupted one changes nothing else and returns null.\<close>

theorem request_end:
  "(let st' = snd (finish_request br cookie finished outcome p st) in
     pv_isRunning st' = (pv_isRunning st \<and> pv_abortRef st \<noteq> Some (pd_controller p))
     \<and> pv_abortRef st' = (if pv_abortRef st = Some (pd_controller p) then None else pv_abortRef st)
     \<and> pv_pending st' = filter (\<lambda>q. pd_controller q \<noteq> pd_controller p) (pv_pending st))
   \<and> finish_request br cookie finished None p st =
       (Inr None, end_request (pd_controller p)
          (st\<lparr>pv_pending := filter (\<lambda>q. pd_controller q \<noteq> pd_controller p) (pv_pending st)\<rparr>))"
  unfolding Let_def
  by (simp add: finish_request_fields) (simp add: finish_request_def exit_of_def Let_def)





text \<open>C33: In every reachable state, a one-time password computation that still has an
  effect on the variables was made for the secret that is in the vault now; one started for
  an earlier secret changes nothing.\<close>

theorem totp_current:
  assumes "reachable br s st" and "job \<in> set (pv_totpPending st)"
    and "pv_variables (finish_totp job exit st) \<noteq> pv_variables st"
  shows "snd job = totpSecret (pv_variables st)
    \<and> (\<exists>code. exit = Inr code \<and> pv_variables (finish_totp job exit st) = (pv_variables st)\<lparr>totpCode := code\<rparr>)"
proof -
  obtain run secret where job: "job = (run, secret)" by fastforce
  from assms(3) obtain code where exit: "exit = Inr code" and run: "run = pv_totpRun st"
    by (auto simp: finish_totp_def job Let_def split: sum.splits if_splits)
  from totp_ok_reachable [OF assms(1)] assms(2) run job
  have "secret = totpSecret (pv_variables st)" by (auto simp: totp_ok_def)
  then show ?thesis
    by (simp add: job exit finish_totp_def run setVariable_def Let_def)
qed

theorem totp_current_witness:
  "snd (1 :: nat, js ''JBSWY3DP'') = totpSecret (pv_variables
     (setVariable TotpSecret (js ''JBSWY3DP'') (mount (js ''http://a'') plain_storage :: unit provider)))"
proof -
  let ?m = "mount (js ''http://a'') plain_storage :: unit provider"
  let ?st = "setVariable TotpSecret (js ''JBSWY3DP'') ?m"
  have vars: "pv_variables ?st = (pv_variables ?m)\<lparr>totpSecret := js ''JBSWY3DP''\<rparr>"
    by (simp add: setVariable_def Let_def)
  have m: "pv_totpRun ?m = 0" "pv_totpPending ?m = []" "pv_variables ?m = EMPTY_VARIABLES"
    by (simp_all add: mount_plain set_api_base_def checkServices_def initial_provider_def)
  then have empty: "totpSecret (pv_variables ?m) = []" "totpCode (pv_variables ?m) = []"
    by (simp_all add: EMPTY_VARIABLES_def)
  have job: "(1, js ''JBSWY3DP'') \<in> set (pv_totpPending ?st)" "pv_totpRun ?st = 1"
    using empty m by (simp_all add: setVariable_def set_variables_def Let_def)
  have "reachable plain_browser plain_storage ?st"
    by (rule reachable_step [OF reachable_mount step_variable])
  moreover have "pv_variables (finish_totp (1, js ''JBSWY3DP'') (Inr (js ''123456'')) ?st) \<noteq> pv_variables ?st"
  proof -
    have "totpCode (pv_variables ?st) = []" by (simp add: vars empty)
    moreover have "totpCode (pv_variables (finish_totp (1, js ''JBSWY3DP'') (Inr (js ''123456'')) ?st))
        = js ''123456''"
      by (simp add: finish_totp_def job(2)) (simp add: setVariable_def Let_def)
    ultimately show ?thesis by (auto dest: sym)
  qed
  ultimately show ?thesis using totp_current job(1) by blast
qed

text \<open>Probes are not tied to the address they were made for: after the base address
  has changed, a health probe of the old address that fails still marks the service of the
  new one as unhealthy.\<close>

theorem stale_probe:
  assumes "origin \<noteq> []" and "strip_trailing 0x2F v \<noteq> []" and "strip_trailing 0x2F v \<noteq> origin"
  shows "let st = setApiBase v (mount origin plain_storage :: 'k provider); p = service_probe origin Live in
    pv_apiBase st = strip_trailing 0x2F v \<and> p \<in> set (pv_probes st)
    \<and> svc_state (svc_live (pv_services st)) = Checking
    \<and> svc_state (svc_live (pv_services (finish_probe br (Inl reason) p st))) = Unhealthy"
  using assms
  by (simp add: mount_plain setApiBase_def set_api_base_def checkServices_def initial_provider_def
      INITIAL_SERVICES_def checking_status_def finish_probe_def service_probe_def probe_result_def
      service_status_def Let_def)

theorem stale_probe_witness:
  "svc_state (svc_live (pv_services (finish_probe plain_browser (Inl [])
      (service_probe (js ''http://a'') Live)
      (setApiBase (js ''http://b/'') (mount (js ''http://a'') plain_storage :: unit provider))))) = Unhealthy"
  using stale_probe [where 'k = unit, of "js ''http://a''" "js ''http://b/''" plain_browser "[]"]
  unfolding Let_def by (simp add: strip_trailing_def js_def)

lemma capture_social_other:
  "ep_id e \<noteq> js ''social-authorize'' \<Longrightarrow> capture_social br cl e d st = (None, st)"
  by (simp add: capture_social_def split: option.split)

text \<open>The notice of a response follows the mode of the page, not the mode of the
  request: with the page in cookie mode, a session that was issued to a bearer request is
  announced as a cookie session, and the vault's CSRF token is replaced by the cookie's.\<close>

theorem capture_mode:
  assumes "exit_of br p finished outcome = Some (Inr result)"
    and "in_authMode (pd_input p) = Bearer" and "cl_authMode (pd_closure p) = Cookie"
    and "ep_id (opt_endpoint (pd_options p)) = js ''auth-login''"
    and "res_ok result" and "res_status result \<noteq> 202" and "is_object (res_data result)"
    and "readCookie (js ''__Host-auth.csrf'') cookie = Inr csrf" and "csrf \<noteq> []"
    and "opt_display (pd_options p)"
  shows "let st' = snd (finish_request br cookie finished outcome p st) in
    (\<exists>r. pv_response st' = Some (pd_controller p, r) \<and> resp_notice r = Some (Msg ''response_notice_cookie'' []))
    \<and> csrfToken (pv_variables st') = csrf"
proof -
  have id: "(js ''auth-login'' :: jstr) \<in> set SESSION_ISSUING_ENDPOINTS" by (simp add: SESSION_ISSUING_ENDPOINTS_def)
  have social: "ep_id (opt_endpoint (pd_options p)) \<noteq> js ''social-authorize''" using assms(4) by simp
  show ?thesis
    using assms id
    by (simp add: finish_request_def captureResponseData_def capture_social_other [OF social]
        capture_notice_def show_result_def setVariable_def ApiResult.defs Let_def)
qed

definition bearer_login :: "unit pending" where
  "bearer_login =
     \<lparr>pd_controller = 1, pd_options = csrf_options\<lparr>opt_endpoint := EP_auth_login\<rparr>,
      pd_closure = \<lparr>cl_apiBase = js ''http://a'', cl_authMode = Cookie, cl_variables = EMPTY_VARIABLES\<rparr>,
      pd_input = \<lparr>in_apiBase = js ''http://a'', in_endpoint = EP_auth_login, in_path = js ''/x'',
        in_body = None, in_headers = [], in_authMode = Bearer\<rparr>,
      pd_started = 0, pd_continuation = ()\<rparr>"

definition login_response :: FetchResponse where
  "login_response =
     \<lparr>fres_status = 200, fres_statusText = js ''OK'', fres_ok = True, fres_text = Inr (js ''{}''),
      fres_headers = []\<rparr>"

theorem capture_mode_witness:
  "csrfToken (pv_variables (snd (finish_request plain_browser (js ''__Host-auth.csrf=t'') 1
      (Some (Inr login_response)) bearer_login one_request))) = js ''t''"
proof -
  have data: "parseResponse id (js ''{}'') = JObj []" by code_simp
  have cookie: "readCookie (js ''__Host-auth.csrf'') (js ''__Host-auth.csrf=t'') = Inr (js ''t'')"
    by code_simp
  obtain result where r: "exit_of plain_browser bearer_login 1 (Some (Inr login_response)) = Some (Inr result)"
    and f: "res_ok result" "res_status result = 200" "res_data result = JObj []"
    using data by (simp add: exit_of_def endpoint_result_def login_response_def plain_browser_def id_def)
  show ?thesis
    using capture_mode [OF r, of "js ''__Host-auth.csrf=t''" "js ''t''" one_request] f cookie
    by (simp add: bearer_login_def csrf_options_def Let_def)
qed
end
