(* ===== verification/WbWebAuthn.thy ===== *)
theory WbWebAuthn
  imports WbTotp
begin

section \<open>Passkeys: the WebAuthn part of browser-effects.ts\<close>

text \<open>
  The Base64 text of the platform (\<open>atob\<close>, \<open>btoa\<close>) and the source's URL variant of it, the
  decoding of the options a server sends, and the JSON of a credential. The authenticator
  (\<open>navigator.credentials\<close>) is a parameter: it rejects with a reason, gives nothing, or gives
  a credential.
\<close>

subsection \<open>Base64\<close>

definition b64_alphabet :: jstr where
  "b64_alphabet =
     js ''ABCDEFGHIJKLMNOPQRSTUVWXYZabcdefghijklmnopqrstuvwxyz0123456789+/''"

fun b64_sextets :: "nat list \<Rightarrow> nat list" where
  "b64_sextets [] = []"
| "b64_sextets [a] = [a div 4, (a mod 4) * 16]"
| "b64_sextets [a, b] = [a div 4, (a mod 4) * 16 + b div 16, (b mod 16) * 4]"
| "b64_sextets (a # b # c # r) =
     a div 4 # ((a mod 4) * 16 + b div 16) # ((b mod 16) * 4 + c div 64) # c mod 64 # b64_sextets r"

fun sextet_bytes :: "nat list \<Rightarrow> nat list" where
  "sextet_bytes (a # b # c # d # r) =
     (a * 4 + b div 16) # ((b mod 16) * 16 + c div 4) # ((c mod 4) * 64 + d) # sextet_bytes r"
| "sextet_bytes [a, b, c] = [a * 4 + b div 16, (b mod 16) * 16 + c div 4]"
| "sextet_bytes [a, b] = [a * 4 + b div 16]"
| "sextet_bytes _ = []"

text \<open>\<open>btoa\<close> of the text whose units are the bytes.\<close>

definition btoa :: "byte list \<Rightarrow> jstr" where
  "btoa bs =
     map (\<lambda>n. b64_alphabet ! n) (b64_sextets (map unat bs))
       @ replicate ((3 - length bs mod 3) mod 3) 0x3D"

definition ascii_space :: "code_unit \<Rightarrow> bool" where
  "ascii_space c \<longleftrightarrow> c \<in> set [0x9, 0xA, 0xC, 0xD, 0x20]"

definition drop_padding :: "jstr \<Rightarrow> jstr" where
  "drop_padding s =
     (if length s mod 4 \<noteq> 0 then s
      else if drop (length s - 2) s = [0x3D, 0x3D] then take (length s - 2) s
      else if drop (length s - 1) s = [0x3D] then take (length s - 1) s
      else s)"

fun b64_values :: "jstr \<Rightarrow> nat list option" where
  "b64_values [] = Some []"
| "b64_values (c # cs) =
     (case index_of b64_alphabet c of
        None \<Rightarrow> None
      | Some n \<Rightarrow> map_option (\<lambda>ns. n # ns) (b64_values cs))"

text \<open>\<open>atob\<close>, with the result's units as bytes.\<close>

definition atob :: "jstr \<Rightarrow> js_error + byte list" where
  "atob s =
     (let data = drop_padding (filter (\<lambda>c. \<not> ascii_space c) s) in
      if length data mod 4 = 1 then Inl InvalidCharacterError
      else
        (case b64_values data of
           None \<Rightarrow> Inl InvalidCharacterError
         | Some ns \<Rightarrow> Inr (map word_of_nat (sextet_bytes ns))))"

definition base64UrlToBytes :: "jstr \<Rightarrow> js_error + byte list" where
  "base64UrlToBytes v =
     atob (pad_end ((length v + 3) div 4 * 4) 0x3D
       (replace_unit 0x5F [0x2F] (replace_unit 0x2D [0x2B] v)))"

definition bytesToBase64Url :: "byte list \<Rightarrow> jstr" where
  "bytesToBase64Url bs =
     strip_trailing 0x3D (replace_unit 0x2F [0x5F] (replace_unit 0x2B [0x2D] (btoa bs)))"

subsection \<open>Options\<close>

text \<open>What \<open>structuredClone\<close> copies, with the buffers the decoders put in.\<close>

datatype cloned =
    CUndefined | CNull | CBool bool | CNum jstr | CStr jstr | CBytes "byte list"
  | CArr "cloned list" | CObj "(jstr \<times> cloned) list"

fun structuredClone :: "json \<Rightarrow> cloned" where
  "structuredClone JNull = CNull"
| "structuredClone (JBool b) = CBool b"
| "structuredClone (JNum l) = CNum l"
| "structuredClone (JStr s) = CStr s"
| "structuredClone (JArr xs) = CArr (map structuredClone xs)"
| "structuredClone (JObj kvs) = CObj (map (\<lambda>(k, v). (k, structuredClone v)) kvs)"

text \<open>\<open>v.name\<close>, for a name that arrays, texts and numbers do not have.\<close>

fun get_prop :: "cloned \<Rightarrow> jstr \<Rightarrow> js_error + cloned" where
  "get_prop CUndefined name = Inl TypeError"
| "get_prop CNull name = Inl TypeError"
| "get_prop (CObj kvs) name = Inr (case obj_get kvs name of Some v \<Rightarrow> v | None \<Rightarrow> CUndefined)"
| "get_prop v name = Inr CUndefined"

fun set_prop :: "jstr \<Rightarrow> cloned \<Rightarrow> cloned \<Rightarrow> cloned" where
  "set_prop name v (CObj kvs) = CObj (obj_set name v kvs)"
| "set_prop name v c = c"

fun decode_text :: "cloned \<Rightarrow> js_error + cloned" where
  "decode_text (CStr s) = map_sum id CBytes (base64UrlToBytes s)"
| "decode_text v = Inr v"

text \<open>\<open>if (typeof o.name === "string") o.name = base64UrlToBytes(o.name)\<close>.\<close>

definition decode_prop :: "jstr \<Rightarrow> cloned \<Rightarrow> js_error + cloned" where
  "decode_prop name c =
     and_then (get_prop c name) (\<lambda>v.
       case v of
         CStr s \<Rightarrow> map_sum id (\<lambda>w. set_prop name w c) (decode_text v)
       | _ \<Rightarrow> Inr c)"

text \<open>The own properties that the spread \<open>{ ...v }\<close> copies.\<close>

fun own_props :: "cloned \<Rightarrow> (jstr \<times> cloned) list" where
  "own_props (CObj kvs) = kvs"
| "own_props (CArr xs) = zip (map nat_to_js [0..<length xs]) xs"
| "own_props (CStr s) = zip (map nat_to_js [0..<length s]) (map (\<lambda>c. CStr [c]) s)"
| "own_props _ = []"

definition decode_descriptor :: "cloned \<Rightarrow> js_error + cloned" where
  "decode_descriptor credential =
     and_then (get_prop credential (js ''id'')) (\<lambda>i.
       map_sum id (\<lambda>w. CObj (obj_set (js ''id'') w (own_props credential))) (decode_text i))"

fun decode_descriptors :: "cloned list \<Rightarrow> js_error + cloned list" where
  "decode_descriptors [] = Inr []"
| "decode_descriptors (c # cs) =
     and_then (decode_descriptor c) (\<lambda>d. map_sum id (\<lambda>ds. d # ds) (decode_descriptors cs))"

definition decode_list_prop :: "jstr \<Rightarrow> cloned \<Rightarrow> js_error + cloned" where
  "decode_list_prop name c =
     and_then (get_prop c name) (\<lambda>v.
       case v of
         CArr cs \<Rightarrow> map_sum id (\<lambda>ds. set_prop name (CArr ds) c) (decode_descriptors cs)
       | _ \<Rightarrow> Inr c)"

text \<open>The assignment to \<open>copy.user.id\<close> changes the object inside the copy.\<close>

definition decode_user :: "cloned \<Rightarrow> js_error + cloned" where
  "decode_user c =
     and_then (get_prop c (js ''user'')) (\<lambda>user.
       and_then (decode_prop (js ''id'') user) (\<lambda>user'.
         Inr (case user of CObj _ \<Rightarrow> set_prop (js ''user'') user' c | _ \<Rightarrow> c)))"

definition decodeCreationOptions :: "json \<Rightarrow> js_error + cloned" where
  "decodeCreationOptions options =
     and_then (decode_prop (js ''challenge'') (structuredClone options)) (\<lambda>c.
       and_then (decode_user c) (decode_list_prop (js ''excludeCredentials'')))"

definition decodeRequestOptions :: "json \<Rightarrow> js_error + cloned" where
  "decodeRequestOptions options =
     and_then (decode_prop (js ''challenge'') (structuredClone options))
       (decode_list_prop (js ''allowCredentials''))"

subsection \<open>Credentials\<close>

datatype authenticator_response =
    Attestation "byte list" "byte list" "jstr list option"
  | Assertion "byte list" "byte list" "byte list" "byte list option"
  | OtherResponse "byte list"

record credential =
  cr_toJSON :: "json option"
  cr_id :: jstr
  cr_rawId :: "byte list"
  cr_type :: jstr
  cr_extensionResults :: json
  cr_attachment :: "json option"
  cr_response :: authenticator_response

fun response_json_fields :: "authenticator_response \<Rightarrow> json obj" where
  "response_json_fields (Attestation client attestation transports) =
     [(js ''clientDataJSON'', JStr (bytesToBase64Url client)),
      (js ''attestationObject'', JStr (bytesToBase64Url attestation)),
      (js ''transports'', JArr (map JStr (case transports of Some ts \<Rightarrow> ts | None \<Rightarrow> [])))]"
| "response_json_fields (Assertion client authenticator signature userHandle) =
     [(js ''clientDataJSON'', JStr (bytesToBase64Url client)),
      (js ''authenticatorData'', JStr (bytesToBase64Url authenticator)),
      (js ''signature'', JStr (bytesToBase64Url signature)),
      (js ''userHandle'',
        case userHandle of Some h \<Rightarrow> JStr (bytesToBase64Url h) | None \<Rightarrow> JNull)]"
| "response_json_fields (OtherResponse client) =
     [(js ''clientDataJSON'', JStr (bytesToBase64Url client))]"

text \<open>A property whose value is \<open>undefined\<close> is left out, as \<open>JSON.stringify\<close> does.\<close>

definition credentialToJson :: "credential \<Rightarrow> json" where
  "credentialToJson c =
     (case cr_toJSON c of
        Some v \<Rightarrow> v
      | None \<Rightarrow>
          JObj
            ([(js ''id'', JStr (cr_id c)),
              (js ''rawId'', JStr (bytesToBase64Url (cr_rawId c))),
              (js ''type'', JStr (cr_type c)),
              (js ''clientExtensionResults'', cr_extensionResults c)]
             @ (case cr_attachment c of
                  Some v \<Rightarrow> [(js ''authenticatorAttachment'', v)]
                | None \<Rightarrow> [])
             @ [(js ''response'', JObj (response_json_fields (cr_response c)))]))"

text \<open>The platform: whether it has WebAuthn at all, and what an error's message says.\<close>

record authenticator =
  au_available :: bool
  au_message :: "js_error \<Rightarrow> jstr"
  au_create :: "cloned \<Rightarrow> jstr + credential option"
  au_get :: "cloned \<Rightarrow> jstr + credential option"

definition isWebAuthnAvailable :: "authenticator \<Rightarrow> bool" where
  "isWebAuthnAvailable a = au_available a"

definition ask_authenticator ::
  "authenticator \<Rightarrow> js_error + cloned \<Rightarrow> (cloned \<Rightarrow> jstr + credential option) \<Rightarrow> jstr
     \<Rightarrow> jstr + credential" where
  "ask_authenticator a publicKey ask none =
     (if \<not> au_available a then Inl (js ''WebAuthn is unavailable'')
      else
        (case publicKey of
           Inl err \<Rightarrow> Inl (au_message a err)
         | Inr options \<Rightarrow>
             (case ask options of
                Inl reason \<Rightarrow> Inl reason
              | Inr None \<Rightarrow> Inl none
              | Inr (Some credential) \<Rightarrow> Inr credential)))"

definition createPasskey :: "authenticator \<Rightarrow> json \<Rightarrow> jstr + credential" where
  "createPasskey a options =
     ask_authenticator a (decodeCreationOptions options) (au_create a)
       (js ''The authenticator returned no credential'')"

definition getPasskey :: "authenticator \<Rightarrow> json \<Rightarrow> jstr + credential" where
  "getPasskey a options =
     ask_authenticator a (decodeRequestOptions options) (au_get a)
       (js ''The authenticator returned no assertion'')"

subsection \<open>Lemmas: Base64\<close>

lemma b64_alphabet_props: "distinct b64_alphabet" "length b64_alphabet = 64"
  by (simp_all add: b64_alphabet_def js_def)

lemma div_split: "y < n \<Longrightarrow> (x * n + y) div n = x" and mod_split: "y < n \<Longrightarrow> (x * n + y) mod n = (y :: nat)"
  by simp_all

lemma sextet_arith:
  assumes "b < 256" "c < (256 :: nat)"
  shows "a div 4 * 4 + (a mod 4 * 16 + b div 16) div 16 = a"
    and "(a mod 4 * 16 + b div 16) mod 16 * 16 + (b mod 16 * 4 + c div 64) div 4 = b"
    and "(b mod 16 * 4 + c div 64) mod 4 * 64 + c mod 64 = c"
proof -
  have "b div 16 < 16" "c div 64 < 4" using assms by simp_all
  then show "a div 4 * 4 + (a mod 4 * 16 + b div 16) div 16 = a"
    and "(a mod 4 * 16 + b div 16) mod 16 * 16 + (b mod 16 * 4 + c div 64) div 4 = b"
    and "(b mod 16 * 4 + c div 64) mod 4 * 64 + c mod 64 = c"
    by (simp_all only: div_split mod_split div_mult_mod_eq)
qed

lemma sextet_less:
  assumes "a < 256" "b < 256" "c < (256 :: nat)"
  shows "a div 4 < 64" "a mod 4 * 16 + b div 16 < 64" "b mod 16 * 4 + c div 64 < 64" "c mod 64 < 64"
proof -
  have "b div 16 < 16" "c div 64 < 4" "a mod 4 < 4" "b mod 16 < 16" using assms by simp_all
  then show "a mod 4 * 16 + b div 16 < 64" "b mod 16 * 4 + c div 64 < 64" by linarith+
  show "a div 4 < 64" "c mod 64 < 64" using assms by simp_all
qed

lemma sextet_bytes_sextets: "\<forall>x \<in> set xs. x < 256 \<Longrightarrow> sextet_bytes (b64_sextets xs) = xs"
proof (induction xs rule: b64_sextets.induct)
  case (2 a)
  with sextet_arith(1) [of 0 0 a] show ?case by simp
next
  case (3 a b)
  with sextet_arith(1,2) [of b 0 a] show ?case by simp
next
  case (4 a b c r)
  then have "b < 256" "c < 256" by simp_all
  note arith = sextet_arith [OF this]
  from 4 show ?case by (simp only: b64_sextets.simps sextet_bytes.simps arith) simp
qed simp

lemma b64_sextets_less: "\<forall>x \<in> set xs. x < 256 \<Longrightarrow> n \<in> set (b64_sextets xs) \<Longrightarrow> n < 64"
proof (induction xs rule: b64_sextets.induct)
  case (2 a)
  with sextet_less [of a 0 0] show ?case by auto
next
  case (3 a b)
  with sextet_less [of a b 0] show ?case by auto
next
  case (4 a b c r)
  with sextet_less [of a b c] show ?case by auto
qed simp

lemma length_b64_sextets:
  "length (b64_sextets xs) + (3 - length xs mod 3) mod 3 = (length xs + 2) div 3 * 4"
proof (induction xs rule: b64_sextets.induct)
  case (4 a b c r)
  have "length (a # b # c # r) mod 3 = length r mod 3" by simp
  moreover have "(length (a # b # c # r) + 2) div 3 = Suc ((length r + 2) div 3)" by simp
  ultimately show ?case using 4 by simp
qed simp_all


lemma index_of_alphabet: "n < 64 \<Longrightarrow> index_of b64_alphabet (b64_alphabet ! n) = Some n"
  using b64_alphabet_props by (intro index_of_nth) simp_all

lemma b64_values_map: "\<forall>n \<in> set ns. n < 64 \<Longrightarrow> b64_values (map (\<lambda>n. b64_alphabet ! n) ns) = Some ns"
  by (induction ns) (simp_all add: index_of_alphabet)

lemma b64_alphabet_units:
  "\<forall>c \<in> set b64_alphabet. \<not> ascii_space c \<and> c \<noteq> 0x3D \<and> c \<noteq> 0x2D \<and> c \<noteq> 0x5F"
  by (simp add: b64_alphabet_def js_def ascii_space_def)

lemma alphabet_nth: "n < 64 \<Longrightarrow> b64_alphabet ! n \<in> set b64_alphabet"
  using b64_alphabet_props by simp

lemma b64_padding_less: "\<forall>x \<in> set xs. x < 256 \<Longrightarrow> length (b64_sextets xs) mod 4 \<noteq> 1"
  by (induction xs rule: b64_sextets.induct) auto

lemma drop_padding_pad:
  assumes "0x3D \<notin> set s" and "length s mod 4 \<noteq> 1" and k: "k = (4 - length s mod 4) mod 4"
  shows "drop_padding (s @ replicate k 0x3D) = s"
proof -
  have "length s mod 4 \<in> {0, 2, 3}" using assms(2) mod_less_divisor [of 4 "length s"] by auto
  then consider "length s mod 4 = 0" "k = 0" | "length s mod 4 = 2" "k = 2" | "length s mod 4 = 3" "k = 1"
    using k by auto
  then show ?thesis
  proof cases
    case 1
    have "0x3D \<notin> set (drop j s)" for j using assms(1) by (auto dest: in_set_dropD)
    then have "drop j s \<noteq> 0x3D # t" for j t by (metis list.set_intros(1))
    with 1 show ?thesis by (simp add: drop_padding_def)
  next
    case 2
    then have "(length s + 2) mod 4 = 0" by presburger
    moreover have "replicate k 0x3D = [0x3D, 0x3D :: code_unit]" by (simp add: 2 numeral_2_eq_2)
    ultimately show ?thesis by (simp add: drop_padding_def)
  next
    case 3
    then have m: "(length s + 1) mod 4 = 0" by presburger
    from 3 obtain t c where s: "s = t @ [c]" by (cases s rule: rev_cases) auto
    with assms(1) have "c \<noteq> 0x3D" by auto
    with 3 m s show ?thesis by (simp add: drop_padding_def)
  qed
qed

lemma bytes_less: "\<forall>x \<in> set (map unat (bs :: byte list)). x < 256"
  using unsigned_less [where 'a = nat and 'b = 8] by auto

lemma replace_back:
  "set s \<subseteq> set b64_alphabet \<Longrightarrow>
     replace_unit 0x5F [0x2F] (replace_unit 0x2D [0x2B] (replace_unit 0x2F [0x5F] (replace_unit 0x2B [0x2D] s))) = s"
proof (induction s)
  case (Cons c s)
  then have "c \<noteq> 0x2D \<and> c \<noteq> 0x5F" using b64_alphabet_units by auto
  with Cons show ?case by (simp add: replace_unit_Cons)
qed simp

lemma replace_units_set:
  "set s \<subseteq> set b64_alphabet \<Longrightarrow> 0x3D \<notin> set (replace_unit 0x2F [0x5F] (replace_unit 0x2B [0x2D] s))"
proof (induction s)
  case (Cons c s)
  then have "c \<noteq> 0x3D" using b64_alphabet_units by auto
  with Cons show ?case by (simp add: replace_unit_Cons)
qed simp

lemma length_replace_unit: "length (replace_unit c [d] s) = length s"
  by (induction s) (simp_all add: replace_unit_Cons)

lemma replace_unit_replicate: "c \<noteq> d \<Longrightarrow> replace_unit c r (replicate k d) = replicate k d"
  by (rule replace_unit_id) simp

lemma bytesToBase64Url_eq:
  "bytesToBase64Url bs = replace_unit 0x2F [0x5F] (replace_unit 0x2B [0x2D]
     (map (\<lambda>n. b64_alphabet ! n) (b64_sextets (map unat bs))))"
proof -
  let ?s = "map (\<lambda>n. b64_alphabet ! n) (b64_sextets (map unat bs))"
  have "set ?s \<subseteq> set b64_alphabet"
    using b64_sextets_less [OF bytes_less] alphabet_nth by auto
  then have "0x3D \<notin> set (replace_unit 0x2F [0x5F] (replace_unit 0x2B [0x2D] ?s))"
    by (rule replace_units_set)
  then show ?thesis
    by (simp add: bytesToBase64Url_def btoa_def replace_unit_replicate strip_trailing_append)
qed

lemma ceil_four: "(n + 3) div 4 * 4 - n = (4 - n mod 4) mod (4 :: nat)"
proof -
  obtain q r where n: "n = q * 4 + r" and "r < 4"
    by (rule that [of "n div 4" "n mod 4"]) simp_all
  then consider "r = 0" | "r = 1" | "r = 2" | "r = 3" by linarith
  then show ?thesis
  proof cases
    case 1
    then show ?thesis using div_split [of 3 4 q] by (simp add: n)
  next
    case 2
    then show ?thesis using div_split [of 0 4 "Suc q"] mod_split [of 1 4 q] by (simp add: n)
  next
    case 3
    have e: "q * 4 + 2 + 3 = Suc q * 4 + 1" by simp
    show ?thesis unfolding n 3 e using mod_split [of 2 4 q] by (subst div_split) simp_all
  next
    case 4
    have e: "q * 4 + 3 + 3 = Suc q * 4 + 2" by simp
    show ?thesis unfolding n 4 e using mod_split [of 3 4 q] by (subst div_split) simp_all
  qed
qed

lemma base64url_roundtrip: "base64UrlToBytes (bytesToBase64Url bs) = Inr bs"
proof -
  let ?ns = "b64_sextets (map unat bs)"
  let ?s = "map (\<lambda>n. b64_alphabet ! n) ?ns"
  let ?k = "(4 - length ?s mod 4) mod 4"
  have ns: "\<forall>n \<in> set ?ns. n < 64" using b64_sextets_less [OF bytes_less] by blast
  then have alpha: "set ?s \<subseteq> set b64_alphabet" using alphabet_nth by auto
  then have units: "\<forall>c \<in> set ?s. \<not> ascii_space c" "0x3D \<notin> set ?s" using b64_alphabet_units by blast+
  have len: "length ?s mod 4 \<noteq> 1" using b64_padding_less [OF bytes_less] by simp
  have "pad_end ((length ?s + 3) div 4 * 4) 0x3D ?s = ?s @ replicate ?k 0x3D"
    by (simp only: pad_end_def ceil_four)
  then have pad: "pad_end ((length (bytesToBase64Url bs) + 3) div 4 * 4) 0x3D (replace_unit 0x5F [0x2F]
      (replace_unit 0x2D [0x2B] (bytesToBase64Url bs))) = ?s @ replicate ?k 0x3D"
    by (simp only: bytesToBase64Url_eq replace_back [OF alpha] length_replace_unit)
  have "\<not> ascii_space 0x3D" by (simp add: ascii_space_def)
  then have "filter (\<lambda>c. \<not> ascii_space c) (?s @ replicate ?k 0x3D) = ?s @ replicate ?k 0x3D"
    using units by simp
  moreover have "drop_padding (?s @ replicate ?k 0x3D) = ?s"
    using units(2) len by (rule drop_padding_pad) simp
  ultimately have "atob (?s @ replicate ?k 0x3D) = Inr (map word_of_nat (sextet_bytes ?ns))"
    using len b64_values_map [OF ns] by (simp add: atob_def Let_def)
  then show ?thesis
    by (simp only: base64UrlToBytes_def pad sextet_bytes_sextets [OF bytes_less]) (simp add: comp_def)
qed


subsection \<open>Lemmas: options\<close>

lemma atob_error: "atob s = Inl err \<Longrightarrow> err = InvalidCharacterError"
  by (auto simp: atob_def Let_def split: if_splits option.splits)

lemma map_sum_Inl_iff: "map_sum id f m = Inl e \<longleftrightarrow> m = Inl e"
  by (cases m) auto

lemma decode_text_error: "decode_text v = Inl err \<Longrightarrow> err = InvalidCharacterError"
  by (cases v) (auto simp: map_sum_Inl_iff base64UrlToBytes_def dest: atob_error)

lemma get_prop_error: "get_prop c name = Inl err \<Longrightarrow> err = TypeError"
  by (cases c) simp_all

definition option_error :: "js_error \<Rightarrow> bool" where
  "option_error err \<longleftrightarrow> err \<in> {TypeError, InvalidCharacterError}"

lemma decode_prop_error: "decode_prop name c = Inl err \<Longrightarrow> option_error err"
proof (cases "get_prop c name")
  case (Inr v)
  assume "decode_prop name c = Inl err"
  with Inr show ?thesis
    by (cases v) (auto simp: decode_prop_def map_sum_Inl_iff option_error_def base64UrlToBytes_def
        dest: atob_error)
qed (auto simp: decode_prop_def option_error_def dest: get_prop_error)

lemma decode_descriptors_error: "decode_descriptors cs = Inl err \<Longrightarrow> option_error err"
proof (induction cs)
  case (Cons c cs)
  then show ?case
    by (auto simp: decode_descriptor_def and_then_Inl_iff map_sum_Inl_iff option_error_def
        dest: get_prop_error decode_text_error)
qed simp

lemma decode_list_prop_error: "decode_list_prop name c = Inl err \<Longrightarrow> option_error err"
proof (cases "get_prop c name")
  case (Inr v)
  assume "decode_list_prop name c = Inl err"
  with Inr show ?thesis
    by (cases v) (auto simp: decode_list_prop_def map_sum_Inl_iff dest: decode_descriptors_error)
qed (auto simp: decode_list_prop_def option_error_def dest: get_prop_error)

text \<open>The options a server sends: Base64 texts where the API of the browser wants buffers.\<close>

definition credential_list :: "(byte list \<times> jstr) list \<Rightarrow> json" where
  "credential_list cs =
     JArr (map (\<lambda>(i, t). JObj [(js ''id'', JStr (bytesToBase64Url i)), (js ''type'', JStr t)]) cs)"

definition decoded_list :: "(byte list \<times> jstr) list \<Rightarrow> cloned" where
  "decoded_list cs =
     CArr (map (\<lambda>(i, t). CObj [(js ''id'', CBytes i), (js ''type'', CStr t)]) cs)"

lemma not_index_id: "\<not> is_index (js ''id'')" "\<not> is_index (js ''challenge'')"
  "\<not> is_index (js ''allowCredentials'')" "\<not> is_index (js ''excludeCredentials'')"
  "\<not> is_index (js ''user'')"
  by (simp_all add: is_index_def js_def is_digit_def)

lemma decode_descriptors_list:
  "decode_descriptors (map structuredClone
      (map (\<lambda>(i, t). JObj [(js ''id'', JStr (bytesToBase64Url i)), (js ''type'', JStr t)]) cs))
    = Inr (map (\<lambda>(i, t). CObj [(js ''id'', CBytes i), (js ''type'', CStr t)]) cs)"
  by (induction cs) (auto simp: decode_descriptor_def base64url_roundtrip obj_set_def not_index_id)

subsection \<open>Properties\<close>

text \<open>C34: Encoding bytes as unpadded URL Base64 and decoding them again gives the bytes
  back, and the text holds no padding and neither of the two characters that are not safe
  in a URL.\<close>

theorem base64url:
  "base64UrlToBytes (bytesToBase64Url bs) = Inr bs
   \<and> set (js ''=+/'') \<inter> set (bytesToBase64Url bs) = {}"
proof -
  let ?s = "map (\<lambda>n. b64_alphabet ! n) (b64_sextets (map unat bs))"
  have alpha: "set ?s \<subseteq> set b64_alphabet"
    using b64_sextets_less [OF bytes_less] alphabet_nth by auto
  have "c \<noteq> 0x2B \<and> c \<noteq> 0x2F" if "c \<in> set (replace_unit 0x2F [0x5F] (replace_unit 0x2B [0x2D] s))"
    for c :: code_unit and s
    using that by (induction s) (auto simp: replace_unit_Cons split: if_splits)
  with replace_units_set [OF alpha] show ?thesis
    by (intro conjI base64url_roundtrip) (auto simp: bytesToBase64Url_eq js_def)
qed

text \<open>The options for using a passkey reach the authenticator with the bytes the
  server encoded as the challenge and as each allowed credential's identifier, in order,
  and with everything else as it was sent.\<close>

theorem request_options:
  "decodeRequestOptions (JObj [(js ''challenge'', JStr (bytesToBase64Url challenge)),
       (js ''timeout'', JNum timeout), (js ''allowCredentials'', credential_list cs)])
   = Inr (CObj [(js ''challenge'', CBytes challenge), (js ''timeout'', CNum timeout),
       (js ''allowCredentials'', decoded_list cs)])"
  using decode_descriptors_list [of cs]
  by (simp add: decodeRequestOptions_def decode_prop_def decode_list_prop_def base64url_roundtrip
      obj_set_def not_index_id credential_list_def decoded_list_def)

text \<open>The options for creating a passkey reach the authenticator with the bytes
  of the challenge, of the user's identifier and of each excluded credential.\<close>

theorem creation_options:
  "decodeCreationOptions (JObj [(js ''challenge'', JStr (bytesToBase64Url challenge)),
       (js ''user'', JObj [(js ''id'', JStr (bytesToBase64Url userId)), (js ''name'', JStr name)]),
       (js ''excludeCredentials'', credential_list cs)])
   = Inr (CObj [(js ''challenge'', CBytes challenge),
       (js ''user'', CObj [(js ''id'', CBytes userId), (js ''name'', CStr name)]),
       (js ''excludeCredentials'', decoded_list cs)])"
  using decode_descriptors_list [of cs]
  by (simp add: decodeCreationOptions_def decode_prop_def decode_list_prop_def decode_user_def
      base64url_roundtrip obj_set_def not_index_id credential_list_def decoded_list_def)

text \<open>Options that cannot be decoded fail with a \<open>TypeError\<close> (a missing object) or
  an invalid Base64 text, and the authenticator is then not asked: creating and using a
  passkey fail with that error's message whatever the authenticator would answer.\<close>

theorem options_errors:
  "(case decodeCreationOptions options of
      Inl err \<Rightarrow> option_error err
        \<and> createPasskey (a\<lparr>au_available := True\<rparr>) options = Inl (au_message a err)
    | Inr pk \<Rightarrow> (case au_create a pk of
          Inr (Some c) \<Rightarrow> createPasskey (a\<lparr>au_available := True\<rparr>) options = Inr c
        | Inr None \<Rightarrow> createPasskey (a\<lparr>au_available := True\<rparr>) options
            = Inl (js ''The authenticator returned no credential'')
        | Inl reason \<Rightarrow> createPasskey (a\<lparr>au_available := True\<rparr>) options = Inl reason))
   \<and> (case decodeRequestOptions options of
      Inl err \<Rightarrow> option_error err
        \<and> getPasskey (a\<lparr>au_available := True\<rparr>) options = Inl (au_message a err)
    | Inr pk \<Rightarrow> (case au_get a pk of
          Inr (Some c) \<Rightarrow> getPasskey (a\<lparr>au_available := True\<rparr>) options = Inr c
        | Inr None \<Rightarrow> getPasskey (a\<lparr>au_available := True\<rparr>) options
            = Inl (js ''The authenticator returned no assertion'')
        | Inl reason \<Rightarrow> getPasskey (a\<lparr>au_available := True\<rparr>) options = Inl reason))
   \<and> createPasskey (a\<lparr>au_available := False\<rparr>) options = Inl (js ''WebAuthn is unavailable'')
   \<and> getPasskey (a\<lparr>au_available := False\<rparr>) options = Inl (js ''WebAuthn is unavailable'')"
proof -
  have c: "decodeCreationOptions options = Inl err \<Longrightarrow> option_error err" for err
    by (auto simp: decodeCreationOptions_def decode_user_def and_then_Inl_iff
        dest: decode_prop_error decode_list_prop_error get_prop_error simp: option_error_def)
  have r: "decodeRequestOptions options = Inl err \<Longrightarrow> option_error err" for err
    by (auto simp: decodeRequestOptions_def and_then_Inl_iff
        dest: decode_prop_error decode_list_prop_error)
  show ?thesis
    using c r
    by (auto simp: createPasskey_def getPasskey_def ask_authenticator_def split: sum.splits option.splits)
qed

text \<open>The JSON made of a credential without \<open>toJSON\<close> carries its identifier and,
  as Base64 texts that decode to them, its raw identifier and the client data.\<close>

theorem credential_json:
  "credentialToJson (c\<lparr>cr_toJSON := None\<rparr>) = JObj kvs \<Longrightarrow>
     obj_get kvs (js ''id'') = Some (JStr (cr_id c))
     \<and> (\<exists>t. obj_get kvs (js ''rawId'') = Some (JStr t) \<and> base64UrlToBytes t = Inr (cr_rawId c))
     \<and> (\<exists>rs t. obj_get kvs (js ''response'') = Some (JObj rs)
          \<and> obj_get rs (js ''clientDataJSON'') = Some (JStr t)
          \<and> base64UrlToBytes t = Inr (case cr_response c of
                Attestation client _ _ \<Rightarrow> client | Assertion client _ _ _ \<Rightarrow> client
              | OtherResponse client \<Rightarrow> client))"
  by (cases "cr_response c"; cases "cr_attachment c")
    (auto simp: credentialToJson_def base64url_roundtrip)

theorem credential_json_witness:
  "obj_get [(js ''id'', JStr (js ''k'')), (js ''rawId'', JStr (js ''AQI'')),
      (js ''type'', JStr (js ''public-key'')), (js ''clientExtensionResults'', JObj []),
      (js ''response'', JObj [(js ''clientDataJSON'', JStr (js ''Aw''))])] (js ''id'') = Some (JStr (js ''k''))"
proof -
  let ?c = "\<lparr>cr_toJSON = None, cr_id = js ''k'', cr_rawId = [1, 2], cr_type = js ''public-key'',
      cr_extensionResults = JObj [], cr_attachment = None, cr_response = OtherResponse [3]\<rparr>"
  have "bytesToBase64Url [1, 2] = js ''AQI''" "bytesToBase64Url [3] = js ''Aw''" by code_simp+
  then have "credentialToJson (?c\<lparr>cr_toJSON := None\<rparr>) = JObj [(js ''id'', JStr (js ''k'')),
      (js ''rawId'', JStr (js ''AQI'')), (js ''type'', JStr (js ''public-key'')),
      (js ''clientExtensionResults'', JObj []),
      (js ''response'', JObj [(js ''clientDataJSON'', JStr (js ''Aw''))])]"
    by (simp add: credentialToJson_def)
  from credential_json [OF this] show ?thesis by simp
qed

end
