(* ===== verification/WbRoutes.thy ===== *)
theory WbRoutes
  imports WbCatalog
begin

section \<open>Navigation: the routes of the workbench\<close>

text \<open>
  The two routes (\<open>routes/index.tsx\<close>, \<open>routes/endpoints.$endpointId.tsx\<close>): where the page is,
  its validated search parameters, and the three callbacks a route gives to the screen. The
  router's own work (the history, matching a path) is not modelled.
\<close>

datatype location = AtIndex | AtEndpoint jstr | NotFound

record navigation =
  nav_location :: location
  nav_search :: WorkbenchSearch

text \<open>The loader of the endpoint route: an unknown identifier throws \<open>notFound()\<close>.\<close>

definition load_endpoint :: "jstr \<Rightarrow> location" where
  "load_endpoint i = (case endpointById i of Some _ \<Rightarrow> AtEndpoint i | None \<Rightarrow> NotFound)"

text \<open>The \<open>endpointId\<close> property of the screen.\<close>

fun endpoint_id :: "location \<Rightarrow> jstr option" where
  "endpoint_id (AtEndpoint i) = Some i"
| "endpoint_id _ = None"

text \<open>A change of the search: \<open>{ ...current, ...next }\<close> with the fields that \<open>next\<close> has.\<close>

record search_change =
  chg_q :: "jstr option"
  chg_group :: "EndpointGroupFilter option"
  chg_view :: "CatalogView option"

definition no_change :: search_change where
  "no_change = \<lparr>chg_q = None, chg_group = None, chg_view = None\<rparr>"

definition change_search :: "search_change \<Rightarrow> WorkbenchSearch \<Rightarrow> WorkbenchSearch" where
  "change_search next_search current =
     \<lparr>search_q = (case chg_q next_search of Some q \<Rightarrow> q | None \<Rightarrow> search_q current),
      search_group = (case chg_group next_search of Some g \<Rightarrow> g | None \<Rightarrow> search_group current),
      search_view = (case chg_view next_search of Some v \<Rightarrow> v | None \<Rightarrow> search_view current)\<rparr>"

text \<open>A navigation writes the search to the address, and the route validates it again.\<close>

definition validated :: "WorkbenchSearch \<Rightarrow> WorkbenchSearch" where
  "validated s = workbenchSearchSchema (search_params_of s)"

definition onSearchChange :: "search_change \<Rightarrow> navigation \<Rightarrow> navigation" where
  "onSearchChange next_search nav =
     nav\<lparr>nav_search := validated (change_search next_search (nav_search nav))\<rparr>"

text \<open>The search is the one the calling render saw.\<close>

definition onNavigateEndpoint :: "WorkbenchSearch \<Rightarrow> jstr \<Rightarrow> navigation \<Rightarrow> navigation" where
  "onNavigateEndpoint search nextEndpointId nav =
     nav\<lparr>nav_location := load_endpoint nextEndpointId, nav_search := validated search\<rparr>"

definition onBack :: "WorkbenchSearch \<Rightarrow> navigation \<Rightarrow> navigation" where
  "onBack search nav =
     (case nav_location nav of
        AtEndpoint _ \<Rightarrow> nav\<lparr>nav_location := AtIndex, nav_search := validated search\<rparr>
      | _ \<Rightarrow> nav)"

lemma validated_id [simp]: "validated s = s"
  by (simp add: validated_def workbenchSearchSchema_def search_params_of_def zod_string_def)

subsection \<open>Properties\<close>

text \<open>Every state of the search survives the address: validating the parameters
  a link carries gives the state back; and whatever an address holds, validation gives a
  state whose link leads to that same state.\<close>

theorem search_roundtrip:
  "workbenchSearchSchema (search_params_of s) = s
   \<and> workbenchSearchSchema (search_params_of (workbenchSearchSchema raw)) = workbenchSearchSchema raw"
  by (simp flip: validated_def)

text \<open>Navigating to an endpoint shows that endpoint of the catalogue or the
  not-found page, with the search of the page it was called from, and going back and
  changing the search never lose a filter that was not changed.\<close>

theorem navigation_known:
  "(case nav_location (onNavigateEndpoint search i nav) of
      AtEndpoint j \<Rightarrow> j = i \<and> i \<in> ep_id ` set ENDPOINTS
    | NotFound \<Rightarrow> i \<notin> ep_id ` set ENDPOINTS
    | AtIndex \<Rightarrow> False)
   \<and> nav_search (onNavigateEndpoint search i nav) = search
   \<and> nav_search (onBack (nav_search nav) nav) = nav_search nav
   \<and> nav_location (onSearchChange c nav) = nav_location nav
   \<and> search_group (nav_search (onSearchChange (c\<lparr>chg_group := None\<rparr>) nav)) = search_group (nav_search nav)"
proof -
  have "endpointById i = None \<longleftrightarrow> i \<notin> ep_id ` set ENDPOINTS"
    by (auto simp: endpointById_def find_None_iff)
  then show ?thesis
    by (auto simp: onNavigateEndpoint_def onBack_def onSearchChange_def load_endpoint_def
        change_search_def split: option.split location.split)
qed

end
