(* ===== verification/WbFlows.thy ===== *)
theory WbFlows
  imports WbProvider WbRoutes WbWebAuthn
begin

section \<open>The guided flows: workbench-screen.tsx and endpoint-guided-action.tsx\<close>

text \<open>
  The actions that send several requests: demo sign-in, prepared sessions, the social
  sign-in, and the two passkey ceremonies. Each is an \<open>async\<close> function; the code after an
  \<open>await\<close> of \<open>runRequest\<close> is the request's \<open>after_send\<close>, the code after the authenticator's
  answer belongs to a pending \<open>ceremony\<close>. A flow whose awaited call throws ends there (the
  source drops the promise). All calls of one flow see the values of the render that
  started it: its \<open>view_closure\<close>.
\<close>

datatype account = DemoAdmin | DemoUser

datatype social_provider = Google | Github

datatype passkey_kind = PasskeyRegistration | PasskeyAuthentication

record view_closure =
  vc_closure :: closure
  vc_search :: WorkbenchSearch

text \<open>\<open>FromDetail c\<close>: sent by the detail panel, with \<open>c\<close> whether its confirmation was open.\<close>

datatype after_send =
    FromDetail bool
  | AfterCsrf
  | AfterDemoLogin view_closure account AuthMode
  | AfterFirstSession view_closure RunRequestOptions
  | AfterSecondSession view_closure
  | AfterAuthorize view_closure EndpointDefinition social_provider
  | AfterCallback social_provider
  | AfterPasskeyOptions view_closure passkey_kind
  | AfterPasskeyComplete passkey_kind

record ceremony =
  cm_kind :: passkey_kind
  cm_view :: view_closure
  cm_options :: json
  cm_complete :: EndpointDefinition

record screen =
  sn_provider :: "after_send provider"
  sn_nav :: navigation
  sn_ceremonies :: "ceremony list"

subsection \<open>Shorthands\<close>

definition on_provider ::
  "(after_send provider \<Rightarrow> after_send provider) \<Rightarrow> screen \<Rightarrow> screen" where
  "on_provider f sn = sn\<lparr>sn_provider := f (sn_provider sn)\<rparr>"

definition say :: "string \<Rightarrow> string \<Rightarrow> tone \<Rightarrow> screen \<Rightarrow> screen" where
  "say title description tn = on_provider (pushToast (Msg title []) (Msg description []) tn)"

definition navigate_to :: "view_closure \<Rightarrow> jstr \<Rightarrow> screen \<Rightarrow> screen" where
  "navigate_to vc i sn = sn\<lparr>sn_nav := onNavigateEndpoint (vc_search vc) i (sn_nav sn)\<rparr>"

text \<open>\<open>runRequest(options)\<close>; what it throws rejects the flow.\<close>

definition send ::
  "view_closure \<Rightarrow> RunRequestOptions \<Rightarrow> jstr \<Rightarrow> rat \<Rightarrow> after_send \<Rightarrow> screen \<Rightarrow> screen" where
  "send vc options cookie now k =
     on_provider (\<lambda>pv. snd (runRequest (vc_closure vc) options cookie now k pv))"

definition options_of :: "EndpointDefinition \<Rightarrow> RunRequestOptions" where
  "options_of e =
     \<lparr>opt_endpoint = e, opt_path = None, opt_body = None, opt_headers = [], opt_display = True,
      opt_reportError = True, opt_authMode = None\<rparr>"

definition view_of :: "screen \<Rightarrow> view_closure" where
  "view_of sn = \<lparr>vc_closure = closure_of (sn_provider sn), vc_search = nav_search (sn_nav sn)\<rparr>"

subsection \<open>Demo sign-in\<close>

fun demo_account :: "account \<Rightarrow> DemoAccount" where
  "demo_account DemoAdmin = DEMO_admin"
| "demo_account DemoUser = DEMO_user"

definition credentials_body :: "DemoAccount \<Rightarrow> json" where
  "credentials_body account =
     JObj [(js ''email'', JStr (demo_email account)), (js ''password'', JStr (demo_password account))]"

definition ensureCsrf :: "view_closure \<Rightarrow> jstr \<Rightarrow> rat \<Rightarrow> screen \<Rightarrow> screen" where
  "ensureCsrf vc cookie now sn =
     (case endpointById (js ''auth-csrf'') of
        None \<Rightarrow> sn
      | Some csrf \<Rightarrow>
          send vc ((options_of csrf)\<lparr>opt_display := False, opt_reportError := False,
              opt_authMode := Some Cookie\<rparr>) cookie now AfterCsrf sn)"

definition demoLogin :: "view_closure \<Rightarrow> account \<Rightarrow> jstr \<Rightarrow> rat \<Rightarrow> screen \<Rightarrow> screen" where
  "demoLogin vc accountName cookie now sn =
     (case endpointById (js ''auth-login'') of
        None \<Rightarrow> sn
      | Some login \<Rightarrow>
          let authMode = cl_authMode (vc_closure vc);
              effectiveMode = (if authMode = ApiKey then Bearer else authMode)
          in
            send vc ((options_of login)\<lparr>
                  opt_body := Some (credentials_body (demo_account accountName)),
                  opt_authMode := Some effectiveMode\<rparr>)
              cookie now (AfterDemoLogin vc accountName effectiveMode)
              (navigate_to vc (ep_id login) (on_provider (setAuthMode effectiveMode) sn)))"

definition account_label :: "account \<Rightarrow> jstr" where
  "account_label accountName =
     (if accountName = DemoAdmin then js ''Admin'' else demo_email (demo_account accountName))"

definition after_demo_login ::
  "view_closure \<Rightarrow> account \<Rightarrow> AuthMode \<Rightarrow> ApiResult option \<Rightarrow> jstr \<Rightarrow> rat \<Rightarrow> screen \<Rightarrow> screen" where
  "after_demo_login vc accountName effectiveMode result cookie now sn =
     (case result of
        None \<Rightarrow> sn
      | Some r \<Rightarrow>
          if res_ok r \<and> res_status r \<noteq> 202 then
            (let sn1 = on_provider
                   (pushToast (Msg ''login_ready'' [(''account'', account_label accountName)])
                      (Lit (demo_email (demo_account accountName))) Neutral) sn
             in if effectiveMode = Cookie then ensureCsrf vc cookie now sn1 else sn1)
          else if res_status r = 202 then say ''mfa_required'' ''mfa_required_description'' Neutral sn
          else sn)"

subsection \<open>Prepared sessions and the demo API key\<close>

definition session_options :: "EndpointDefinition \<Rightarrow> RunRequestOptions" where
  "session_options login =
     (options_of login)\<lparr>opt_body := Some (credentials_body DEMO_user), opt_display := False,
        opt_reportError := False, opt_authMode := Some Bearer\<rparr>"

definition prepareSessions :: "view_closure \<Rightarrow> jstr \<Rightarrow> rat \<Rightarrow> screen \<Rightarrow> screen" where
  "prepareSessions vc cookie now sn =
     (case endpointById (js ''auth-login'') of
        None \<Rightarrow> sn
      | Some login \<Rightarrow>
          let options = session_options login in
            send vc options cookie now (AfterFirstSession vc options)
              (on_provider (setAuthMode Bearer) sn))"

definition succeeded :: "ApiResult option \<Rightarrow> bool" where
  "succeeded result \<longleftrightarrow> (case result of Some r \<Rightarrow> res_ok r | None \<Rightarrow> False)"

definition after_first_session ::
  "view_closure \<Rightarrow> RunRequestOptions \<Rightarrow> ApiResult option \<Rightarrow> jstr \<Rightarrow> rat \<Rightarrow> screen \<Rightarrow> screen" where
  "after_first_session vc options first cookie now sn =
     (if \<not> succeeded first then say ''scenario_failed'' ''scenario_failed_description'' ErrorTone sn
      else send vc options cookie now (AfterSecondSession vc) sn)"

definition after_second_session :: "view_closure \<Rightarrow> ApiResult option \<Rightarrow> screen \<Rightarrow> screen" where
  "after_second_session vc second sn =
     (if succeeded second then
        navigate_to vc (js ''sessions-list'')
          (say ''scenario_ready'' ''scenario_ready_description'' Neutral sn)
      else say ''scenario_failed'' ''scenario_failed_description'' ErrorTone sn)"

definition useDemoApiKey :: "screen \<Rightarrow> screen" where
  "useDemoApiKey sn =
     say ''demo_key_ready'' ''demo_key_ready_description'' Neutral
       (on_provider (setAuthMode ApiKey) (on_provider (setVariable ApiKeyVar DEMO_apiKey) sn))"

subsection \<open>Social sign-in\<close>

fun provider_text :: "social_provider \<Rightarrow> jstr" where
  "provider_text Google = js ''google''"
| "provider_text Github = js ''github''"

definition runSocial :: "view_closure \<Rightarrow> social_provider \<Rightarrow> jstr \<Rightarrow> rat \<Rightarrow> screen \<Rightarrow> screen" where
  "runSocial vc provider cookie now sn =
     (case (endpointById (js ''social-authorize''), endpointById (js ''social-callback'')) of
        (Some authorize, Some callback) \<Rightarrow>
          send vc ((options_of authorize)\<lparr>
                opt_path := Some (js ''/api/v1/auth/social/'' @ provider_text provider @ js ''/authorize''),
                opt_display := False, opt_reportError := False, opt_authMode := Some Bearer\<rparr>)
            cookie now (AfterAuthorize vc callback provider)
            (on_provider
               (pushToast (Msg ''oauth_started'' [])
                  (Msg ''oauth_started_description'' [(''provider'', provider_text provider)]) Neutral)
               (on_provider (setAuthMode Bearer) sn))
      | _ \<Rightarrow> sn)"

definition after_authorize ::
  "browser \<Rightarrow> jstr \<Rightarrow> view_closure \<Rightarrow> EndpointDefinition \<Rightarrow> social_provider \<Rightarrow> ApiResult option
     \<Rightarrow> jstr \<Rightarrow> rat \<Rightarrow> screen \<Rightarrow> screen" where
  "after_authorize br origin vc callback provider first cookie now sn =
     (case (if succeeded first
            then text_field (res_data (the first)) (js ''authorizationUrl'') else None) of
        None \<Rightarrow> say ''oauth_failed'' ''oauth_failed_description'' ErrorTone sn
      | Some authorizationUrl \<Rightarrow>
          (case br_url br authorizationUrl origin of
             None \<Rightarrow> sn
           | Some callbackUrl \<Rightarrow>
               let sn1 = on_provider (setVariable SocialCode (url_param callbackUrl (js ''code''))) sn;
                   sn2 = on_provider (setVariable SocialState (url_param callbackUrl (js ''state''))) sn1
               in
                 send vc ((options_of callback)\<lparr>
                       opt_path := Some (url_pathname callbackUrl @ url_search callbackUrl),
                       opt_authMode := Some Bearer\<rparr>)
                   cookie now (AfterCallback provider) (navigate_to vc (ep_id callback) sn2)))"

definition after_callback :: "social_provider \<Rightarrow> ApiResult option \<Rightarrow> screen \<Rightarrow> screen" where
  "after_callback provider second sn =
     (if succeeded second then
        on_provider
          (pushToast (Msg ''oauth_ready'' [(''provider'', provider_text provider)])
             (Msg ''oauth_ready_description'' []) Neutral) sn
      else sn)"

subsection \<open>Passkeys\<close>

definition responseReason :: "ApiResult option \<Rightarrow> ui_text" where
  "responseReason result =
     (let data = (case result of Some r \<Rightarrow> res_data r | None \<Rightarrow> JNull) in
      case text_field data (js ''detail'') of
        Some detail \<Rightarrow> Lit detail
      | None \<Rightarrow>
          (case text_field data (js ''title'') of
             Some title \<Rightarrow> Lit title
           | None \<Rightarrow>
               (case result of
                  Some r \<Rightarrow> Lit (js ''HTTP '' @ nat_to_js (res_status r))
                | None \<Rightarrow> Msg ''request_failed'' [])))"

fun passkey_body :: "passkey_kind \<Rightarrow> json" where
  "passkey_body PasskeyRegistration = JObj [(js ''label'', JStr (js ''Workbench passkey''))]"
| "passkey_body PasskeyAuthentication = JObj []"

fun passkey_complete :: "passkey_kind \<Rightarrow> jstr" where
  "passkey_complete PasskeyRegistration = js ''passkey-registration-complete''"
| "passkey_complete PasskeyAuthentication = js ''passkey-auth-complete''"

text \<open>\<open>runPasskeyRegistration\<close> and \<open>runPasskeyAuthentication\<close> for the panel's endpoint.\<close>

definition runPasskey ::
  "passkey_kind \<Rightarrow> authenticator \<Rightarrow> EndpointDefinition \<Rightarrow> view_closure \<Rightarrow> jstr \<Rightarrow> rat
     \<Rightarrow> screen \<Rightarrow> screen" where
  "runPasskey kind a e vc cookie now sn =
     (if \<not> isWebAuthnAvailable a then
        say ''webauthn_unsupported'' ''webauthn_unsupported_description'' ErrorTone sn
      else
        send vc ((options_of e)\<lparr>opt_body := Some (passkey_body kind), opt_display := False\<rparr>)
          cookie now (AfterPasskeyOptions vc kind) sn)"

definition runPasskeyRegistration ::
  "authenticator \<Rightarrow> EndpointDefinition \<Rightarrow> view_closure \<Rightarrow> jstr \<Rightarrow> rat \<Rightarrow> screen \<Rightarrow> screen" where
  "runPasskeyRegistration = runPasskey PasskeyRegistration"

definition runPasskeyAuthentication ::
  "authenticator \<Rightarrow> EndpointDefinition \<Rightarrow> view_closure \<Rightarrow> jstr \<Rightarrow> rat \<Rightarrow> screen \<Rightarrow> screen" where
  "runPasskeyAuthentication = runPasskey PasskeyAuthentication"

text \<open>\<open>getRecord(getRecord(data)?.options)\<close>.\<close>

definition passkey_options :: "ApiResult option \<Rightarrow> json option" where
  "passkey_options result =
     (case result of
        None \<Rightarrow> None
      | Some r \<Rightarrow>
          (case field (res_data r) (js ''options'') of
             Some v \<Rightarrow> if is_object v then Some v else None
           | None \<Rightarrow> None))"

definition after_passkey_options ::
  "view_closure \<Rightarrow> passkey_kind \<Rightarrow> ApiResult option \<Rightarrow> screen \<Rightarrow> screen" where
  "after_passkey_options vc kind result sn =
     (case (endpointById (passkey_complete kind), passkey_options result, succeeded result) of
        (Some target, Some options, True) \<Rightarrow>
          sn\<lparr>sn_ceremonies := sn_ceremonies sn @
               [\<lparr>cm_kind = kind, cm_view = vc, cm_options = options, cm_complete = target\<rparr>]\<rparr>
      | _ \<Rightarrow> on_provider (pushToast (Msg ''passkey_failed'' []) (responseReason result) ErrorTone) sn)"

definition ask :: "authenticator \<Rightarrow> ceremony \<Rightarrow> jstr + credential" where
  "ask a cm =
     (case cm_kind cm of
        PasskeyRegistration \<Rightarrow> createPasskey a (cm_options cm)
      | PasskeyAuthentication \<Rightarrow> getPasskey a (cm_options cm))"

definition completion_body :: "passkey_kind \<Rightarrow> credential \<Rightarrow> json" where
  "completion_body kind credential =
     (case kind of
        PasskeyRegistration \<Rightarrow>
          JObj [(js ''attestationResponse'', credentialToJson credential),
                (js ''label'', JStr (js ''Workbench passkey''))]
      | PasskeyAuthentication \<Rightarrow> JObj [(js ''assertionResponse'', credentialToJson credential)])"

text \<open>The end of a ceremony. The description of a failure is the cause's tag, which is \<open>Fail\<close>.\<close>

definition finish_ceremony ::
  "ceremony \<Rightarrow> jstr + credential \<Rightarrow> jstr \<Rightarrow> rat \<Rightarrow> screen \<Rightarrow> screen" where
  "finish_ceremony cm answer cookie now sn =
     (let sn1 = sn\<lparr>sn_ceremonies := remove1 cm (sn_ceremonies sn)\<rparr> in
      case answer of
        Inl _ \<Rightarrow> on_provider (pushToast (Msg ''passkey_failed'' []) (Lit (js ''Fail'')) ErrorTone) sn1
      | Inr credential \<Rightarrow>
          send (cm_view cm)
            ((options_of (cm_complete cm))\<lparr>
               opt_body := Some (completion_body (cm_kind cm) credential)\<rparr>)
            cookie now (AfterPasskeyComplete (cm_kind cm))
            (navigate_to (cm_view cm) (ep_id (cm_complete cm)) sn1))"

definition after_passkey_complete :: "passkey_kind \<Rightarrow> ApiResult option \<Rightarrow> screen \<Rightarrow> screen" where
  "after_passkey_complete kind completed sn =
     (if succeeded completed then
        (case kind of
           PasskeyRegistration \<Rightarrow> say ''passkey_registered'' ''passkey_registered_description'' Neutral sn
         | PasskeyAuthentication \<Rightarrow> say ''passkey_login_ready'' ''passkey_login_ready_description'' Neutral sn)
      else sn)"

subsection \<open>The one-time password field\<close>

text \<open>
  \<open>body.code = code\<close> on what the text parses to: an object takes it, an array takes it
  without its JSON showing it, and anything else makes the assignment throw.
\<close>

definition put_code :: "(jstr \<Rightarrow> jstr) \<Rightarrow> jstr \<Rightarrow> jstr \<Rightarrow> jstr option" where
  "put_code num code body_text =
     (case json_parse num (if body_text = [] then js ''{}'' else body_text) of
        Inr (JObj kvs) \<Rightarrow> Some (json_stringify2 (JObj (obj_set (js ''code'') (JStr code) kvs)))
      | Inr (JArr xs) \<Rightarrow> Some (json_stringify2 (JArr xs))
      | _ \<Rightarrow> None)"

text \<open>The new body text, if it is changed, and the screen.\<close>

definition fillTotp :: "browser \<Rightarrow> view_closure \<Rightarrow> jstr \<Rightarrow> screen \<Rightarrow> jstr option \<times> screen" where
  "fillTotp br vc body_text sn =
     (let code = totpCode (cl_variables (vc_closure vc)) in
      if code = [] then (None, say ''totp_missing'' ''totp_missing_description'' ErrorTone sn)
      else
        (case put_code (br_num br) code body_text of
           None \<Rightarrow> (None, say ''invalid_json'' ''invalid_json_description'' ErrorTone sn)
         | Some t \<Rightarrow>
             (Some t, on_provider (pushToast (Msg ''totp_filled'' []) (Lit code) Neutral) sn)))"

subsection \<open>After an await\<close>

definition resume ::
  "browser \<Rightarrow> jstr \<Rightarrow> after_send \<Rightarrow> ApiResult option \<Rightarrow> jstr \<Rightarrow> rat \<Rightarrow> screen \<Rightarrow> screen" where
  "resume br origin k result cookie now sn =
     (case k of
        FromDetail _ \<Rightarrow> sn
      | AfterCsrf \<Rightarrow> sn
      | AfterDemoLogin vc accountName mode \<Rightarrow> after_demo_login vc accountName mode result cookie now sn
      | AfterFirstSession vc options \<Rightarrow> after_first_session vc options result cookie now sn
      | AfterSecondSession vc \<Rightarrow> after_second_session vc result sn
      | AfterAuthorize vc callback provider \<Rightarrow>
          after_authorize br origin vc callback provider result cookie now sn
      | AfterCallback provider \<Rightarrow> after_callback provider result sn
      | AfterPasskeyOptions vc kind \<Rightarrow> after_passkey_options vc kind result sn
      | AfterPasskeyComplete kind \<Rightarrow> after_passkey_complete kind result sn)"

text \<open>A request ends: \<open>runRequest\<close> runs on, and then its caller.\<close>

definition finish_send ::
  "browser \<Rightarrow> jstr \<Rightarrow> jstr \<Rightarrow> rat \<Rightarrow> fetch_outcome option \<Rightarrow> after_send pending \<Rightarrow> screen \<Rightarrow> screen"
where
  "finish_send br origin cookie now outcome p sn =
     (let (r, pv) = finish_request br cookie now outcome p (sn_provider sn);
          sn1 = sn\<lparr>sn_provider := pv\<rparr>
      in
        case r of
          Inl err \<Rightarrow> sn1
        | Inr result \<Rightarrow> resume br origin (pd_continuation p) result cookie now sn1)"

subsection \<open>Which requests the flows send\<close>

text \<open>
  What a policy on requests has to allow for every flow to keep to it: the catalogue's
  endpoints that are not destructive. The lemmas of the locale give, for each flow, that it
  keeps the policy on what is in flight (beside a given set of requests that were sent
  before) and on what it has yet to send. A policy for the whole application also allows what
  the detail panel sends: an endpoint of the catalogue, confirmed if it is destructive.
\<close>

definition harmless :: "EndpointDefinition \<Rightarrow> bool" where
  "harmless e \<longleftrightarrow> e \<in> set ENDPOINTS \<and> \<not> ep_destructive e"

fun resumable :: "after_send \<Rightarrow> bool" where
  "resumable (AfterFirstSession vc options) = (options = session_options EP_auth_login)"
| "resumable (AfterAuthorize vc callback p) = harmless callback"
| "resumable _ = True"

lemma harmless_EP [simp]:
  "harmless EP_auth_csrf" "harmless EP_auth_login" "harmless EP_social_authorize"
  "harmless EP_social_callback" "harmless EP_passkey_registration_complete"
  "harmless EP_passkey_auth_complete"
  by (simp_all add: harmless_def)

lemma pending_setters [simp]:
  "pv_pending (setVariable n v pv) = pv_pending pv"
  "pv_pending (setAuthMode m pv) = pv_pending pv"
  "pv_pending (setApiBase b pv) = pv_pending pv"
  "pv_pending (finish_probe br outcome q pv) = pv_pending pv"
  "pv_pending (totp_tick pv) = pv_pending pv"
  "pv_pending (finish_totp job exit pv) = pv_pending pv"
  "pv_pending (dismissToast i pv) = pv_pending pv"
  "pv_pending (timer_fires i pv) = pv_pending pv"
  "pv_pending (clearVault pv) = pv_pending pv"
  by (simp_all add: core_running(3) [OF core_setVariable] core_running(3) [OF core_setAuthMode]
      core_running(3) [OF core_setApiBase] core_running(3) [OF core_finish_probe]
      core_running(3) [OF core_totp_tick] core_running(3) [OF core_finish_totp]
      core_running(3) [OF core_set_variables] core_running(3) [OF core_try_storage]
      dismissToast_def timer_fires_def clearVault_def)

lemma pending_runRequest:
  "p \<in> set (pv_pending (snd (runRequest cl options cookie now k pv))) \<Longrightarrow>
     p \<in> set (pv_pending pv) \<or> (pd_options p = options \<and> pd_continuation p = k)"
  by (auto simp: runRequest_def Let_def begin_request_def split: sum.splits)

lemma screen_simps [simp]:
  "sn_provider (on_provider f sn) = f (sn_provider sn)"
  "sn_nav (on_provider f sn) = sn_nav sn"
  "sn_ceremonies (on_provider f sn) = sn_ceremonies sn"
  "sn_provider (navigate_to vc i sn) = sn_provider sn"
  "sn_nav (navigate_to vc i sn) = onNavigateEndpoint (vc_search vc) i (sn_nav sn)"
  "sn_ceremonies (navigate_to vc i sn) = sn_ceremonies sn"
  by (simp_all add: on_provider_def navigate_to_def)

locale send_policy =
  fixes base :: "after_send pending set"
    and allowed :: "RunRequestOptions \<Rightarrow> after_send \<Rightarrow> bool"
  assumes allowed_harmless: "harmless (opt_endpoint options) \<Longrightarrow> opt_headers options = [] \<Longrightarrow>
      allowed options k"
begin

definition keeps :: "screen \<Rightarrow> bool" where
  "keeps sn \<longleftrightarrow>
     (\<forall>p \<in> set (pv_pending (sn_provider sn)).
        (p \<in> base \<or> allowed (pd_options p) (pd_continuation p)) \<and> resumable (pd_continuation p))
     \<and> (\<forall>cm \<in> set (sn_ceremonies sn). harmless (cm_complete cm))"

lemma keeps_same:
  "keeps sn \<Longrightarrow> pv_pending (sn_provider sn') = pv_pending (sn_provider sn) \<Longrightarrow>
     sn_ceremonies sn' = sn_ceremonies sn \<Longrightarrow> keeps sn'"
  by (simp add: keeps_def)

lemma keeps_on_provider:
  "pv_pending (f (sn_provider sn)) = pv_pending (sn_provider sn) \<Longrightarrow> keeps sn \<Longrightarrow>
     keeps (on_provider f sn)"
  by (simp add: keeps_def)

lemma keeps_say [intro]: "keeps sn \<Longrightarrow> keeps (say t d tn sn)"
  by (simp add: say_def keeps_on_provider)

lemma keeps_navigate [intro]: "keeps sn \<Longrightarrow> keeps (navigate_to vc i sn)"
  by (simp add: keeps_def)

lemma keeps_send:
  "keeps sn \<Longrightarrow> allowed options k \<Longrightarrow> resumable k \<Longrightarrow> keeps (send vc options cookie now k sn)"
  by (auto simp: keeps_def send_def dest!: pending_runRequest)

lemma keeps_send_harmless:
  "keeps sn \<Longrightarrow> harmless (opt_endpoint options) \<Longrightarrow> opt_headers options = [] \<Longrightarrow> resumable k \<Longrightarrow>
     keeps (send vc options cookie now k sn)"
  by (simp add: keeps_send allowed_harmless)

lemmas keeps_flow = keeps_on_provider keeps_say keeps_navigate keeps_send_harmless

lemma keeps_ensureCsrf: "keeps sn \<Longrightarrow> keeps (ensureCsrf vc cookie now sn)"
  by (simp add: ensureCsrf_def options_of_def keeps_flow)

lemma keeps_demoLogin: "keeps sn \<Longrightarrow> keeps (demoLogin vc a cookie now sn)"
  by (simp add: demoLogin_def Let_def options_of_def keeps_flow)

lemma keeps_after_demo_login:
  "keeps sn \<Longrightarrow> keeps (after_demo_login vc a m result cookie now sn)"
  by (simp add: after_demo_login_def Let_def keeps_flow keeps_ensureCsrf split: option.split)

lemma keeps_prepareSessions: "keeps sn \<Longrightarrow> keeps (prepareSessions vc cookie now sn)"
  by (simp add: prepareSessions_def Let_def session_options_def options_of_def keeps_flow)

lemma keeps_after_first_session:
  "keeps sn \<Longrightarrow> options = session_options EP_auth_login \<Longrightarrow>
     keeps (after_first_session vc options first cookie now sn)"
  by (simp add: after_first_session_def session_options_def options_of_def keeps_flow)

lemma keeps_after_second_session: "keeps sn \<Longrightarrow> keeps (after_second_session vc second sn)"
  by (simp add: after_second_session_def keeps_flow)

lemma keeps_useDemoApiKey: "keeps sn \<Longrightarrow> keeps (useDemoApiKey sn)"
  by (simp add: useDemoApiKey_def keeps_flow)

lemma keeps_runSocial: "keeps sn \<Longrightarrow> keeps (runSocial vc p cookie now sn)"
  by (simp add: runSocial_def options_of_def keeps_flow)

lemma keeps_after_authorize:
  "keeps sn \<Longrightarrow> harmless callback \<Longrightarrow>
     keeps (after_authorize br origin vc callback p first cookie now sn)"
  by (simp add: after_authorize_def Let_def options_of_def keeps_flow split: option.split)

lemma keeps_after_callback: "keeps sn \<Longrightarrow> keeps (after_callback p second sn)"
  by (simp add: after_callback_def keeps_flow)

lemma keeps_runPasskey:
  "keeps sn \<Longrightarrow> harmless e \<Longrightarrow> keeps (runPasskey kind a e vc cookie now sn)"
  by (simp add: runPasskey_def options_of_def keeps_flow)

lemma keeps_after_passkey_options:
  assumes "keeps sn"
  shows "keeps (after_passkey_options vc kind result sn)"
proof -
  have "harmless e" if "endpointById (passkey_complete kind) = Some e" for e
    using that by (cases kind) auto
  with assms show ?thesis
    by (auto simp: after_passkey_options_def keeps_flow split: option.split bool.split)
      (auto simp: keeps_def)
qed

lemma keeps_finish_ceremony:
  assumes "keeps sn" and "harmless (cm_complete cm)"
  shows "keeps (finish_ceremony cm answer cookie now sn)"
proof -
  have "keeps (sn\<lparr>sn_ceremonies := remove1 cm (sn_ceremonies sn)\<rparr>)"
    using assms(1) by (auto simp: keeps_def dest: notin_set_remove1)
  with assms(2) show ?thesis
    by (simp add: finish_ceremony_def Let_def options_of_def keeps_flow split: sum.split)
qed

lemma keeps_after_passkey_complete: "keeps sn \<Longrightarrow> keeps (after_passkey_complete kind completed sn)"
  by (simp add: after_passkey_complete_def keeps_flow split: passkey_kind.split)

lemma keeps_fillTotp: "keeps sn \<Longrightarrow> keeps (snd (fillTotp br vc t sn))"
  by (simp add: fillTotp_def Let_def keeps_flow split: option.split)

lemma keeps_resume:
  "keeps sn \<Longrightarrow> resumable k \<Longrightarrow> keeps (resume br origin k result cookie now sn)"
  by (cases k) (simp_all add: resume_def keeps_after_demo_login keeps_after_first_session
      keeps_after_second_session keeps_after_authorize keeps_after_callback
      keeps_after_passkey_options keeps_after_passkey_complete keeps_ensureCsrf)

lemma keeps_finish_send:
  assumes "keeps sn" and "p \<in> set (pv_pending (sn_provider sn))"
  shows "keeps (finish_send br origin cookie now outcome p sn)"
proof -
  obtain r pv where run: "finish_request br cookie now outcome p (sn_provider sn) = (r, pv)"
    by fastforce
  with finish_request_fields(3) [of br cookie now outcome p "sn_provider sn"]
  have "pv_pending pv = filter (\<lambda>q. pd_controller q \<noteq> pd_controller p) (pv_pending (sn_provider sn))"
    by simp
  with assms(1) have "keeps (sn\<lparr>sn_provider := pv\<rparr>)" by (simp add: keeps_def)
  moreover from assms have "resumable (pd_continuation p)" by (simp add: keeps_def)
  ultimately show ?thesis
    by (simp add: finish_send_def run Let_def keeps_resume split: sum.split)
qed

end

locale panel_policy = send_policy +
  assumes allowed_panel: "e \<in> set ENDPOINTS \<Longrightarrow> (ep_destructive e \<longrightarrow> c) \<Longrightarrow>
      allowed ((options_of e)\<lparr>opt_path := Some path, opt_body := body\<rparr>) (FromDetail c)"

subsection \<open>Properties\<close>

lemma login_path: "buildPathFromDefinition EP_auth_login vars = Inr (js ''/api/v1/auth/login'')"
  by (simp add: buildPathFromDefinition_def buildPath_def build_query_def params_to_string_def)

definition session_input :: "closure \<Rightarrow> ApiRequestInput" where
  "session_input cl =
     \<lparr>in_apiBase = cl_apiBase cl, in_endpoint = EP_auth_login, in_path = js ''/api/v1/auth/login'',
      in_body = Some (credentials_body DEMO_user),
      in_headers = [(js ''Accept'', js ''application/json''), (js ''Content-Type'', js ''application/json'')],
      in_authMode = Bearer\<rparr>"

lemma not_index_content_type: "\<not> is_index (js ''Content-Type'')"
  by (simp add: is_index_def js_def is_digit_def)

lemma session_request_input:
  "request_input cl (session_options EP_auth_login) cookie = Inr (session_input cl)"
  by (simp add: request_input_def session_options_def options_of_def login_path buildHeaders_def
      base_headers_def authorization_headers_def csrf_headers_def transport_headers_def
      obj_merge_def session_input_def obj_set_def not_index_content_type Let_def)

text \<open>Preparing the sessions signs in as the demo user with bearer transport
  and without showing the response, whatever the vault and the cookies hold; the second sign-in
  is sent exactly when the first succeeded, and with the same request, and the list of sessions
  is opened exactly when both did.\<close>

theorem two_sessions:
  "(let sn1 = prepareSessions vc cookie now sn in
      map pd_input (pv_pending (sn_provider sn1)) =
        map pd_input (pv_pending (sn_provider sn)) @ [session_input (vc_closure vc)]
      \<and> sn_nav sn1 = sn_nav sn)
   \<and> (let sn2 = after_first_session vc (session_options EP_auth_login) first cookie now sn in
      map pd_input (pv_pending (sn_provider sn2)) = map pd_input (pv_pending (sn_provider sn))
        @ (if succeeded first then [session_input (vc_closure vc)] else [])
      \<and> sn_nav sn2 = sn_nav sn)
   \<and> (let sn3 = after_second_session vc second sn in
      pv_pending (sn_provider sn3) = pv_pending (sn_provider sn)
      \<and> sn_nav sn3 = (if succeeded second
           then \<lparr>nav_location = AtEndpoint (js ''sessions-list''), nav_search = vc_search vc\<rparr>
           else sn_nav sn))"
proof -
  have send: "map pd_input (pv_pending (sn_provider (send vc (session_options EP_auth_login) cookie now k sn')))
      = map pd_input (pv_pending (sn_provider sn')) @ [session_input (vc_closure vc)]"
    "sn_nav (send vc (session_options EP_auth_login) cookie now k sn') = sn_nav sn'" for k sn'
    by (simp_all add: send_def runRequest_def session_request_input begin_request_def)
  have "endpointById (js ''sessions-list'') = Some EP_sessions_list" by simp
  then have "onNavigateEndpoint (vc_search vc) (js ''sessions-list'') nav
      = \<lparr>nav_location = AtEndpoint (js ''sessions-list''), nav_search = vc_search vc\<rparr>" for nav
    by (simp add: onNavigateEndpoint_def load_endpoint_def validated_id)
  then show ?thesis
    by (simp add: prepareSessions_def after_first_session_def after_second_session_def say_def send Let_def)
qed

end
