(* ===== verification/WbDetail.thy ===== *)
theory WbDetail
  imports WbFlows
begin

section \<open>The detail panel: endpoint-detail.tsx\<close>

text \<open>
  The state of the panel that composes, confirms and sends the request of one endpoint, and
  its callbacks. A callback runs with the values of the last render, which are the current
  ones. What the render itself computes (the path and the headers shown) may throw; then
  the panel is not on the page and no callback of it exists, so that the callbacks that use
  the path are defined for a path that could be built. The draft's state updater in
  \<open>formatJson\<close> runs during the render: what it throws, the render throws.
\<close>

text \<open>
  \<open>acknowledgedResponse\<close> is kept as the number of the response object. \<open>dt_memo\<close> is the memo
  of \<open>requestHeaders\<close>: the mode and the variables it was computed for, and its value.
\<close>

record detail =
  dt_endpoint :: EndpointDefinition
  dt_draft :: RequestDraft
  dt_pathOverride :: "jstr option"
  dt_tab :: PanelTab
  dt_acknowledged :: "nat option"
  dt_confirming :: bool
  dt_memo :: "(AuthMode \<times> WorkbenchVariables \<times> jstr obj) option"

definition open_detail :: "EndpointDefinition \<Rightarrow> WorkbenchVariables \<Rightarrow> detail" where
  "open_detail e variables =
     \<lparr>dt_endpoint = e, dt_draft = createDraft e variables, dt_pathOverride = None,
      dt_tab = RequestTab, dt_acknowledged = None, dt_confirming = False, dt_memo = None\<rparr>"

subsection \<open>What a render computes\<close>

definition result_of :: "detail \<Rightarrow> 'k provider \<Rightarrow> (nat \<times> WorkbenchResponse) option" where
  "result_of d pv =
     (case pv_response pv of
        Some (i, r) \<Rightarrow> if resp_endpointId r = ep_id (dt_endpoint d) then Some (i, r) else None
      | None \<Rightarrow> None)"

definition activeTab :: "detail \<Rightarrow> 'k provider \<Rightarrow> PanelTab" where
  "activeTab d pv =
     (case result_of d pv of
        Some (i, r) \<Rightarrow> if dt_acknowledged d \<noteq> Some i then ResponseTab else dt_tab d
      | None \<Rightarrow> dt_tab d)"

definition requestPath :: "detail \<Rightarrow> WorkbenchVariables \<Rightarrow> js_error + jstr" where
  "requestPath d variables =
     (case dt_pathOverride d of
        Some path \<Rightarrow> Inr path
      | None \<Rightarrow> buildPath (dt_endpoint d) (dt_draft d) variables)"

lemma requestPath_update [simp]:
  "requestPath (d\<lparr>dt_memo := memo\<rparr>) variables = requestPath d variables"
  "requestPath (d\<lparr>dt_confirming := c\<rparr>) variables = requestPath d variables"
  by (simp_all add: requestPath_def cong: option.case_cong)

definition requestHeaders ::
  "jstr \<Rightarrow> detail \<Rightarrow> AuthMode \<Rightarrow> WorkbenchVariables \<Rightarrow> js_error + jstr obj" where
  "requestHeaders cookie d authMode variables =
     (case dt_memo d of
        Some (m, v, headers) \<Rightarrow>
          if m = authMode \<and> v = variables then Inr headers
          else buildHeaders (dt_endpoint d) authMode variables cookie
      | None \<Rightarrow> buildHeaders (dt_endpoint d) authMode variables cookie)"

text \<open>One render: the path and the headers, and the panel with its memo.\<close>

definition render_detail ::
  "jstr \<Rightarrow> 'k provider \<Rightarrow> detail \<Rightarrow> js_error + (jstr \<times> jstr obj \<times> detail)" where
  "render_detail cookie pv d =
     and_then (requestPath d (pv_variables pv))
       (\<lambda>path. map_sum id
          (\<lambda>headers.
             (path, headers, d\<lparr>dt_memo := Some (pv_authMode pv, pv_variables pv, headers)\<rparr>))
          (requestHeaders cookie d (pv_authMode pv) (pv_variables pv)))"

subsection \<open>The draft\<close>

definition chooseTab :: "PanelTab \<Rightarrow> 'k provider \<Rightarrow> detail \<Rightarrow> detail" where
  "chooseTab tab pv d =
     d\<lparr>dt_tab := tab, dt_acknowledged := map_option fst (result_of d pv)\<rparr>"

definition setPathValue :: "jstr \<Rightarrow> jstr \<Rightarrow> detail \<Rightarrow> detail" where
  "setPathValue name v d =
     d\<lparr>dt_pathOverride := None,
       dt_draft := (dt_draft d)\<lparr>pathValues := obj_set name v (pathValues (dt_draft d))\<rparr>\<rparr>"

definition setQueryValue :: "jstr \<Rightarrow> jstr \<Rightarrow> detail \<Rightarrow> detail" where
  "setQueryValue name v d =
     d\<lparr>dt_pathOverride := None,
       dt_draft := (dt_draft d)\<lparr>queryValues := obj_set name v (queryValues (dt_draft d))\<rparr>\<rparr>"

definition setBodyText :: "jstr \<Rightarrow> detail \<Rightarrow> detail" where
  "setBodyText t d = d\<lparr>dt_draft := (dt_draft d)\<lparr>bodyText := t\<rparr>\<rparr>"

definition setPathOverride :: "jstr \<Rightarrow> detail \<Rightarrow> detail" where
  "setPathOverride path d = d\<lparr>dt_pathOverride := Some path\<rparr>"

definition cancelConfirmation :: "detail \<Rightarrow> detail" where
  "cancelConfirmation d = d\<lparr>dt_confirming := False\<rparr>"

definition formatJson :: "(jstr \<Rightarrow> jstr) \<Rightarrow> detail \<Rightarrow> js_error + detail" where
  "formatJson num d =
     map_sum id (\<lambda>v. setBodyText (json_stringify2 v) d) (json_parse num (bodyText (dt_draft d)))"

subsection \<open>Sending\<close>

text \<open>\<open>readBody\<close>: the body, or \<open>None\<close> for \<open>INVALID_BODY\<close> after its toast.\<close>

definition readBody :: "browser \<Rightarrow> detail \<Rightarrow> screen \<Rightarrow> json option option \<times> screen" where
  "readBody br d sn =
     (case parseRequestBody (br_num br) (dt_endpoint d) (bodyText (dt_draft d))
             (pv_variables (sn_provider sn)) of
        Inr body \<Rightarrow> (Some body, sn)
      | Inl _ \<Rightarrow> (None, say ''invalid_json'' ''invalid_json_description'' ErrorTone sn))"

definition execute ::
  "browser \<Rightarrow> jstr \<Rightarrow> rat \<Rightarrow> jstr \<Rightarrow> detail \<Rightarrow> screen \<Rightarrow> detail \<times> screen" where
  "execute br cookie now path d sn =
     (case readBody br d sn of
        (None, sn1) \<Rightarrow> (cancelConfirmation d, sn1)
      | (Some body, sn1) \<Rightarrow>
          (cancelConfirmation d,
           send (view_of sn)
             ((options_of (dt_endpoint d))\<lparr>opt_path := Some path, opt_body := body\<rparr>)
             cookie now (FromDetail (dt_confirming d)) sn1))"

definition attemptSend ::
  "browser \<Rightarrow> jstr \<Rightarrow> rat \<Rightarrow> jstr \<Rightarrow> detail \<Rightarrow> screen \<Rightarrow> detail \<times> screen" where
  "attemptSend br cookie now path d sn =
     (if ep_destructive (dt_endpoint d) \<and> \<not> dt_confirming d
      then (d\<lparr>dt_confirming := True\<rparr>, sn)
      else execute br cookie now path d sn)"

subsection \<open>Copying\<close>

definition runCopy :: "(jstr \<Rightarrow> bool) \<Rightarrow> jstr \<Rightarrow> screen \<Rightarrow> screen" where
  "runCopy writeText v sn =
     (case copyText writeText v of
        Inr _ \<Rightarrow> say ''copied'' ''copied_description'' Neutral sn
      | Inl _ \<Rightarrow> say ''clipboard_denied'' ''clipboard_denied_description'' ErrorTone sn)"

definition curl_text :: "detail \<Rightarrow> 'k provider \<Rightarrow> jstr \<Rightarrow> jstr obj \<Rightarrow> json option \<Rightarrow> jstr" where
  "curl_text d pv path headers body =
     createCurl (pv_apiBase pv) (dt_endpoint d) path body headers"

definition copyCurl ::
  "browser \<Rightarrow> (jstr \<Rightarrow> bool) \<Rightarrow> jstr \<Rightarrow> jstr obj \<Rightarrow> detail \<Rightarrow> screen \<Rightarrow> screen" where
  "copyCurl br writeText path headers d sn =
     (case readBody br d sn of
        (None, sn1) \<Rightarrow> sn1
      | (Some body, sn1) \<Rightarrow> runCopy writeText (curl_text d (sn_provider sn) path headers body) sn1)"

subsection \<open>The keyboard\<close>

record key_event =
  key_name :: jstr
  key_meta :: bool
  key_ctrl :: bool

text \<open>The panel's key handler: the panel and the screen, and whether \<open>onBack\<close> is called.\<close>

definition handleKeyDown ::
  "browser \<Rightarrow> jstr \<Rightarrow> rat \<Rightarrow> jstr \<Rightarrow> key_event \<Rightarrow> detail \<Rightarrow> screen \<Rightarrow> (detail \<times> screen) \<times> bool"
where
  "handleKeyDown br cookie now path event d sn =
     ((if (key_meta event \<or> key_ctrl event) \<and> key_name event = js ''Enter''
       then attemptSend br cookie now path d sn else (d, sn)),
      key_name event = js ''Escape'')"

end
