(* ===== verification/UiNodes.thy ===== *)
theory UiNodes
  imports WbTypes
begin

section \<open>Pages as trees\<close>

text \<open>
  What a component returns: a tree of elements (of the document or of \<open>components/ui\<close>) and
  texts. An attribute is a text, a truth value, a displayed text, or a handler: a function of
  the entered or chosen text (a click ignores it) that gives an action or nothing. A constant
  list of style classes is left out, a computed one is kept, and of a class table the values it is
  called with; an absent child (\<open>null\<close>) is no child. \<open>page_actions\<close> gives what a user can do on a page: a disabled control has no action,
  and a \<open>Select\<close> (\<open>SelectPrimitive.Root\<close>) takes only the values of its items.
\<close>

datatype 'a attr =
    Prop string jstr
  | Flag string bool
  | Label string "ui_text list"
  | On string "jstr \<Rightarrow> 'a option"

datatype 'a node =
    El string "'a attr list" "'a node list"
  | Words "ui_text list"

abbreviation message :: "string \<Rightarrow> 'a node" where
  "message k \<equiv> Words [Msg k []]"

abbreviation literal :: "jstr \<Rightarrow> 'a node" where
  "literal s \<equiv> Words [Lit s]"

definition on_click :: "'a \<Rightarrow> 'a attr" where
  "on_click a = On ''onClick'' (\<lambda>_. Some a)"

definition on_change :: "(jstr \<Rightarrow> 'a) \<Rightarrow> 'a attr" where
  "on_change f = On ''onChange'' (\<lambda>v. Some (f v))"

text \<open>\<open>{ c ? node : null }\<close>.\<close>

definition shown_if :: "bool \<Rightarrow> 'a node \<Rightarrow> 'a node list" where
  "shown_if c n = (if c then [n] else [])"

lemma shown_if_simps [simp]: "shown_if True n = [n]" "shown_if False n = []"
  by (simp_all add: shown_if_def)

fun is_disabled :: "'a attr \<Rightarrow> bool" where
  "is_disabled (Flag n b) = (n = ''disabled'' \<and> b)"
| "is_disabled _ = False"

fun handler_action :: "jstr \<Rightarrow> 'a attr \<Rightarrow> 'a list" where
  "handler_action v (On n f) = (case f v of Some a \<Rightarrow> [a] | None \<Rightarrow> [])"
| "handler_action v _ = []"

fun prop_value :: "string \<Rightarrow> 'a attr \<Rightarrow> jstr list" where
  "prop_value k (Prop n s) = (if n = k then [s] else [])"
| "prop_value k _ = []"

fun item_values :: "'a node \<Rightarrow> jstr list" where
  "item_values (Words ws) = []"
| "item_values (El t as cs) =
     (if t = ''SelectItem'' \<or> t = ''SelectPrimitive.Item'' then concat (map (prop_value ''value'') as) else [])
       @ concat (map item_values cs)"

fun page_actions :: "jstr \<Rightarrow> 'a node \<Rightarrow> 'a list" where
  "page_actions v (Words ws) = []"
| "page_actions v (El t as cs) =
     (if list_ex is_disabled as
        \<or> ((t = ''Select'' \<or> t = ''SelectPrimitive.Root'') \<and> v \<notin> set (concat (map item_values cs)))
      then []
      else concat (map (handler_action v) as))
     @ concat (map (page_actions v) cs)"

text \<open>The texts a page displays, in order, without those of attributes.\<close>

fun page_texts :: "'a node \<Rightarrow> ui_text list" where
  "page_texts (Words ws) = ws"
| "page_texts (El t as cs) = concat (map page_texts cs)"

text \<open>The elements with a given name, in order.\<close>

fun elements :: "string \<Rightarrow> 'a node \<Rightarrow> 'a node list" where
  "elements t (Words ws) = []"
| "elements t (El t' as cs) =
     (if t' = t then [El t' as cs] else []) @ concat (map (elements t) cs)"

lemma handler_action_on [simp]:
  "handler_action v (on_click a) = [a]"
  "handler_action v (on_change f) = [f v]"
  by (simp_all add: on_click_def on_change_def)

lemma not_disabled_on [simp]: "\<not> is_disabled (on_click a)" "\<not> is_disabled (on_change f)"
  by (simp_all add: on_click_def on_change_def)

lemma prop_value_on [simp]: "prop_value k (on_click a) = []" "prop_value k (on_change f) = []"
  by (simp_all add: on_click_def on_change_def)

subsection \<open>Passing properties on\<close>

text \<open>
  \<open><Tag a={..} {...props}>\<close>: a property of the caller replaces one of the same name. A caller's
  \<open>className\<close> is merged with the component's own (left out) classes.
\<close>

fun attr_name :: "'a attr \<Rightarrow> string" where
  "attr_name (Prop n s) = n"
| "attr_name (Flag n b) = n"
| "attr_name (Label n ws) = n"
| "attr_name (On n f) = n"

definition spread :: "'a attr list \<Rightarrow> 'a attr list \<Rightarrow> 'a attr list" where
  "spread own props = filter (\<lambda>a. attr_name a \<notin> attr_name ` set props) own @ props"

definition class_attr :: "jstr option \<Rightarrow> 'a attr list" where
  "class_attr className = (case className of Some s \<Rightarrow> [Prop ''className'' s] | None \<Rightarrow> [])"

text \<open>A style object, as the text of the attribute it becomes.\<close>

definition style_text :: "jstr obj \<Rightarrow> jstr" where
  "style_text style = join_str (js ''; '') (map (\<lambda>(k, v). k @ js '': '' @ v) style)"

lemma attr_name_on [simp]: "attr_name (on_click a) = ''onClick''" "attr_name (on_change f) = ''onChange''"
  by (simp_all add: on_click_def on_change_def)

lemma spread_Nil [simp]: "spread own [] = own"
  by (simp add: spread_def)

lemma spread_overrides:
  "a \<in> set (spread own props) \<longleftrightarrow>
     a \<in> set props \<or> (a \<in> set own \<and> attr_name a \<notin> attr_name ` set props)"
  by (auto simp: spread_def)

end
