(* ===== verification/WbNodes.thy ===== *)
theory WbNodes
  imports WbDetail UiNodes
begin

section \<open>The actions of the workbench's pages\<close>

text \<open>
  The callbacks the workbench's components pass around, as data; theory \<open>WbApp\<close> says what each
  does.
\<close>

datatype action =
    Choose PanelTab
  | SetPathValue jstr jstr
  | SetQueryValue jstr jstr
  | SetBody jstr
  | SetPath jstr
  | FormatJson
  | Execute
  | CancelConfirmation
  | Send
  | CopyCurl
  | CopyText jstr
  | Back
  | RunPasskey passkey_kind
  | RunSocial social_provider
  | FillTotp
  | ChangeSearch search_change
  | Follow jstr
  | DemoLogin account
  | PrepareSessions
  | UseDemoApiKey
  | SetMode AuthMode
  | SetVariable VarName jstr
  | ClearVault
  | CopyValue jstr
  | SetBase jstr
  | SetLocale jstr
  | Dismiss nat

end
