(* ===== verification/WbPanelView.thy ===== *)
theory WbPanelView
  imports WbNodes
begin

section \<open>The panels of one endpoint: endpoint-request-panel.tsx, endpoint-response-panel.tsx, endpoint-guided-action.tsx, endpoint-detail.tsx\<close>

text \<open>
  What the detail panel and its parts put on the page, for the values they are given.
\<close>

subsection \<open>The request panel\<close>

definition parameter_field ::
  "ui_text \<Rightarrow> jstr obj \<Rightarrow> (jstr \<Rightarrow> jstr \<Rightarrow> action) \<Rightarrow> EndpointParameter \<Rightarrow> action node" where
  "parameter_field legend values onChange parameter =
     El ''div'' [Prop ''key'' (param_name parameter)]
       [El ''Label'' [Label ''htmlFor'' [legend, Lit (js ''-''), Lit (param_name parameter)]]
          [literal (param_name parameter)],
        El ''Input''
          [Label ''id'' [legend, Lit (js ''-''), Lit (param_name parameter)],
           Prop ''value'' (case obj_get values (param_name parameter) of Some v \<Rightarrow> v | None \<Rightarrow> []),
           on_change (onChange (param_name parameter)),
           Prop ''autoComplete'' (js ''off''),
           Flag ''spellCheck'' False] []]"

definition ParameterFields ::
  "ui_text \<Rightarrow> EndpointParameter list \<Rightarrow> jstr obj \<Rightarrow> (jstr \<Rightarrow> jstr \<Rightarrow> action) \<Rightarrow> action node" where
  "ParameterFields legend parameters values onChange =
     El ''fieldset'' []
       [El ''legend'' [] [Words [legend]],
        El ''div'' [] (map (parameter_field legend values onChange) parameters)]"

definition body_field :: "RequestDraft \<Rightarrow> action node" where
  "body_field draft =
     El ''div'' []
       [El ''div'' []
          [El ''Label'' [Prop ''htmlFor'' (js ''request-body'')] [message ''request_body''],
           El ''Button'' [Prop ''type'' (js ''button''), Prop ''size'' (js ''xs''),
               Prop ''variant'' (js ''ghost''), on_click FormatJson]
             [El ''BracketsCurlyIcon'' [Prop ''data-icon'' (js ''inline-start'')] [],
              message ''format_json'']],
        El ''Textarea'' [Prop ''ref'' (js ''bodyRef''), Prop ''id'' (js ''request-body''),
          Prop ''value'' (bodyText draft), on_change SetBody, Flag ''spellCheck'' False] []]"

definition special_section :: "action node \<Rightarrow> action node" where
  "special_section specialAction =
     El ''section'' [Prop ''aria-labelledby'' (js ''special-action-heading'')]
       [El ''h3'' [Prop ''id'' (js ''special-action-heading'')] [message ''special_actions''],
        specialAction]"

definition header_lines :: "jstr obj \<Rightarrow> ui_text" where
  "header_lines headers =
     (if headers \<noteq> [] then
        Lit (join_str [0xA] (map (\<lambda>(name, v). name @ js '': '' @ redactHeader name v) headers))
      else Msg ''no_custom_headers'' [])"

definition method_badge :: "EndpointDefinition \<Rightarrow> action node" where
  "method_badge e =
     El ''span'' [Prop ''className'' (js ''method method-'' @ ascii_lower (method_text (ep_method e)))]
       [literal (method_text (ep_method e))]"

definition request_preview :: "EndpointDefinition \<Rightarrow> jstr \<Rightarrow> jstr obj \<Rightarrow> action node" where
  "request_preview e path headers =
     El ''section'' [Prop ''aria-labelledby'' (js ''request-preview-heading'')]
       [El ''h3'' [Prop ''id'' (js ''request-preview-heading'')] [message ''request_preview''],
        El ''div'' []
          [method_badge e,
           El ''Input'' [Prop ''value'' path, on_change SetPath,
             Label ''aria-label'' [Msg ''request_preview'' []], Flag ''spellCheck'' False] []],
        El ''h4'' [] [message ''request_headers''],
        El ''pre'' [] [Words [header_lines headers]]]"

definition confirmation :: "jstr \<Rightarrow> bool \<Rightarrow> action node" where
  "confirmation itemTitle isRunning =
     El ''div'' []
       [El ''Button'' [Prop ''type'' (js ''button''), Prop ''variant'' (js ''destructive''),
            on_click Execute, Flag ''disabled'' isRunning]
          [El ''CheckIcon'' [Prop ''data-icon'' (js ''inline-start'')] [],
           Words [Msg ''confirm_operation'' [(''operation'', itemTitle)]]],
        El ''Button'' [Prop ''type'' (js ''button''), Prop ''variant'' (js ''outline''),
            on_click CancelConfirmation]
          [message ''cancel'']]"

definition destructive_notice :: "jstr \<Rightarrow> bool \<Rightarrow> bool \<Rightarrow> action node" where
  "destructive_notice itemTitle confirming isRunning =
     El ''div'' []
       (El ''div'' []
          [El ''ShieldWarningIcon'' [Prop ''aria-hidden'' (js ''true'')] [],
           El ''div'' []
             [El ''p'' [] [message ''destructive_title''],
              El ''p'' [] [message ''destructive_description'']]]
        # shown_if confirming (confirmation itemTitle isRunning))"

definition send_buttons :: "bool \<Rightarrow> bool \<Rightarrow> action node" where
  "send_buttons confirming isRunning =
     El ''div'' []
       [El ''Button'' [Prop ''type'' (js ''button''), on_click Send,
            Flag ''disabled'' (isRunning \<or> confirming)]
          [El ''PaperPlaneTiltIcon'' [Prop ''data-icon'' (js ''inline-start'')] [],
           message (if isRunning then ''sending_request'' else ''send_request'')],
        El ''Button'' [Prop ''type'' (js ''button''), Prop ''variant'' (js ''outline''),
            on_click CopyCurl]
          [El ''CopyIcon'' [Prop ''data-icon'' (js ''inline-start'')] [],
           message ''copy_curl'']]"

definition EndpointRequestPanel ::
  "EndpointDefinition \<Rightarrow> jstr \<Rightarrow> RequestDraft \<Rightarrow> jstr \<Rightarrow> jstr obj \<Rightarrow> bool \<Rightarrow> bool
     \<Rightarrow> action node option \<Rightarrow> action node" where
  "EndpointRequestPanel e itemTitle draft path headers confirming isRunning specialAction =
     El ''div'' [Prop ''role'' (js ''tabpanel'')]
       (shown_if (ep_pathParams e \<noteq> [])
          (ParameterFields (Msg ''path_parameters'' []) (ep_pathParams e) (pathValues draft) SetPathValue)
        @ shown_if (ep_query e \<noteq> [])
          (ParameterFields (Msg ''query_parameters'' []) (ep_query e) (queryValues draft) SetQueryValue)
        @ shown_if (ep_body e \<noteq> None) (body_field draft)
        @ (case specialAction of Some a \<Rightarrow> [special_section a] | None \<Rightarrow> [])
        @ [request_preview e path headers]
        @ shown_if (ep_destructive e) (destructive_notice itemTitle confirming isRunning)
        @ [send_buttons confirming isRunning])"

subsection \<open>The response panel\<close>

definition visible_headers :: "jstr obj \<Rightarrow> (jstr \<times> jstr) list" where
  "visible_headers headers =
     concat (map (\<lambda>name. case obj_get headers name of
                       Some v \<Rightarrow> if v \<noteq> [] then [(name, v)] else []
                     | None \<Rightarrow> [])
       [js ''content-type'', js ''x-correlation-id'', js ''retry-after'', js ''api-supported-versions''])"

definition ResponseHeaders :: "jstr obj \<Rightarrow> action node list" where
  "ResponseHeaders headers =
     (let visible = visible_headers headers in
      shown_if (visible \<noteq> [])
        (El ''dl'' []
           (map (\<lambda>(name, v).
                El ''div'' [Prop ''key'' name]
                  [El ''dt'' [] [literal name], El ''dd'' [] [literal v]]) visible)))"

definition outcome_class :: "bool \<Rightarrow> jstr" where
  "outcome_class ok = (if ok then js ''text-primary'' else js ''text-destructive'')"

definition int_to_js :: "int \<Rightarrow> jstr" where
  "int_to_js n = (if n < 0 then 0x2D # nat_to_js (nat (- n)) else nat_to_js (nat n))"

definition response_head :: "WorkbenchResponse \<Rightarrow> action node" where
  "response_head result =
     El ''div'' []
       [El ''div'' []
          [El ''p'' [Prop ''className'' (js ''font-mono text-3xl font-bold '' @ outcome_class (res_ok result))]
             [literal (nat_to_js (res_status result))],
           El ''h3'' [Prop ''ref'' (js ''headingRef''), Prop ''tabIndex'' (js ''-1'')]
             [literal (if res_statusText result \<noteq> [] then res_statusText result
                       else if res_ok result then js ''OK'' else js ''Error'')],
           El ''p'' [] [literal (int_to_js (res_elapsedMs result) @ js '' ms'')]],
        El ''Button'' [Prop ''type'' (js ''button''), Prop ''variant'' (js ''outline''),
            Prop ''size'' (js ''sm''), on_click (CopyText (res_raw result)),
            Flag ''disabled'' (res_raw result = [])]
          [El ''CopyIcon'' [Prop ''data-icon'' (js ''inline-start'')] [], message ''copy_response'']]"

text \<open>\<open>formatResponse\<close> shows the empty-response message for an empty body.\<close>

definition response_viewer :: "WorkbenchResponse \<Rightarrow> action node" where
  "response_viewer result =
     El ''pre'' [] [Words [if res_raw result = [] then Msg ''empty_response'' []
                           else Lit (formatResponse result [])]]"

definition no_response :: "action node" where
  "no_response =
     El ''div'' []
       [El ''PaperPlaneTiltIcon'' [Prop ''aria-hidden'' (js ''true'')] [],
        El ''h3'' [Prop ''ref'' (js ''headingRef''), Prop ''tabIndex'' (js ''-1'')]
          [message ''no_response''],
        El ''p'' [] [message ''no_response_description'']]"

definition EndpointResponsePanel :: "WorkbenchResponse option \<Rightarrow> action node" where
  "EndpointResponsePanel result =
     El ''div'' [Prop ''role'' (js ''tabpanel''), Prop ''aria-live'' (js ''polite'')]
       [case result of
          Some r \<Rightarrow>
            El ''div'' []
              ([response_head r]
               @ (case resp_notice r of Some notice \<Rightarrow> [El ''p'' [] [Words [notice]]] | None \<Rightarrow> [])
               @ [response_viewer r]
               @ ResponseHeaders (res_headers r))
        | None \<Rightarrow> no_response]"

subsection \<open>The guided action\<close>

definition GuidedAction :: "string \<Rightarrow> ui_text \<Rightarrow> ui_text \<Rightarrow> action \<Rightarrow> action node" where
  "GuidedAction icon title description onClick =
     El ''Button'' [Prop ''type'' (js ''button''), Prop ''variant'' (js ''outline''), on_click onClick]
       [El ''span'' [] [El icon [] []],
        El ''span'' [] [El ''strong'' [] [Words [title]], El ''span'' [] [Words [description]]],
        El ''ArrowRightIcon'' [] []]"

definition EndpointGuidedAction ::
  "EndpointDefinition \<Rightarrow> RequestDraft \<Rightarrow> WorkbenchVariables \<Rightarrow> action node option" where
  "EndpointGuidedAction e draft variables =
     (if ep_special e = Some PasskeyRegister then
        Some (GuidedAction ''FingerprintIcon'' (Msg ''run_webauthn_registration'' [])
          (Msg ''run_webauthn_registration_note'' []) (RunPasskey PasskeyRegistration))
      else if ep_special e = Some PasskeyAuth then
        Some (GuidedAction ''FingerprintIcon'' (Msg ''run_webauthn_authentication'' [])
          (Msg ''run_webauthn_authentication_note'' []) (RunPasskey PasskeyAuthentication))
      else if ep_special e = Some Social then
        Some (GuidedAction ''SparkleIcon'' (Msg ''run_social_flow'' []) (Msg ''run_social_flow_note'' [])
          (RunSocial (if obj_get (pathValues draft) (js ''provider'') = Some (js ''github'')
                      then Github else Google)))
      else if ep_special e = Some Totp
          \<or> (ep_id e = js ''auth-login-mfa'' \<and> totpSecret variables \<noteq> []) then
        Some (GuidedAction ''LightningIcon'' (Msg ''fill_totp'' [])
          (if totpCode variables \<noteq> [] then Msg ''totp_live_code'' [(''code'', totpCode variables)]
           else Msg ''totp_enroll_first'' []) FillTotp)
      else None)"

text \<open>
  The component may return \<open>null\<close>, but the element that is passed as \<open>specialAction\<close> is never
  null: the section with its heading is on every request panel.
\<close>

definition specialAction_element ::
  "EndpointDefinition \<Rightarrow> RequestDraft \<Rightarrow> WorkbenchVariables \<Rightarrow> action node" where
  "specialAction_element e draft variables =
     El ''EndpointGuidedAction'' []
       (case EndpointGuidedAction e draft variables of Some n \<Rightarrow> [n] | None \<Rightarrow> [])"

subsection \<open>The detail panel\<close>

definition TabButton :: "bool \<Rightarrow> action node list \<Rightarrow> action \<Rightarrow> action node" where
  "TabButton active children onClick =
     El ''Button'' [Prop ''type'' (js ''button''), Prop ''role'' (js ''tab''),
         Flag ''aria-selected'' active, Prop ''tabIndex'' (if active then js ''0'' else js ''-1''),
         Prop ''variant'' (js ''ghost''),
         Prop ''className'' (js ''h-12 rounded-none border-b-2 '' @
           (if active then js ''border-primary text-foreground''
            else js ''border-transparent text-muted-foreground'')),
         on_click onClick] children"

definition detail_head :: "EndpointDefinition \<Rightarrow> LocalizedCopy \<Rightarrow> action node" where
  "detail_head e itemCopy =
     El ''div'' []
       [El ''Button'' [Prop ''type'' (js ''button''), Prop ''variant'' (js ''ghost''),
            Prop ''size'' (js ''sm''), on_click Back]
          [El ''ArrowLeftIcon'' [Prop ''data-icon'' (js ''inline-start'')] [], message ''back_to_catalog''],
        El ''div'' []
          [method_badge e,
           El ''span'' [Prop ''className'' (js ''auth-badge auth-'' @ auth_requirement_text (ep_auth e))]
             [literal (auth_requirement_text (ep_auth e))]],
        El ''h2'' [Prop ''id'' (js ''endpoint-title'')] [literal (lc_title itemCopy)],
        El ''p'' [] [literal (lc_description itemCopy)]]"

text \<open>The middle dot before the status is U+00B7.\<close>

definition detail_tabs :: "LocalizedCopy \<Rightarrow> PanelTab \<Rightarrow> WorkbenchResponse option \<Rightarrow> action node" where
  "detail_tabs itemCopy active result =
     El ''div'' [Prop ''role'' (js ''tablist''), Prop ''aria-label'' (lc_title itemCopy)]
       [TabButton (active = RequestTab) [message ''request''] (Choose RequestTab),
        TabButton (active = ResponseTab)
          (message ''response''
           # (case result of
                Some r \<Rightarrow>
                  [El ''span'' [Prop ''className'' (outcome_class (res_ok r))]
                     [literal ([0xB7, 0x20] @ nat_to_js (res_status r))]]
              | None \<Rightarrow> []))
          (Choose ResponseTab)]"

definition EndpointDetail ::
  "AppLocale \<Rightarrow> 'k provider \<Rightarrow> jstr \<Rightarrow> jstr obj \<Rightarrow> detail \<Rightarrow> action node" where
  "EndpointDetail locale pv path headers d =
     (let e = dt_endpoint d;
          itemCopy = endpointCopy e locale;
          result = map_option snd (result_of d pv)
      in
        El ''aside'' [Prop ''aria-labelledby'' (js ''endpoint-title'')]
          [El ''div'' []
             [detail_head e itemCopy,
              detail_tabs itemCopy (activeTab d pv) result,
              if activeTab d pv = RequestTab then
                EndpointRequestPanel e (lc_title itemCopy) (dt_draft d) path headers
                  (dt_confirming d) (pv_isRunning pv)
                  (Some (specialAction_element e (dt_draft d) (pv_variables pv)))
              else EndpointResponsePanel result]])"

subsection \<open>What the panels offer\<close>

lemma ParameterFields_actions:
  "set (page_actions v (ParameterFields legend ps values f)) = (\<lambda>p. f (param_name p) v) ` set ps"
  by (auto simp: ParameterFields_def parameter_field_def)

lemma body_field_actions: "set (page_actions v (body_field draft)) = {FormatJson, SetBody v}"
  by (auto simp: body_field_def)

lemma method_badge_actions [simp]: "page_actions v (method_badge e) = []"
  by (simp add: method_badge_def)

lemma request_preview_actions [simp]: "page_actions v (request_preview e path headers) = [SetPath v]"
  by (simp add: request_preview_def)

lemma destructive_notice_actions:
  "set (page_actions v (destructive_notice t confirming isRunning)) =
     (if confirming then insert CancelConfirmation (if isRunning then {} else {Execute}) else {})"
  by (auto simp: destructive_notice_def confirmation_def)

lemma send_buttons_actions:
  "set (page_actions v (send_buttons confirming isRunning)) =
     insert CopyCurl (if isRunning \<or> confirming then {} else {Send})"
  by (auto simp: send_buttons_def)

lemma EndpointRequestPanel_actions:
  "set (page_actions v (EndpointRequestPanel e t draft path headers confirming isRunning special)) =
     (\<lambda>p. SetPathValue (param_name p) v) ` set (ep_pathParams e)
     \<union> (\<lambda>p. SetQueryValue (param_name p) v) ` set (ep_query e)
     \<union> (if ep_body e = None then {} else {FormatJson, SetBody v})
     \<union> (case special of Some n \<Rightarrow> set (page_actions v n) | None \<Rightarrow> {})
     \<union> {SetPath v, CopyCurl}
     \<union> (if ep_destructive e \<and> confirming then {CancelConfirmation} else {})
     \<union> (if ep_destructive e \<and> confirming \<and> \<not> isRunning then {Execute} else {})
     \<union> (if isRunning \<or> confirming then {} else {Send})"
  unfolding EndpointRequestPanel_def
  by (auto simp: shown_if_def ParameterFields_actions body_field_actions send_buttons_actions
      destructive_notice_actions special_section_def split: option.splits if_splits)

lemma EndpointResponsePanel_actions:
  "set (page_actions v (EndpointResponsePanel result)) =
     (case result of
        Some r \<Rightarrow> if res_raw r = [] then {} else {CopyText (res_raw r)}
      | None \<Rightarrow> {})"
  by (auto simp: EndpointResponsePanel_def response_head_def response_viewer_def no_response_def
      ResponseHeaders_def Let_def shown_if_def split: option.splits)

lemma GuidedAction_actions [simp]: "page_actions v (GuidedAction icon t d a) = [a]"
  by (simp add: GuidedAction_def)

definition guided_actions :: "EndpointDefinition \<Rightarrow> RequestDraft \<Rightarrow> WorkbenchVariables \<Rightarrow> action set" where
  "guided_actions e draft variables =
     (case EndpointGuidedAction e draft variables of Some n \<Rightarrow> set (page_actions [] n) | None \<Rightarrow> {})"

lemma specialAction_actions:
  "set (page_actions v (specialAction_element e draft variables)) = guided_actions e draft variables"
  by (simp add: specialAction_element_def guided_actions_def EndpointGuidedAction_def)

lemma guided_passkey:
  "RunPasskey kind \<in> guided_actions e draft variables \<Longrightarrow>
     ep_special e = Some (case kind of PasskeyRegistration \<Rightarrow> PasskeyRegister | PasskeyAuthentication \<Rightarrow> PasskeyAuth)"
  by (cases kind) (auto simp: guided_actions_def EndpointGuidedAction_def split: if_splits)

lemma guided_not_panel:
  "Execute \<notin> guided_actions e draft variables" "Send \<notin> guided_actions e draft variables"
  by (auto simp: guided_actions_def EndpointGuidedAction_def)

lemma detail_frame_actions:
  "page_actions v (detail_head e c) = [Back]"
  "page_actions v (detail_tabs c tab result) = [Choose RequestTab, Choose ResponseTab]"
  by (auto simp: detail_head_def detail_tabs_def TabButton_def split: option.split)

lemma EndpointDetail_actions:
  "set (page_actions v (EndpointDetail locale pv path headers d)) =
     {Back, Choose RequestTab, Choose ResponseTab}
     \<union> (if activeTab d pv = RequestTab then
          set (page_actions v (EndpointRequestPanel (dt_endpoint d) t (dt_draft d) path headers
            (dt_confirming d) (pv_isRunning pv)
            (Some (specialAction_element (dt_endpoint d) (dt_draft d) (pv_variables pv)))))
        else set (page_actions v (EndpointResponsePanel (map_option snd (result_of d pv)))))"
  by (auto simp: EndpointDetail_def Let_def detail_frame_actions EndpointRequestPanel_actions)

subsection \<open>Properties\<close>


lemma special_section_empty:
  "EndpointGuidedAction EP_health_live draft variables = None
   \<and> Msg ''special_actions'' [] \<in> set (page_texts (EndpointRequestPanel EP_health_live t draft path headers
        confirming isRunning (Some (specialAction_element EP_health_live draft variables))))"
  by (simp add: EndpointGuidedAction_def EndpointRequestPanel_def special_section_def)

end
