(* ===== verification/WbIdentityView.thy ===== *)
theory WbIdentityView
  imports WbNodes
begin

section \<open>The identity panel: identity-panel.tsx\<close>

text \<open>
  The vault, the demo scenarios, the fixture identifiers and the service status. The panel's
  content is on the page twice, in a \<open>details\<close> for narrow and an \<open>aside\<close> for wide screens.
\<close>

definition vault_ready :: "AuthMode \<Rightarrow> WorkbenchVariables \<Rightarrow> bool" where
  "vault_ready authMode variables =
     (if authMode = Cookie then csrfToken variables \<noteq> []
      else if authMode = ApiKey then apiKey variables \<noteq> []
      else accessToken variables \<noteq> [])"

definition vault_title :: "AuthMode \<Rightarrow> bool \<Rightarrow> ui_text" where
  "vault_title authMode ready =
     (if ready then
        (if authMode = Cookie then Msg ''vault_ready_cookie'' []
         else if authMode = ApiKey then Msg ''vault_ready_api_key'' []
         else Msg ''vault_ready_bearer'' [])
      else Msg ''vault_idle'' [])"

definition vault_note :: "AuthMode \<Rightarrow> bool \<Rightarrow> ui_text" where
  "vault_note authMode ready =
     (if ready then
        (if authMode = Cookie then Msg ''vault_ready_cookie_note'' [] else Msg ''vault_ready_tab_note'' [])
      else
        (if authMode = Cookie then Msg ''vault_idle_cookie_note'' [] else Msg ''vault_idle_note'' []))"

definition vault_head :: "AuthMode \<Rightarrow> bool \<Rightarrow> action node" where
  "vault_head authMode ready =
     El ''div'' []
       [El ''div'' [Prop ''className'' (js ''mt-1 size-2.5 shrink-0 rounded-full '' @
          (if ready then js ''bg-primary shadow-[0_0_0_5px_color-mix(in_oklch,var(--primary)_20%,transparent)]''
           else js ''bg-muted-foreground/40''))] [],
        El ''div'' []
          [El ''h2'' [Prop ''id'' (js ''vault-heading'')] [Words [vault_title authMode ready]],
           El ''p'' [] [Words [vault_note authMode ready]]]]"

text \<open>\<open>value as AuthMode\<close>: the values are those of the three items.\<close>

definition mode_of_text :: "jstr \<Rightarrow> AuthMode option" where
  "mode_of_text v =
     map_of [(js ''bearer'', Bearer), (js ''cookie'', Cookie), (js ''apiKey'', ApiKey)] v"

definition mode_select :: "AuthMode \<Rightarrow> action node" where
  "mode_select authMode =
     El ''div'' []
       [El ''Label'' [Prop ''htmlFor'' (js ''auth-mode'')] [message ''auth_transport''],
        El ''Select'' [Prop ''value'' (auth_mode_text authMode),
            On ''onValueChange'' (\<lambda>v. map_option SetMode (mode_of_text v))]
          [El ''SelectTrigger'' [Prop ''id'' (js ''auth-mode'')] [El ''SelectValue'' [] []],
           El ''SelectContent'' []
             [El ''SelectItem'' [Prop ''value'' (js ''bearer'')] [message ''bearer''],
              El ''SelectItem'' [Prop ''value'' (js ''cookie'')] [message ''cookie''],
              El ''SelectItem'' [Prop ''value'' (js ''apiKey'')] [message ''api_key'']]]]"

definition VaultField :: "string \<Rightarrow> string \<Rightarrow> jstr \<Rightarrow> VarName \<Rightarrow> action node" where
  "VaultField ident label v name =
     El ''div'' []
       [El ''Label'' [Prop ''htmlFor'' (js ident)] [message label],
        El ''div'' []
          [El ''Input'' [Prop ''id'' (js ident), Prop ''type'' (js ''password''), Prop ''value'' v,
             on_change (\<lambda>t. SetVariable name (trim t)),
             Prop ''autoComplete'' (js ''off''), Flag ''spellCheck'' False] [],
           El ''Button'' [Prop ''type'' (js ''button''), Prop ''variant'' (js ''ghost''),
               Prop ''size'' (js ''icon-sm''), Flag ''disabled'' (v = []),
               on_click (CopyValue v),
               Label ''aria-label'' [Msg ''copy'' [], Lit (js '' ''), Msg label []]]
             [El ''CopyIcon'' [] []]]]"

definition vault_fields :: "WorkbenchVariables \<Rightarrow> action node" where
  "vault_fields variables =
     El ''div'' []
       [VaultField ''access-token'' ''access_token'' (accessToken variables) AccessToken,
        VaultField ''refresh-token'' ''refresh_token'' (refreshToken variables) RefreshToken,
        VaultField ''api-key'' ''api_key'' (apiKey variables) ApiKeyVar,
        VaultField ''csrf-token'' ''csrf_token'' (csrfToken variables) CsrfToken]"

definition vault_section :: "AuthMode \<Rightarrow> WorkbenchVariables \<Rightarrow> action node" where
  "vault_section authMode variables =
     El ''section'' [Prop ''aria-labelledby'' (js ''vault-heading'')]
       [vault_head authMode (vault_ready authMode variables),
        mode_select authMode,
        vault_fields variables,
        El ''Button'' [Prop ''type'' (js ''button''), Prop ''variant'' (js ''ghost''), on_click ClearVault]
          [El ''TrashIcon'' [Prop ''data-icon'' (js ''inline-start'')] [], message ''clear_vault'']]"

subsection \<open>Scenarios\<close>

definition ScenarioButton :: "string \<Rightarrow> action node \<Rightarrow> action \<Rightarrow> action node" where
  "ScenarioButton icon children onClick =
     El ''Button'' [Prop ''type'' (js ''button''), Prop ''variant'' (js ''outline''), on_click onClick]
       [El icon [] [], children]"

definition scenarios_section :: "action node" where
  "scenarios_section =
     El ''section'' [Prop ''aria-labelledby'' (js ''scenarios-heading'')]
       [El ''h2'' [Prop ''id'' (js ''scenarios-heading'')] [message ''demo_scenarios''],
        El ''div'' []
          [ScenarioButton ''ShieldCheckIcon'' (message ''login_admin'') (DemoLogin DemoAdmin),
           ScenarioButton ''SignInIcon'' (message ''login_user'') (DemoLogin DemoUser),
           ScenarioButton ''UsersThreeIcon'' (message ''prepare_sessions'') PrepareSessions,
           ScenarioButton ''KeyIcon'' (message ''use_demo_api_key'') UseDemoApiKey,
           El ''div'' []
             [ScenarioButton ''GoogleLogoIcon'' (literal (js ''Google'')) (RunSocial Google),
              ScenarioButton ''GithubLogoIcon'' (literal (js ''GitHub'')) (RunSocial Github)]]]"

subsection \<open>Fixtures\<close>

definition Fixture :: "string \<Rightarrow> jstr \<Rightarrow> action node" where
  "Fixture label v =
     El ''div'' []
       [El ''dt'' [] [message label],
        El ''dd'' []
          [El ''code'' [] [literal v],
           El ''Button'' [Prop ''type'' (js ''button''), Prop ''variant'' (js ''ghost''),
               Prop ''size'' (js ''icon-xs''), on_click (CopyValue v),
               Label ''aria-label'' [Msg ''copy'' [], Lit (js '' ''), Msg label []]]
             [El ''CopyIcon'' [] []]]]"

definition fixtures_section :: "action node" where
  "fixtures_section =
     El ''section'' [Prop ''aria-labelledby'' (js ''fixtures-heading'')]
       [El ''h2'' [Prop ''id'' (js ''fixtures-heading'')] [message ''fixture_ids''],
        El ''dl'' []
          [Fixture ''admin_user_id'' (demo_id DEMO_admin),
           Fixture ''regular_user_id'' (demo_id DEMO_user),
           Fixture ''admin_role_id'' DEMO_adminRoleId,
           Fixture ''session_id'' DEMO_sessionId,
           Fixture ''api_key_id'' DEMO_apiKeyId]]"

subsection \<open>Services\<close>

fun ServiceIcon :: "service_state \<Rightarrow> action node" where
  "ServiceIcon Checking = El ''CircleNotchIcon'' [Prop ''className'' (js ''animate-spin'')] []"
| "ServiceIcon Healthy =
     El ''CheckCircleIcon'' [Prop ''className'' (js ''text-primary''), Prop ''weight'' (js ''fill'')] []"
| "ServiceIcon Unhealthy =
     El ''WarningCircleIcon'' [Prop ''className'' (js ''text-destructive''), Prop ''weight'' (js ''fill'')] []"

definition serviceLabel :: "ServiceStatus \<Rightarrow> ui_text" where
  "serviceLabel status =
     (if svc_state status = Checking then Msg ''checking'' []
      else if svc_state status = Unhealthy then Msg ''unreachable'' []
      else
        (case svc_operationCount status of
           None \<Rightarrow> Msg ''healthy'' []
         | Some n \<Rightarrow> Msg ''operations_ready'' [(''count'', nat_to_js n)]))"

text \<open>The separator is a space, the middle dot U+00B7 and a space.\<close>

definition service_words :: "string \<Rightarrow> ServiceStatus \<Rightarrow> action node" where
  "service_words title status =
     El ''span'' [] [Words [Msg title [], Lit [0x20, 0xB7, 0x20], serviceLabel status]]"

text \<open>\<open><Link to="/endpoints/$endpointId" params={{ endpointId }} search={search} />\<close>; the search
  it carries is the page's own. A \<open>Button\<close> with such a link as its \<open>render\<close> is the link with the
  button's properties.\<close>

definition endpoint_link :: "jstr \<Rightarrow> action attr list \<Rightarrow> action node list \<Rightarrow> action node" where
  "endpoint_link i attrs children = El ''Link'' (on_click (Follow i) # attrs) children"

definition services_section :: "jstr \<Rightarrow> services \<Rightarrow> action node" where
  "services_section apiBase services =
     El ''section'' [Prop ''aria-labelledby'' (js ''services-heading'')]
       [El ''h2'' [Prop ''id'' (js ''services-heading'')] [message ''services''],
        El ''div'' []
          [endpoint_link (js ''health-live'') [Prop ''variant'' (js ''outline'')]
             [ServiceIcon (svc_state (svc_live services)),
              service_words ''liveness'' (svc_live services)],
           endpoint_link (js ''health-ready'') [Prop ''variant'' (js ''outline'')]
             [ServiceIcon (svc_state (svc_ready services)),
              service_words ''readiness'' (svc_ready services)],
           El ''a'' [Prop ''href'' (apiBase @ js ''/openapi/v1.json''), Prop ''target'' (js ''_blank''),
               Prop ''rel'' (js ''noreferrer''), Prop ''buttonVariants.variant'' (js ''outline'')]
             [El ''DatabaseIcon'' [] [],
              service_words ''openapi_coverage'' (svc_openapi services)]]]"

subsection \<open>The panel\<close>

definition IdentityPanelContent :: "'k provider \<Rightarrow> action node" where
  "IdentityPanelContent pv =
     El ''div'' []
       [vault_section (pv_authMode pv) (pv_variables pv),
        scenarios_section,
        fixtures_section,
        services_section (pv_apiBase pv) (pv_services pv)]"

definition IdentityPanel :: "'k provider \<Rightarrow> action node list" where
  "IdentityPanel pv =
     [El ''details'' []
        [El ''summary'' [] [message ''identity_vault''],
         El ''div'' [] [IdentityPanelContent pv]],
      El ''aside'' [] [El ''div'' [] [IdentityPanelContent pv]]]"

text \<open>\<open>copyValue\<close>: an empty value is not copied.\<close>

definition copyValue :: "(jstr \<Rightarrow> bool) \<Rightarrow> jstr \<Rightarrow> screen \<Rightarrow> screen" where
  "copyValue writeText v sn =
     (if v = [] then sn
      else
        (case copyText writeText v of
           Inr _ \<Rightarrow> say ''copied'' ''copied_description'' Neutral sn
         | Inl _ \<Rightarrow> say ''clipboard_denied'' ''clipboard_denied_description'' ErrorTone sn))"

subsection \<open>What the panel offers\<close>

lemma VaultField_actions [simp]:
  "set (page_actions v (VaultField i l w n)) =
     insert (SetVariable n (trim v)) (if w = [] then {} else {CopyValue w})"
  by (simp add: VaultField_def)

lemma mode_select_actions [simp]:
  "set (page_actions v (mode_select m)) =
     (case mode_of_text v of Some m' \<Rightarrow> {SetMode m'} | None \<Rightarrow> {})"
  by (auto simp: mode_select_def mode_of_text_def)

lemma ServiceIcon_actions [simp]: "page_actions v (ServiceIcon s) = []"
  by (cases s) simp_all

lemma ScenarioButton_actions [simp]:
  "page_actions v (ScenarioButton icon (Words ws) a) = [a]"
  by (simp add: ScenarioButton_def)

lemma Fixture_actions [simp]: "page_actions v (Fixture l w) = [CopyValue w]"
  by (simp add: Fixture_def)

lemma service_words_actions [simp]: "page_actions v (service_words t s) = []"
  by (simp add: service_words_def)

lemma vault_section_actions:
  "set (page_actions v (vault_section m vars)) =
     {ClearVault} \<union> (case mode_of_text v of Some m' \<Rightarrow> {SetMode m'} | None \<Rightarrow> {})
     \<union> (\<lambda>n. SetVariable n (trim v)) ` {AccessToken, RefreshToken, ApiKeyVar, CsrfToken}
     \<union> CopyValue ` ({accessToken vars, refreshToken vars, apiKey vars, csrfToken vars} - {[]})"
  by (auto simp: vault_section_def vault_head_def vault_fields_def)

lemma scenarios_section_actions:
  "set (page_actions v scenarios_section) =
     {DemoLogin DemoAdmin, DemoLogin DemoUser, PrepareSessions, UseDemoApiKey,
      RunSocial Google, RunSocial Github}"
  by (auto simp: scenarios_section_def)

lemma fixtures_section_actions:
  "set (page_actions v fixtures_section) =
     CopyValue ` {demo_id DEMO_admin, demo_id DEMO_user, DEMO_adminRoleId, DEMO_sessionId, DEMO_apiKeyId}"
  by (auto simp: fixtures_section_def)

lemma services_section_actions:
  "set (page_actions v (services_section base services)) =
     {Follow (js ''health-live''), Follow (js ''health-ready'')}"
  by (auto simp: services_section_def endpoint_link_def)

lemma IdentityPanelContent_actions:
  "set (page_actions v (IdentityPanelContent pv)) =
     set (page_actions v (vault_section (pv_authMode pv) (pv_variables pv)))
     \<union> set (page_actions v scenarios_section) \<union> set (page_actions v fixtures_section)
     \<union> set (page_actions v (services_section (pv_apiBase pv) (pv_services pv)))"
  by (auto simp: IdentityPanelContent_def)

subsection \<open>Properties\<close>

text \<open>
  What the panel displays of the variables is whether the current mode's credential is there.
  The copies of values that it offers stay within handlers.
\<close>

fun password_input :: "action node \<Rightarrow> bool" where
  "password_input (El t as cs) = (js ''password'' \<in> set (concat (map (prop_value ''type'') as)))"
| "password_input (Words ws) = False"

lemma VaultField_texts [simp]: "page_texts (VaultField i l v n) = [Msg l []]"
  by (simp add: VaultField_def)

lemma VaultField_inputs [simp]:
  "list_all password_input (elements ''Input'' (VaultField i l v n))"
  by (simp add: VaultField_def)

lemma vault_section_texts:
  "page_texts (vault_section m vars) =
     [vault_title m (vault_ready m vars), vault_note m (vault_ready m vars)]
       @ page_texts (mode_select m)
       @ map (\<lambda>l. Msg l []) [''access_token'', ''refresh_token'', ''api_key'', ''csrf_token'', ''clear_vault'']"
  by (simp add: vault_section_def vault_head_def vault_fields_def)

lemma ServiceIcon_inputs [simp]: "elements ''Input'' (ServiceIcon s) = []"
  by (cases s) simp_all

text \<open>C15: No text of the identity panel depends on a stored credential
  beyond whether the one of the current mode is there, and every field that holds one is a
  password field.\<close>

theorem secrets_not_displayed:
  assumes "pv_authMode pv = pv_authMode pv'" and "pv_services pv = pv_services pv'"
    and "vault_ready (pv_authMode pv) (pv_variables pv) = vault_ready (pv_authMode pv') (pv_variables pv')"
  shows "page_texts (IdentityPanelContent pv) = page_texts (IdentityPanelContent pv')
    \<and> list_all password_input (elements ''Input'' (IdentityPanelContent pv))
    \<and> length (elements ''Input'' (IdentityPanelContent pv)) = 4"
  using assms
  by (simp add: IdentityPanelContent_def vault_section_texts services_section_def endpoint_link_def)
    (simp add: vault_section_def vault_head_def mode_select_def vault_fields_def VaultField_def
      scenarios_section_def ScenarioButton_def fixtures_section_def Fixture_def services_section_def
      endpoint_link_def service_words_def)

theorem secrets_not_displayed_witness:
  "page_texts (IdentityPanelContent (setVariable AccessToken (js ''secret-1'') (initial_provider plain_storage :: unit provider)))
     = page_texts (IdentityPanelContent (setVariable AccessToken (js ''secret-2'') (initial_provider plain_storage :: unit provider)))"
proof -
  let ?pv = "\<lambda>t. setVariable AccessToken t (initial_provider plain_storage :: unit provider)"
  have "pv_authMode (?pv t) = Bearer" "pv_services (?pv t) = INITIAL_SERVICES"
    "vault_ready Bearer (pv_variables (?pv t)) = (t \<noteq> [])" for t
    by (simp_all add: setVariable_def set_variables_def try_storage_def initial_provider_def Let_def
        vault_ready_def split: sum.split)
  then show ?thesis
    using secrets_not_displayed [of "?pv (js ''secret-1'')" "?pv (js ''secret-2'')"] by simp
qed

end
