(* ===== verification/WbCatalogView.thy ===== *)
theory WbCatalogView
  imports WbIdentityView "HOL-Library.Sublist"
begin

section \<open>The endpoint list: endpoint-catalog.tsx\<close>

text \<open>
  Searching the catalogue and the page it makes. \<open>s.toLocaleLowerCase(locale)\<close> rests on the
  runtime's Unicode tables: it is the parameter \<open>lower\<close>.
\<close>

definition search_text :: "AppLocale \<Rightarrow> EndpointDefinition \<Rightarrow> jstr" where
  "search_text locale item =
     (let itemCopy = endpointCopy item locale in
      method_text (ep_method item) @ js '' '' @ ep_path item @ js '' '' @ lc_title itemCopy @ js '' ''
        @ lc_description itemCopy)"

definition endpoint_matches ::
  "(AppLocale \<Rightarrow> jstr \<Rightarrow> jstr) \<Rightarrow> AppLocale \<Rightarrow> WorkbenchSearch \<Rightarrow> EndpointDefinition \<Rightarrow> bool" where
  "endpoint_matches lower locale search item =
     (let query = lower locale (trim (search_q search)) in
      if search_group search \<noteq> AllGroups \<and> OnlyGroup (ep_group item) \<noteq> search_group search then False
      else if query = [] then True
      else includes_str (lower locale (search_text locale item)) query)"

definition visible_endpoints ::
  "(AppLocale \<Rightarrow> jstr \<Rightarrow> jstr) \<Rightarrow> AppLocale \<Rightarrow> WorkbenchSearch \<Rightarrow> EndpointDefinition list" where
  "visible_endpoints lower locale search = filter (endpoint_matches lower locale search) ENDPOINTS"

fun groupLabel :: "EndpointGroupFilter \<Rightarrow> ui_text" where
  "groupLabel (OnlyGroup Operations) = Msg ''group_operations'' []"
| "groupLabel (OnlyGroup Authentication) = Msg ''group_authentication'' []"
| "groupLabel (OnlyGroup Account) = Msg ''group_account'' []"
| "groupLabel (OnlyGroup Sessions) = Msg ''group_sessions'' []"
| "groupLabel (OnlyGroup Security) = Msg ''group_security'' []"
| "groupLabel (OnlyGroup Admin) = Msg ''group_admin'' []"
| "groupLabel AllGroups = Msg ''all_operations'' []"

fun authLabel :: "AuthRequirement \<Rightarrow> ui_text" where
  "authLabel UserAuth = Msg ''auth_authenticated'' []"
| "authLabel RecentAuth = Msg ''auth_recent'' []"
| "authLabel AdminAuth = Msg ''auth_admin'' []"
| "authLabel PublicAuth = Msg ''auth_public'' []"

subsection \<open>The head of the list\<close>

definition view_button ::
  "CatalogView \<Rightarrow> CatalogView \<Rightarrow> string \<Rightarrow> string \<Rightarrow> action node" where
  "view_button current v label icon =
     El ''Button'' [Prop ''type'' (js ''button''),
         Prop ''variant'' (if current = v then js ''secondary'' else js ''ghost''),
         Prop ''size'' (js ''icon-sm''), on_click (ChangeSearch (no_change\<lparr>chg_view := Some v\<rparr>)),
         Label ''aria-label'' [Msg label []], Flag ''aria-pressed'' (current = v)]
       [El icon [] []]"

definition catalog_head :: "WorkbenchSearch \<Rightarrow> nat \<Rightarrow> action node" where
  "catalog_head search count =
     El ''div'' []
       [El ''div'' []
          [El ''p'' [] [message ''catalog''],
           El ''h1'' [] [Words [groupLabel (search_group search)]],
           El ''p'' [] [Words [Msg ''visible_endpoint_count'' [(''count'', nat_to_js count)]]]],
        El ''fieldset'' []
          [El ''legend'' [] [message ''catalog''],
           view_button (search_view search) Comfortable ''comfortable_view'' ''RowsIcon'',
           view_button (search_view search) Compact ''compact_view'' ''ListBulletsIcon'']]"

definition group_count :: "EndpointGroupFilter \<Rightarrow> nat" where
  "group_count g =
     (if g = AllGroups then length ENDPOINTS
      else length (filter (\<lambda>item. OnlyGroup (ep_group item) = g) ENDPOINTS))"

definition group_button :: "EndpointGroupFilter \<Rightarrow> EndpointGroupFilter \<Rightarrow> action node" where
  "group_button current g =
     El ''Button'' [Prop ''key'' (filter_text g), Prop ''type'' (js ''button''), Prop ''size'' (js ''xs''),
         Prop ''variant'' (if current = g then js ''default'' else js ''outline''),
         on_click (ChangeSearch (no_change\<lparr>chg_group := Some g\<rparr>)),
         Flag ''aria-pressed'' (current = g)]
       [Words [groupLabel g], El ''span'' [] [literal (nat_to_js (group_count g))]]"

definition search_bar :: "WorkbenchSearch \<Rightarrow> action node" where
  "search_bar search =
     El ''div'' []
       [El ''div'' []
          [El ''MagnifyingGlassIcon'' [Prop ''aria-hidden'' (js ''true'')] [],
           El ''Input'' [Prop ''ref'' (js ''searchRef''), Prop ''type'' (js ''search''),
             Prop ''value'' (search_q search),
             on_change (\<lambda>v. ChangeSearch (no_change\<lparr>chg_q := Some v\<rparr>)),
             Label ''placeholder'' [Msg ''search_endpoints'' []],
             Label ''aria-label'' [Msg ''search_label'' []]] []],
        El ''fieldset'' []
          (El ''legend'' [] [message ''catalog'']
           # map (group_button (search_group search)) GROUPS)]"

subsection \<open>The list\<close>

definition endpoint_card ::
  "AppLocale \<Rightarrow> jstr option \<Rightarrow> CatalogView \<Rightarrow> EndpointDefinition \<Rightarrow> action node" where
  "endpoint_card locale selectedId v item =
     (let itemCopy = endpointCopy item locale; selected = (selectedId = Some (ep_id item)) in
      endpoint_link (ep_id item)
        ((if selected then [Prop ''aria-current'' (js ''page'')] else [])
         @ [Prop ''key'' (ep_id item), Prop ''variant'' (js ''outline''),
            Prop ''className'' (js ''endpoint-card h-auto w-full justify-start whitespace-normal px-0 py-0 text-left normal-case tracking-normal ''
              @ (if selected then js ''border-foreground bg-muted'' else []))])
        [El ''span'' [Prop ''className'' (js ''method method-'' @ ascii_lower (method_text (ep_method item)))]
           [literal (method_text (ep_method item))],
         El ''span'' []
           ([El ''code'' [] [literal (ep_path item)],
             El ''strong'' [] [literal (lc_title itemCopy)]]
            @ shown_if (v = Comfortable) (El ''span'' [] [literal (lc_description itemCopy)])),
         El ''span'' [Prop ''className'' (js ''auth-badge auth-'' @ auth_requirement_text (ep_auth item))]
           [Words [authLabel (ep_auth item)]],
         El ''ArrowRightIcon'' [Prop ''aria-hidden'' (js ''true'')] []])"

definition no_endpoints :: "action node" where
  "no_endpoints =
     El ''div'' []
       [El ''MagnifyingGlassIcon'' [Prop ''aria-hidden'' (js ''true'')] [],
        El ''h2'' [] [message ''no_endpoints_title''],
        El ''p'' [] [message ''no_endpoints_description''],
        El ''Button'' [Prop ''type'' (js ''button''), Prop ''variant'' (js ''outline''),
            on_click (ChangeSearch (no_change\<lparr>chg_q := Some [], chg_group := Some AllGroups\<rparr>))]
          [El ''XIcon'' [Prop ''data-icon'' (js ''inline-start'')] [], message ''clear_filters'']]"

definition EndpointCatalog ::
  "(AppLocale \<Rightarrow> jstr \<Rightarrow> jstr) \<Rightarrow> AppLocale \<Rightarrow> jstr option \<Rightarrow> WorkbenchSearch \<Rightarrow> action node" where
  "EndpointCatalog lower locale selectedId search =
     (let visible = visible_endpoints lower locale search in
      El ''main'' [Prop ''id'' (js ''endpoint-catalog''), Prop ''tabIndex'' (js ''-1'')]
        [El ''div'' []
           [catalog_head search (length visible),
            search_bar search,
            if visible \<noteq> [] then
              El ''div'' [Prop ''data-view'' (view_text (search_view search))]
                (map (endpoint_card locale selectedId (search_view search)) visible)
            else no_endpoints]])"

subsection \<open>What the list offers\<close>

lemma catalog_head_actions:
  "set (page_actions v (catalog_head search n)) =
     (\<lambda>c. ChangeSearch (no_change\<lparr>chg_view := Some c\<rparr>)) ` {Comfortable, Compact}"
  by (auto simp: catalog_head_def view_button_def)

lemma search_bar_actions:
  "set (page_actions v (search_bar search)) =
     insert (ChangeSearch (no_change\<lparr>chg_q := Some v\<rparr>))
       ((\<lambda>g. ChangeSearch (no_change\<lparr>chg_group := Some g\<rparr>)) ` set GROUPS)"
  by (auto simp: search_bar_def group_button_def)

lemma endpoint_card_actions [simp]:
  "page_actions v (endpoint_card locale selected c item) = [Follow (ep_id item)]"
  by (simp add: endpoint_card_def endpoint_link_def Let_def shown_if_def)

lemma no_endpoints_actions:
  "page_actions v no_endpoints =
     [ChangeSearch (no_change\<lparr>chg_q := Some [], chg_group := Some AllGroups\<rparr>)]"
  by (simp add: no_endpoints_def)

lemma EndpointCatalog_actions:
  "set (page_actions v (EndpointCatalog lower locale selected search)) =
     set (page_actions v (catalog_head search 0)) \<union> set (page_actions v (search_bar search))
     \<union> (if visible_endpoints lower locale search = [] then set (page_actions v no_endpoints)
        else (\<lambda>item. Follow (ep_id item)) ` set (visible_endpoints lower locale search))"
  by (auto simp: EndpointCatalog_def Let_def catalog_head_actions)

subsection \<open>Properties\<close>



end
