(* ===== verification/WbScreenView.thy ===== *)
theory WbScreenView
  imports WbPanelView WbCatalogView
begin

section \<open>The whole page: workbench-screen.tsx, app-header.tsx, LocaleSwitcher.tsx, toast-region.tsx\<close>

subsection \<open>Toasts\<close>

definition toast_icon :: "tone \<Rightarrow> action node" where
  "toast_icon tn =
     (if tn = ErrorTone then
        El ''WarningCircleIcon'' [Prop ''aria-hidden'' (js ''true''), Prop ''weight'' (js ''fill'')] []
      else
        El ''CheckCircleIcon'' [Prop ''aria-hidden'' (js ''true''), Prop ''weight'' (js ''fill'')] [])"

definition toast_node :: "ToastMessage \<Rightarrow> action node" where
  "toast_node toast =
     El ''div''
       [Prop ''key'' (nat_to_js (toast_id toast)),
        Prop ''className''
          (js ''pointer-events-auto flex w-full items-start gap-3 border bg-popover p-4 text-popover-foreground shadow-xl ''
           @ (if toast_tone toast = ErrorTone then js ''border-destructive/50'' else js ''border-border'')),
        Prop ''role'' (if toast_tone toast = ErrorTone then js ''alert'' else js ''status'')]
       [toast_icon (toast_tone toast),
        El ''div'' []
          [El ''p'' [] [Words [toast_title toast]], El ''p'' [] [Words [toast_description toast]]],
        El ''Button'' [Prop ''type'' (js ''button''), Prop ''variant'' (js ''ghost''),
            Prop ''size'' (js ''icon-xs''), on_click (Dismiss (toast_id toast)),
            Label ''aria-label'' [Msg ''toast_dismiss'' []]]
          [El ''XIcon'' [] []]]"

definition ToastRegion :: "ToastMessage list \<Rightarrow> action node" where
  "ToastRegion toasts =
     El ''div'' [Prop ''aria-live'' (js ''polite''), Prop ''aria-relevant'' (js ''additions'')]
       (map toast_node toasts)"

subsection \<open>The language\<close>

text \<open>The languages the build provides and the current one come from the message runtime.\<close>

definition LANGUAGE_NAMES :: "jstr obj" where
  "LANGUAGE_NAMES =
     [(js ''en'', js ''English''), (js ''de'', js ''Deutsch''),
      (js ''tr'', [0x54, 0xFC, 0x72, 0x6B, 0xE7, 0x65])]"

definition language_name :: "jstr \<Rightarrow> jstr" where
  "language_name locale =
     (case obj_get LANGUAGE_NAMES locale of Some name \<Rightarrow> name | None \<Rightarrow> concat (map upper_units locale))"

definition LocaleSwitcher :: "jstr \<Rightarrow> jstr list \<Rightarrow> action node" where
  "LocaleSwitcher currentLocale locales =
     El ''div'' []
       [El ''GlobeIcon'' [Prop ''aria-hidden'' (js ''true'')] [],
        El ''span'' [Prop ''id'' (js ''language-label'')] [message ''language_label''],
        El ''Select'' [Prop ''value'' currentLocale,
            On ''onValueChange'' (\<lambda>locale. if locale \<noteq> [] then Some (SetLocale locale) else None)]
          [El ''SelectTrigger'' [Prop ''aria-labelledby'' (js ''language-label''),
               Prop ''size'' (js ''sm'')] [El ''SelectValue'' [] []],
           El ''SelectContent'' [Prop ''align'' (js ''end'')]
             (map (\<lambda>locale.
                El ''SelectItem'' [Prop ''key'' locale, Prop ''value'' locale]
                  [literal (language_name locale)]) locales)]]"

subsection \<open>The header\<close>

text \<open>The parts of the page's own address, and the address they make.\<close>

record page_url =
  pu_protocol :: jstr
  pu_credentials :: jstr
  pu_hostname :: jstr
  pu_port :: jstr
  pu_pathname :: jstr
  pu_search :: jstr
  pu_hash :: jstr

definition page_url_text :: "page_url \<Rightarrow> jstr" where
  "page_url_text u =
     pu_protocol u @ js ''//'' @ pu_credentials u @ pu_hostname u
       @ (if pu_port u = [] then [] else js '':'' @ pu_port u)
       @ pu_pathname u @ pu_search u @ pu_hash u"

definition getMailpitUrl :: "page_url option \<Rightarrow> jstr" where
  "getMailpitUrl window =
     (case window of
        None \<Rightarrow> js ''http://localhost:8025/''
      | Some u \<Rightarrow>
          page_url_text
            (u\<lparr>pu_protocol := js ''http:'', pu_port := js ''8025'', pu_pathname := js ''/'',
               pu_search := [], pu_hash := []\<rparr>))"

definition header_link :: "jstr \<Rightarrow> string \<Rightarrow> string \<Rightarrow> action node" where
  "header_link href icon label =
     El ''a'' [Prop ''href'' href, Prop ''target'' (js ''_blank''), Prop ''rel'' (js ''noreferrer''),
         Prop ''buttonVariants.size'' (js ''sm''), Prop ''buttonVariants.variant'' (js ''outline'')]
       [El icon [Prop ''data-icon'' (js ''inline-start'')] [], message label]"

definition AppHeader :: "page_url option \<Rightarrow> jstr \<Rightarrow> jstr list \<Rightarrow> jstr \<Rightarrow> action node" where
  "AppHeader window currentLocale locales apiBase =
     El ''header'' []
       [El ''div'' []
          [El ''div'' []
             [El ''div'' []
                [El ''BracketsCurlyIcon'' [Prop ''aria-hidden'' (js ''true''), Prop ''weight'' (js ''bold'')] []],
              El ''div'' []
                [El ''p'' [] [message ''app_title''], El ''p'' [] [message ''app_description'']]],
           El ''div'' []
             [El ''div'' []
                [El ''Label'' [Prop ''htmlFor'' (js ''api-origin'')] [message ''api_origin''],
                 El ''Input'' [Prop ''id'' (js ''api-origin''), Prop ''value'' apiBase,
                   on_change SetBase, On ''onBlur'' (\<lambda>v. Some (SetBase v)),
                   Prop ''placeholder'' (js ''https://localhost:5001''), Flag ''spellCheck'' False] []],
              El ''div'' []
                [header_link (getMailpitUrl window) ''EnvelopeOpenIcon'' ''open_mailpit'',
                 header_link (apiBase @ js ''/openapi/v1.json'') ''ArrowSquareOutIcon'' ''open_openapi'',
                 LocaleSwitcher currentLocale locales]]]]"

subsection \<open>The screen\<close>

definition grid_class :: "bool \<Rightarrow> jstr" where
  "grid_class selection =
     js ''mx-auto grid max-w-[1920px] '' @ (if selection then js ''has-selection'' else [])
       @ js '' lg:grid-cols-[17rem_minmax(0,1fr)] xl:grid-cols-[17rem_minmax(28rem,1fr)_minmax(27rem,34rem)]''"

text \<open>The detail panel is given as the node it rendered; its \<open>key\<close> is the endpoint's identifier.\<close>

definition WorkbenchScreen ::
  "(AppLocale \<Rightarrow> jstr \<Rightarrow> jstr) \<Rightarrow> page_url option \<Rightarrow> jstr \<Rightarrow> jstr list \<Rightarrow> jstr option
     \<Rightarrow> WorkbenchSearch \<Rightarrow> 'k provider \<Rightarrow> action node option \<Rightarrow> action node" where
  "WorkbenchScreen lower window currentLocale locales endpointId search pv panel =
     El ''div'' []
       [El ''a'' [Prop ''href'' (js ''#endpoint-catalog''), Prop ''className'' (js ''skip-link'')]
          [message ''skip_to_content''],
        AppHeader window currentLocale locales (pv_apiBase pv),
        El ''p'' [Prop ''className'' (js ''sr-only'')] [message ''keyboard_shortcuts''],
        El ''div'' [Prop ''className'' (grid_class (panel \<noteq> None))]
          (IdentityPanel pv
           @ [El ''div'' [Prop ''className'' (if panel \<noteq> None then js ''hidden lg:block'' else js ''block'')]
                [EndpointCatalog lower (normalizeLocale currentLocale) endpointId search]]
           @ (case panel of
                Some n \<Rightarrow>
                  [El ''div'' [Prop ''className'' (js ''lg:col-start-2 xl:col-start-3 xl:row-start-1'')] [n]]
              | None \<Rightarrow> [])),
        ToastRegion (pv_toasts pv)]"

text \<open>The page's own key handler: whether the key moves the focus to the search field.\<close>

definition handleShortcut :: "bool \<Rightarrow> key_event \<Rightarrow> bool" where
  "handleShortcut editable event \<longleftrightarrow> key_name event = js ''/'' \<and> \<not> editable"

subsection \<open>What the page offers\<close>

lemma ToastRegion_actions:
  "set (page_actions v (ToastRegion toasts)) = (\<lambda>t. Dismiss (toast_id t)) ` set toasts"
  by (auto simp: ToastRegion_def toast_node_def toast_icon_def split: if_splits)

lemma locale_items [simp]:
  "concat (map (\<lambda>l. concat (map item_values [literal (language_name l)])) ls) = []"
  by (induction ls) simp_all

lemma LocaleSwitcher_actions:
  "set (page_actions v (LocaleSwitcher current locales)) =
     (if v \<in> set locales \<and> v \<noteq> [] then {SetLocale v} else {})"
  by (auto simp: LocaleSwitcher_def)

lemma AppHeader_actions:
  "set (page_actions v (AppHeader window current locales base)) =
     insert (SetBase v) (set (page_actions v (LocaleSwitcher current locales)))"
  by (auto simp: AppHeader_def header_link_def)

lemma WorkbenchScreen_actions:
  "set (page_actions v (WorkbenchScreen lower window current locales i search pv panel)) =
     set (page_actions v (AppHeader window current locales (pv_apiBase pv)))
     \<union> set (page_actions v (IdentityPanelContent pv))
     \<union> set (page_actions v (EndpointCatalog lower (normalizeLocale current) i search))
     \<union> (case panel of Some n \<Rightarrow> set (page_actions v n) | None \<Rightarrow> {})
     \<union> set (page_actions v (ToastRegion (pv_toasts pv)))"
  by (auto simp: WorkbenchScreen_def IdentityPanel_def split: option.split)

lemmas frame_actions = AppHeader_actions LocaleSwitcher_actions ToastRegion_actions
  IdentityPanelContent_actions vault_section_actions scenarios_section_actions
  fixtures_section_actions services_section_actions
  EndpointCatalog_actions catalog_head_actions search_bar_actions no_endpoints_actions

text \<open>Only the detail panel sends its own request or starts a ceremony.\<close>

fun panel_only :: "action \<Rightarrow> bool" where
  "panel_only Execute = True"
| "panel_only Send = True"
| "panel_only (RunPasskey kind) = True"
| "panel_only _ = False"

lemma panel_only_offered:
  "a \<in> set (page_actions v (WorkbenchScreen lower window current locales i search pv panel)) \<Longrightarrow>
     panel_only a \<Longrightarrow> \<exists>n. panel = Some n \<and> a \<in> set (page_actions v n)"
  by (auto simp: WorkbenchScreen_actions frame_actions split: option.splits if_splits)

end
