(* ===== verification/WbApp.thy ===== *)
theory WbApp
  imports WbScreenView
begin

section \<open>The running application\<close>

text \<open>
  The screen, its detail panel and the page together. An event (an action of the page, a key,
  the end of something pending, a new address) changes the state; then the page renders:
  the panel appears, stays (its \<open>key\<close> is the endpoint's identifier) or disappears, and the
  memo of its headers is brought up to date. When a render throws, the router shows its
  error page in place of the screen (\<open>ap_failed\<close>) until it loads again; requests and flows
  that are under way go on, since the provider is outside the routes.
\<close>

record environment =
  en_browser :: browser
  en_origin :: jstr
  en_window :: "page_url option"
  en_locale :: jstr
  en_locales :: "jstr list"
  en_lower :: "AppLocale \<Rightarrow> jstr \<Rightarrow> jstr"
  en_authenticator :: authenticator
  en_clipboard :: "jstr \<Rightarrow> bool"

record app =
  ap_screen :: screen
  ap_detail :: "detail option"
  ap_failed :: bool

abbreviation pv_of :: "app \<Rightarrow> after_send provider" where
  "pv_of ap \<equiv> sn_provider (ap_screen ap)"

abbreviation nav_of :: "app \<Rightarrow> navigation" where
  "nav_of ap \<equiv> sn_nav (ap_screen ap)"

subsection \<open>Rendering\<close>

definition selected_endpoint :: "app \<Rightarrow> EndpointDefinition option" where
  "selected_endpoint ap =
     (case endpoint_id (nav_location (nav_of ap)) of Some i \<Rightarrow> endpointById i | None \<Rightarrow> None)"

definition keyed_detail :: "EndpointDefinition \<Rightarrow> app \<Rightarrow> detail" where
  "keyed_detail e ap =
     (case ap_detail ap of
        Some d \<Rightarrow> if ep_id (dt_endpoint d) = ep_id e then d else open_detail e (pv_variables (pv_of ap))
      | None \<Rightarrow> open_detail e (pv_variables (pv_of ap)))"

definition render :: "jstr \<Rightarrow> app \<Rightarrow> app" where
  "render cookie ap =
     (if ap_failed ap then ap\<lparr>ap_detail := None\<rparr>
      else
        (case selected_endpoint ap of
           None \<Rightarrow> ap\<lparr>ap_detail := None\<rparr>
         | Some e \<Rightarrow>
             (case render_detail cookie (pv_of ap) (keyed_detail e ap) of
                Inl err \<Rightarrow> ap\<lparr>ap_detail := None, ap_failed := True\<rparr>
              | Inr (path, headers, d) \<Rightarrow> ap\<lparr>ap_detail := Some d\<rparr>)))"

text \<open>What is on the page: \<open>None\<close> for the router's own pages (an error, not found).\<close>

definition panel_node :: "environment \<Rightarrow> app \<Rightarrow> action node option" where
  "panel_node en ap =
     (case ap_detail ap of
        None \<Rightarrow> None
      | Some d \<Rightarrow>
          (case (requestPath d (pv_variables (pv_of ap)), dt_memo d) of
             (Inr path, Some (m, v, headers)) \<Rightarrow>
               Some (EndpointDetail (normalizeLocale (en_locale en)) (pv_of ap) path headers d)
           | _ \<Rightarrow> None))"

definition page :: "environment \<Rightarrow> app \<Rightarrow> action node option" where
  "page en ap =
     (if ap_failed ap \<or> nav_location (nav_of ap) = NotFound then None
      else
        Some (WorkbenchScreen (en_lower en) (en_window en) (en_locale en) (en_locales en)
          (endpoint_id (nav_location (nav_of ap))) (nav_search (nav_of ap)) (pv_of ap)
          (panel_node en ap)))"

subsection \<open>Actions\<close>

definition edit_detail :: "(detail \<Rightarrow> detail) \<Rightarrow> app \<Rightarrow> app" where
  "edit_detail f ap = ap\<lparr>ap_detail := map_option f (ap_detail ap)\<rparr>"

definition edit_screen :: "(screen \<Rightarrow> screen) \<Rightarrow> app \<Rightarrow> app" where
  "edit_screen f ap = ap\<lparr>ap_screen := f (ap_screen ap)\<rparr>"

definition edit_provider :: "(after_send provider \<Rightarrow> after_send provider) \<Rightarrow> app \<Rightarrow> app" where
  "edit_provider f = edit_screen (on_provider f)"

definition edit_nav :: "(navigation \<Rightarrow> navigation) \<Rightarrow> app \<Rightarrow> app" where
  "edit_nav f = edit_screen (\<lambda>sn. sn\<lparr>sn_nav := f (sn_nav sn)\<rparr>)"

text \<open>A callback of the panel that uses the path its render built.\<close>

definition with_path :: "(jstr \<Rightarrow> detail \<Rightarrow> screen \<Rightarrow> detail \<times> screen) \<Rightarrow> app \<Rightarrow> app" where
  "with_path f ap =
     (case ap_detail ap of
        None \<Rightarrow> ap
      | Some d \<Rightarrow>
          (case requestPath d (pv_variables (pv_of ap)) of
             Inl err \<Rightarrow> ap
           | Inr path \<Rightarrow>
               (case f path d (ap_screen ap) of
                  (d', sn') \<Rightarrow> ap\<lparr>ap_detail := Some d', ap_screen := sn'\<rparr>)))"

definition format_body :: "(jstr \<Rightarrow> jstr) \<Rightarrow> app \<Rightarrow> app" where
  "format_body num ap =
     (case ap_detail ap of
        None \<Rightarrow> ap
      | Some d \<Rightarrow>
          (case formatJson num d of
             Inr d' \<Rightarrow> ap\<lparr>ap_detail := Some d'\<rparr>
           | Inl err \<Rightarrow> ap\<lparr>ap_failed := True\<rparr>))"

definition copy_curl :: "environment \<Rightarrow> app \<Rightarrow> app" where
  "copy_curl en ap =
     (case ap_detail ap of
        None \<Rightarrow> ap
      | Some d \<Rightarrow>
          (case (requestPath d (pv_variables (pv_of ap)), dt_memo d) of
             (Inr path, Some (m, v, headers)) \<Rightarrow>
               ap\<lparr>ap_screen := copyCurl (en_browser en) (en_clipboard en) path headers d (ap_screen ap)\<rparr>
           | _ \<Rightarrow> ap))"

definition run_passkey :: "environment \<Rightarrow> jstr \<Rightarrow> rat \<Rightarrow> passkey_kind \<Rightarrow> app \<Rightarrow> app" where
  "run_passkey en cookie now kind ap =
     (case ap_detail ap of
        None \<Rightarrow> ap
      | Some d \<Rightarrow>
          edit_screen
            (runPasskey kind (en_authenticator en) (dt_endpoint d) (view_of (ap_screen ap)) cookie now) ap)"

definition fill_totp :: "environment \<Rightarrow> app \<Rightarrow> app" where
  "fill_totp en ap =
     (case ap_detail ap of
        None \<Rightarrow> ap
      | Some d \<Rightarrow>
          (case fillTotp (en_browser en) (view_of (ap_screen ap)) (bodyText (dt_draft d)) (ap_screen ap) of
             (None, sn) \<Rightarrow> ap\<lparr>ap_screen := sn\<rparr>
           | (Some t, sn) \<Rightarrow> ap\<lparr>ap_screen := sn, ap_detail := Some (setBodyText t d)\<rparr>))"

text \<open>\<open>setLocale\<close> belongs to the message runtime, which stores the language and reloads the page.\<close>

fun perform :: "environment \<Rightarrow> jstr \<Rightarrow> rat \<Rightarrow> action \<Rightarrow> app \<Rightarrow> app" where
  "perform en cookie now (Choose tab) ap = edit_detail (chooseTab tab (pv_of ap)) ap"
| "perform en cookie now (SetPathValue n v) ap = edit_detail (setPathValue n v) ap"
| "perform en cookie now (SetQueryValue n v) ap = edit_detail (setQueryValue n v) ap"
| "perform en cookie now (SetBody t) ap = edit_detail (setBodyText t) ap"
| "perform en cookie now (SetPath p) ap = edit_detail (setPathOverride p) ap"
| "perform en cookie now FormatJson ap = format_body (br_num (en_browser en)) ap"
| "perform en cookie now Execute ap = with_path (execute (en_browser en) cookie now) ap"
| "perform en cookie now CancelConfirmation ap = edit_detail cancelConfirmation ap"
| "perform en cookie now Send ap = with_path (attemptSend (en_browser en) cookie now) ap"
| "perform en cookie now CopyCurl ap = copy_curl en ap"
| "perform en cookie now (CopyText v) ap = edit_screen (runCopy (en_clipboard en) v) ap"
| "perform en cookie now Back ap = edit_nav (onBack (nav_search (nav_of ap))) ap"
| "perform en cookie now (RunPasskey kind) ap = run_passkey en cookie now kind ap"
| "perform en cookie now (RunSocial p) ap =
     edit_screen (runSocial (view_of (ap_screen ap)) p cookie now) ap"
| "perform en cookie now FillTotp ap = fill_totp en ap"
| "perform en cookie now (ChangeSearch c) ap = edit_nav (onSearchChange c) ap"
| "perform en cookie now (Follow i) ap =
     edit_nav (onNavigateEndpoint (nav_search (nav_of ap)) i) ap"
| "perform en cookie now (DemoLogin a) ap =
     edit_screen (demoLogin (view_of (ap_screen ap)) a cookie now) ap"
| "perform en cookie now PrepareSessions ap =
     edit_screen (prepareSessions (view_of (ap_screen ap)) cookie now) ap"
| "perform en cookie now UseDemoApiKey ap = edit_screen useDemoApiKey ap"
| "perform en cookie now (SetMode m) ap = edit_provider (setAuthMode m) ap"
| "perform en cookie now (SetVariable n v) ap = edit_provider (setVariable n v) ap"
| "perform en cookie now ClearVault ap = edit_provider clearVault ap"
| "perform en cookie now (CopyValue v) ap = edit_screen (copyValue (en_clipboard en) v) ap"
| "perform en cookie now (SetBase v) ap = edit_provider (setApiBase v) ap"
| "perform en cookie now (SetLocale l) ap = ap"
| "perform en cookie now (Dismiss i) ap = edit_provider (dismissToast i) ap"

definition press_key :: "environment \<Rightarrow> jstr \<Rightarrow> rat \<Rightarrow> key_event \<Rightarrow> app \<Rightarrow> app" where
  "press_key en cookie now event ap =
     (case ap_detail ap of
        None \<Rightarrow> ap
      | Some d \<Rightarrow>
          (let ap1 = with_path (\<lambda>path d sn. fst (handleKeyDown (en_browser en) cookie now path event d sn)) ap in
           if snd (handleKeyDown (en_browser en) cookie now [] event d (ap_screen ap))
           then edit_nav (onBack (nav_search (nav_of ap))) ap1 else ap1))"

subsection \<open>Steps\<close>

text \<open>The provider's own events: timers, probes and one-time passwords.\<close>

inductive background :: "browser \<Rightarrow> after_send provider \<Rightarrow> after_send provider \<Rightarrow> bool" for br where
  background_timer: "i \<in> set (pv_timers pv) \<Longrightarrow> background br pv (timer_fires i pv)"
| background_probe: "p \<in> set (pv_probes pv) \<Longrightarrow> background br pv (finish_probe br outcome p pv)"
| background_tick: "background br pv (totp_tick pv)"
| background_totp: "job \<in> set (pv_totpPending pv) \<Longrightarrow> background br pv (finish_totp job exit pv)"

text \<open>
  What changes the state between two renders. The text \<open>v\<close> is what the user enters or chooses.
  An address may be any identifier with any search; \<open>event_reload\<close> is the router's new load
  after an error.
\<close>

inductive event :: "environment \<Rightarrow> jstr \<Rightarrow> app \<Rightarrow> app \<Rightarrow> bool" for en cookie where
  event_action: "page en ap = Some n \<Longrightarrow> a \<in> set (page_actions v n) \<Longrightarrow>
    event en cookie ap (perform en cookie now a ap)"
| event_key: "event en cookie ap (press_key en cookie now k ap)"
| event_background: "background (en_browser en) (pv_of ap) pv' \<Longrightarrow>
    event en cookie ap (edit_provider (\<lambda>_. pv') ap)"
| event_finish: "p \<in> set (pv_pending (pv_of ap)) \<Longrightarrow>
    event en cookie ap
      (edit_screen (finish_send (en_browser en) (en_origin en) cookie now outcome p) ap)"
| event_ceremony: "cm \<in> set (sn_ceremonies (ap_screen ap)) \<Longrightarrow>
    event en cookie ap
      (edit_screen (finish_ceremony cm (ask (en_authenticator en) cm) cookie now) ap)"
| event_address: "event en cookie ap
    (edit_nav (\<lambda>_. \<lparr>nav_location = load_endpoint i, nav_search = workbenchSearchSchema raw\<rparr>) ap)"
| event_index: "event en cookie ap
    (edit_nav (\<lambda>_. \<lparr>nav_location = AtIndex, nav_search = workbenchSearchSchema raw\<rparr>) ap)"
| event_reload: "event en cookie ap (ap\<lparr>ap_failed := False\<rparr>)"

definition initial_app :: "environment \<Rightarrow> session_storage \<Rightarrow> navigation \<Rightarrow> app" where
  "initial_app en s nav =
     \<lparr>ap_screen = \<lparr>sn_provider = mount (en_origin en) s, sn_nav = nav, sn_ceremonies = []\<rparr>,
      ap_detail = None, ap_failed = False\<rparr>"

inductive reached :: "environment \<Rightarrow> app \<Rightarrow> bool" for en where
  reached_initial: "reached en (render cookie (initial_app en s nav))"
| reached_event: "reached en ap \<Longrightarrow> event en cookie ap ap' \<Longrightarrow> reached en (render cookie ap')"

inductive_cases background_elims: "background br pv pv'"

subsection \<open>Policies along a run\<close>

lemma app_simps [simp]:
  "ap_screen (edit_detail f ap) = ap_screen ap" "ap_failed (edit_detail f ap) = ap_failed ap"
  "ap_detail (edit_detail f ap) = map_option f (ap_detail ap)"
  "ap_screen (edit_screen g ap) = g (ap_screen ap)" "ap_failed (edit_screen g ap) = ap_failed ap"
  "ap_detail (edit_screen g ap) = ap_detail ap"
  "edit_provider h ap = edit_screen (on_provider h) ap"
  "ap_screen (edit_nav k ap) = (ap_screen ap)\<lparr>sn_nav := k (sn_nav (ap_screen ap))\<rparr>"
  "ap_failed (edit_nav k ap) = ap_failed ap" "ap_detail (edit_nav k ap) = ap_detail ap"
  by (simp_all add: edit_detail_def edit_screen_def edit_provider_def edit_nav_def)

text \<open>The edits of the draft keep the endpoint of the panel and the confirmation.\<close>

lemma edit_keeps [simp]:
  "dt_endpoint (chooseTab tab pv d) = dt_endpoint d" "dt_endpoint (setPathValue n v d) = dt_endpoint d"
  "dt_endpoint (setQueryValue n v d) = dt_endpoint d" "dt_endpoint (setBodyText v d) = dt_endpoint d"
  "dt_endpoint (setPathOverride v d) = dt_endpoint d" "dt_endpoint (cancelConfirmation d) = dt_endpoint d"
  "dt_endpoint (open_detail e vars) = e"
  by (simp_all add: chooseTab_def setPathValue_def setQueryValue_def setBodyText_def
      setPathOverride_def cancelConfirmation_def open_detail_def)

lemma formatJson_endpoint: "formatJson num d = Inr d' \<Longrightarrow> dt_endpoint d' = dt_endpoint d"
  by (auto simp: formatJson_def map_sum_def split: sum.splits)

lemma execute_endpoint: "dt_endpoint (fst (execute br cookie now path d sn)) = dt_endpoint d"
  by (simp add: execute_def split: prod.split option.split)

lemma attemptSend_endpoint: "dt_endpoint (fst (attemptSend br cookie now path d sn)) = dt_endpoint d"
  by (simp add: attemptSend_def execute_endpoint)

lemma render_detail_endpoint:
  "render_detail cookie pv d = Inr (path, headers, d') \<Longrightarrow> dt_endpoint d' = dt_endpoint d"
  by (auto simp: render_detail_def and_then_Inr_iff map_sum_def split: sum.splits)

definition panel_ok :: "app \<Rightarrow> bool" where
  "panel_ok ap \<longleftrightarrow> (\<forall>d. ap_detail ap = Some d \<longrightarrow> dt_endpoint d \<in> set ENDPOINTS)"

lemma panel_ok_render:
  assumes "panel_ok ap"
  shows "panel_ok (render cookie ap)"
proof -
  have keyed: "dt_endpoint (keyed_detail e ap) \<in> set ENDPOINTS" if "selected_endpoint ap = Some e" for e
    using that assms
    by (auto simp: keyed_detail_def panel_ok_def selected_endpoint_def split: option.splits
        dest: endpointById_SomeD)
  then have "dt_endpoint d' \<in> set ENDPOINTS"
    if "selected_endpoint ap = Some e"
      and "render_detail cookie (pv_of ap) (keyed_detail e ap) = Inr (path, headers, d')"
    for e path headers d'
    using that render_detail_endpoint [OF that(2)] by simp
  then show ?thesis
    by (auto simp: render_def panel_ok_def split: option.splits sum.splits)
qed

lemma render_screen [simp]: "ap_screen (render cookie ap) = ap_screen ap"
  by (simp add: render_def split: option.split sum.split)

lemma panel_ok_with_path:
  assumes "panel_ok ap" and "\<And>path d sn. dt_endpoint (fst (f path d sn)) = dt_endpoint d"
  shows "panel_ok (with_path f ap)"
proof (cases "ap_detail ap")
  case (Some d)
  then show ?thesis
    using assms(1) assms(2) [of _ d "ap_screen ap"]
    by (cases "requestPath d (pv_variables (pv_of ap))")
      (auto simp: with_path_def panel_ok_def split: prod.splits, metis fst_conv)
qed (simp add: with_path_def panel_ok_def)

lemma panel_ok_perform:
  assumes "panel_ok ap"
  shows "panel_ok (perform en cookie now a ap)"
proof (cases a)
  case Execute
  with assms show ?thesis by (simp add: panel_ok_with_path execute_endpoint)
next
  case Send
  with assms show ?thesis by (simp add: panel_ok_with_path attemptSend_endpoint)
qed (use assms in \<open>auto simp: panel_ok_def format_body_def copy_curl_def run_passkey_def
    fill_totp_def dest: formatJson_endpoint split: option.splits sum.splits prod.splits\<close>)

lemma panel_ok_press_key:
  assumes "panel_ok ap"
  shows "panel_ok (press_key en cookie now k ap)"
proof -
  have "panel_ok (with_path (\<lambda>path d sn. fst (handleKeyDown br cookie now path k d sn)) ap)" for br
    by (rule panel_ok_with_path [OF assms]) (simp add: handleKeyDown_def attemptSend_endpoint)
  with assms show ?thesis
    by (auto simp: press_key_def Let_def panel_ok_def split: option.split)
qed

lemma panel_ok_event: "event en cookie ap ap' \<Longrightarrow> panel_ok ap \<Longrightarrow> panel_ok ap'"
  by (induction rule: event.induct)
    (simp_all add: panel_ok_perform panel_ok_press_key, simp_all add: panel_ok_def)

lemma panel_ok_initial: "panel_ok (initial_app en s nav)"
  by (simp add: panel_ok_def initial_app_def)

lemma panel_ok_reached: "reached en ap \<Longrightarrow> panel_ok ap"
  by (induction rule: reached.induct)
    (blast intro: panel_ok_render panel_ok_event panel_ok_initial)+

text \<open>What a flow that the page or the panel starts has to satisfy to keep a policy.\<close>

definition confirmed_panel :: "app \<Rightarrow> bool" where
  "confirmed_panel ap \<longleftrightarrow>
     (\<forall>d. ap_detail ap = Some d \<longrightarrow> ep_destructive (dt_endpoint d) \<longrightarrow> dt_confirming d)"

lemma panel_offers:
  assumes "page en ap = Some n" and "a \<in> set (page_actions v n)" and "panel_only a"
  shows "\<exists>d path headers. ap_detail ap = Some d
    \<and> a \<in> set (page_actions v (EndpointDetail (normalizeLocale (en_locale en)) (pv_of ap) path headers d))"
  using assms
  by (auto simp: page_def panel_node_def split: if_splits option.splits sum.splits
      dest!: panel_only_offered)

lemma offered_execute:
  assumes "page en ap = Some n" and "Execute \<in> set (page_actions v n)"
  shows "confirmed_panel ap" and "\<not> pv_isRunning (pv_of ap)"
  using panel_offers [OF assms] guided_not_panel
  by (auto simp: confirmed_panel_def EndpointDetail_actions [where t = "[]"]
      EndpointRequestPanel_actions EndpointResponsePanel_actions specialAction_actions
      split: if_splits option.splits)

lemma offered_send:
  assumes "page en ap = Some n" and "Send \<in> set (page_actions v n)"
  shows "\<not> pv_isRunning (pv_of ap)" and "\<exists>d. ap_detail ap = Some d \<and> \<not> dt_confirming d"
  using panel_offers [OF assms] guided_not_panel
  by (auto simp: EndpointDetail_actions [where t = "[]"]
      EndpointRequestPanel_actions EndpointResponsePanel_actions specialAction_actions
      split: if_splits option.splits)

lemma special_harmless: "e \<in> set ENDPOINTS \<Longrightarrow> ep_special e \<noteq> None \<Longrightarrow> harmless e"
  by (auto simp: harmless_def ENDPOINTS_def)

lemma offered_passkey:
  assumes "page en ap = Some n" and "RunPasskey kind \<in> set (page_actions v n)" and "panel_ok ap"
  shows "\<exists>d. ap_detail ap = Some d \<and> harmless (dt_endpoint d)"
  using panel_offers [OF assms(1,2)] assms(3)
  by (auto simp: panel_ok_def EndpointDetail_actions [where t = "[]"]
      EndpointRequestPanel_actions EndpointResponsePanel_actions specialAction_actions
      intro!: special_harmless dest: guided_passkey split: if_splits option.splits)

context send_policy
begin

lemma keeps_runCopy: "keeps sn \<Longrightarrow> keeps (runCopy w v sn)"
  by (simp add: runCopy_def keeps_say split: sum.split)

lemma keeps_copyValue: "keeps sn \<Longrightarrow> keeps (copyValue w v sn)"
  by (simp add: copyValue_def keeps_say split: sum.split)

lemma keeps_readBody: "keeps sn \<Longrightarrow> keeps (snd (readBody br d sn))"
  by (simp add: readBody_def keeps_say split: sum.split)

lemma keeps_copyCurl: "keeps sn \<Longrightarrow> keeps (copyCurl br w path headers d sn)"
  using keeps_readBody [of sn br d]
  by (auto simp: copyCurl_def keeps_runCopy split: prod.split option.split)

lemma keeps_with_path:
  assumes "keeps (ap_screen ap)"
    and "\<And>path d. ap_detail ap = Some d \<Longrightarrow> keeps (snd (f path d (ap_screen ap)))"
  shows "keeps (ap_screen (with_path f ap))"
  using assms by (auto simp: with_path_def split: option.split sum.split prod.split) (metis snd_conv)

lemma keeps_nav: "keeps sn \<Longrightarrow> keeps (sn\<lparr>sn_nav := nav\<rparr>)"
  by (simp add: keeps_def)

lemma keeps_fill_totp:
  assumes "keeps (ap_screen ap)"
  shows "keeps (ap_screen (fill_totp en ap))"
proof (cases "ap_detail ap")
  case (Some d)
  have "keeps (snd (fillTotp (en_browser en) (view_of (ap_screen ap)) (bodyText (dt_draft d)) (ap_screen ap)))"
    by (rule keeps_fillTotp [OF assms])
  with Some show ?thesis by (auto simp: fill_totp_def split: prod.split option.split)
qed (simp add: fill_totp_def assms)

lemma keeps_perform_other:
  assumes "page en ap = Some n" and "a \<in> set (page_actions v n)" and "panel_ok ap"
    and "keeps (ap_screen ap)" and "a \<noteq> Execute" and "a \<noteq> Send"
  shows "keeps (ap_screen (perform en cookie now a ap))"
proof (cases a)
  case (RunPasskey kind)
  with assms offered_passkey show ?thesis
    by (fastforce simp: run_passkey_def intro: keeps_runPasskey)
qed (use assms(4-6) in \<open>auto simp: format_body_def copy_curl_def keeps_fill_totp keeps_nav
    keeps_on_provider keeps_runCopy keeps_copyValue keeps_copyCurl keeps_runSocial keeps_demoLogin
    keeps_prepareSessions keeps_useDemoApiKey split: option.splits sum.splits prod.splits\<close>)

lemma keeps_background:
  "background br (sn_provider sn) pv' \<Longrightarrow> keeps sn \<Longrightarrow> keeps (on_provider (\<lambda>_. pv') sn)"
  by (erule background_elims) (simp_all add: keeps_def)

text \<open>Every event but those that send the panel's own request.\<close>

lemma keeps_event_other:
  "event en cookie ap ap' \<Longrightarrow> panel_ok ap \<Longrightarrow> keeps (ap_screen ap) \<Longrightarrow>
     keeps (ap_screen ap')
     \<or> (\<exists>now n v. page en ap = Some n \<and> Execute \<in> set (page_actions v n)
          \<and> ap' = perform en cookie now Execute ap)
     \<or> (\<exists>now n v. page en ap = Some n \<and> Send \<in> set (page_actions v n)
          \<and> ap' = perform en cookie now Send ap)
     \<or> (\<exists>now k. ap' = press_key en cookie now k ap)"
proof (induction rule: event.induct)
  case (event_action ap n a v now)
  then show ?case using keeps_perform_other by blast
next
  case (event_ceremony cm ap now)
  then have "harmless (cm_complete cm)" by (simp add: keeps_def)
  with event_ceremony show ?case by (simp add: keeps_finish_ceremony)
qed (auto simp: keeps_background keeps_finish_send keeps_nav)

end

context panel_policy
begin

lemma keeps_execute:
  assumes "keeps sn" and "dt_endpoint d \<in> set ENDPOINTS"
    and "ep_destructive (dt_endpoint d) \<longrightarrow> dt_confirming d"
  shows "keeps (snd (execute br cookie now path d sn))"
  using keeps_readBody [OF assms(1), of br d] allowed_panel [OF assms(2,3)]
  by (auto simp: execute_def keeps_send split: prod.split option.split)

lemma keeps_attemptSend:
  "keeps sn \<Longrightarrow> dt_endpoint d \<in> set ENDPOINTS \<Longrightarrow> keeps (snd (attemptSend br cookie now path d sn))"
  by (auto simp: attemptSend_def intro: keeps_execute)

lemma keeps_event:
  assumes "event en cookie ap ap'" and "panel_ok ap" and "keeps (ap_screen ap)"
  shows "keeps (ap_screen ap')"
proof -
  have execute: "keeps (ap_screen (perform en cookie now Execute ap))"
    if "page en ap = Some n" "Execute \<in> set (page_actions v n)" for n v now
    using offered_execute(1) [OF that] assms(2,3)
    by (auto simp: panel_ok_def confirmed_panel_def intro!: keeps_with_path keeps_execute)
  have send: "keeps (ap_screen (perform en cookie now Send ap))" for now
    using assms(2,3) by (auto simp: panel_ok_def intro!: keeps_with_path keeps_attemptSend)
  have "keeps (ap_screen (with_path (\<lambda>path d sn. fst (handleKeyDown br cookie now path k d sn)) ap))"
    for br now k
    using assms(2,3)
    by (auto simp: panel_ok_def handleKeyDown_def intro!: keeps_with_path keeps_attemptSend)
  then have key: "keeps (ap_screen (press_key en cookie now k ap))" for now k
    using assms(3) by (auto simp: press_key_def Let_def keeps_nav split: option.split)
  show ?thesis using keeps_event_other [OF assms] execute send key by blast
qed

lemma keeps_reached: "reached en ap \<Longrightarrow> keeps (ap_screen ap)"
proof (induction rule: reached.induct)
  case (reached_initial cookie s nav)
  show ?case
    by (simp add: initial_app_def keeps_def mount_def initial_provider_def
        core_running(3) [OF core_load_vault] core_running(3) [OF core_set_api_base])
next
  case (reached_event ap cookie ap')
  then show ?case by (simp add: keeps_event [OF _ panel_ok_reached])
qed

end

text \<open>
  Two policies hold along every run: a destructive request was confirmed, and every request is
  for an endpoint of the catalogue and carries no header beside those that \<open>buildHeaders\<close>
  gives. And beside what was sent before, the flows and the background send nothing destructive.
\<close>

interpretation confirmed: panel_policy "{}"
  "\<lambda>options k. ep_destructive (opt_endpoint options) \<longrightarrow> k = FromDetail True"
  by unfold_locales (auto simp: harmless_def options_of_def)

interpretation catalogued: panel_policy "{}"
  "\<lambda>options k. opt_endpoint options \<in> set ENDPOINTS \<and> opt_headers options = []"
  by unfold_locales (auto simp: harmless_def options_of_def)

interpretation flows: send_policy "sent" "\<lambda>options k. \<not> ep_destructive (opt_endpoint options)" for sent
  by unfold_locales (auto simp: harmless_def)

subsection \<open>The panel's own requests\<close>

definition sent_by_panel :: "app \<Rightarrow> after_send pending \<Rightarrow> app \<Rightarrow> bool" where
  "sent_by_panel ap p ap' \<longleftrightarrow>
     (\<exists>d path body. ap_detail ap = Some d
        \<and> requestPath d (pv_variables (pv_of ap)) = Inr path \<and> in_path (pd_input p) = path
        \<and> pd_options p = (options_of (dt_endpoint d))\<lparr>opt_path := Some path, opt_body := body\<rparr>
        \<and> pd_continuation p = FromDetail (dt_confirming d)
        \<and> map_option dt_confirming (ap_detail ap') = Some False)"

lemma readBody_provider:
  "pv_pending (sn_provider (snd (readBody br d sn))) = pv_pending (sn_provider sn)"
  by (simp add: readBody_def say_def split: sum.split)

lemma runRequest_new:
  assumes "p \<in> set (pv_pending (snd (runRequest cl options cookie now k pv)))" and "p \<notin> set (pv_pending pv)"
  shows "pd_options p = options \<and> pd_continuation p = k \<and> request_input cl options cookie = Inr (pd_input p)"
  using assms by (auto simp: runRequest_def Let_def begin_request_def split: sum.splits)

lemma request_input_path:
  "request_input cl options cookie = Inr input \<Longrightarrow> opt_path options = Some path \<Longrightarrow>
     in_path input = path \<and> in_apiBase input = cl_apiBase cl
     \<and> in_endpoint input = opt_endpoint options \<and> in_body input = opt_body options"
  by (auto simp: request_input_def Let_def map_sum_def split: sum.splits)

lemma execute_new:
  assumes "p \<in> set (pv_pending (sn_provider (snd (execute br cookie now path d sn))))"
    and "p \<notin> set (pv_pending (sn_provider sn))"
  shows "in_path (pd_input p) = path"
    and "\<exists>body. pd_options p = (options_of (dt_endpoint d))\<lparr>opt_path := Some path, opt_body := body\<rparr>"
    and "pd_continuation p = FromDetail (dt_confirming d)"
    and "\<not> dt_confirming (fst (execute br cookie now path d sn))"
proof -
  obtain b sn1 where body: "readBody br d sn = (b, sn1)" by fastforce
  then have sn1: "pv_pending (sn_provider sn1) = pv_pending (sn_provider sn)"
    using readBody_provider [of br d sn] by simp
  then obtain body where b: "b = Some body"
    using assms by (cases b) (auto simp: execute_def body)
  let ?options = "(options_of (dt_endpoint d))\<lparr>opt_path := Some path, opt_body := body\<rparr>"
  from assms have "p \<in> set (pv_pending (snd (runRequest (vc_closure (view_of sn)) ?options cookie now
      (FromDetail (dt_confirming d)) (sn_provider sn1))))"
    by (simp add: execute_def body b send_def)
  from runRequest_new [OF this] assms(2) sn1
  have new: "pd_options p = ?options" "pd_continuation p = FromDetail (dt_confirming d)"
      "request_input (vc_closure (view_of sn)) ?options cookie = Inr (pd_input p)"
    by auto
  from new request_input_path [OF new(3)] show "in_path (pd_input p) = path"
    "\<exists>body. pd_options p = (options_of (dt_endpoint d))\<lparr>opt_path := Some path, opt_body := body\<rparr>"
    "pd_continuation p = FromDetail (dt_confirming d)" by auto
  show "\<not> dt_confirming (fst (execute br cookie now path d sn))"
    by (simp add: execute_def body b cancelConfirmation_def)
qed

lemma attemptSend_new:
  assumes "p \<in> set (pv_pending (sn_provider (snd (attemptSend br cookie now path d sn))))"
    and "p \<notin> set (pv_pending (sn_provider sn))"
  shows "attemptSend br cookie now path d sn = execute br cookie now path d sn
    \<and> (ep_destructive (dt_endpoint d) \<longrightarrow> dt_confirming d)"
  using assms by (auto simp: attemptSend_def split: if_splits)

lemma with_path_new:
  assumes "p \<in> set (pv_pending (pv_of (with_path f ap)))" and "p \<notin> set (pv_pending (pv_of ap))"
    and "\<And>path d. p \<in> set (pv_pending (sn_provider (snd (f path d (ap_screen ap))))) \<Longrightarrow>
        f path d (ap_screen ap) = execute br cookie now path d (ap_screen ap)"
  shows "sent_by_panel ap p (with_path f ap)"
proof -
  obtain d where d: "ap_detail ap = Some d" using assms by (cases "ap_detail ap") (auto simp: with_path_def)
  obtain path where path: "requestPath d (pv_variables (pv_of ap)) = Inr path"
    using assms d by (cases "requestPath d (pv_variables (pv_of ap))") (auto simp: with_path_def)
  have p: "p \<in> set (pv_pending (sn_provider (snd (f path d (ap_screen ap)))))"
    using assms(1) by (simp add: with_path_def d path split: prod.splits)
  note f = assms(3) [OF p]
  note new = execute_new [OF p [unfolded f] assms(2)]
  show ?thesis
    unfolding sent_by_panel_def using new
    by (auto simp: d path with_path_def f split: prod.split)
qed

lemma with_path_confirmed:
  assumes "p \<in> set (pv_pending (pv_of (with_path f ap)))" and "p \<notin> set (pv_pending (pv_of ap))"
    and "\<And>path d. p \<in> set (pv_pending (sn_provider (snd (f path d (ap_screen ap))))) \<Longrightarrow>
        f path d (ap_screen ap) = attemptSend br cookie now path d (ap_screen ap)"
  shows "sent_by_panel ap p (with_path f ap)" and "confirmed_panel ap"
proof -
  have execute: "f path d (ap_screen ap) = execute br cookie now path d (ap_screen ap)
      \<and> (ep_destructive (dt_endpoint d) \<longrightarrow> dt_confirming d)"
    if "p \<in> set (pv_pending (sn_provider (snd (f path d (ap_screen ap)))))" for path d
    using attemptSend_new [of p br cookie now path d "ap_screen ap"] assms(2,3) that by simp
  then show "sent_by_panel ap p (with_path f ap)"
    using with_path_new [OF assms(1,2)] by blast
  show "confirmed_panel ap"
    using assms(1,2) execute
    by (auto simp: with_path_def confirmed_panel_def split: option.splits sum.splits prod.splits)
      (metis snd_conv)
qed

lemma press_key_pending:
  "pv_pending (pv_of (press_key en cookie now k ap)) =
     (if ap_detail ap = None then pv_pending (pv_of ap)
      else pv_pending (pv_of (with_path
        (\<lambda>path d sn. fst (handleKeyDown (en_browser en) cookie now path k d sn)) ap)))"
  by (simp add: press_key_def Let_def split: option.split)

lemma press_key_new:
  assumes "p \<in> set (pv_pending (pv_of (press_key en cookie now k ap)))"
    and "p \<notin> set (pv_pending (pv_of ap))"
  shows "sent_by_panel ap p (press_key en cookie now k ap)" and "confirmed_panel ap"
proof -
  let ?f = "\<lambda>path d sn. fst (handleKeyDown (en_browser en) cookie now path k d sn)"
  have p: "p \<in> set (pv_pending (pv_of (with_path ?f ap)))"
    using assms by (simp add: press_key_pending split: if_splits)
  have f: "?f path d (ap_screen ap) = attemptSend (en_browser en) cookie now path d (ap_screen ap)"
    if "p \<in> set (pv_pending (sn_provider (snd (?f path d (ap_screen ap)))))" for path d
    using that assms(2) by (auto simp: handleKeyDown_def split: if_splits)
  note new = with_path_confirmed [OF p assms(2) f]
  from new(1) show "sent_by_panel ap p (press_key en cookie now k ap)"
    by (auto simp: sent_by_panel_def press_key_def Let_def split: option.split)
  from new(2) show "confirmed_panel ap" .
qed

text \<open>C1: A request for a destructive endpoint starts only in a state in
  which the detail panel shows that endpoint and has asked for confirmation, it goes to the
  path the panel shows, and the confirmation is used up by it: whatever the user, the flows,
  the network and the timers do, and in whatever order.\<close>

theorem destructive_confirmed:
  assumes "reached en ap" and "event en cookie ap ap'"
    and "p \<in> set (pv_pending (pv_of ap'))" and "p \<notin> set (pv_pending (pv_of ap))"
    and "ep_destructive (opt_endpoint (pd_options p))"
  shows "\<exists>d. ap_detail ap = Some d \<and> dt_endpoint d = opt_endpoint (pd_options p) \<and> dt_confirming d
    \<and> requestPath d (pv_variables (pv_of ap)) = Inr (in_path (pd_input p))
    \<and> map_option dt_confirming (ap_detail ap') = Some False"
proof -
  have "confirmed.keeps (ap_screen ap)" by (rule confirmed.keeps_reached [OF assms(1)])
  then have "flows.keeps (set (pv_pending (pv_of ap))) (ap_screen ap)"
    by (auto simp: confirmed.keeps_def flows.keeps_def)
  from flows.keeps_event_other [OF assms(2) panel_ok_reached [OF assms(1)] this] assms(3-5)
  consider (execute) now n v where "page en ap = Some n" "Execute \<in> set (page_actions v n)"
      "ap' = perform en cookie now Execute ap"
    | (send) now where "ap' = perform en cookie now Send ap"
    | (key) now k where "ap' = press_key en cookie now k ap"
    by (auto simp: flows.keeps_def)
  then have "sent_by_panel ap p ap' \<and> confirmed_panel ap"
  proof cases
    case execute
    with offered_execute(1) assms(3,4) with_path_new show ?thesis by fastforce
  next
    case send
    with assms(3,4) with_path_confirmed [of p "attemptSend (en_browser en) cookie now" ap]
    show ?thesis by auto
  next
    case key
    with assms(3,4) press_key_new show ?thesis by blast
  qed
  with assms(5) show ?thesis
    by (auto simp: sent_by_panel_def confirmed_panel_def options_of_def)
qed

subsection \<open>A sample run\<close>

definition plain_environment :: environment where
  "plain_environment =
     \<lparr>en_browser = plain_browser, en_origin = [], en_window = None, en_locale = js ''en'',
      en_locales = [js ''en''], en_lower = (\<lambda>_ s. s),
      en_authenticator = \<lparr>au_available = False, au_message = (\<lambda>_. []),
        au_create = (\<lambda>_. Inr None), au_get = (\<lambda>_. Inr None)\<rparr>,
      en_clipboard = (\<lambda>_. True)\<rparr>"

definition delete_detail :: detail where
  "delete_detail =
     \<lparr>dt_endpoint = EP_users_delete, dt_draft = \<lparr>pathValues = [], queryValues = [], bodyText = []\<rparr>,
      dt_pathOverride = None, dt_tab = RequestTab, dt_acknowledged = None, dt_confirming = False,
      dt_memo = Some (Bearer, EMPTY_VARIABLES, [(js ''Accept'', js ''application/json'')])\<rparr>"

definition delete_page :: app where
  "delete_page =
     \<lparr>ap_screen =
        \<lparr>sn_provider = initial_provider plain_storage,
         sn_nav = \<lparr>nav_location = AtEndpoint (js ''users-delete''),
           nav_search = \<lparr>search_q = [], search_group = AllGroups, search_view = Comfortable\<rparr>\<rparr>,
         sn_ceremonies = []\<rparr>,
      ap_detail = Some delete_detail, ap_failed = False\<rparr>"

definition ctrl_enter :: key_event where
  "ctrl_enter = \<lparr>key_name = js ''Enter'', key_meta = False, key_ctrl = True\<rparr>"

lemma delete_path:
  "buildPath EP_users_delete draft vars = Inr (js ''/api/v1/users/me'')"
  by (simp add: buildPath_def build_query_def params_to_string_def)

lemma delete_headers:
  "buildHeaders EP_users_delete Bearer EMPTY_VARIABLES cookie = Inr [(js ''Accept'', js ''application/json'')]"
  by (simp add: buildHeaders_def base_headers_def authorization_headers_def csrf_headers_def
      transport_headers_def EMPTY_VARIABLES_def Let_def)

lemma delete_draft:
  "createDraft EP_users_delete vars = \<lparr>pathValues = [], queryValues = [], bodyText = []\<rparr>"
  by (simp add: createDraft_def resolved_parameters_def from_entries_def)

lemma delete_page_reached: "reached plain_environment delete_page"
proof -
  have "reached plain_environment (render [] (initial_app plain_environment plain_storage
      (sn_nav (ap_screen delete_page))))"
    by (rule reached_initial)
  moreover have "render [] (initial_app plain_environment plain_storage
      (sn_nav (ap_screen delete_page))) = delete_page"
    by (simp add: render_def initial_app_def plain_environment_def delete_page_def delete_detail_def
        mount_plain set_api_base_def initial_provider_def selected_endpoint_def keyed_detail_def
        render_detail_def requestPath_def requestHeaders_def open_detail_def delete_path
        delete_headers delete_draft)
  ultimately show ?thesis by simp
qed

definition confirm_page :: app where
  "confirm_page = delete_page\<lparr>ap_detail := Some (delete_detail\<lparr>dt_confirming := True\<rparr>)\<rparr>"

lemma press_delete: "press_key plain_environment cookie now ctrl_enter delete_page = confirm_page"
  by (simp add: press_key_def with_path_def handleKeyDown_def ctrl_enter_def attemptSend_def
      requestPath_def delete_path delete_page_def confirm_page_def delete_detail_def)

lemma confirm_page_reached: "reached plain_environment confirm_page"
proof -
  have "event plain_environment [] delete_page confirm_page"
    using event_key [of plain_environment "[]" delete_page 0 ctrl_enter] by (simp only: press_delete)
  moreover have "render [] confirm_page = confirm_page"
    by (simp add: render_def confirm_page_def delete_page_def delete_detail_def initial_provider_def
        selected_endpoint_def keyed_detail_def render_detail_def requestPath_def requestHeaders_def
        delete_path)
  ultimately show ?thesis using reached_event [OF delete_page_reached] by metis
qed

definition delete_request :: "after_send pending" where
  "delete_request =
     \<lparr>pd_controller = 0,
      pd_options = (options_of EP_users_delete)\<lparr>opt_path := Some (js ''/api/v1/users/me''), opt_body := None\<rparr>,
      pd_closure = \<lparr>cl_apiBase = [], cl_authMode = Bearer, cl_variables = EMPTY_VARIABLES\<rparr>,
      pd_input =
        \<lparr>in_apiBase = [], in_endpoint = EP_users_delete, in_path = js ''/api/v1/users/me'',
         in_body = None, in_headers = [(js ''Accept'', js ''application/json'')], in_authMode = Bearer\<rparr>,
      pd_started = 0, pd_continuation = FromDetail True\<rparr>"

lemma press_confirm:
  "pv_pending (pv_of (press_key plain_environment cookie 0 ctrl_enter confirm_page)) = [delete_request]"
  by (simp add: press_key_def with_path_def handleKeyDown_def ctrl_enter_def attemptSend_def execute_def
      readBody_def parseRequestBody_def send_def on_provider_def runRequest_def request_input_def
      begin_request_def view_of_def closure_of_def requestPath_def delete_path delete_headers
      confirm_page_def delete_page_def delete_detail_def initial_provider_def delete_request_def
      options_of_def obj_merge_def)

theorem destructive_confirmed_witness:
  "\<exists>d. ap_detail confirm_page = Some d \<and> dt_endpoint d = EP_users_delete \<and> dt_confirming d
    \<and> requestPath d (pv_variables (pv_of confirm_page)) = Inr (js ''/api/v1/users/me'')"
  using destructive_confirmed [OF confirm_page_reached event_key [of _ "[]" _ 0 ctrl_enter], of delete_request]
  by (simp add: press_confirm) (auto simp: confirm_page_def delete_page_def initial_provider_def
      delete_request_def options_of_def)






text \<open>The tab the user chose stays open as long as the same response, or none, is
  shown for the endpoint; a new response of the endpoint opens the response tab.\<close>

theorem chosen_tab:
  "activeTab (chooseTab tab pv d) pv' =
     (case result_of d pv' of
        None \<Rightarrow> tab
      | Some (i, r) \<Rightarrow> if map_option fst (result_of d pv) = Some i then tab else ResponseTab)"
  by (auto simp: activeTab_def chooseTab_def result_of_def split: option.splits)

definition busy_page :: app where
  "busy_page = edit_provider (\<lambda>pv. pv\<lparr>pv_isRunning := True\<rparr>) delete_page"

lemma busy_page_fields [simp]:
  "ap_detail busy_page = Some delete_detail" "ap_failed busy_page = False"
  "selected_endpoint busy_page = Some EP_users_delete" "pv_isRunning (pv_of busy_page)"
  "pv_variables (pv_of busy_page) = EMPTY_VARIABLES" "pv_authMode (pv_of busy_page) = Bearer"
  "pv_pending (pv_of busy_page) = []"
  by (simp_all add: busy_page_def delete_page_def initial_provider_def selected_endpoint_def)




end
