(* ===== verification/WbRuns.thy ===== *)
theory WbRuns
  imports WbApp
begin

section \<open>Runs of the application: what holds throughout, and how everything ends\<close>

text \<open>
  The flows, the panel and the page change the provider only through its operations, so what
  every \<open>step\<close> of the provider keeps, every run of the application keeps: the application
  refines the provider's state machine, and the properties of the latter are properties of
  the page. Then: what is under way ends. \<open>settle\<close> is the end of something pending (a request
  with the flow that awaits it, the authenticator's answer, a probe, a timer, a one-time
  password), and \<open>work\<close> bounds how many such ends there can be before nothing is pending.
\<close>

subsection \<open>What the provider's steps keep\<close>

locale kept_by_provider =
  fixes br :: browser and kept :: "after_send provider \<Rightarrow> bool"
  assumes kept_step: "kept pv \<Longrightarrow> step br pv pv' \<Longrightarrow> kept pv'"
begin

lemma kept_operations [simp]:
  "kept pv \<Longrightarrow> kept (setVariable n v pv)"
  "kept pv \<Longrightarrow> kept (setAuthMode m pv)"
  "kept pv \<Longrightarrow> kept (clearVault pv)"
  "kept pv \<Longrightarrow> kept (setApiBase b pv)"
  "kept pv \<Longrightarrow> kept (clearResponse pv)"
  "kept pv \<Longrightarrow> kept (pushToast title description tn pv)"
  "kept pv \<Longrightarrow> kept (dismissToast i pv)"
  by (erule kept_step, rule step.intros)+

lemma kept_run [simp]: "kept pv \<Longrightarrow> kept (snd (runRequest cl options cookie started k pv))"
  by (erule kept_step) (rule step_run [OF surjective_pairing])

lemma kept_finish:
  "kept pv \<Longrightarrow> p \<in> set (pv_pending pv) \<Longrightarrow> kept (snd (finish_request br cookie now outcome p pv))"
  by (erule kept_step) (rule step_finish [OF _ surjective_pairing])

lemma kept_background: "kept pv \<Longrightarrow> background br pv pv' \<Longrightarrow> kept pv'"
  by (erule background_elims) (auto intro: kept_step step.intros)

lemma kept_say [simp]: "kept (sn_provider sn) \<Longrightarrow> kept (sn_provider (say t d tn sn))"
  by (simp add: say_def kept_operations)

lemma kept_send [simp]:
  "kept (sn_provider sn) \<Longrightarrow> kept (sn_provider (send vc options cookie now k sn))"
  by (simp add: send_def kept_run)

lemma kept_flows [simp]:
  assumes "kept (sn_provider sn)"
  shows "kept (sn_provider (ensureCsrf vc cookie now sn))"
    and "kept (sn_provider (demoLogin vc a cookie now sn))"
    and "kept (sn_provider (prepareSessions vc cookie now sn))"
    and "kept (sn_provider (useDemoApiKey sn))"
    and "kept (sn_provider (runSocial vc sp cookie now sn))"
    and "kept (sn_provider (runPasskey kind au e vc cookie now sn))"
    and "kept (sn_provider (snd (fillTotp br' vc t sn)))"
  using assms
  by (auto simp: ensureCsrf_def demoLogin_def prepareSessions_def useDemoApiKey_def runSocial_def
      runPasskey_def fillTotp_def Let_def split: option.split)

lemma kept_resume:
  assumes "kept (sn_provider sn)"
  shows "kept (sn_provider (resume br' origin k result cookie now sn))"
  using assms
  by (cases k) (auto simp: resume_def after_demo_login_def after_first_session_def
      after_second_session_def after_authorize_def after_callback_def after_passkey_options_def
      after_passkey_complete_def Let_def split: option.split passkey_kind.split bool.split)

lemma kept_finish_send:
  assumes "kept (sn_provider sn)" and "p \<in> set (pv_pending (sn_provider sn))"
  shows "kept (sn_provider (finish_send br origin cookie now outcome p sn))"
proof -
  obtain r pv where run: "finish_request br cookie now outcome p (sn_provider sn) = (r, pv)"
    by fastforce
  with kept_finish [OF assms, of cookie now outcome] have "kept pv" by simp
  then show ?thesis by (simp add: finish_send_def run kept_resume Let_def split: sum.split)
qed

lemma kept_finish_ceremony:
  "kept (sn_provider sn) \<Longrightarrow> kept (sn_provider (finish_ceremony cm answer cookie now sn))"
  by (auto simp: finish_ceremony_def Let_def split: sum.split)

lemma kept_copies [simp]:
  assumes "kept (sn_provider sn)"
  shows "kept (sn_provider (runCopy w v sn))"
    and "kept (sn_provider (copyValue w v sn))"
    and "kept (sn_provider (snd (readBody br' d sn)))"
  using assms
  by (auto simp: runCopy_def copyValue_def readBody_def split: sum.split)

lemma kept_copyCurl:
  assumes "kept (sn_provider sn)"
  shows "kept (sn_provider (copyCurl br' w path headers d sn))"
  using kept_copies(3) [OF assms, of br' d]
  by (auto simp: copyCurl_def split: prod.split option.split)

lemma kept_execute:
  assumes "kept (sn_provider sn)"
  shows "kept (sn_provider (snd (execute br' cookie now path d sn)))"
  using kept_copies(3) [OF assms, of br' d]
  by (auto simp: execute_def split: prod.split option.split)

lemma kept_attemptSend:
  "kept (sn_provider sn) \<Longrightarrow> kept (sn_provider (snd (attemptSend br' cookie now path d sn)))"
  by (simp add: attemptSend_def kept_execute)

lemma kept_with_path:
  assumes "kept (pv_of ap)"
    and "\<And>path d. kept (sn_provider (snd (f path d (ap_screen ap))))"
  shows "kept (pv_of (with_path f ap))"
  using assms by (auto simp: with_path_def split: option.split sum.split prod.split) (metis snd_conv)

lemma kept_perform:
  assumes "kept (pv_of ap)"
  shows "kept (pv_of (perform en cookie now a ap))"
proof (cases a)
  case FillTotp
  show ?thesis
  proof (cases "ap_detail ap")
    case (Some d)
    with FillTotp kept_flows(7) [OF assms, of "en_browser en" "view_of (ap_screen ap)"
        "bodyText (dt_draft d)"] show ?thesis
      by (auto simp: fill_totp_def split: prod.split option.split)
  qed (simp add: FillTotp fill_totp_def assms)
qed (use assms in \<open>auto simp: format_body_def copy_curl_def run_passkey_def kept_with_path
    kept_execute kept_attemptSend kept_copyCurl split: option.split sum.split prod.split\<close>)

lemma kept_press_key:
  assumes "kept (pv_of ap)"
  shows "kept (pv_of (press_key en cookie now k ap))"
proof -
  have "kept (pv_of (with_path (\<lambda>path d sn. fst (handleKeyDown br' cookie now path k d sn)) ap))" for br'
    by (rule kept_with_path [OF assms]) (simp add: handleKeyDown_def kept_attemptSend assms)
  with assms show ?thesis by (auto simp: press_key_def Let_def split: option.split)
qed

lemma kept_event:
  "event en cookie ap ap' \<Longrightarrow> en_browser en = br \<Longrightarrow> kept (pv_of ap) \<Longrightarrow> kept (pv_of ap')"
  by (induction rule: event.induct)
    (auto simp: kept_perform kept_press_key kept_finish_send kept_finish_ceremony
      intro: kept_background)

lemma kept_reached:
  assumes "reached en ap" and "en_browser en = br" and "\<And>s. kept (mount (en_origin en) s)"
  shows "kept (pv_of ap)"
  using assms by (induction rule: reached.induct) (auto simp: initial_app_def intro: kept_event)

end

text \<open>The application refines the provider: a run of the former is one of the latter.\<close>

interpretation provider_run: kept_by_provider br "\<lambda>pv. \<exists>s. reachable br s pv" for br
  by unfold_locales (auto intro: reachable_step)

lemma reached_provider: "reached en ap \<Longrightarrow> \<exists>s. reachable (en_browser en) s (pv_of ap)"
  by (rule provider_run.kept_reached) (auto intro: reachable_mount)



subsection \<open>Services are checked until a probe ends\<close>

fun service_of :: "service \<Rightarrow> services \<Rightarrow> ServiceStatus" where
  "service_of Live s = svc_live s"
| "service_of Ready s = svc_ready s"
| "service_of Openapi s = svc_openapi s"

lemma service_of_set [simp]:
  "service_of s (set_service s' status v) = (if s = s' then status else service_of s v)"
  by (cases s; cases s') simp_all

definition awaited :: "'k provider \<Rightarrow> bool" where
  "awaited st \<longleftrightarrow>
     (\<forall>s. svc_state (service_of s (pv_services st)) = Checking \<longrightarrow>
        (\<exists>p \<in> set (pv_probes st). probe_service p = s))"

definition probes_of :: "'k provider \<Rightarrow> services \<times> probe list" where
  "probes_of st = (pv_services st, pv_probes st)"

lemma probes_of_operations [simp]:
  "probes_of (pushToast t d tn st) = probes_of st"
  "probes_of (dismissToast i st) = probes_of st"
  "probes_of (timer_fires i st) = probes_of st"
  "probes_of (clearResponse st) = probes_of st"
  "probes_of (set_variables vs st) = probes_of st"
  "probes_of (try_storage f st) = probes_of st"
  "probes_of (setVariable n v st) = probes_of st"
  "probes_of (setAuthMode m st) = probes_of st"
  "probes_of (clearVault st) = probes_of st"
  "probes_of (totp_tick st) = probes_of st"
  "probes_of (finish_totp job exit st) = probes_of st"
  "probes_of (snd (runRequest cl options cookie now k st)) = probes_of st"
proof -
  note f = probes_of_def pushToast_def dismissToast_def timer_fires_def clearResponse_def
    set_variables_def totp_tick_def Let_def
  show f1: "probes_of (try_storage f st) = probes_of st" for f and st :: "'k provider"
    by (simp add: try_storage_def probes_of_def split: sum.split)
  show f2: "probes_of (set_variables vs st) = probes_of st" for vs and st :: "'k provider"
    by (simp add: f)
  show f3: "probes_of (setVariable n v st) = probes_of st" for n v and st :: "'k provider"
    by (simp add: setVariable_def f1 f2 Let_def)
  show f4: "probes_of (pushToast t d tn st) = probes_of st" for t d tn and st :: "'k provider"
    by (simp add: f)
  show "probes_of (setAuthMode m st) = probes_of st"
    by (simp add: setAuthMode_def f1) (simp add: probes_of_def)
  show "probes_of (clearVault st) = probes_of st" by (simp add: clearVault_def f1 f2 f4)
  show "probes_of (finish_totp job exit st) = probes_of st"
    by (simp add: finish_totp_def f3 Let_def split: sum.split) (simp add: probes_of_def)
  show "probes_of (snd (runRequest cl options cookie now k st)) = probes_of st"
    by (simp add: runRequest_def begin_request_def probes_of_def Let_def split: sum.split)
qed (simp_all add: probes_of_def dismissToast_def timer_fires_def clearResponse_def totp_tick_def)

lemma probes_of_finish_request [simp]:
  "probes_of (snd (finish_request br cookie now outcome p st)) = probes_of st"
proof -
  have capture: "probes_of (snd (captureResponseData br cl cookie e result st')) = probes_of st'"
    for cl e result st'
    by (rule capture_keeps [where P = "\<lambda>st''. probes_of st'' = probes_of st'"]) simp_all
  have ended: "probes_of (end_request c (st\<lparr>pv_pending := ps\<rparr>)) = probes_of st" for c ps
    by (simp add: end_request_def probes_of_def)
  have shown: "probes_of (show_result c o' r notice st') = probes_of st'" for c o' r notice st'
    by (simp add: show_result_def probes_of_def)
  have reported: "probes_of (report_failure o' failure st') = probes_of st'" for o' failure st'
    by (simp add: report_failure_def)
  show ?thesis
    using capture [of "pd_closure p" "opt_endpoint (pd_options p)" _ "end_request (pd_controller p)
      (st\<lparr>pv_pending := filter (\<lambda>q. pd_controller q \<noteq> pd_controller p) (pv_pending st)\<rparr>)"]
    by (auto simp: finish_request_def ended shown reported Let_def split: option.split sum.split prod.split)
      (metis snd_conv ended)+
qed

lemma awaited_same: "awaited st \<Longrightarrow> probes_of st' = probes_of st \<Longrightarrow> awaited st'"
  by (simp add: awaited_def probes_of_def)

lemma awaited_checkServices: "awaited st \<Longrightarrow> awaited (checkServices base st)"
  unfolding awaited_def checkServices_def service_probe_def
  by (intro allI, case_tac s) auto

lemma awaited_finish_probe:
  assumes "awaited st"
  shows "awaited (finish_probe br outcome p st)"
proof -
  have over: "svc_state (service_status r) \<noteq> Checking" for r
    by (simp add: service_status_def split: sum.split)
  show ?thesis
    unfolding awaited_def
  proof (intro allI impI)
    fix s
    assume s: "svc_state (service_of s (pv_services (finish_probe br outcome p st))) = Checking"
    with over have "s \<noteq> probe_service p" by (auto simp: finish_probe_def split: if_splits)
    with s assms obtain q where "q \<in> set (pv_probes st)" "probe_service q = s" "q \<noteq> p"
      by (auto simp: finish_probe_def awaited_def)
    then show "\<exists>q \<in> set (pv_probes (finish_probe br outcome p st)). probe_service q = s"
      by (auto simp: finish_probe_def)
  qed
qed

lemma awaited_step: "step br st st' \<Longrightarrow> awaited st \<Longrightarrow> awaited st'"
proof (induction rule: step.induct)
  case (step_base st v)
  have "awaited (st\<lparr>pv_apiBase := b\<rparr>)" for b using step_base by (simp add: awaited_def)
  with step_base show ?case
    by (simp add: setApiBase_def set_api_base_def awaited_checkServices)
next
  case (step_run cl options cookie started k st err st')
  then show ?case using awaited_same probes_of_operations(12) by (metis snd_conv)
next
  case (step_finish p st cookie finished outcome r st')
  then show ?case using awaited_same probes_of_finish_request by (metis snd_conv)
qed (auto intro: awaited_checkServices awaited_finish_probe awaited_same)

lemma awaited_mount:
  assumes "origin \<noteq> []"
  shows "awaited (mount origin s)"
proof -
  have "awaited (initial_provider s\<lparr>pv_apiBase := origin, pv_services := INITIAL_SERVICES,
      pv_probes := map (service_probe origin) [Live, Ready, Openapi]\<rparr>)"
    unfolding awaited_def service_probe_def by (intro allI, case_tac sa) auto
  then have "awaited (set_api_base origin (initial_provider s))"
    using assms by (simp add: set_api_base_def initial_provider_def checkServices_def)
  moreover have "probes_of (st\<lparr>pv_authMode := m\<rparr>) = probes_of st" for m st
    by (simp add: probes_of_def)
  ultimately show ?thesis
    by (auto simp: mount_def load_vault_def split: sum.split elim!: awaited_same)
qed

interpretation checked: kept_by_provider br awaited for br
  by unfold_locales (rule awaited_step)

subsection \<open>What is under way ends\<close>

inductive settle :: "browser \<Rightarrow> jstr \<Rightarrow> screen \<Rightarrow> screen \<Rightarrow> bool" for br origin where
  settle_timer: "i \<in> set (pv_timers (sn_provider sn)) \<Longrightarrow>
    settle br origin sn (on_provider (timer_fires i) sn)"
| settle_probe: "p \<in> set (pv_probes (sn_provider sn)) \<Longrightarrow>
    settle br origin sn (on_provider (finish_probe br outcome p) sn)"
| settle_totp: "job \<in> set (pv_totpPending (sn_provider sn)) \<Longrightarrow>
    settle br origin sn (on_provider (finish_totp job exit) sn)"
| settle_request: "p \<in> set (pv_pending (sn_provider sn)) \<Longrightarrow>
    settle br origin sn (finish_send br origin cookie now outcome' p sn)"
| settle_ceremony: "cm \<in> set (sn_ceremonies sn) \<Longrightarrow>
    settle br origin sn (finish_ceremony cm answer cookie now sn)"

text \<open>
  How many ends a pending request can lead to: its own, a one-time password for a secret it
  brought, and what its flow does then (a toast with its timer, another request, the
  authenticator, whose answer is worth four).
\<close>

fun ends_of :: "after_send \<Rightarrow> nat" where
  "ends_of (FromDetail c) = 2"
| "ends_of AfterCsrf = 2"
| "ends_of (AfterDemoLogin vc a m) = 5"
| "ends_of (AfterFirstSession vc options) = 5"
| "ends_of (AfterSecondSession vc) = 3"
| "ends_of (AfterAuthorize vc callback sp) = 5"
| "ends_of (AfterCallback sp) = 3"
| "ends_of (AfterPasskeyOptions vc kind) = 6"
| "ends_of (AfterPasskeyComplete kind) = 3"

definition load :: "after_send provider \<Rightarrow> nat" where
  "load pv = sum_list (map (\<lambda>p. ends_of (pd_continuation p)) (pv_pending pv))
     + length (pv_timers pv) + length (pv_probes pv) + length (pv_totpPending pv)"

definition work :: "screen \<Rightarrow> nat" where
  "work sn = load (sn_provider sn) + 4 * length (sn_ceremonies sn)"

lemma work_eq_0:
  "work sn = 0 \<longleftrightarrow>
     pv_pending (sn_provider sn) = [] \<and> pv_timers (sn_provider sn) = []
     \<and> pv_probes (sn_provider sn) = [] \<and> pv_totpPending (sn_provider sn) = []
     \<and> sn_ceremonies sn = []"
proof -
  have "0 < ends_of k" for k by (cases k) simp_all
  then show ?thesis by (cases "pv_pending (sn_provider sn)") (auto simp: work_def load_def)
qed

lemma length_filter_less: "x \<in> set xs \<Longrightarrow> \<not> P x \<Longrightarrow> length (filter P xs) < length xs"
  by (induction xs) (auto simp: le_imp_less_Suc)

lemma sum_list_filter_less:
  fixes f :: "'b \<Rightarrow> nat"
  shows "x \<in> set xs \<Longrightarrow> \<not> P x \<Longrightarrow> sum_list (map f (filter P xs)) + f x \<le> sum_list (map f xs)"
proof -
  have "sum_list (map f (filter P ys)) \<le> sum_list (map f ys)" for ys by (induction ys) auto
  then show "x \<in> set xs \<Longrightarrow> \<not> P x \<Longrightarrow> ?thesis" by (induction xs) (auto simp: add_le_mono)
qed

lemma totpSecret_set_var: "n \<noteq> TotpSecret \<Longrightarrow> totpSecret (set_var n v vs) = totpSecret vs"
  by (cases n) simp_all

lemma load_same:
  "core_of pv' = core_of pv \<Longrightarrow> probes_of pv' = probes_of pv \<Longrightarrow>
     length (pv_totpPending pv') \<le> length (pv_totpPending pv) + k \<Longrightarrow> load pv' \<le> load pv + k"
  by (simp add: load_def core_of_def probes_of_def)

lemma totp_setVariable:
  "length (pv_totpPending (setVariable n v pv))
     \<le> length (pv_totpPending pv) + (if n = TotpSecret then 1 else 0)"
proof -
  have "pv_totpPending (try_storage f pv) = pv_totpPending pv" for f and pv :: "'k provider"
    by (simp add: try_storage_def split: sum.split)
  then show ?thesis
    by (auto simp: setVariable_def set_variables_def totpSecret_set_var Let_def)
qed

lemma load_setVariable: "load (setVariable n v pv) \<le> load pv + (if n = TotpSecret then 1 else 0)"
  by (rule load_same) (simp_all add: totp_setVariable)

lemma load_setVariable_other: "n \<noteq> TotpSecret \<Longrightarrow> load (setVariable n v pv) \<le> load pv"
  using load_setVariable [of n v pv] by simp

lemma load_set_captured: "load (set_captured v n pv) \<le> load pv + (if n = TotpSecret then 1 else 0)"
  by (cases v) (use load_setVariable in \<open>auto simp: set_captured_def\<close>)

lemma load_capture_tokens: "load (capture_tokens e data pv) \<le> load pv + 1"
proof -
  note le = load_set_captured [of "text_field data k" n for k n]
  let ?p1 = "set_captured (text_field data (js ''accessToken'')) AccessToken pv"
  let ?p2 = "set_captured (text_field data (js ''refreshToken'')) RefreshToken ?p1"
  let ?p3 = "set_captured (text_field data (js ''key'')) ApiKeyVar ?p2"
  let ?p4 = "set_captured (text_field data (js ''mfaTicket'')) MfaTicket ?p3"
  let ?p5 = "set_captured (text_field data (js ''secret'')) TotpSecret ?p4"
  have "load ?p1 \<le> load pv" "load ?p2 \<le> load ?p1" "load ?p3 \<le> load ?p2" "load ?p4 \<le> load ?p3"
    "load ?p5 \<le> load ?p4 + 1" "load (set_captured (text_field data (js ''token'')) CsrfToken ?p5) \<le> load ?p5"
    using load_set_captured [of _ AccessToken] load_set_captured [of _ RefreshToken]
      load_set_captured [of _ ApiKeyVar] load_set_captured [of _ MfaTicket]
      load_set_captured [of _ TotpSecret] load_set_captured [of _ CsrfToken] by simp_all
  then show ?thesis by (simp add: capture_tokens_def Let_def)
qed

lemma load_captureResponseData:
  "load (snd (captureResponseData br cl cookie e result pv)) \<le> load pv + 1"
proof -
  let ?d = "res_data result" and ?pv1 = "capture_tokens e (res_data result) pv"
  have other: "load (setVariable n v pv') \<le> b" if "load pv' \<le> b" "n \<noteq> TotpSecret" for n v pv' b
    using load_setVariable_other [OF that(2), of v pv'] that(1) by simp
  have tokens: "load ?pv1 \<le> load pv + 1" by (rule load_capture_tokens)
  obtain err pv2 where s: "capture_social br cl e ?d ?pv1 = (err, pv2)" by fastforce
  have pv2: "load pv2 \<le> load pv + 1"
    using s tokens by (auto simp: capture_social_def split: option.splits if_splits intro!: other)
  have pk: "load (capture_passkey e ?d pv2) \<le> load pv + 1"
    using pv2 by (auto simp: capture_passkey_def set_captured_def
        split: json.split list.split option.split intro!: other)
  have "load (snd (capture_notice cl cookie e result (capture_passkey e ?d pv2))) \<le> load pv + 1"
    using pk by (auto simp: capture_notice_def split: sum.split intro!: other)
  with s pv2 show ?thesis by (cases err) (simp_all add: captureResponseData_def)
qed

lemma load_pushToast: "load (pushToast t d tn pv) = load pv + (if tn = Neutral then 1 else 0)"
  by (simp add: load_def pushToast_def Let_def)

lemma load_setAuthMode [simp]: "load (setAuthMode m pv) = load pv"
  by (simp add: setAuthMode_def try_storage_def load_def split: sum.split)

lemma load_runRequest:
  "load (snd (runRequest cl options cookie now k pv)) \<le> load pv + ends_of k"
  by (simp add: load_def runRequest_def begin_request_def Let_def split: sum.split)

lemma load_finish_request:
  assumes "p \<in> set (pv_pending pv)"
  shows "load (snd (finish_request br cookie now outcome p pv)) + ends_of (pd_continuation p)
    \<le> load pv + 1"
proof -
  let ?pv1 = "end_request (pd_controller p) (pv\<lparr>pv_pending :=
      filter (\<lambda>q. pd_controller q \<noteq> pd_controller p) (pv_pending pv)\<rparr>)"
  have "sum_list (map (\<lambda>q. ends_of (pd_continuation q))
        (filter (\<lambda>q. pd_controller q \<noteq> pd_controller p) (pv_pending pv)))
      + ends_of (pd_continuation p) \<le> sum_list (map (\<lambda>q. ends_of (pd_continuation q)) (pv_pending pv))"
    by (rule sum_list_filter_less [OF assms]) simp
  then have pv1: "load ?pv1 + ends_of (pd_continuation p) \<le> load pv"
    by (simp add: load_def end_request_def)
  have shown: "load (show_result c o' r notice pv') = load pv'" for c o' r notice pv'
    by (simp add: show_result_def load_def)
  have reported: "load (report_failure o' failure pv') = load pv'" for o' failure pv'
    by (simp add: report_failure_def load_pushToast)
  have "load (snd (finish_request br cookie now outcome p pv)) \<le> load ?pv1 + 1"
  proof (cases "exit_of br p now outcome")
    case (Some exit)
    show ?thesis
    proof (cases exit)
      case (Inr result)
      obtain r pv2 where "captureResponseData br (pd_closure p) cookie
          (opt_endpoint (pd_options p)) result ?pv1 = (r, pv2)" by fastforce
      with load_captureResponseData [of br "pd_closure p" cookie "opt_endpoint (pd_options p)" result ?pv1]
      show ?thesis using Some Inr by (cases r) (simp_all add: finish_request_def shown Let_def)
    qed (simp add: Some finish_request_def reported Let_def)
  qed (simp add: finish_request_def Let_def)
  with pv1 show ?thesis by simp
qed

lemma work_operations [simp]:
  "work (on_provider (pushToast t d tn) sn) = work sn + (if tn = Neutral then 1 else 0)"
  "work (on_provider (setAuthMode m) sn) = work sn"
  "work (navigate_to vc i sn) = work sn"
  "work (say title description tn sn) = work sn + (if tn = Neutral then 1 else 0)"
  by (simp_all add: work_def load_pushToast say_def)

lemma work_setVariable: "n \<noteq> TotpSecret \<Longrightarrow> work (on_provider (setVariable n v) sn) \<le> work sn"
  by (simp add: work_def load_setVariable_other)

lemma work_send: "work (send vc options cookie now k sn) \<le> work sn + ends_of k"
  using load_runRequest by (simp add: send_def work_def)

lemma work_send_le: "work sn + ends_of k \<le> n \<Longrightarrow> work (send vc options cookie now k sn) \<le> n"
  using work_send [of vc options cookie now k sn] by simp

lemma work_ensureCsrf: "work (ensureCsrf vc cookie now sn) \<le> work sn + 2"
  using work_send [of vc _ cookie now AfterCsrf sn] by (simp add: ensureCsrf_def)

lemma work_resume: "work (resume br origin k result cookie now sn) + 2 \<le> work sn + ends_of k"
proof (cases k)
  case (AfterDemoLogin vc a m)
  have "work (ensureCsrf vc cookie now (on_provider (pushToast t d Neutral) sn)) \<le> 3 + work sn" for t d
    using work_ensureCsrf [of vc cookie now "on_provider (pushToast t d Neutral) sn"] by simp
  then show ?thesis
    by (auto simp: AfterDemoLogin resume_def after_demo_login_def Let_def split: option.split)
next
  case (AfterFirstSession vc options)
  then show ?thesis
    by (auto simp: resume_def after_first_session_def intro: work_send_le)
next
  case (AfterAuthorize vc callback sp)
  let ?sn = "\<lambda>u. navigate_to vc (ep_id callback)
      (on_provider (setVariable SocialState (url_param u (js ''state'')))
        (on_provider (setVariable SocialCode (url_param u (js ''code''))) sn))"
  have "work (?sn u) \<le> work sn" for u
    using work_setVariable [of SocialState _ "on_provider (setVariable SocialCode (url_param u (js ''code''))) sn"]
      work_setVariable [of SocialCode _ sn] by simp (blast intro: le_trans)
  then have "work (send vc options cookie now (AfterCallback sp) (?sn u)) \<le> 3 + work sn" for u options
    by (intro work_send_le) (simp add: add.commute)
  then show ?thesis
    by (auto simp: AfterAuthorize resume_def after_authorize_def Let_def split: option.split)
next
  case (AfterPasskeyOptions vc kind)
  have "work (sn\<lparr>sn_ceremonies := sn_ceremonies sn @ [cm]\<rparr>) = work sn + 4" for cm
    by (simp add: work_def)
  then show ?thesis
    by (auto simp: AfterPasskeyOptions resume_def after_passkey_options_def
        split: option.split bool.split)
qed (auto simp: resume_def after_second_session_def after_callback_def after_passkey_complete_def
    split: passkey_kind.split)

lemma work_finish_send:
  assumes "p \<in> set (pv_pending (sn_provider sn))"
  shows "work (finish_send br origin cookie now outcome p sn) < work sn"
proof -
  obtain r pv where run: "finish_request br cookie now outcome p (sn_provider sn) = (r, pv)"
    by fastforce
  with load_finish_request [OF assms, of br cookie now outcome]
  have pv: "work (sn\<lparr>sn_provider := pv\<rparr>) + ends_of (pd_continuation p) \<le> work sn + 1"
    by (simp add: work_def)
  have two: "2 \<le> ends_of (pd_continuation p)" by (cases "pd_continuation p") simp_all
  have resume: "work (resume br origin (pd_continuation p) result cookie now (sn\<lparr>sn_provider := pv\<rparr>)) + 2
      \<le> work (sn\<lparr>sn_provider := pv\<rparr>) + ends_of (pd_continuation p)" for result by (rule work_resume)
  have "work (case r of Inl err \<Rightarrow> sn\<lparr>sn_provider := pv\<rparr>
      | Inr result \<Rightarrow> resume br origin (pd_continuation p) result cookie now (sn\<lparr>sn_provider := pv\<rparr>))
      < work sn" for r :: "js_error + ApiResult option"
  proof (cases r)
    case (Inr result)
    with resume [of result] pv
    show ?thesis by simp
  qed (use pv two in simp)
  then show ?thesis by (simp add: finish_send_def run Let_def)
qed

lemma work_finish_ceremony:
  assumes "cm \<in> set (sn_ceremonies sn)"
  shows "work (finish_ceremony cm answer cookie now sn) < work sn"
proof -
  let ?sn1 = "sn\<lparr>sn_ceremonies := remove1 cm (sn_ceremonies sn)\<rparr>"
  from assms have "Suc (length (remove1 cm (sn_ceremonies sn))) = length (sn_ceremonies sn)"
    by (simp add: length_remove1) (metis Suc_pred length_pos_if_in_set)
  then have sn1: "work ?sn1 + 4 = work sn" by (simp add: work_def)
  have sent: "work (send (cm_view cm) options cookie now (AfterPasskeyComplete (cm_kind cm))
      (navigate_to (cm_view cm) (ep_id (cm_complete cm)) ?sn1)) \<le> work ?sn1 + 3" for options
    by (rule work_send_le) simp
  have "work (send (cm_view cm) options cookie now (AfterPasskeyComplete (cm_kind cm))
      (navigate_to (cm_view cm) (ep_id (cm_complete cm)) ?sn1)) < work sn" for options
    using sent [of options] sn1 by linarith
  with sn1 show ?thesis
    by (simp add: finish_ceremony_def Let_def split: sum.split)
qed

lemma length_remove1_less: "x \<in> set xs \<Longrightarrow> length (remove1 x xs) < length xs"
  by (induction xs) auto

lemma work_settle: "settle br origin sn sn' \<Longrightarrow> work sn' < work sn"
proof (induction rule: settle.induct)
  case (settle_timer i sn)
  then have "length (filter (\<lambda>j. j \<noteq> i) (pv_timers (sn_provider sn))) < length (pv_timers (sn_provider sn))"
    by (rule length_filter_less) simp
  then show ?case by (simp add: work_def load_def timer_fires_def dismissToast_def)
next
  case (settle_probe p sn outcome)
  from length_remove1_less [OF this] show ?case by (simp add: work_def load_def finish_probe_def)
next
  case (settle_totp job sn exit)
  let ?pv = "(sn_provider sn)\<lparr>pv_totpPending := remove1 job (pv_totpPending (sn_provider sn))\<rparr>"
  from length_remove1_less [OF settle_totp] have "load ?pv < load (sn_provider sn)"
    by (simp add: load_def)
  then have "load (finish_totp job exit (sn_provider sn)) < load (sn_provider sn)"
    using load_setVariable_other [of TotpCode _ ?pv]
    by (auto simp: finish_totp_def Let_def split: sum.split intro: le_less_trans)
  then show ?case by (simp add: work_def)
qed (simp_all add: work_finish_send work_finish_ceremony)

lemma settle_exists: "work sn \<noteq> 0 \<Longrightarrow> \<exists>sn'. settle br origin sn sn'"
  using settle.intros [of _ sn] by (auto simp: work_eq_0 neq_Nil_conv) (metis list.set_intros(1) settle.intros)+

text \<open>C4: Every flow ends: whatever is answered and in whatever order, no more than
  \<open>work\<close> pending requests, authenticator answers, probes, timers and one-time passwords end
  before nothing is pending; starting a flow adds at most six to that number.\<close>

theorem flows_terminate:
  assumes "(settle br origin ^^ n) sn sn'"
  shows "n + work sn' \<le> work sn
    \<and> (work sn' \<noteq> 0 \<longrightarrow> (\<exists>sn''. settle br origin sn' sn''))
    \<and> work (demoLogin vc a cookie now sn) \<le> work sn + 6
    \<and> work (prepareSessions vc cookie now sn) \<le> work sn + 6
    \<and> work (runSocial vc sp cookie now sn) \<le> work sn + 6
    \<and> work (runPasskey kind au e vc cookie now sn) \<le> work sn + 6"
proof -
  have "n + work sn' \<le> work sn"
    using assms
  proof (induction n arbitrary: sn')
    case (Suc n)
    then obtain sm where "(settle br origin ^^ n) sn sm" "settle br origin sm sn'" by auto
    with Suc.IH [of sm] work_settle [of br origin sm sn'] show ?case by simp
  qed simp
  moreover have "work (demoLogin vc a cookie now sn) \<le> work sn + 6"
    by (auto simp: demoLogin_def Let_def intro!: work_send_le split: option.split)
  moreover have "work (prepareSessions vc cookie now sn) \<le> work sn + 6"
    by (auto simp: prepareSessions_def Let_def intro!: work_send_le split: option.split)
  moreover have "work (runSocial vc sp cookie now sn) \<le> work sn + 6"
    by (auto simp: runSocial_def intro!: work_send_le split: option.split)
  moreover have "work (runPasskey kind au e vc cookie now sn) \<le> work sn + 6"
    by (auto simp: runPasskey_def intro!: work_send_le)
  ultimately show ?thesis using settle_exists by blast
qed

text \<open>One toast, and its timer.\<close>

definition toasted :: screen where
  "toasted = say ''copied'' ''copied_description'' Neutral (ap_screen delete_page)"

theorem flows_terminate_witness:
  "1 + work (on_provider (timer_fires (pv_toastId (sn_provider toasted))) toasted) \<le> work toasted"
proof -
  have "settle plain_browser [] toasted
      (on_provider (timer_fires (pv_toastId (sn_provider toasted))) toasted)"
    by (rule settle_timer) (simp add: toasted_def say_def pushToast_def Let_def)
  then have "(settle plain_browser [] ^^ 1) toasted
      (on_provider (timer_fires (pv_toastId (sn_provider toasted))) toasted)"
    unfolding relpowp_1 .
  from flows_terminate [OF this] show ?thesis by blast
qed

context kept_by_provider
begin

lemma kept_settle: "settle br origin sn sn' \<Longrightarrow> kept (sn_provider sn) \<Longrightarrow> kept (sn_provider sn')"
  by (induction rule: settle.induct)
    (auto simp: kept_finish_send kept_finish_ceremony
      intro: kept_background background_timer background_probe background_totp)

lemma kept_settled:
  "(settle br origin)\<^sup>*\<^sup>* sn sn' \<Longrightarrow> kept (sn_provider sn) \<Longrightarrow> kept (sn_provider sn')"
  by (induction rule: rtranclp_induct) (auto intro: kept_settle)

end

lemma settles_exists: "\<exists>n sn'. n \<le> work sn \<and> (settle br origin ^^ n) sn sn' \<and> work sn' = 0"
proof (induction "work sn" arbitrary: sn rule: less_induct)
  case less
  show ?case
  proof (cases "work sn = 0")
    case False
    then obtain sm where sm: "settle br origin sn sm" using settle_exists by blast
    with work_settle have lt: "work sm < work sn" by blast
    from less [OF this] obtain n sn' where "n \<le> work sm" "(settle br origin ^^ n) sm sn'" "work sn' = 0"
      by blast
    with sm lt show ?thesis by (intro exI [of _ "Suc n"] exI [of _ sn']) (auto simp del: relpowp.simps intro: relpowp_Suc_I2)
  qed (auto intro: exI [of _ 0])
qed


definition served :: environment where
  "served = plain_environment\<lparr>en_origin := js ''http://a''\<rparr>"


end
