(* ===== verification/JsValues.thy ===== *)
theory JsValues
  imports JsJson
begin

section \<open>Operations on JSON values\<close>

text \<open>
  The operators of the language that the components and the load tests apply to JSON values:
  the nullish and the truthy defaults, conversion to a text, and the members of a value
  (\<open>undefined\<close> is \<open>None\<close>).
\<close>

definition nullish :: "json option \<Rightarrow> bool" where
  "nullish x \<longleftrightarrow> x \<in> {None, Some JNull}"

text \<open>\<open>a ?? b\<close>.\<close>

definition coalesce :: "json option \<Rightarrow> json option \<Rightarrow> json option" where
  "coalesce a b = (if nullish a then b else a)"

text \<open>\<open>String(v)\<close>; a list writes nothing for \<open>null\<close>.\<close>

fun json_text :: "json \<Rightarrow> jstr" where
  "json_text JNull = js ''null''"
| "json_text (JBool b) = (if b then js ''true'' else js ''false'')"
| "json_text (JNum t) = t"
| "json_text (JStr s) = s"
| "json_text (JArr vs) = join_str (js '','') (map (\<lambda>v. if v = JNull then [] else json_text v) vs)"
| "json_text (JObj kvs) = js ''[object Object]''"

fun json_truthy :: "json \<Rightarrow> bool" where
  "json_truthy JNull = False"
| "json_truthy (JBool b) = b"
| "json_truthy (JNum t) = (t \<notin> {js ''0'', js ''-0'', js ''NaN''})"
| "json_truthy (JStr s) = (s \<noteq> [])"
| "json_truthy (JArr vs) = True"
| "json_truthy (JObj kvs) = True"

fun json_member :: "json \<Rightarrow> jstr \<Rightarrow> json option" where
  "json_member (JObj kvs) k = obj_get kvs k"
| "json_member (JArr vs) k = (if is_index k \<and> index_value k < length vs then Some (vs ! index_value k) else None)"
| "json_member v k = None"

text \<open>\<open>x || dflt\<close>, on texts.\<close>

definition or_else :: "jstr option \<Rightarrow> jstr \<Rightarrow> jstr" where
  "or_else x dflt = (case x of Some s \<Rightarrow> if s = [] then dflt else s | None \<Rightarrow> dflt)"

end
