(* ===== verification/UiKit.thy ===== *)
theory UiKit
  imports UiNodes JsValues
begin

section \<open>The component library: how its components are put together\<close>

text \<open>
  A component of \<open>components/ui\<close> is a function from the properties it is called with and its
  children to the tree it draws. Most of them draw one element, with attributes of their own,
  and pass the caller's properties on (\<open>{...props}\<close>). The conventions: a constant list of style
  classes is left out and the caller's \<open>className\<close> kept; a class table (\<open>cva\<close>) is kept as the
  values it is called with (the tables are in \<open>UiClasses\<close>); an element given as the property \<open>render\<close> is the child
  \<open>El ''render'' [] [element]\<close>; a number given as a property is its text; a property that is
  not given is not in the list. The parts of the primitive library are elements with their name.
\<close>

type_synonym 'a component = "'a attr list \<Rightarrow> 'a node list \<Rightarrow> 'a node"

abbreviation data_slot :: "string \<Rightarrow> 'a attr" where
  "data_slot s \<equiv> Prop ''data-slot'' (js s)"

text \<open>\<open>{ name, ...rest }\<close>: the properties with a name, and those without the names.\<close>

definition given :: "string \<Rightarrow> 'a attr list \<Rightarrow> 'a attr list" where
  "given k props = filter (\<lambda>a. attr_name a = k) props"

definition rest :: "string list \<Rightarrow> 'a attr list \<Rightarrow> 'a attr list" where
  "rest ks props = filter (\<lambda>a. attr_name a \<notin> set ks) props"

fun renamed :: "string \<Rightarrow> 'a attr \<Rightarrow> 'a attr" where
  "renamed k (Prop n s) = Prop k s"
| "renamed k (Flag n b) = Flag k b"
| "renamed k (Label n ws) = Label k ws"
| "renamed k (On n f) = On k f"

text \<open>\<open>k'={k}\<close>, without and with a default value of \<open>k\<close>.\<close>

definition passed :: "string \<Rightarrow> string \<Rightarrow> 'a attr list \<Rightarrow> 'a attr list" where
  "passed k k' props = map (renamed k') (given k props)"

definition passed_or :: "string \<Rightarrow> string \<Rightarrow> string \<Rightarrow> 'a attr list \<Rightarrow> 'a attr list" where
  "passed_or k k' dflt props = (if given k props = [] then [Prop k' (js dflt)] else passed k k' props)"

definition flag_or :: "string \<Rightarrow> string \<Rightarrow> bool \<Rightarrow> 'a attr list \<Rightarrow> 'a attr list" where
  "flag_or k k' dflt props = (if given k props = [] then [Flag k' dflt] else passed k k' props)"

definition flag_set :: "string \<Rightarrow> bool \<Rightarrow> 'a attr list \<Rightarrow> bool" where
  "flag_set k dflt props =
     (case given k props of Flag n b # _ \<Rightarrow> b | [] \<Rightarrow> dflt | _ \<Rightarrow> True)"

text \<open>
  \<open>function C({ className, ks, ...props }) { return <c own className={cn(.., className)} {...props} /> }\<close>,
  and a component that takes no property out: \<open>function C({ ...props }) { return <c own {...props} /> }\<close>.
\<close>

definition draw :: "'a component \<Rightarrow> string list \<Rightarrow> 'a attr list \<Rightarrow> 'a component" where
  "draw c ks own props = c (spread (own @ given ''className'' props) (rest (''className'' # ks) props))"

definition plain :: "'a component \<Rightarrow> 'a attr list \<Rightarrow> 'a component" where
  "plain c own props = c (spread own props)"

text \<open>\<open>useRender({ defaultTagName, props: mergeProps({ className }, props), render, state })\<close>.\<close>

definition use_render :: "string \<Rightarrow> 'a attr list \<Rightarrow> 'a attr list \<Rightarrow> 'a component" where
  "use_render tag own state props =
     El ''useRender'' (Prop ''defaultTagName'' (js tag) # state @ spread own props)"

fun is_render :: "'a node \<Rightarrow> bool" where
  "is_render (El t as cs) = (t = ''render'')"
| "is_render (Words ws) = False"

definition without_render :: "'a node list \<Rightarrow> 'a node list" where
  "without_render children = filter (\<lambda>n. \<not> is_render n) children"

text \<open>
  Children written out in place of the caller's (whose \<open>render\<close> stays), a default of \<open>render\<close>
  with the caller's children and without them, and a default of the children.
\<close>

definition replaced :: "'a node list \<Rightarrow> 'a node list \<Rightarrow> 'a node list" where
  "replaced own children = filter is_render children @ own"

definition render_or :: "'a node \<Rightarrow> 'a node list \<Rightarrow> 'a node list" where
  "render_or r children = (if list_ex is_render children then children else El ''render'' [] [r] # children)"

definition render_only :: "'a node \<Rightarrow> 'a node list \<Rightarrow> 'a node list" where
  "render_only r children =
     (if list_ex is_render children then filter is_render children else [El ''render'' [] [r]])"

definition children_or :: "'a node list \<Rightarrow> 'a node list \<Rightarrow> 'a node list" where
  "children_or dflt children = (if children = [] then dflt else children)"

text \<open>The text of a property, with and without a default, and the property as a child.\<close>

definition text_of :: "string \<Rightarrow> 'a attr list \<Rightarrow> jstr option" where
  "text_of k props = (case given k props of Prop n s # _ \<Rightarrow> Some s | _ \<Rightarrow> None)"

definition prop_text :: "string \<Rightarrow> string \<Rightarrow> 'a attr list \<Rightarrow> jstr" where
  "prop_text k dflt props = (case text_of k props of Some s \<Rightarrow> s | None \<Rightarrow> js dflt)"

definition text_or :: "string \<Rightarrow> string \<Rightarrow> 'a attr list \<Rightarrow> 'a node" where
  "text_or k dflt props =
     (case given k props of Label n ws # _ \<Rightarrow> Words ws | _ \<Rightarrow> literal (prop_text k dflt props))"

text \<open>\<open>children &&\<close>: nothing and the empty text are falsy.\<close>

definition truthy :: "'a node list \<Rightarrow> bool" where
  "truthy children \<longleftrightarrow> children \<noteq> [] \<and> children \<noteq> [literal []]"

abbreviation icon :: "string \<Rightarrow> 'a node" where
  "icon t \<equiv> El t [] []"

abbreviation sr_only :: "string \<Rightarrow> 'a node" where
  "sr_only t \<equiv> El ''span'' [Prop ''className'' (js ''sr-only'')] [literal (js t)]"

text \<open>A popup in its positioner, in a portal; the positioner takes properties with defaults.\<close>

definition defaults :: "(string \<times> string) list \<Rightarrow> 'a attr list \<Rightarrow> 'a attr list" where
  "defaults kds props = concat (map (\<lambda>(k, dflt). passed_or k k dflt props) kds)"

definition positioned :: "string \<Rightarrow> 'a attr list \<Rightarrow> 'a attr list \<Rightarrow> 'a node \<Rightarrow> 'a node" where
  "positioned primitive portal position popup =
     El (primitive @ ''.Portal'') portal [El (primitive @ ''.Positioner'') position [popup]]"

subsection \<open>What a user can do with a component\<close>

text \<open>
  The handlers a caller gives have names that begin with \<open>on\<close>. A component is \<open>transparent\<close> when
  it offers exactly what its caller's handlers and children offer, and nothing of the handlers
  when the caller disabled it; \<open>self_contained\<close> when its own children take the place of the caller's (whose \<open>render\<close> stays).
\<close>

definition is_handler :: "string \<Rightarrow> bool" where
  "is_handler n \<longleftrightarrow> take 2 n = ''on''"

fun well_named :: "'a attr \<Rightarrow> bool" where
  "well_named (On n f) = is_handler n"
| "well_named _ = True"

definition handlers_named :: "'a attr list \<Rightarrow> bool" where
  "handlers_named props \<longleftrightarrow> list_all well_named props"

definition own_actions :: "jstr \<Rightarrow> 'a attr list \<Rightarrow> 'a list" where
  "own_actions v props = (if list_ex is_disabled props then [] else concat (map (handler_action v) props))"

abbreviation offers :: "jstr \<Rightarrow> 'a node \<Rightarrow> 'a set" where
  "offers v n \<equiv> set (page_actions v n)"

definition offers_all :: "jstr \<Rightarrow> 'a node list \<Rightarrow> 'a set" where
  "offers_all v ns = (\<Union>n \<in> set ns. offers v n)"

definition transparent :: "'a component \<Rightarrow> bool" where
  "transparent c \<longleftrightarrow>
     (\<forall>v props children. handlers_named props \<longrightarrow>
        offers v (c props children) = set (own_actions v props) \<union> offers_all v children)"

definition self_contained :: "'a component \<Rightarrow> bool" where
  "self_contained c \<longleftrightarrow>
     (\<forall>v props children. handlers_named props \<longrightarrow>
        offers v (c props children) = set (own_actions v props) \<union> offers_all v (filter is_render children))"

text \<open>An attribute that offers nothing and disables nothing.\<close>

fun inert :: "'a attr \<Rightarrow> bool" where
  "inert (On n f) = (is_handler n \<and> f = Map.empty)"
| "inert (Flag n b) = (n \<noteq> ''disabled'')"
| "inert _ = True"

definition unhandled :: "string \<Rightarrow> bool" where
  "unhandled k \<longleftrightarrow> \<not> is_handler k \<and> k \<noteq> ''disabled''"

lemma attr_name_renamed [simp]: "attr_name (renamed k a) = k"
  by (cases a) simp_all

lemma inert_no_action: "inert a \<Longrightarrow> handler_action v a = [] \<and> \<not> is_disabled a \<and> well_named a"
  by (cases a) simp_all

lemma inert_renamed: "well_named a \<Longrightarrow> unhandled (attr_name a) \<Longrightarrow> k \<noteq> ''disabled'' \<Longrightarrow> inert (renamed k a)"
  by (cases a) (simp_all add: unhandled_def)

lemma inert_named: "well_named a \<Longrightarrow> unhandled (attr_name a) \<Longrightarrow> inert a"
  by (cases a) (simp_all add: unhandled_def)

lemma inert_given [simp]: "handlers_named props \<Longrightarrow> unhandled k \<Longrightarrow> list_all inert (given k props)"
  by (auto simp: handlers_named_def given_def list_all_iff intro: inert_named)

lemma inert_passed [simp]:
  assumes "handlers_named props" and "unhandled k" and "k' \<noteq> ''disabled''"
  shows "list_all inert (passed k k' props)" "list_all inert (passed_or k k' dflt props)"
    "list_all inert (flag_or k k' b props)"
  using assms by (auto simp: handlers_named_def passed_def passed_or_def flag_or_def given_def
      list_all_iff intro!: inert_renamed)

lemma handlers_named_simps [simp]:
  "handlers_named []" "handlers_named (a # props) = (well_named a \<and> handlers_named props)"
  "handlers_named (ps @ qs) = (handlers_named ps \<and> handlers_named qs)"
  by (auto simp: handlers_named_def)

lemma handlers_named_rest [simp]: "handlers_named props \<Longrightarrow> handlers_named (rest ks props)"
  by (auto simp: handlers_named_def rest_def list_all_iff)

lemma inert_handlers_named: "list_all inert own \<Longrightarrow> handlers_named own"
  by (auto simp: handlers_named_def list_all_iff inert_no_action)

lemma handlers_named_spread [simp]:
  "list_all inert own \<Longrightarrow> handlers_named props \<Longrightarrow> handlers_named (spread own props)"
  by (auto simp: handlers_named_def spread_def list_all_iff inert_no_action)

lemma handlers_named_given [simp]:
  "handlers_named props \<Longrightarrow> unhandled k \<Longrightarrow> handlers_named (given k props)"
  by (simp add: inert_handlers_named)

lemma handlers_named_passed [simp]:
  assumes "handlers_named props" and "unhandled k" and "k' \<noteq> ''disabled''"
  shows "handlers_named (passed k k' props)"
    "handlers_named (passed_or k k' dflt props)" "handlers_named (flag_or k k' b props)"
  using assms by (simp_all add: inert_handlers_named)

lemma own_actions_Nil [simp]: "own_actions v [] = []"
  by (simp add: own_actions_def)

lemma own_actions_inert: "list_all inert own \<Longrightarrow> own_actions v (own @ props) = own_actions v props"
  by (induction own) (auto simp: own_actions_def inert_no_action)

lemma own_actions_inert_only [simp]: "list_all inert own \<Longrightarrow> own_actions v own = []"
  using own_actions_inert [of own v "[]"] by simp

lemma own_actions_spread [simp]:
  "list_all inert own \<Longrightarrow> own_actions v (spread own props) = own_actions v props"
  unfolding spread_def by (rule own_actions_inert) (auto simp: list_all_iff)

lemma own_actions_rest [simp]:
  assumes "handlers_named props" and "list_all unhandled ks"
  shows "own_actions v (rest ks props) = own_actions v props"
proof -
  have skip: "handler_action v a = [] \<and> \<not> is_disabled a" if "a \<in> set props" "attr_name a \<in> set ks" for a
    using that assms inert_no_action [OF inert_named, of a v]
    by (auto simp: handlers_named_def list_all_iff)
  then have "concat (map (handler_action v) (filter (\<lambda>a. attr_name a \<notin> set ks) props))
      = concat (map (handler_action v) props)"
    by (induction props) auto
  with skip show ?thesis by (auto simp: own_actions_def rest_def list_ex_iff)
qed

lemma offers_El [simp]:
  "t \<noteq> ''Select'' \<Longrightarrow> t \<noteq> ''SelectPrimitive.Root'' \<Longrightarrow>
     offers v (El t as cs) = set (own_actions v as) \<union> offers_all v cs"
  by (auto simp: own_actions_def offers_all_def)

declare page_actions.simps(2) [simp del]

lemma offers_all_simps [simp]:
  "offers_all v [] = {}" "offers_all v (n # ns) = offers v n \<union> offers_all v ns"
  "offers_all v (ns @ ms) = offers_all v ns \<union> offers_all v ms"
  by (auto simp: offers_all_def)

lemma offers_all_shown_if [simp]: "offers v n = {} \<Longrightarrow> offers_all v (shown_if b n) = {}"
  by (simp add: shown_if_def)

lemma offers_all_map [simp]: "(\<And>x. offers v (f x) = {}) \<Longrightarrow> offers_all v (map f xs) = {}"
  by (simp add: offers_all_def)

lemma offers_all_render [simp]:
  "offers_all v (filter is_render children) \<union> offers_all v (without_render children) = offers_all v children"
  by (auto simp: offers_all_def without_render_def)

lemma offers_all_replaced [simp]:
  "offers_all v (replaced own children) = offers_all v (filter is_render children) \<union> offers_all v own"
  by (simp add: replaced_def)

lemma offers_all_defaults [simp]:
  "offers v r = {} \<Longrightarrow> offers_all v (render_or r children) = offers_all v children"
  "offers v r = {} \<Longrightarrow> offers_all v (render_only r children) = offers_all v (filter is_render children)"
  "offers_all v dflt = {} \<Longrightarrow> offers_all v (children_or dflt children) = offers_all v children"
proof -
  have "filter is_render children = []" if "\<not> list_ex is_render children"
    using that by (induction children) auto
  then show "offers v r = {} \<Longrightarrow> offers_all v (render_only r children) = offers_all v (filter is_render children)"
    by (auto simp: render_only_def)
qed (auto simp: render_or_def children_or_def)

lemma offers_not_truthy [simp]: "\<not> truthy children \<Longrightarrow> offers_all v children = {}"
  by (auto simp: truthy_def)

lemma offers_text_or [simp]: "offers v (text_or k dflt props) = {}"
  by (simp add: text_or_def split: list.split attr.split)

lemma inert_defaults [simp]:
  "handlers_named props \<Longrightarrow> list_all (\<lambda>(k, dflt). unhandled k) kds \<Longrightarrow> list_all inert (defaults kds props)"
  by (induction kds) (auto simp: defaults_def unhandled_def)

lemma offers_positioned [simp]:
  assumes "list_all inert portal" and "list_all inert position"
  shows "offers v (positioned primitive portal position popup) = offers v popup"
proof -
  have "primitive @ ''.Portal'' \<noteq> t" "primitive @ ''.Positioner'' \<noteq> t"
    if "last t = CHR ''t''" for t
    using that by auto
  from this [of "''Select''"] this [of "''SelectPrimitive.Root''"] assms show ?thesis
    by (simp add: positioned_def)
qed

lemma transparentD:
  "transparent c \<Longrightarrow> handlers_named props \<Longrightarrow>
     offers v (c props children) = set (own_actions v props) \<union> offers_all v children"
  by (simp add: transparent_def)

lemma self_containedD:
  "self_contained c \<Longrightarrow> handlers_named props \<Longrightarrow>
     offers v (c props children) = set (own_actions v props) \<union> offers_all v (filter is_render children)"
  by (simp add: self_contained_def)

lemma transparentI:
  "(\<And>v props children. handlers_named props \<Longrightarrow>
      offers v (c props children) = set (own_actions v props) \<union> offers_all v children) \<Longrightarrow> transparent c"
  by (simp add: transparent_def)

lemma self_containedI:
  "(\<And>v props children. handlers_named props \<Longrightarrow>
      offers v (c props children) = set (own_actions v props) \<union> offers_all v (filter is_render children))
     \<Longrightarrow> self_contained c"
  by (simp add: self_contained_def)

lemma transparent_El [simp]: "t \<noteq> ''Select'' \<Longrightarrow> t \<noteq> ''SelectPrimitive.Root'' \<Longrightarrow> transparent (El t)"
  by (simp add: transparent_def)

lemmas kit_simps = unhandled_def is_handler_def Let_def

lemma unhandled_className [simp]: "unhandled ''className''"
  by (simp add: unhandled_def is_handler_def)

lemma own_actions_draw:
  assumes "handlers_named props" and "list_all inert own" and "list_all unhandled ks"
  shows "handlers_named (spread (own @ given ''className'' props) (rest (''className'' # ks) props))"
    and "own_actions v (spread (own @ given ''className'' props) (rest (''className'' # ks) props))
      = own_actions v props"
  using assms by simp_all

lemma offers_draw [simp]:
  "transparent c \<Longrightarrow> handlers_named props \<Longrightarrow> list_all inert own \<Longrightarrow> list_all unhandled ks \<Longrightarrow>
     offers v (draw c ks own props children) = set (own_actions v props) \<union> offers_all v children"
  "self_contained c \<Longrightarrow> handlers_named props \<Longrightarrow> list_all inert own \<Longrightarrow> list_all unhandled ks \<Longrightarrow>
     offers v (draw c ks own props children)
       = set (own_actions v props) \<union> offers_all v (filter is_render children)"
  unfolding draw_def by (simp_all add: transparentD self_containedD own_actions_draw)

lemma offers_plain [simp]:
  "transparent c \<Longrightarrow> handlers_named props \<Longrightarrow> list_all inert own \<Longrightarrow>
     offers v (plain c own props children) = set (own_actions v props) \<union> offers_all v children"
  unfolding plain_def by (simp add: transparentD)

lemma transparent_draw [simp]:
  "transparent c \<Longrightarrow> (\<And>props. handlers_named props \<Longrightarrow> list_all inert (own props)) \<Longrightarrow>
     list_all unhandled ks \<Longrightarrow> transparent (\<lambda>props. draw c ks (own props) props)"
  "transparent c \<Longrightarrow> list_all inert own' \<Longrightarrow> list_all unhandled ks \<Longrightarrow> transparent (draw c ks own')"
  by (simp_all add: transparent_def [of "\<lambda>props. draw c ks (own props) props"]
      transparent_def [of "draw c ks own'"])

lemma transparent_plain [simp]: "transparent c \<Longrightarrow> list_all inert own \<Longrightarrow> transparent (plain c own)"
  by (simp add: transparent_def [of "plain c own"])

lemma offers_use_render [simp]:
  assumes "list_all inert own" and "list_all inert state"
  shows "offers v (use_render tag own state props children)
    = set (own_actions v props) \<union> offers_all v children"
  using own_actions_inert [of "Prop ''defaultTagName'' (js tag) # state" v "spread own props"] assms
  by (simp add: use_render_def)

subsection \<open>Contexts\<close>

text \<open>
  \<open>createContext(null)\<close>: a component sees the value of the nearest provider around it, or nothing.
  \<open>contexts p v c t n\<close> is what the elements named \<open>t\<close> of a tree see, in order, if the tree is drawn
  where \<open>c\<close> is seen and the element named \<open>p\<close> provides \<open>v\<close>.
\<close>

fun contexts :: "string \<Rightarrow> 'c \<Rightarrow> 'c option \<Rightarrow> string \<Rightarrow> 'a node \<Rightarrow> 'c option list" where
  "contexts p v c t (Words ws) = []"
| "contexts p v c t (El t' as cs) =
     (if t' = t then [c] else [])
     @ concat (map (contexts p v (if t' = p then Some v else c) t) cs)"

text \<open>Inside a provider every component sees the value.\<close>

lemma contexts_provided: "set (contexts p v (Some v) t n) \<subseteq> {Some v}"
  by (induction n) auto

end
