(* ===== verification/UiClasses.thy ===== *)
theory UiClasses
  imports UiKit
begin

section \<open>The class tables of the components\<close>

text \<open>
  A component with several looks has a table of style classes (\<open>cva\<close>): the classes it always has,
  and for each of its properties the classes of each value, with a default value. The tables are
  those of \<open>components/ui\<close>, word for word; choosing from them is the library's. A component keeps
  a chosen value as an attribute named after the table and the property (its slot). An attribute is
  \<open>declared\<close> when the value in a slot has an entry in the table, so that a component is never
  drawn with a look that does not exist.
\<close>

record class_table =
  base_classes :: string
  variants :: "(string \<times> (string \<times> string) list) list"
  defaultVariants :: "(string \<times> string) list"

definition buttonVariants :: class_table where
  "buttonVariants =
     \<lparr>base_classes = ''group/button inline-flex shrink-0 items-center justify-center rounded-none border border-transparent bg-clip-padding text-xs font-semibold tracking-widest whitespace-nowrap uppercase transition-all outline-none select-none focus-visible:border-ring focus-visible:ring-2 focus-visible:ring-ring/30 active:not-aria-[haspopup]:translate-y-px disabled:pointer-events-none disabled:opacity-50 aria-invalid:border-destructive aria-invalid:ring-2 aria-invalid:ring-destructive/20 dark:aria-invalid:border-destructive/50 dark:aria-invalid:ring-destructive/40 [&_svg]:pointer-events-none [&_svg]:shrink-0 [&_svg:not([class*='size-'])]:size-3.5'',
      variants =
        [(''variant'',
           [(''default'', ''bg-primary text-primary-foreground hover:bg-primary/80''),
            (''outline'', ''border-border bg-transparent hover:bg-muted hover:text-foreground aria-expanded:bg-muted aria-expanded:text-foreground dark:hover:bg-input/30''),
            (''secondary'', ''bg-secondary text-secondary-foreground hover:bg-[color-mix(in_oklch,var(--secondary),var(--foreground)_5%)] aria-expanded:bg-secondary aria-expanded:text-secondary-foreground''),
            (''ghost'', ''hover:bg-muted hover:text-foreground aria-expanded:bg-muted aria-expanded:text-foreground dark:hover:bg-muted/50''),
            (''destructive'', ''bg-destructive/10 text-destructive hover:bg-destructive/20 focus-visible:border-destructive/40 focus-visible:ring-destructive/20 dark:bg-destructive/20 dark:hover:bg-destructive/30 dark:focus-visible:ring-destructive/40''),
            (''link'', ''text-primary underline underline-offset-4 hover:underline'')]),
         (''size'',
           [(''default'', ''h-10 gap-1.5 px-6 has-data-[icon=inline-end]:pr-4 has-data-[icon=inline-start]:pl-4''),
            (''xs'', ''h-7 gap-1 px-3 has-data-[icon=inline-end]:pr-2 has-data-[icon=inline-start]:pl-2 [&_svg:not([class*='size-'])]:size-3''),
            (''sm'', ''h-9 gap-1 px-4 has-data-[icon=inline-end]:pr-3 has-data-[icon=inline-start]:pl-3''),
            (''lg'', ''h-11 gap-1.5 px-8 has-data-[icon=inline-end]:pr-5 has-data-[icon=inline-start]:pl-5''),
            (''icon'', ''size-10''),
            (''icon-xs'', ''size-7 [&_svg:not([class*='size-'])]:size-3''),
            (''icon-sm'', ''size-9''),
            (''icon-lg'', ''size-11'')])],
      defaultVariants = [(''variant'', ''default''), (''size'', ''default'')]\<rparr>"

definition badgeVariants :: class_table where
  "badgeVariants =
     \<lparr>base_classes = ''group/badge inline-flex w-fit shrink-0 items-center justify-center gap-1.5 overflow-hidden rounded-none border-0 bg-transparent px-0 py-0 text-[0.625rem] font-semibold tracking-widest whitespace-nowrap uppercase transition-colors focus-visible:border-ring focus-visible:ring-[3px] focus-visible:ring-ring/50 has-data-[icon=inline-end]:pr-0 has-data-[icon=inline-start]:pl-0 aria-invalid:border-destructive aria-invalid:ring-destructive/20 dark:aria-invalid:ring-destructive/40 [&>svg]:pointer-events-none [&>svg]:size-3!'',
      variants =
        [(''variant'',
           [(''default'', ''text-foreground [a]:hover:text-foreground/70''),
            (''secondary'', ''text-muted-foreground [a]:hover:text-foreground''),
            (''destructive'', ''text-destructive focus-visible:ring-destructive/20 dark:focus-visible:ring-destructive/40 [a]:hover:text-destructive/70''),
            (''outline'', ''text-foreground [a]:hover:text-foreground/70''),
            (''ghost'', ''text-muted-foreground hover:text-foreground''),
            (''link'', ''text-foreground underline-offset-4 hover:underline'')])],
      defaultVariants = [(''variant'', ''default'')]\<rparr>"

definition toggleVariants :: class_table where
  "toggleVariants =
     \<lparr>base_classes = ''group/toggle inline-flex items-center justify-center gap-1.5 rounded-none text-xs font-semibold tracking-widest whitespace-nowrap uppercase transition-colors outline-none hover:bg-muted hover:text-foreground focus-visible:border-ring focus-visible:ring-[3px] focus-visible:ring-ring/30 disabled:pointer-events-none disabled:opacity-50 aria-invalid:border-destructive aria-invalid:ring-destructive/20 aria-pressed:bg-muted dark:aria-invalid:ring-destructive/40 [&_svg]:pointer-events-none [&_svg]:shrink-0 [&_svg:not([class*='size-'])]:size-3.5'',
      variants =
        [(''variant'',
           [(''default'', ''bg-transparent''),
            (''outline'', ''border border-input bg-transparent hover:bg-muted'')]),
         (''size'',
           [(''default'', ''h-10 min-w-10 px-6 has-data-[icon=inline-end]:pr-4 has-data-[icon=inline-start]:pl-4''),
            (''sm'', ''h-9 min-w-9 px-4 has-data-[icon=inline-end]:pr-3 has-data-[icon=inline-start]:pl-3''),
            (''lg'', ''h-11 min-w-11 px-8 has-data-[icon=inline-end]:pr-5 has-data-[icon=inline-start]:pl-5'')])],
      defaultVariants = [(''variant'', ''default''), (''size'', ''default'')]\<rparr>"

definition tabsListVariants :: class_table where
  "tabsListVariants =
     \<lparr>base_classes = ''group/tabs-list inline-flex w-fit items-center justify-center p-1 text-muted-foreground group-data-horizontal/tabs:h-10 group-data-vertical/tabs:h-fit group-data-vertical/tabs:flex-col'',
      variants =
        [(''variant'',
           [(''default'', ''bg-muted''),
            (''line'', ''gap-1 bg-transparent'')])],
      defaultVariants = [(''variant'', ''default'')]\<rparr>"

definition inputGroupAddonVariants :: class_table where
  "inputGroupAddonVariants =
     \<lparr>base_classes = ''flex h-auto cursor-text items-center justify-center gap-2 py-2 text-sm font-medium text-muted-foreground select-none group-data-[disabled=true]/input-group:opacity-50 **:data-[slot=kbd]:rounded-none **:data-[slot=kbd]:bg-muted-foreground/10 **:data-[slot=kbd]:px-1.5 [&>svg:not([class*='size-'])]:size-3.5'',
      variants =
        [(''align'',
           [(''inline-start'', ''order-first''),
            (''inline-end'', ''order-last''),
            (''block-start'', ''order-first w-full justify-start pt-3 group-has-[>input]/input-group:pt-3.5 [.border-b]:pb-3.5''),
            (''block-end'', ''order-last w-full justify-start pb-3 group-has-[>input]/input-group:pb-3.5 [.border-t]:pt-3.5'')])],
      defaultVariants = [(''align'', ''inline-start'')]\<rparr>"

definition inputGroupButtonVariants :: class_table where
  "inputGroupButtonVariants =
     \<lparr>base_classes = ''flex items-center gap-2 rounded-none text-sm shadow-none'',
      variants =
        [(''size'',
           [(''xs'', ''h-6 gap-1 rounded-none px-1.5 text-xs [&>svg:not([class*='size-'])]:size-3.5''),
            (''sm'', ''''),
            (''icon-xs'', ''size-6 p-0 text-xs has-[>svg]:p-0''),
            (''icon-sm'', ''size-8 p-0 has-[>svg]:p-0'')])],
      defaultVariants = [(''size'', ''xs'')]\<rparr>"

definition alertVariants :: class_table where
  "alertVariants =
     \<lparr>base_classes = ''group/alert relative grid w-full gap-1 border bg-background px-4 py-3 text-left text-sm after:absolute after:-inset-y-px after:-left-px after:w-0.5 has-data-[slot=alert-action]:relative has-data-[slot=alert-action]:pr-18 has-[>svg]:grid-cols-[auto_1fr] has-[>svg]:gap-x-2.5 *:[svg]:row-span-2 *:[svg]:translate-y-0.5 *:[svg]:text-current *:[svg:not([class*='size-'])]:size-4'',
      variants =
        [(''variant'',
           [(''default'', ''bg-card text-card-foreground after:bg-foreground''),
            (''destructive'', ''bg-card text-destructive after:bg-destructive *:data-[slot=alert-description]:text-destructive/90 *:[svg]:text-current'')])],
      defaultVariants = [(''variant'', ''default'')]\<rparr>"

definition attachmentVariants :: class_table where
  "attachmentVariants =
     \<lparr>base_classes = ''group/attachment relative flex w-fit max-w-full min-w-0 shrink-0 flex-wrap rounded-none border bg-card text-card-foreground transition-colors focus-within:ring-1 focus-within:ring-ring/30 has-[>a,>button]:hover:bg-muted/50 data-[state=error]:border-destructive/30 data-[state=idle]:border-dashed'',
      variants =
        [(''size'',
           [(''default'', ''gap-2 text-sm has-data-[slot=attachment-content]:px-3 has-data-[slot=attachment-content]:py-2.5 has-data-[slot=attachment-media]:p-2.5''),
            (''sm'', ''gap-2.5 text-xs has-data-[slot=attachment-content]:px-2.5 has-data-[slot=attachment-content]:py-2 has-data-[slot=attachment-media]:p-2''),
            (''xs'', ''gap-1.5 rounded-none text-xs has-data-[slot=attachment-content]:px-2 has-data-[slot=attachment-content]:py-1.5 has-data-[slot=attachment-media]:p-1.5'')]),
         (''orientation'',
           [(''horizontal'', ''min-w-40 items-center''),
            (''vertical'', ''w-24 flex-col has-data-[slot=attachment-content]:w-30'')])],
      defaultVariants = []\<rparr>"

definition attachmentMediaVariants :: class_table where
  "attachmentMediaVariants =
     \<lparr>base_classes = ''relative flex aspect-square w-10 shrink-0 items-center justify-center overflow-hidden rounded-none bg-muted text-foreground group-data-[orientation=vertical]/attachment:w-full group-data-[size=sm]/attachment:w-8 group-data-[size=xs]/attachment:w-7 group-data-[size=xs]/attachment:rounded-none group-data-[state=error]/attachment:bg-destructive/10 group-data-[state=error]/attachment:text-destructive group-data-[orientation=vertical]/attachment:*:data-[slot=spinner]:size-6! [&_svg]:pointer-events-none [&_svg:not([class*='size-'])]:size-4 group-data-[orientation=vertical]/attachment:[&_svg:not([class*='size-'])]:size-6 group-data-[size=xs]/attachment:[&_svg:not([class*='size-'])]:size-3.5'',
      variants =
        [(''variant'',
           [(''icon'', ''''),
            (''image'', ''opacity-60 group-data-[state=done]/attachment:opacity-100 group-data-[state=idle]/attachment:opacity-100 *:[img]:aspect-square *:[img]:w-full *:[img]:object-cover'')])],
      defaultVariants = [(''variant'', ''icon'')]\<rparr>"

definition buttonGroupVariants :: class_table where
  "buttonGroupVariants =
     \<lparr>base_classes = ''flex w-fit items-stretch *:focus-visible:relative *:focus-visible:z-10 has-[>[data-slot=button-group]]:gap-2 *:data-[slot=input]:px-4 has-[>[data-variant=outline]]:*:data-[slot=input-group]:border-border has-[>[data-variant=outline]]:*:data-[slot=input-group]:px-2.5 has-[>[data-variant=outline]]:*:data-[slot=select-trigger]:border-border has-[>[data-variant=outline]]:*:[[role=combobox]]:px-2.5 has-[>[data-variant=outline]]:[&>[data-slot=input-group]:has(:focus-visible)]:border-ring has-[>[data-variant=outline]]:[&>[data-slot=select-trigger]:focus-visible]:border-ring has-[select[aria-hidden=true]:last-child]:[&>[data-slot=select-trigger]:last-of-type]:rounded-none [&>[data-slot=select-trigger]:not([class*='w-'])]:w-fit [&>input]:flex-1 has-[>[data-variant=outline]]:[&>input]:border-border has-[>[data-variant=outline]]:[&>input:focus-visible]:border-ring'',
      variants =
        [(''orientation'',
           [(''horizontal'', ''*:data-slot:rounded-r-none [&>[data-slot]:not(:has(~[data-slot]))]:rounded-none! [&>[data-slot]~[data-slot]]:rounded-l-none [&>[data-slot]~[data-slot]]:border-l-0''),
            (''vertical'', ''flex-col *:data-slot:rounded-b-none [&>[data-slot]:not(:has(~[data-slot]))]:rounded-none! [&>[data-slot]~[data-slot]]:rounded-t-none [&>[data-slot]~[data-slot]]:border-t-0'')])],
      defaultVariants = [(''orientation'', ''horizontal'')]\<rparr>"

definition emptyMediaVariants :: class_table where
  "emptyMediaVariants =
     \<lparr>base_classes = ''mb-2 flex shrink-0 items-center justify-center [&_svg]:pointer-events-none [&_svg]:shrink-0'',
      variants =
        [(''variant'',
           [(''default'', ''bg-transparent''),
            (''icon'', ''flex size-10 shrink-0 items-center justify-center rounded-none bg-muted text-foreground [&_svg:not([class*='size-'])]:size-5'')])],
      defaultVariants = [(''variant'', ''default'')]\<rparr>"

definition fieldVariants :: class_table where
  "fieldVariants =
     \<lparr>base_classes = ''group/field flex w-full gap-3 data-[invalid=true]:text-destructive'',
      variants =
        [(''orientation'',
           [(''vertical'', ''flex-col *:w-full [&>.sr-only]:w-auto''),
            (''horizontal'', ''flex-row items-center has-[>[data-slot=field-content]]:items-start *:data-[slot=field-label]:flex-auto has-[>[data-slot=field-content]]:[&>[role=checkbox],[role=radio]]:mt-px''),
            (''responsive'', ''flex-col *:w-full @md/field-group:flex-row @md/field-group:items-center @md/field-group:*:w-auto @md/field-group:has-[>[data-slot=field-content]]:items-start @md/field-group:*:data-[slot=field-label]:flex-auto [&>.sr-only]:w-auto @md/field-group:has-[>[data-slot=field-content]]:[&>[role=checkbox],[role=radio]]:mt-px'')])],
      defaultVariants = [(''orientation'', ''vertical'')]\<rparr>"

definition itemVariants :: class_table where
  "itemVariants =
     \<lparr>base_classes = ''group/item flex w-full flex-wrap items-center rounded-none border text-sm transition-colors duration-100 outline-none focus-visible:border-ring focus-visible:ring-[3px] focus-visible:ring-ring/50 [a]:transition-colors [a]:hover:bg-muted'',
      variants =
        [(''variant'',
           [(''default'', ''border-transparent''),
            (''outline'', ''border-border''),
            (''muted'', ''border-transparent bg-muted/50'')]),
         (''size'',
           [(''default'', ''gap-3.5 px-4 py-3.5''),
            (''sm'', ''gap-3.5 px-3.5 py-3''),
            (''xs'', ''gap-2.5 px-3 py-2.5 in-data-[slot=dropdown-menu-content]:p-0'')])],
      defaultVariants = [(''variant'', ''default''), (''size'', ''default'')]\<rparr>"

definition itemMediaVariants :: class_table where
  "itemMediaVariants =
     \<lparr>base_classes = ''flex shrink-0 items-center justify-center gap-2 group-has-data-[slot=item-description]/item:translate-y-0.5 group-has-data-[slot=item-description]/item:self-start [&_svg]:pointer-events-none'',
      variants =
        [(''variant'',
           [(''default'', ''bg-transparent''),
            (''icon'', ''[&_svg:not([class*='size-'])]:size-4''),
            (''image'', ''size-10 overflow-hidden rounded-none group-data-[size=sm]/item:size-8 group-data-[size=xs]/item:size-6 group-data-[size=xs]/item:rounded-none [&_img]:size-full [&_img]:object-cover'')])],
      defaultVariants = [(''variant'', ''default'')]\<rparr>"

definition markerVariants :: class_table where
  "markerVariants =
     \<lparr>base_classes = ''group/marker relative flex min-h-4 w-full items-center gap-2 text-left text-xs tracking-wide text-muted-foreground uppercase [&_svg:not([class*='size-'])]:size-4 [a]:underline [a]:underline-offset-3 [a]:hover:text-foreground'',
      variants =
        [(''variant'',
           [(''default'', ''''),
            (''separator'', ''before:mr-1 before:h-px before:min-w-0 before:flex-1 before:bg-border after:ml-1 after:h-px after:min-w-0 after:flex-1 after:bg-border''),
            (''border'', ''border-b border-border pb-2'')])],
      defaultVariants = []\<rparr>"

definition sidebarMenuButtonVariants :: class_table where
  "sidebarMenuButtonVariants =
     \<lparr>base_classes = ''peer/menu-button group/menu-button flex w-full items-center gap-2 overflow-hidden rounded-none px-3 py-2 text-left text-sm ring-sidebar-ring outline-hidden transition-[width,height,padding] group-has-data-[sidebar=menu-action]/menu-item:pr-8 group-data-[collapsible=icon]:size-8! group-data-[collapsible=icon]:p-2! hover:bg-sidebar-accent hover:text-sidebar-accent-foreground focus-visible:ring-2 active:bg-sidebar-accent active:text-sidebar-accent-foreground disabled:pointer-events-none disabled:opacity-50 aria-disabled:pointer-events-none aria-disabled:opacity-50 data-open:hover:bg-sidebar-accent data-open:hover:text-sidebar-accent-foreground data-active:bg-sidebar-accent data-active:font-medium data-active:text-sidebar-accent-foreground [&_svg]:size-4 [&_svg]:shrink-0 [&>span:last-child]:truncate'',
      variants =
        [(''variant'',
           [(''default'', ''hover:bg-sidebar-accent hover:text-sidebar-accent-foreground''),
            (''outline'', ''bg-background shadow-[0_0_0_1px_var(--sidebar-border)] hover:bg-sidebar-accent hover:text-sidebar-accent-foreground hover:shadow-[0_0_0_1px_var(--sidebar-accent)]'')]),
         (''size'',
           [(''default'', ''h-9 text-sm''),
            (''sm'', ''h-8 text-xs''),
            (''lg'', ''h-14 px-3 text-sm group-data-[collapsible=icon]:p-0!'')])],
      defaultVariants = [(''variant'', ''default''), (''size'', ''default'')]\<rparr>"

subsection \<open>Slots\<close>

definition class_tables :: "(string \<times> class_table) list" where
  "class_tables =
     [(''buttonVariants'', buttonVariants),
      (''badgeVariants'', badgeVariants),
      (''toggleVariants'', toggleVariants),
      (''tabsListVariants'', tabsListVariants),
      (''inputGroupAddonVariants'', inputGroupAddonVariants),
      (''inputGroupButtonVariants'', inputGroupButtonVariants),
      (''alertVariants'', alertVariants),
      (''attachmentVariants'', attachmentVariants),
      (''attachmentMediaVariants'', attachmentMediaVariants),
      (''buttonGroupVariants'', buttonGroupVariants),
      (''emptyMediaVariants'', emptyMediaVariants),
      (''fieldVariants'', fieldVariants),
      (''itemVariants'', itemVariants),
      (''itemMediaVariants'', itemMediaVariants),
      (''markerVariants'', markerVariants),
      (''sidebarMenuButtonVariants'', sidebarMenuButtonVariants)]"

text \<open>A table's properties with their values.\<close>

definition option_names :: "class_table \<Rightarrow> (string \<times> string list) list" where
  "option_names t = map (\<lambda>(g, options). (g, map fst options)) (variants t)"

lemma buttonVariants_names [simp]:
  "option_names buttonVariants = [(''variant'', [''default'', ''outline'', ''secondary'', ''ghost'', ''destructive'', ''link'']), (''size'', [''default'', ''xs'', ''sm'', ''lg'', ''icon'', ''icon-xs'', ''icon-sm'', ''icon-lg''])]"
  "defaultVariants buttonVariants = [(''variant'', ''default''), (''size'', ''default'')]"
  by (simp_all only: option_names_def buttonVariants_def class_table.simps list.map fst_conv prod.case)

lemma badgeVariants_names [simp]:
  "option_names badgeVariants = [(''variant'', [''default'', ''secondary'', ''destructive'', ''outline'', ''ghost'', ''link''])]"
  "defaultVariants badgeVariants = [(''variant'', ''default'')]"
  by (simp_all only: option_names_def badgeVariants_def class_table.simps list.map fst_conv prod.case)

lemma toggleVariants_names [simp]:
  "option_names toggleVariants = [(''variant'', [''default'', ''outline'']), (''size'', [''default'', ''sm'', ''lg''])]"
  "defaultVariants toggleVariants = [(''variant'', ''default''), (''size'', ''default'')]"
  by (simp_all only: option_names_def toggleVariants_def class_table.simps list.map fst_conv prod.case)

lemma tabsListVariants_names [simp]:
  "option_names tabsListVariants = [(''variant'', [''default'', ''line''])]"
  "defaultVariants tabsListVariants = [(''variant'', ''default'')]"
  by (simp_all only: option_names_def tabsListVariants_def class_table.simps list.map fst_conv prod.case)

lemma inputGroupAddonVariants_names [simp]:
  "option_names inputGroupAddonVariants = [(''align'', [''inline-start'', ''inline-end'', ''block-start'', ''block-end''])]"
  "defaultVariants inputGroupAddonVariants = [(''align'', ''inline-start'')]"
  by (simp_all only: option_names_def inputGroupAddonVariants_def class_table.simps list.map fst_conv prod.case)

lemma inputGroupButtonVariants_names [simp]:
  "option_names inputGroupButtonVariants = [(''size'', [''xs'', ''sm'', ''icon-xs'', ''icon-sm''])]"
  "defaultVariants inputGroupButtonVariants = [(''size'', ''xs'')]"
  by (simp_all only: option_names_def inputGroupButtonVariants_def class_table.simps list.map fst_conv prod.case)

lemma alertVariants_names [simp]:
  "option_names alertVariants = [(''variant'', [''default'', ''destructive''])]"
  "defaultVariants alertVariants = [(''variant'', ''default'')]"
  by (simp_all only: option_names_def alertVariants_def class_table.simps list.map fst_conv prod.case)

lemma attachmentVariants_names [simp]:
  "option_names attachmentVariants = [(''size'', [''default'', ''sm'', ''xs'']), (''orientation'', [''horizontal'', ''vertical''])]"
  "defaultVariants attachmentVariants = []"
  by (simp_all only: option_names_def attachmentVariants_def class_table.simps list.map fst_conv prod.case)

lemma attachmentMediaVariants_names [simp]:
  "option_names attachmentMediaVariants = [(''variant'', [''icon'', ''image''])]"
  "defaultVariants attachmentMediaVariants = [(''variant'', ''icon'')]"
  by (simp_all only: option_names_def attachmentMediaVariants_def class_table.simps list.map fst_conv prod.case)

lemma buttonGroupVariants_names [simp]:
  "option_names buttonGroupVariants = [(''orientation'', [''horizontal'', ''vertical''])]"
  "defaultVariants buttonGroupVariants = [(''orientation'', ''horizontal'')]"
  by (simp_all only: option_names_def buttonGroupVariants_def class_table.simps list.map fst_conv prod.case)

lemma emptyMediaVariants_names [simp]:
  "option_names emptyMediaVariants = [(''variant'', [''default'', ''icon''])]"
  "defaultVariants emptyMediaVariants = [(''variant'', ''default'')]"
  by (simp_all only: option_names_def emptyMediaVariants_def class_table.simps list.map fst_conv prod.case)

lemma fieldVariants_names [simp]:
  "option_names fieldVariants = [(''orientation'', [''vertical'', ''horizontal'', ''responsive''])]"
  "defaultVariants fieldVariants = [(''orientation'', ''vertical'')]"
  by (simp_all only: option_names_def fieldVariants_def class_table.simps list.map fst_conv prod.case)

lemma itemVariants_names [simp]:
  "option_names itemVariants = [(''variant'', [''default'', ''outline'', ''muted'']), (''size'', [''default'', ''sm'', ''xs''])]"
  "defaultVariants itemVariants = [(''variant'', ''default''), (''size'', ''default'')]"
  by (simp_all only: option_names_def itemVariants_def class_table.simps list.map fst_conv prod.case)

lemma itemMediaVariants_names [simp]:
  "option_names itemMediaVariants = [(''variant'', [''default'', ''icon'', ''image''])]"
  "defaultVariants itemMediaVariants = [(''variant'', ''default'')]"
  by (simp_all only: option_names_def itemMediaVariants_def class_table.simps list.map fst_conv prod.case)

lemma markerVariants_names [simp]:
  "option_names markerVariants = [(''variant'', [''default'', ''separator'', ''border''])]"
  "defaultVariants markerVariants = []"
  by (simp_all only: option_names_def markerVariants_def class_table.simps list.map fst_conv prod.case)

lemma sidebarMenuButtonVariants_names [simp]:
  "option_names sidebarMenuButtonVariants = [(''variant'', [''default'', ''outline'']), (''size'', [''default'', ''sm'', ''lg''])]"
  "defaultVariants sidebarMenuButtonVariants = [(''variant'', ''default''), (''size'', ''default'')]"
  by (simp_all only: option_names_def sidebarMenuButtonVariants_def class_table.simps list.map fst_conv prod.case)


text \<open>The values a slot takes.\<close>

definition slots :: "(string \<times> string list) list" where
  "slots =
     concat (map (\<lambda>(n, t). map (\<lambda>(g, vs). (n @ ''.'' @ g, vs)) (option_names t)) class_tables)"

lemma slots_simps:
  "slots =
     [(''buttonVariants.variant'', [''default'', ''outline'', ''secondary'', ''ghost'', ''destructive'', ''link'']),
      (''buttonVariants.size'', [''default'', ''xs'', ''sm'', ''lg'', ''icon'', ''icon-xs'', ''icon-sm'', ''icon-lg'']),
      (''badgeVariants.variant'', [''default'', ''secondary'', ''destructive'', ''outline'', ''ghost'', ''link'']),
      (''toggleVariants.variant'', [''default'', ''outline'']),
      (''toggleVariants.size'', [''default'', ''sm'', ''lg'']),
      (''tabsListVariants.variant'', [''default'', ''line'']),
      (''inputGroupAddonVariants.align'', [''inline-start'', ''inline-end'', ''block-start'', ''block-end'']),
      (''inputGroupButtonVariants.size'', [''xs'', ''sm'', ''icon-xs'', ''icon-sm'']),
      (''alertVariants.variant'', [''default'', ''destructive'']),
      (''attachmentVariants.size'', [''default'', ''sm'', ''xs'']),
      (''attachmentVariants.orientation'', [''horizontal'', ''vertical'']),
      (''attachmentMediaVariants.variant'', [''icon'', ''image'']),
      (''buttonGroupVariants.orientation'', [''horizontal'', ''vertical'']),
      (''emptyMediaVariants.variant'', [''default'', ''icon'']),
      (''fieldVariants.orientation'', [''vertical'', ''horizontal'', ''responsive'']),
      (''itemVariants.variant'', [''default'', ''outline'', ''muted'']),
      (''itemVariants.size'', [''default'', ''sm'', ''xs'']),
      (''itemMediaVariants.variant'', [''default'', ''icon'', ''image'']),
      (''markerVariants.variant'', [''default'', ''separator'', ''border'']),
      (''sidebarMenuButtonVariants.variant'', [''default'', ''outline'']),
      (''sidebarMenuButtonVariants.size'', [''default'', ''sm'', ''lg''])]"
  by (simp add: slots_def class_tables_def)

text \<open>A table names its properties and their values once, and its defaults are values it has.\<close>

definition well_formed_table :: "class_table \<Rightarrow> bool" where
  "well_formed_table t \<longleftrightarrow>
     distinct (map fst (option_names t)) \<and> list_all (\<lambda>(g, vs). vs \<noteq> [] \<and> distinct vs) (option_names t)
     \<and> list_all (\<lambda>(g, dflt). list_ex (\<lambda>(g', vs). g' = g \<and> dflt \<in> set vs) (option_names t)) (defaultVariants t)"

lemma tables_well_formed: "list_all (\<lambda>(n, t). well_formed_table t) class_tables"
  by (simp add: class_tables_def well_formed_table_def)

lemma slots_distinct: "distinct (map fst slots)"
  by (simp add: slots_simps)

subsection \<open>Declared values\<close>

fun declared_attr :: "'a attr \<Rightarrow> bool" where
  "declared_attr (Prop n s) = (case map_of slots n of Some vs \<Rightarrow> s \<in> set (map js vs) | None \<Rightarrow> True)"
| "declared_attr (Flag n b) = (map_of slots n = None)"
| "declared_attr (Label n ws) = (map_of slots n = None)"
| "declared_attr (On n f) = (map_of slots n = None)"

fun declared :: "'a node \<Rightarrow> bool" where
  "declared (Words ws) = True"
| "declared (El t as cs) = (list_all declared_attr as \<and> list_all declared cs)"

lemma slot_values [simp]:
  "map_of slots ''buttonVariants.variant'' = Some [''default'', ''outline'', ''secondary'', ''ghost'', ''destructive'', ''link'']"
  "map_of slots ''buttonVariants.size'' = Some [''default'', ''xs'', ''sm'', ''lg'', ''icon'', ''icon-xs'', ''icon-sm'', ''icon-lg'']"
  "map_of slots ''badgeVariants.variant'' = Some [''default'', ''secondary'', ''destructive'', ''outline'', ''ghost'', ''link'']"
  "map_of slots ''toggleVariants.variant'' = Some [''default'', ''outline'']"
  "map_of slots ''toggleVariants.size'' = Some [''default'', ''sm'', ''lg'']"
  "map_of slots ''tabsListVariants.variant'' = Some [''default'', ''line'']"
  "map_of slots ''inputGroupAddonVariants.align'' = Some [''inline-start'', ''inline-end'', ''block-start'', ''block-end'']"
  "map_of slots ''inputGroupButtonVariants.size'' = Some [''xs'', ''sm'', ''icon-xs'', ''icon-sm'']"
  "map_of slots ''alertVariants.variant'' = Some [''default'', ''destructive'']"
  "map_of slots ''attachmentVariants.size'' = Some [''default'', ''sm'', ''xs'']"
  "map_of slots ''attachmentVariants.orientation'' = Some [''horizontal'', ''vertical'']"
  "map_of slots ''attachmentMediaVariants.variant'' = Some [''icon'', ''image'']"
  "map_of slots ''buttonGroupVariants.orientation'' = Some [''horizontal'', ''vertical'']"
  "map_of slots ''emptyMediaVariants.variant'' = Some [''default'', ''icon'']"
  "map_of slots ''fieldVariants.orientation'' = Some [''vertical'', ''horizontal'', ''responsive'']"
  "map_of slots ''itemVariants.variant'' = Some [''default'', ''outline'', ''muted'']"
  "map_of slots ''itemVariants.size'' = Some [''default'', ''sm'', ''xs'']"
  "map_of slots ''itemMediaVariants.variant'' = Some [''default'', ''icon'', ''image'']"
  "map_of slots ''markerVariants.variant'' = Some [''default'', ''separator'', ''border'']"
  "map_of slots ''sidebarMenuButtonVariants.variant'' = Some [''default'', ''outline'']"
  "map_of slots ''sidebarMenuButtonVariants.size'' = Some [''default'', ''sm'', ''lg'']"
  by (simp_all add: slots_simps)

text \<open>No name with a dot is a property's: the slots' names are not used for anything else.\<close>

definition no_slot :: "string \<Rightarrow> bool" where
  "no_slot n \<longleftrightarrow> CHR ''.'' \<notin> set n"

lemma no_slot_None [simp]: "no_slot n \<Longrightarrow> map_of slots n = None"
proof -
  have "list_all (\<lambda>(n, vs). CHR ''.'' \<in> set n) slots" by (simp add: slots_simps)
  then show "no_slot n \<Longrightarrow> map_of slots n = None"
    by (auto simp: no_slot_def map_of_eq_None_iff list_all_iff)
qed

lemma no_slot_declared: "no_slot (attr_name a) \<Longrightarrow> declared_attr a"
  by (cases a) simp_all

text \<open>What a caller chooses for a slot, under the property's own name.\<close>

definition choice :: "string \<Rightarrow> string \<Rightarrow> 'a attr list \<Rightarrow> bool" where
  "choice k slot props = list_all (\<lambda>a. declared_attr (renamed slot a)) (given k props)"

lemma renamed_renamed [simp]: "renamed k (renamed k' a) = renamed k a"
  by (cases a) simp_all

lemma given_passed:
  "given k'' (passed k k' props) = (if k'' = k' then passed k k' props else [])"
  "given k'' (passed_or k k' dflt props) = (if k'' = k' then passed_or k k' dflt props else [])"
  "k'' \<noteq> k' \<Longrightarrow> given k'' (flag_or k k' b props) = []"
proof -
  have "filter (\<lambda>a. attr_name a = k'') (map (renamed k') as) = (if k'' = k' then map (renamed k') as else [])"
    for as :: "'a attr list" by (induction as) simp_all
  then show "given k'' (passed k k' props) = (if k'' = k' then passed k k' props else [])"
    "given k'' (passed_or k k' dflt props) = (if k'' = k' then passed_or k k' dflt props else [])"
    "k'' \<noteq> k' \<Longrightarrow> given k'' (flag_or k k' b props) = []"
    by (auto simp: passed_def passed_or_def flag_or_def given_def)
qed

lemma choice_simps [simp]:
  "choice k slot []"
  "choice k slot (a # props) = ((attr_name a = k \<longrightarrow> declared_attr (renamed slot a)) \<and> choice k slot props)"
  "choice k slot (props @ props') = (choice k slot props \<and> choice k slot props')"
  "k \<in> set ks \<Longrightarrow> choice k slot (rest ks props)"
  "k \<notin> set ks \<Longrightarrow> choice k slot (rest ks props) = choice k slot props"
  "k \<noteq> k' \<Longrightarrow> choice k slot (given k' props)"
  by (auto simp: choice_def given_def rest_def list_all_iff)

lemma choice_passed [simp]:
  "k'' \<noteq> k' \<Longrightarrow> choice k'' slot (passed k k' props)"
  "k'' \<noteq> k' \<Longrightarrow> choice k'' slot (passed_or k k' dflt props)"
  "k'' \<noteq> k' \<Longrightarrow> choice k'' slot (flag_or k k' b props)"
  "choice k slot props \<Longrightarrow> choice k' slot (passed k k' props)"
  "choice k slot props \<Longrightarrow> declared_attr (Prop slot (js dflt) :: 'a attr) \<Longrightarrow>
     choice k' slot (passed_or k k' dflt (props :: 'a attr list))"
proof -
  have single: "given k' [Prop k' s :: 'a attr] = [Prop k' s]" for s by (simp add: given_def)
  show "choice k'' slot (passed k k' props)" "choice k'' slot (passed_or k k' dflt props)"
    "choice k'' slot (flag_or k k' b props)" if "k'' \<noteq> k'"
    using that by (simp_all add: choice_def given_passed)
  show "choice k slot props \<Longrightarrow> choice k' slot (passed k k' props)"
    "choice k slot props \<Longrightarrow> declared_attr (Prop slot (js dflt) :: 'a attr) \<Longrightarrow>
     choice k' slot (passed_or k k' dflt (props :: 'a attr list))"
    using single by (auto simp: choice_def given_passed passed_or_def) (auto simp: passed_def list_all_iff)
qed

lemma choice_spread [simp]: "choice k slot own \<Longrightarrow> choice k slot props \<Longrightarrow> choice k slot (spread own props)"
  by (auto simp: spread_def choice_def given_def list_all_iff)

text \<open>A component's attributes and what it passes on.\<close>

lemma declared_passed [simp]:
  "no_slot k' \<Longrightarrow> list_all declared_attr (passed k k' props)"
  "no_slot k' \<Longrightarrow> list_all declared_attr (passed_or k k' dflt props)"
  "no_slot k' \<Longrightarrow> list_all declared_attr (flag_or k k' b props)"
  "choice k slot props \<Longrightarrow> list_all declared_attr (passed k slot props)"
  "choice k slot props \<Longrightarrow> declared_attr (Prop slot (js dflt) :: 'a attr) \<Longrightarrow>
     list_all declared_attr (passed_or k slot dflt (props :: 'a attr list))"
  by (auto simp: passed_or_def passed_def flag_or_def choice_def list_all_iff intro: no_slot_declared)

lemma declared_props [simp]:
  "list_all declared_attr props \<Longrightarrow> list_all declared_attr (given k props)"
  "list_all declared_attr props \<Longrightarrow> list_all declared_attr (rest ks props)"
  "list_all declared_attr own \<Longrightarrow> list_all declared_attr props \<Longrightarrow> list_all declared_attr (spread own props)"
  by (auto simp: given_def rest_def spread_def list_all_iff)

lemma declared_defaults [simp]:
  "list_all (\<lambda>(k, dflt). no_slot k) kds \<Longrightarrow> list_all declared_attr (defaults kds props)"
  by (induction kds) (auto simp: defaults_def)

lemma declared_children [simp]:
  "list_all declared cs \<Longrightarrow> list_all declared (filter p cs)"
  "list_all declared cs \<Longrightarrow> list_all declared (without_render cs)"
  "list_all declared own \<Longrightarrow> list_all declared cs \<Longrightarrow> list_all declared (replaced own cs)"
  "declared r \<Longrightarrow> list_all declared cs \<Longrightarrow> list_all declared (render_or r cs)"
  "declared r \<Longrightarrow> list_all declared cs \<Longrightarrow> list_all declared (render_only r cs)"
  "list_all declared dflt \<Longrightarrow> list_all declared cs \<Longrightarrow> list_all declared (children_or dflt cs)"
  "list_all declared (shown_if b n) = (b \<longrightarrow> declared n)"
  "declared (text_or k d props)"
  by (auto simp: without_render_def replaced_def render_or_def render_only_def children_or_def shown_if_def
      text_or_def list_all_iff split: list.split attr.split)

text \<open>
  A component is \<open>styled\<close> when it draws declared looks whenever its caller chooses declared values
  for the properties its looks come from.
\<close>

definition styled :: "(string \<times> string) list \<Rightarrow> 'a component \<Rightarrow> bool" where
  "styled looks c \<longleftrightarrow>
     (\<forall>props children. list_all declared_attr props \<longrightarrow> list_all (\<lambda>(k, slot). choice k slot props) looks \<longrightarrow>
        list_all declared children \<longrightarrow> declared (c props children))"

lemma styledI:
  "(\<And>props children. list_all declared_attr props \<Longrightarrow> list_all (\<lambda>(k, slot). choice k slot props) looks \<Longrightarrow>
      list_all declared children \<Longrightarrow> declared (c props children)) \<Longrightarrow> styled looks c"
  by (simp add: styled_def)

lemma styledD:
  "styled looks c \<Longrightarrow> list_all declared_attr props \<Longrightarrow> list_all (\<lambda>(k, slot). choice k slot props) looks \<Longrightarrow>
     list_all declared children \<Longrightarrow> declared (c props children)"
  by (simp add: styled_def)

lemmas styling = draw_def plain_def use_render_def positioned_def no_slot_def Let_def

end
