(* ===== verification/UiControls.thy ===== *)
theory UiControls
  imports UiKit
begin

section \<open>Controls: buttons, inputs and choices\<close>

text \<open>
  \<open>components/ui\<close>: the components a user enters or chooses with. The workbench uses the button,
  the input, the label, the text area and the select.
\<close>

subsection \<open>Button\<close>

definition Button :: "'a component" where
  "Button = (\<lambda>props. draw (El ''ButtonPrimitive'') [''variant'', ''size'']
     ([data_slot ''button'']
      @ passed_or ''variant'' ''buttonVariants.variant'' ''default'' props
      @ passed_or ''size'' ''buttonVariants.size'' ''default'' props) props)"

lemma actions_button_1 [simp]:
  "transparent Button"
  by (rule transparentI; simp add: kit_simps Button_def split: option.split)+

lemmas offers_button_1 [simp] = actions_button_1 [THEN transparentD]

subsection \<open>Badge\<close>

definition Badge :: "'a component" where
  "Badge = (\<lambda>props.
     use_render ''span''
       (passed_or ''variant'' ''badgeVariants.variant'' ''default'' props @ given ''className'' props)
       (Prop ''state-slot'' (js ''badge'') # passed_or ''variant'' ''state-variant'' ''default'' props)
       (rest [''className'', ''variant''] props))"

lemma actions_badge_1 [simp]:
  "transparent Badge"
  by (rule transparentI; simp add: kit_simps Badge_def split: option.split)+

lemmas offers_badge_1 [simp] = actions_badge_1 [THEN transparentD]

subsection \<open>Input\<close>

definition Input :: "'a component" where
  "Input = (\<lambda>props. draw (El ''InputPrimitive'') [''type'']
     (passed ''type'' ''type'' props
      @ [data_slot ''input'']) props)"

lemma actions_input_1 [simp]:
  "transparent Input"
  by (rule transparentI; simp add: kit_simps Input_def split: option.split)+

lemmas offers_input_1 [simp] = actions_input_1 [THEN transparentD]

subsection \<open>Text area\<close>

definition Textarea :: "'a component" where
  "Textarea = draw (El ''textarea'') [] [data_slot ''textarea'']"

lemma actions_textarea_1 [simp]:
  "transparent Textarea"
  by (rule transparentI; simp add: kit_simps Textarea_def split: option.split)+

lemmas offers_textarea_1 [simp] = actions_textarea_1 [THEN transparentD]

subsection \<open>Label\<close>

definition LabelElement :: "'a component" where
  "LabelElement = draw (El ''label'') [] [data_slot ''label'']"

lemma actions_label_1 [simp]:
  "transparent LabelElement"
  by (rule transparentI; simp add: kit_simps LabelElement_def split: option.split)+

lemmas offers_label_1 [simp] = actions_label_1 [THEN transparentD]

subsection \<open>Separator\<close>

definition Separator :: "'a component" where
  "Separator = (\<lambda>props. draw (El ''SeparatorPrimitive'') [''orientation'']
     ([data_slot ''separator'']
      @ passed_or ''orientation'' ''orientation'' ''horizontal'' props) props)"

lemma actions_separator_1 [simp]:
  "transparent Separator"
  by (rule transparentI; simp add: kit_simps Separator_def split: option.split)+

lemmas offers_separator_1 [simp] = actions_separator_1 [THEN transparentD]

subsection \<open>Select\<close>

definition Select :: "'a component" where
  "Select = El ''SelectPrimitive.Root''"

definition SelectGroup :: "'a component" where
  "SelectGroup = draw (El ''SelectPrimitive.Group'') [] [data_slot ''select-group'']"

definition SelectValue :: "'a component" where
  "SelectValue = draw (El ''SelectPrimitive.Value'') [] [data_slot ''select-value'']"

definition SelectTrigger :: "'a component" where
  "SelectTrigger = (\<lambda>props children.
     draw (El ''SelectPrimitive.Trigger'') [''size'']
       ([data_slot ''select-trigger''] @ passed_or ''size'' ''data-size'' ''default'' props) props
       (children @ [El ''SelectPrimitive.Icon'' [] [El ''render'' [] [icon ''CaretDownIcon'']]]))"

definition SelectLabel :: "'a component" where
  "SelectLabel = draw (El ''SelectPrimitive.GroupLabel'') [] [data_slot ''select-label'']"

definition SelectItem :: "'a component" where
  "SelectItem = (\<lambda>props children.
     draw (El ''SelectPrimitive.Item'') [] [data_slot ''select-item''] props
       (replaced
          [El ''SelectPrimitive.ItemText'' [] (without_render children),
           El ''SelectPrimitive.ItemIndicator'' [] [El ''render'' [] [El ''span'' [] []], icon ''CheckIcon'']]
          children))"

definition SelectSeparator :: "'a component" where
  "SelectSeparator = draw (El ''SelectPrimitive.Separator'') [] [data_slot ''select-separator'']"

definition SelectScrollUpButton :: "'a component" where
  "SelectScrollUpButton = (\<lambda>props children.
     draw (El ''SelectPrimitive.ScrollUpArrow'') [] [data_slot ''select-scroll-up-button''] props
       (replaced [icon ''CaretUpIcon''] children))"

definition SelectScrollDownButton :: "'a component" where
  "SelectScrollDownButton = (\<lambda>props children.
     draw (El ''SelectPrimitive.ScrollDownArrow'') [] [data_slot ''select-scroll-down-button''] props
       (replaced [icon ''CaretDownIcon''] children))"

definition SelectContent :: "'a component" where
  "SelectContent = (\<lambda>props children.
     positioned ''SelectPrimitive'' []
       (defaults
         [(''side'', ''bottom''), (''sideOffset'', ''4''), (''align'', ''center''), (''alignOffset'', ''0'')]
         props
        @ flag_or ''alignItemWithTrigger'' ''alignItemWithTrigger'' True props)
       (draw (El ''SelectPrimitive.Popup'')
          [''side'', ''sideOffset'', ''align'', ''alignOffset'', ''alignItemWithTrigger'']
          ([data_slot ''select-content''] @ flag_or ''alignItemWithTrigger'' ''data-align-trigger'' True props)
          props 
          (replaced [SelectScrollUpButton [] [], El ''SelectPrimitive.List'' [] (without_render children),
             SelectScrollDownButton [] []] children)))"

lemma actions_select_1 [simp]:
  "transparent SelectGroup" "transparent SelectValue" "transparent SelectTrigger"
  "transparent SelectLabel" "transparent SelectItem" "transparent SelectSeparator"
  by (rule transparentI; simp add: kit_simps SelectGroup_def SelectValue_def SelectTrigger_def
    SelectLabel_def SelectItem_def SelectSeparator_def split: option.split)+

lemmas offers_select_1 [simp] = actions_select_1 [THEN transparentD]

lemma actions_select_2 [simp]:
  "self_contained SelectScrollUpButton" "self_contained SelectScrollDownButton"
  by (rule self_containedI; simp add: kit_simps SelectScrollUpButton_def SelectScrollDownButton_def
    split: option.split)+

lemmas offers_select_2 [simp] = actions_select_2 [THEN self_containedD]

lemma actions_select_3 [simp]:
  "transparent SelectContent"
  by (rule transparentI; simp add: kit_simps SelectContent_def split: option.split)+

lemmas offers_select_3 [simp] = actions_select_3 [THEN transparentD]

subsection \<open>Checkbox\<close>

definition Checkbox :: "'a component" where
  "Checkbox = (\<lambda>props children.
     draw (El ''CheckboxPrimitive.Root'') [] [data_slot ''checkbox''] props
       (replaced [El ''CheckboxPrimitive.Indicator'' [data_slot ''checkbox-indicator'']
          [icon ''CheckIcon'']] children))"

lemma actions_checkbox_1 [simp]:
  "self_contained Checkbox"
  by (rule self_containedI; simp add: kit_simps Checkbox_def split: option.split)+

lemmas offers_checkbox_1 [simp] = actions_checkbox_1 [THEN self_containedD]

subsection \<open>Radio group\<close>

definition RadioGroup :: "'a component" where
  "RadioGroup = draw (El ''RadioGroupPrimitive'') [] [data_slot ''radio-group'']"

definition RadioGroupItem :: "'a component" where
  "RadioGroupItem = (\<lambda>props children.
     draw (El ''RadioPrimitive.Root'') [] [data_slot ''radio-group-item''] props
       (replaced [El ''RadioPrimitive.Indicator'' [data_slot ''radio-group-indicator''] [El ''span'' [] []]]
          children))"

lemma actions_radio_group_1 [simp]:
  "transparent RadioGroup"
  by (rule transparentI; simp add: kit_simps RadioGroup_def split: option.split)+

lemmas offers_radio_group_1 [simp] = actions_radio_group_1 [THEN transparentD]

lemma actions_radio_group_2 [simp]:
  "self_contained RadioGroupItem"
  by (rule self_containedI; simp add: kit_simps RadioGroupItem_def split: option.split)+

lemmas offers_radio_group_2 [simp] = actions_radio_group_2 [THEN self_containedD]

subsection \<open>Switch\<close>

definition Switch :: "'a component" where
  "Switch = (\<lambda>props children.
     draw (El ''SwitchPrimitive.Root'') [''size'']
       ([data_slot ''switch''] @ passed_or ''size'' ''data-size'' ''default'' props) props
       (replaced [El ''SwitchPrimitive.Thumb'' [data_slot ''switch-thumb''] []] children))"

lemma actions_switch_1 [simp]:
  "self_contained Switch"
  by (rule self_containedI; simp add: kit_simps Switch_def split: option.split)+

lemmas offers_switch_1 [simp] = actions_switch_1 [THEN self_containedD]

subsection \<open>Slider\<close>

text \<open>A value is one number or an array of numbers, each as its text.\<close>

datatype slider_value = One jstr | Many "jstr list"

definition slider_values ::
  "slider_value option \<Rightarrow> slider_value option \<Rightarrow> jstr \<Rightarrow> jstr \<Rightarrow> jstr list" where
  "slider_values defaultValue val min' max' =
     (case val of
        Some (Many vs) \<Rightarrow> vs
      | _ \<Rightarrow> (case defaultValue of Some (Many vs) \<Rightarrow> vs | _ \<Rightarrow> [min', max']))"

definition slider_attr :: "string \<Rightarrow> slider_value option \<Rightarrow> 'a attr list" where
  "slider_attr n v =
     (case v of None \<Rightarrow> [] | Some (One t) \<Rightarrow> [Prop n t] | Some (Many ts) \<Rightarrow> [Prop n (join_str (js '','') ts)])"

lemma inert_slider_attr [simp]: "n \<noteq> ''disabled'' \<Longrightarrow> list_all inert (slider_attr n v)"
  by (simp add: slider_attr_def split: option.split slider_value.split)

definition Slider :: "slider_value option \<Rightarrow> slider_value option \<Rightarrow> 'a component" where
  "Slider defaultValue val = (\<lambda>props children.
     draw (El ''SliderPrimitive.Root'') [''min'', ''max'']
       ([data_slot ''slider''] @ slider_attr ''defaultValue'' defaultValue @ slider_attr ''value'' val
        @ passed_or ''min'' ''min'' ''0'' props @ passed_or ''max'' ''max'' ''100'' props
        @ [Prop ''thumbAlignment'' (js ''edge'')]) props
       (replaced
          [El ''SliderPrimitive.Control'' []
             (El ''SliderPrimitive.Track'' [data_slot ''slider-track'']
                [El ''SliderPrimitive.Indicator'' [data_slot ''slider-range''] []]
              # map (\<lambda>i. El ''SliderPrimitive.Thumb'' [data_slot ''slider-thumb''] [])
                  [0..<length (slider_values defaultValue val
                     (prop_text ''min'' ''0'' props) (prop_text ''max'' ''100'' props))])] children))"

lemma actions_slider_1 [simp]:
  "self_contained (Slider defaultValue val)"
  by (rule self_containedI; simp add: kit_simps Slider_def split: option.split)+

lemmas offers_slider_1 [simp] = actions_slider_1 [THEN self_containedD]

subsection \<open>Progress\<close>

definition ProgressTrack :: "'a component" where
  "ProgressTrack = draw (El ''ProgressPrimitive.Track'') [] [data_slot ''progress-track'']"

definition ProgressIndicator :: "'a component" where
  "ProgressIndicator = draw (El ''ProgressPrimitive.Indicator'') [] [data_slot ''progress-indicator'']"

definition ProgressLabel :: "'a component" where
  "ProgressLabel = draw (El ''ProgressPrimitive.Label'') [] [data_slot ''progress-label'']"

definition ProgressValue :: "'a component" where
  "ProgressValue = draw (El ''ProgressPrimitive.Value'') [] [data_slot ''progress-value'']"

definition Progress :: "'a component" where
  "Progress = (\<lambda>props children.
     draw (El ''ProgressPrimitive.Root'') [''value'']
       (passed ''value'' ''value'' props @ [data_slot ''progress'']) props
       (children @ [ProgressTrack [] [ProgressIndicator [] []]]))"

lemma actions_progress_1 [simp]:
  "transparent ProgressTrack" "transparent ProgressIndicator" "transparent ProgressLabel"
  "transparent ProgressValue"
  by (rule transparentI; simp add: kit_simps ProgressTrack_def ProgressIndicator_def
    ProgressLabel_def ProgressValue_def split: option.split)+

lemmas offers_progress_1 [simp] = actions_progress_1 [THEN transparentD]

lemma actions_progress_2 [simp]:
  "transparent Progress"
  by (rule transparentI; simp add: kit_simps Progress_def split: option.split)+

lemmas offers_progress_2 [simp] = actions_progress_2 [THEN transparentD]

subsection \<open>Toggle\<close>

definition Toggle :: "'a component" where
  "Toggle = (\<lambda>props. draw (El ''TogglePrimitive'') [''variant'', ''size'']
     ([data_slot ''toggle'']
      @ passed_or ''variant'' ''toggleVariants.variant'' ''default'' props
      @ passed_or ''size'' ''toggleVariants.size'' ''default'' props) props)"

lemma actions_toggle_1 [simp]:
  "transparent Toggle"
  by (rule transparentI; simp add: kit_simps Toggle_def split: option.split)+

lemmas offers_toggle_1 [simp] = actions_toggle_1 [THEN transparentD]

subsection \<open>Toggle group\<close>

record toggle_context =
  tg_variant :: "jstr option"
  tg_size :: "jstr option"
  tg_spacing :: jstr
  tg_orientation :: jstr

text \<open>What an item outside every group sees.\<close>

definition ToggleGroupContext :: toggle_context where
  "ToggleGroupContext =
     \<lparr>tg_variant = Some (js ''default''), tg_size = Some (js ''default''), tg_spacing = js ''2'',
      tg_orientation = js ''horizontal''\<rparr>"

definition ToggleGroup :: "'a attr list \<Rightarrow> 'a node list \<Rightarrow> toggle_context \<times> 'a node" where
  "ToggleGroup props children =
     (\<lparr>tg_variant = text_of ''variant'' props, tg_size = text_of ''size'' props,
       tg_spacing = prop_text ''spacing'' ''2'' props,
       tg_orientation = prop_text ''orientation'' ''horizontal'' props\<rparr>,
      draw (El ''ToggleGroupPrimitive'') [''variant'', ''size'', ''spacing'', ''orientation'']
        ([data_slot ''toggle-group''] @ passed ''variant'' ''data-variant'' props
         @ passed ''size'' ''data-size'' props @ passed_or ''spacing'' ''data-spacing'' ''2'' props
         @ passed_or ''orientation'' ''data-orientation'' ''horizontal'' props
         @ [Prop ''style'' (style_text [(js ''--gap'', prop_text ''spacing'' ''2'' props)])])
        props children)"

definition ToggleGroupItem :: "toggle_context \<Rightarrow> 'a component" where
  "ToggleGroupItem context = (\<lambda>props children.
     let v = or_else (tg_variant context) (prop_text ''variant'' ''default'' props);
         s = or_else (tg_size context) (prop_text ''size'' ''default'' props)
     in
       draw (El ''TogglePrimitive'') [''variant'', ''size'']
         [data_slot ''toggle-group-item'', Prop ''data-variant'' v, Prop ''data-size'' s,
          Prop ''data-spacing'' (tg_spacing context), Prop ''toggleVariants.variant'' v,
          Prop ''toggleVariants.size'' s] props children)"

lemma actions_toggle_group_1 [simp]:
  "transparent (ToggleGroupItem context)"
  by (rule transparentI; simp add: kit_simps ToggleGroupItem_def split: option.split)+

lemmas offers_toggle_group_1 [simp] = actions_toggle_group_1 [THEN transparentD]

subsection \<open>Tabs\<close>

definition Tabs :: "'a component" where
  "Tabs = (\<lambda>props. draw (El ''TabsPrimitive.Root'') [''orientation'']
     ([data_slot ''tabs'']
      @ passed_or ''orientation'' ''data-orientation'' ''horizontal'' props) props)"

definition TabsList :: "'a component" where
  "TabsList = (\<lambda>props. draw (El ''TabsPrimitive.List'') [''variant'']
     ([data_slot ''tabs-list'']
      @ passed_or ''variant'' ''data-variant'' ''default'' props
      @ passed_or ''variant'' ''tabsListVariants.variant'' ''default'' props) props)"

definition TabsTrigger :: "'a component" where
  "TabsTrigger = draw (El ''TabsPrimitive.Tab'') [] [data_slot ''tabs-trigger'']"

definition TabsContent :: "'a component" where
  "TabsContent = draw (El ''TabsPrimitive.Panel'') [] [data_slot ''tabs-content'']"

lemma actions_tabs_1 [simp]:
  "transparent Tabs" "transparent TabsList" "transparent TabsTrigger" "transparent TabsContent"
  by (rule transparentI; simp add: kit_simps Tabs_def TabsList_def TabsTrigger_def
    TabsContent_def split: option.split)+

lemmas offers_tabs_1 [simp] = actions_tabs_1 [THEN transparentD]

subsection \<open>Input group\<close>

definition InputGroup :: "'a component" where
  "InputGroup = draw (El ''div'') [] [data_slot ''input-group'', Prop ''role'' (js ''group'')]"

definition InputGroupAddon :: "'a component" where
  "InputGroupAddon = (\<lambda>props. draw (El ''div'') [''align'']
     ([Prop ''role'' (js ''group''), data_slot ''input-group-addon'']
      @ passed_or ''align'' ''data-align'' ''inline-start'' props
      @ passed_or ''align'' ''inputGroupAddonVariants.align'' ''inline-start'' props
      @ [On ''onClick'' (\<lambda>_. None)]) props)"

definition InputGroupButton :: "'a component" where
  "InputGroupButton = (\<lambda>props. draw Button [''type'', ''variant'', ''size'']
     (passed_or ''type'' ''type'' ''button'' props
      @ passed_or ''size'' ''data-size'' ''xs'' props
      @ passed_or ''variant'' ''variant'' ''ghost'' props
      @ passed_or ''size'' ''inputGroupButtonVariants.size'' ''xs'' props) props)"

definition InputGroupText :: "'a component" where
  "InputGroupText = draw (El ''span'') [] []"

definition InputGroupInput :: "'a component" where
  "InputGroupInput = draw Input [] [data_slot ''input-group-control'']"

definition InputGroupTextarea :: "'a component" where
  "InputGroupTextarea = draw Textarea [] [data_slot ''input-group-control'']"

lemma actions_input_group_1 [simp]:
  "transparent InputGroup" "transparent InputGroupAddon" "transparent InputGroupButton"
  "transparent InputGroupText" "transparent InputGroupInput" "transparent InputGroupTextarea"
  by (rule transparentI; simp add: kit_simps InputGroup_def InputGroupAddon_def
    InputGroupButton_def InputGroupText_def InputGroupInput_def InputGroupTextarea_def
    split: option.split)+

lemmas offers_input_group_1 [simp] = actions_input_group_1 [THEN transparentD]

subsection \<open>One-time password input\<close>

text \<open>The slots that the library's context gives; none outside of it.\<close>

record otp_slot =
  otp_char :: "jstr option"
  otp_hasFakeCaret :: bool
  otp_isActive :: bool

definition InputOTP :: "'a component" where
  "InputOTP = (\<lambda>props. draw (El ''OTPInput'') [''containerClassName'']
     ([data_slot ''input-otp''] @ given ''containerClassName'' props @ [Flag ''spellCheck'' False]) props)"

definition InputOTPGroup :: "'a component" where
  "InputOTPGroup = draw (El ''div'') [] [data_slot ''input-otp-group'']"

definition InputOTPSlot :: "otp_slot list option \<Rightarrow> nat \<Rightarrow> 'a component" where
  "InputOTPSlot context index = (\<lambda>props children.
     let slot = (case context of Some slots \<Rightarrow> if index < length slots then Some (slots ! index) else None
                 | None \<Rightarrow> None) in
     draw (El ''div'') [''index'']
       ([data_slot ''input-otp-slot'']
        @ (case slot of Some s \<Rightarrow> [Flag ''data-active'' (otp_isActive s)] | None \<Rightarrow> [])) props
       (replaced
          (case slot of
             None \<Rightarrow> []
           | Some s \<Rightarrow>
               (case otp_char s of Some c \<Rightarrow> [literal c] | None \<Rightarrow> [])
               @ shown_if (otp_hasFakeCaret s) (El ''div'' [] [El ''div'' [] []]))
          children))"

definition InputOTPSeparator :: "'a component" where
  "InputOTPSeparator = (\<lambda>props children.
     plain (El ''div'') [data_slot ''input-otp-separator'', Prop ''role'' (js ''separator'')] props
       (replaced [icon ''MinusIcon''] children))"

lemma actions_input_otp_1 [simp]:
  "transparent InputOTP" "transparent InputOTPGroup"
  by (rule transparentI; simp add: kit_simps InputOTP_def InputOTPGroup_def split: option.split)+

lemmas offers_input_otp_1 [simp] = actions_input_otp_1 [THEN transparentD]

lemma actions_input_otp_2 [simp]:
  "self_contained (InputOTPSlot context index)" "self_contained InputOTPSeparator"
  by (rule self_containedI; simp add: kit_simps InputOTPSlot_def InputOTPSeparator_def
    split: option.split)+

lemmas offers_input_otp_2 [simp] = actions_input_otp_2 [THEN self_containedD]

subsection \<open>Scroll area\<close>

definition ScrollBar :: "'a component" where
  "ScrollBar = (\<lambda>props children.
     draw (El ''ScrollAreaPrimitive.Scrollbar'') [''orientation'']
       ([data_slot ''scroll-area-scrollbar''] @ passed_or ''orientation'' ''data-orientation'' ''vertical'' props
        @ passed_or ''orientation'' ''orientation'' ''vertical'' props) props
       (replaced [El ''ScrollAreaPrimitive.Thumb'' [data_slot ''scroll-area-thumb''] []] children))"

definition ScrollArea :: "'a component" where
  "ScrollArea = (\<lambda>props children.
     draw (El ''ScrollAreaPrimitive.Root'') [] [data_slot ''scroll-area''] props
       (replaced
          [El ''ScrollAreaPrimitive.Viewport'' [data_slot ''scroll-area-viewport''] (without_render children),
           ScrollBar [] [], icon ''ScrollAreaPrimitive.Corner''] children))"

lemma actions_scroll_area_1 [simp]:
  "self_contained ScrollBar"
  by (rule self_containedI; simp add: kit_simps ScrollBar_def split: option.split)+

lemmas offers_scroll_area_1 [simp] = actions_scroll_area_1 [THEN self_containedD]

lemma actions_scroll_area_2 [simp]:
  "transparent ScrollArea"
  by (rule transparentI; simp add: kit_simps ScrollArea_def split: option.split)+

lemmas offers_scroll_area_2 [simp] = actions_scroll_area_2 [THEN transparentD]

subsection \<open>Skeleton\<close>

definition Skeleton :: "'a component" where
  "Skeleton = draw (El ''div'') [] [data_slot ''skeleton'']"

lemma actions_skeleton_1 [simp]:
  "transparent Skeleton"
  by (rule transparentI; simp add: kit_simps Skeleton_def split: option.split)+

lemmas offers_skeleton_1 [simp] = actions_skeleton_1 [THEN transparentD]

subsection \<open>Spinner\<close>

definition Spinner :: "'a component" where
  "Spinner = draw (El ''SpinnerIcon'') [] [data_slot ''spinner'', Prop ''role'' (js ''status''), Prop ''aria-label'' (js ''Loading'')]"

lemma actions_spinner_1 [simp]:
  "transparent Spinner"
  by (rule transparentI; simp add: kit_simps Spinner_def split: option.split)+

lemmas offers_spinner_1 [simp] = actions_spinner_1 [THEN transparentD]

subsection \<open>Keys\<close>

definition Kbd :: "'a component" where
  "Kbd = draw (El ''kbd'') [] [data_slot ''kbd'']"

definition KbdGroup :: "'a component" where
  "KbdGroup = draw (El ''kbd'') [] [data_slot ''kbd-group'']"

lemma actions_kbd_1 [simp]:
  "transparent Kbd" "transparent KbdGroup"
  by (rule transparentI; simp add: kit_simps Kbd_def KbdGroup_def split: option.split)+

lemmas offers_kbd_1 [simp] = actions_kbd_1 [THEN transparentD]


subsection \<open>What the controls draw\<close>

text \<open>A slider has one thumb per number of an array it is given; for a single number,
  which is no array, it has two, one for each end of the scale.\<close>

theorem slider_thumbs:
  "length (elements ''SliderPrimitive.Thumb'' (Slider defaultValue val props [])) =
     (case val of
        Some (Many vs) \<Rightarrow> length vs
      | _ \<Rightarrow> (case defaultValue of Some (Many vs) \<Rightarrow> length vs | _ \<Rightarrow> 2))"
proof -
  have "elements ''SliderPrimitive.Thumb'' (El ''SliderPrimitive.Thumb'' as []) = [El ''SliderPrimitive.Thumb'' as []]"
    for as :: "'a attr list" by simp
  then have thumbs: "length (concat (map (\<lambda>i. elements ''SliderPrimitive.Thumb''
      (El ''SliderPrimitive.Thumb'' as [])) xs)) = length xs" for as :: "'a attr list" and xs :: "nat list"
    by (induction xs) simp_all
  show ?thesis
    using thumbs
    by (simp add: Slider_def draw_def replaced_def slider_values_def comp_def
        split: option.split slider_value.split)
qed

lemma names_passed [simp]:
  "list_all (\<lambda>a. attr_name a \<noteq> n) (passed k k' props) \<longleftrightarrow> k' \<noteq> n \<or> given k props = []"
  "k' \<noteq> n \<Longrightarrow> list_all (\<lambda>a. attr_name a \<noteq> n) (passed_or k k' dflt props)"
  by (auto simp: passed_def passed_or_def list_all_iff neq_Nil_conv)

lemma not_drawn:
  assumes "list_all (\<lambda>a. attr_name a \<noteq> k) own" and "k \<in> set ks" and "k \<noteq> ''className''"
  shows "k \<notin> attr_name ` set (spread (own @ given ''className'' props) (rest (''className'' # ks) props))"
  using assms by (auto simp: spread_def given_def rest_def list_all_iff)

text \<open>The orientation a caller gives to \<open>Tabs\<close> or \<open>ToggleGroup\<close> is not among the
  attributes of the primitive they draw; it is only written as \<open>data-orientation\<close>.\<close>

theorem orientation_dropped:
  "\<exists>as bs. Tabs props children = El ''TabsPrimitive.Root'' as children
     \<and> snd (ToggleGroup props children) = El ''ToggleGroupPrimitive'' bs children
     \<and> ''orientation'' \<notin> attr_name ` set as \<and> ''orientation'' \<notin> attr_name ` set bs
     \<and> tg_orientation (fst (ToggleGroup props children)) = prop_text ''orientation'' ''horizontal'' props"
proof (intro exI conjI)
  show "Tabs props children = El ''TabsPrimitive.Root'' (spread
      (([data_slot ''tabs''] @ passed_or ''orientation'' ''data-orientation'' ''horizontal'' props)
        @ given ''className'' props) (rest [''className'', ''orientation''] props)) children"
    by (simp add: Tabs_def draw_def)
  show "''orientation'' \<notin> attr_name ` set (spread
      (([data_slot ''tabs''] @ passed_or ''orientation'' ''data-orientation'' ''horizontal'' props)
        @ given ''className'' props) (rest [''className'', ''orientation''] props))"
    by (rule not_drawn) simp_all
  let ?own = "[data_slot ''toggle-group''] @ passed ''variant'' ''data-variant'' props
    @ passed ''size'' ''data-size'' props @ passed_or ''spacing'' ''data-spacing'' ''2'' props
    @ passed_or ''orientation'' ''data-orientation'' ''horizontal'' props
    @ [Prop ''style'' (style_text [(js ''--gap'', prop_text ''spacing'' ''2'' props)])]"
  let ?ks = "[''variant'', ''size'', ''spacing'', ''orientation'']"
  show "snd (ToggleGroup props children) = El ''ToggleGroupPrimitive''
      (spread (?own @ given ''className'' props) (rest (''className'' # ?ks) props)) children"
    by (simp add: ToggleGroup_def draw_def)
  show "''orientation'' \<notin> attr_name ` set
      (spread (?own @ given ''className'' props) (rest (''className'' # ?ks) props))"
    by (rule not_drawn) simp_all
  show "tg_orientation (fst (ToggleGroup props children)) = prop_text ''orientation'' ''horizontal'' props"
    by (simp add: ToggleGroup_def)
qed
end
