(* ===== verification/UiLayout.thy ===== *)
theory UiLayout
  imports UiControls "HOL-Library.AList"
begin

section \<open>Layout: panels, lists and fields\<close>

text \<open>\<open>components/ui\<close>: the components that lay a page out.\<close>

subsection \<open>Accordion\<close>

definition Accordion :: "'a component" where
  "Accordion = draw (El ''AccordionPrimitive.Root'') [] [data_slot ''accordion'']"

definition AccordionItem :: "'a component" where
  "AccordionItem = draw (El ''AccordionPrimitive.Item'') [] [data_slot ''accordion-item'']"

definition AccordionTrigger :: "'a component" where
  "AccordionTrigger = (\<lambda>props children.
     El ''AccordionPrimitive.Header'' []
       [draw (El ''AccordionPrimitive.Trigger'') [] [data_slot ''accordion-trigger''] props
          (children @ [El ''CaretDownIcon'' [data_slot ''accordion-trigger-icon''] [],
             El ''CaretUpIcon'' [data_slot ''accordion-trigger-icon''] []])])"

definition AccordionContent :: "'a component" where
  "AccordionContent = (\<lambda>props children.
     plain (El ''AccordionPrimitive.Panel'') [data_slot ''accordion-content'']
       (rest [''className''] props) [El ''div'' (given ''className'' props) children])"

lemma actions_accordion_1 [simp]:
  "transparent Accordion" "transparent AccordionItem" "transparent AccordionTrigger"
  "transparent AccordionContent"
  by (rule transparentI; simp add: kit_simps Accordion_def AccordionItem_def AccordionTrigger_def
    AccordionContent_def split: option.split)+

lemmas offers_accordion_1 [simp] = actions_accordion_1 [THEN transparentD]

subsection \<open>Alert\<close>

definition Alert :: "'a component" where
  "Alert = (\<lambda>props. draw (El ''div'') [''variant'']
     ([data_slot ''alert'', Prop ''role'' (js ''alert'')]
      @ passed ''variant'' ''alertVariants.variant'' props) props)"

definition AlertTitle :: "'a component" where
  "AlertTitle = draw (El ''div'') [] [data_slot ''alert-title'']"

definition AlertDescription :: "'a component" where
  "AlertDescription = draw (El ''div'') [] [data_slot ''alert-description'']"

definition AlertAction :: "'a component" where
  "AlertAction = draw (El ''div'') [] [data_slot ''alert-action'']"

lemma actions_alert_1 [simp]:
  "transparent Alert" "transparent AlertTitle" "transparent AlertDescription"
  "transparent AlertAction"
  by (rule transparentI; simp add: kit_simps Alert_def AlertTitle_def AlertDescription_def
    AlertAction_def split: option.split)+

lemmas offers_alert_1 [simp] = actions_alert_1 [THEN transparentD]

subsection \<open>Attachment\<close>

definition Attachment :: "'a component" where
  "Attachment = (\<lambda>props. draw (El ''div'') [''state'', ''size'', ''orientation'']
     ([data_slot ''attachment'']
      @ passed_or ''state'' ''data-state'' ''done'' props
      @ passed_or ''size'' ''data-size'' ''default'' props
      @ passed_or ''orientation'' ''data-orientation'' ''horizontal'' props
      @ passed_or ''size'' ''attachmentVariants.size'' ''default'' props
      @ passed_or ''orientation'' ''attachmentVariants.orientation'' ''horizontal'' props) props)"

definition AttachmentMedia :: "'a component" where
  "AttachmentMedia = (\<lambda>props. draw (El ''div'') [''variant'']
     ([data_slot ''attachment-media'']
      @ passed_or ''variant'' ''data-variant'' ''icon'' props
      @ passed_or ''variant'' ''attachmentMediaVariants.variant'' ''icon'' props) props)"

definition AttachmentContent :: "'a component" where
  "AttachmentContent = draw (El ''div'') [] [data_slot ''attachment-content'']"

definition AttachmentTitle :: "'a component" where
  "AttachmentTitle = draw (El ''span'') [] [data_slot ''attachment-title'']"

definition AttachmentDescription :: "'a component" where
  "AttachmentDescription = draw (El ''span'') [] [data_slot ''attachment-description'']"

definition AttachmentActions :: "'a component" where
  "AttachmentActions = draw (El ''div'') [] [data_slot ''attachment-actions'']"

definition AttachmentAction :: "'a component" where
  "AttachmentAction = (\<lambda>props. draw Button [''variant'', ''size'']
     ([data_slot ''attachment-action''] @ passed_or ''variant'' ''variant'' ''ghost'' props
      @ passed_or ''size'' ''size'' ''icon-xs'' props) props)"

definition AttachmentTrigger :: "'a component" where
  "AttachmentTrigger = (\<lambda>props children.
     use_render ''button''
       ((if list_ex is_render children then passed ''type'' ''type'' props
         else passed_or ''type'' ''type'' ''button'' props) @ given ''className'' props)
       [Prop ''state-slot'' (js ''attachment-trigger'')] (rest [''className'', ''type''] props) children)"

definition AttachmentGroup :: "'a component" where
  "AttachmentGroup = draw (El ''div'') [] [data_slot ''attachment-group'']"

lemma actions_attachment_1 [simp]:
  "transparent Attachment" "transparent AttachmentMedia" "transparent AttachmentContent"
  "transparent AttachmentTitle" "transparent AttachmentDescription"
  "transparent AttachmentActions" "transparent AttachmentAction" "transparent AttachmentTrigger"
  "transparent AttachmentGroup"
  by (rule transparentI; simp add: kit_simps Attachment_def AttachmentMedia_def
    AttachmentContent_def AttachmentTitle_def AttachmentDescription_def AttachmentActions_def
    AttachmentAction_def AttachmentTrigger_def AttachmentGroup_def split: option.split)+

lemmas offers_attachment_1 [simp] = actions_attachment_1 [THEN transparentD]

subsection \<open>Avatar\<close>

definition Avatar :: "'a component" where
  "Avatar = (\<lambda>props. draw (El ''AvatarPrimitive.Root'') [''size'']
     ([data_slot ''avatar'']
      @ passed_or ''size'' ''data-size'' ''default'' props) props)"

definition AvatarImage :: "'a component" where
  "AvatarImage = draw (El ''AvatarPrimitive.Image'') [] [data_slot ''avatar-image'']"

definition AvatarFallback :: "'a component" where
  "AvatarFallback = draw (El ''AvatarPrimitive.Fallback'') [] [data_slot ''avatar-fallback'']"

definition AvatarBadge :: "'a component" where
  "AvatarBadge = draw (El ''span'') [] [data_slot ''avatar-badge'']"

definition AvatarGroup :: "'a component" where
  "AvatarGroup = draw (El ''div'') [] [data_slot ''avatar-group'']"

definition AvatarGroupCount :: "'a component" where
  "AvatarGroupCount = draw (El ''div'') [] [data_slot ''avatar-group-count'']"

lemma actions_avatar_1 [simp]:
  "transparent Avatar" "transparent AvatarImage" "transparent AvatarFallback"
  "transparent AvatarBadge" "transparent AvatarGroup" "transparent AvatarGroupCount"
  by (rule transparentI; simp add: kit_simps Avatar_def AvatarImage_def AvatarFallback_def
    AvatarBadge_def AvatarGroup_def AvatarGroupCount_def split: option.split)+

lemmas offers_avatar_1 [simp] = actions_avatar_1 [THEN transparentD]

subsection \<open>Breadcrumb\<close>

definition Breadcrumb :: "'a component" where
  "Breadcrumb = draw (El ''nav'') [] [Prop ''aria-label'' (js ''breadcrumb''), data_slot ''breadcrumb'']"

definition BreadcrumbList :: "'a component" where
  "BreadcrumbList = draw (El ''ol'') [] [data_slot ''breadcrumb-list'']"

definition BreadcrumbItem :: "'a component" where
  "BreadcrumbItem = draw (El ''li'') [] [data_slot ''breadcrumb-item'']"

definition BreadcrumbLink :: "'a component" where
  "BreadcrumbLink = (\<lambda>props.
     use_render ''a'' (given ''className'' props) [Prop ''state-slot'' (js ''breadcrumb-link'')]
       (rest [''className''] props))"

definition BreadcrumbPage :: "'a component" where
  "BreadcrumbPage = draw (El ''span'') [] [data_slot ''breadcrumb-page'', Prop ''role'' (js ''link''), Prop ''aria-disabled'' (js ''true''), Prop ''aria-current'' (js ''page'')]"

definition BreadcrumbSeparator :: "'a component" where
  "BreadcrumbSeparator = (\<lambda>props children.
     draw (El ''li'') []
       [data_slot ''breadcrumb-separator'', Prop ''role'' (js ''presentation''),
        Prop ''aria-hidden'' (js ''true'')] props
       (children_or [icon ''CaretRightIcon''] children))"

definition BreadcrumbEllipsis :: "'a component" where
  "BreadcrumbEllipsis = (\<lambda>props children.
     draw (El ''span'') []
       [data_slot ''breadcrumb-ellipsis'', Prop ''role'' (js ''presentation''),
        Prop ''aria-hidden'' (js ''true'')] props
       (replaced [icon ''DotsThreeIcon'', sr_only ''More''] children))"

lemma actions_breadcrumb_1 [simp]:
  "transparent Breadcrumb" "transparent BreadcrumbList" "transparent BreadcrumbItem"
  "transparent BreadcrumbLink" "transparent BreadcrumbPage" "transparent BreadcrumbSeparator"
  by (rule transparentI; simp add: kit_simps Breadcrumb_def BreadcrumbList_def BreadcrumbItem_def
    BreadcrumbLink_def BreadcrumbPage_def BreadcrumbSeparator_def split: option.split)+

lemmas offers_breadcrumb_1 [simp] = actions_breadcrumb_1 [THEN transparentD]

lemma actions_breadcrumb_2 [simp]:
  "self_contained BreadcrumbEllipsis"
  by (rule self_containedI; simp add: kit_simps BreadcrumbEllipsis_def split: option.split)+

lemmas offers_breadcrumb_2 [simp] = actions_breadcrumb_2 [THEN self_containedD]

subsection \<open>Button group\<close>

definition ButtonGroup :: "'a component" where
  "ButtonGroup = (\<lambda>props. draw (El ''div'') [''orientation'']
     ([Prop ''role'' (js ''group''), data_slot ''button-group'']
      @ passed ''orientation'' ''data-orientation'' props
      @ passed ''orientation'' ''buttonGroupVariants.orientation'' props) props)"

definition ButtonGroupText :: "'a component" where
  "ButtonGroupText = (\<lambda>props.
     use_render ''div'' (given ''className'' props) [Prop ''state-slot'' (js ''button-group-text'')]
       (rest [''className''] props))"

definition ButtonGroupSeparator :: "'a component" where
  "ButtonGroupSeparator = (\<lambda>props. draw Separator [''orientation'']
     ([data_slot ''button-group-separator'']
      @ passed_or ''orientation'' ''orientation'' ''vertical'' props) props)"

lemma actions_button_group_1 [simp]:
  "transparent ButtonGroup" "transparent ButtonGroupText" "transparent ButtonGroupSeparator"
  by (rule transparentI; simp add: kit_simps ButtonGroup_def ButtonGroupText_def
    ButtonGroupSeparator_def split: option.split)+

lemmas offers_button_group_1 [simp] = actions_button_group_1 [THEN transparentD]

subsection \<open>Card\<close>

definition Card :: "'a component" where
  "Card = (\<lambda>props. draw (El ''div'') [''size'']
     ([data_slot ''card'']
      @ passed_or ''size'' ''data-size'' ''default'' props) props)"

definition CardHeader :: "'a component" where
  "CardHeader = draw (El ''div'') [] [data_slot ''card-header'']"

definition CardTitle :: "'a component" where
  "CardTitle = draw (El ''div'') [] [data_slot ''card-title'']"

definition CardDescription :: "'a component" where
  "CardDescription = draw (El ''div'') [] [data_slot ''card-description'']"

definition CardAction :: "'a component" where
  "CardAction = draw (El ''div'') [] [data_slot ''card-action'']"

definition CardContent :: "'a component" where
  "CardContent = draw (El ''div'') [] [data_slot ''card-content'']"

definition CardFooter :: "'a component" where
  "CardFooter = draw (El ''div'') [] [data_slot ''card-footer'']"

lemma actions_card_1 [simp]:
  "transparent Card" "transparent CardHeader" "transparent CardTitle"
  "transparent CardDescription" "transparent CardAction" "transparent CardContent"
  "transparent CardFooter"
  by (rule transparentI; simp add: kit_simps Card_def CardHeader_def CardTitle_def
    CardDescription_def CardAction_def CardContent_def CardFooter_def split: option.split)+

lemmas offers_card_1 [simp] = actions_card_1 [THEN transparentD]

subsection \<open>Collapsible\<close>

definition Collapsible :: "'a component" where
  "Collapsible = plain (El ''CollapsiblePrimitive.Root'') [data_slot ''collapsible'']"

definition CollapsibleTrigger :: "'a component" where
  "CollapsibleTrigger = plain (El ''CollapsiblePrimitive.Trigger'') [data_slot ''collapsible-trigger'']"

definition CollapsibleContent :: "'a component" where
  "CollapsibleContent = plain (El ''CollapsiblePrimitive.Panel'') [data_slot ''collapsible-content'']"

lemma actions_collapsible_1 [simp]:
  "transparent Collapsible" "transparent CollapsibleTrigger" "transparent CollapsibleContent"
  by (rule transparentI; simp add: kit_simps Collapsible_def CollapsibleTrigger_def
    CollapsibleContent_def split: option.split)+

lemmas offers_collapsible_1 [simp] = actions_collapsible_1 [THEN transparentD]

subsection \<open>Empty state\<close>

definition Empty :: "'a component" where
  "Empty = draw (El ''div'') [] [data_slot ''empty'']"

definition EmptyHeader :: "'a component" where
  "EmptyHeader = draw (El ''div'') [] [data_slot ''empty-header'']"

definition EmptyMedia :: "'a component" where
  "EmptyMedia = (\<lambda>props. draw (El ''div'') [''variant'']
     ([data_slot ''empty-icon'']
      @ passed_or ''variant'' ''data-variant'' ''default'' props
      @ passed_or ''variant'' ''emptyMediaVariants.variant'' ''default'' props) props)"

definition EmptyTitle :: "'a component" where
  "EmptyTitle = draw (El ''div'') [] [data_slot ''empty-title'']"

definition EmptyDescription :: "'a component" where
  "EmptyDescription = draw (El ''div'') [] [data_slot ''empty-description'']"

definition EmptyContent :: "'a component" where
  "EmptyContent = draw (El ''div'') [] [data_slot ''empty-content'']"

lemma actions_empty_1 [simp]:
  "transparent Empty" "transparent EmptyHeader" "transparent EmptyMedia" "transparent EmptyTitle"
  "transparent EmptyDescription" "transparent EmptyContent"
  by (rule transparentI; simp add: kit_simps Empty_def EmptyHeader_def EmptyMedia_def
    EmptyTitle_def EmptyDescription_def EmptyContent_def split: option.split)+

lemmas offers_empty_1 [simp] = actions_empty_1 [THEN transparentD]

subsection \<open>Item\<close>

definition ItemGroup :: "'a component" where
  "ItemGroup = draw (El ''div'') [] [Prop ''role'' (js ''list''), data_slot ''item-group'']"

definition ItemSeparator :: "'a component" where
  "ItemSeparator = draw Separator [] [data_slot ''item-separator'', Prop ''orientation'' (js ''horizontal'')]"

definition Item :: "'a component" where
  "Item = (\<lambda>props.
     use_render ''div''
       (passed_or ''variant'' ''itemVariants.variant'' ''default'' props
        @ passed_or ''size'' ''itemVariants.size'' ''default'' props @ given ''className'' props)
       (Prop ''state-slot'' (js ''item'') # passed_or ''variant'' ''state-variant'' ''default'' props
        @ passed_or ''size'' ''state-size'' ''default'' props)
       (rest [''className'', ''variant'', ''size''] props))"

definition ItemMedia :: "'a component" where
  "ItemMedia = (\<lambda>props. draw (El ''div'') [''variant'']
     ([data_slot ''item-media'']
      @ passed_or ''variant'' ''data-variant'' ''default'' props
      @ passed_or ''variant'' ''itemMediaVariants.variant'' ''default'' props) props)"

definition ItemContent :: "'a component" where
  "ItemContent = draw (El ''div'') [] [data_slot ''item-content'']"

definition ItemTitle :: "'a component" where
  "ItemTitle = draw (El ''div'') [] [data_slot ''item-title'']"

definition ItemDescription :: "'a component" where
  "ItemDescription = draw (El ''p'') [] [data_slot ''item-description'']"

definition ItemActions :: "'a component" where
  "ItemActions = draw (El ''div'') [] [data_slot ''item-actions'']"

definition ItemHeader :: "'a component" where
  "ItemHeader = draw (El ''div'') [] [data_slot ''item-header'']"

definition ItemFooter :: "'a component" where
  "ItemFooter = draw (El ''div'') [] [data_slot ''item-footer'']"

lemma actions_item_1 [simp]:
  "transparent ItemGroup" "transparent ItemSeparator" "transparent Item" "transparent ItemMedia"
  "transparent ItemContent" "transparent ItemTitle" "transparent ItemDescription"
  "transparent ItemActions" "transparent ItemHeader" "transparent ItemFooter"
  by (rule transparentI; simp add: kit_simps ItemGroup_def ItemSeparator_def Item_def
    ItemMedia_def ItemContent_def ItemTitle_def ItemDescription_def ItemActions_def
    ItemHeader_def ItemFooter_def split: option.split)+

lemmas offers_item_1 [simp] = actions_item_1 [THEN transparentD]

subsection \<open>Marker\<close>

definition Marker :: "'a component" where
  "Marker = (\<lambda>props.
     use_render ''div''
       (passed_or ''variant'' ''markerVariants.variant'' ''default'' props @ given ''className'' props)
       (Prop ''state-slot'' (js ''marker'') # passed_or ''variant'' ''state-variant'' ''default'' props)
       (rest [''className'', ''variant''] props))"

definition MarkerIcon :: "'a component" where
  "MarkerIcon = draw (El ''span'') [] [data_slot ''marker-icon'', Prop ''aria-hidden'' (js ''true'')]"

definition MarkerContent :: "'a component" where
  "MarkerContent = draw (El ''span'') [] [data_slot ''marker-content'']"

lemma actions_marker_1 [simp]:
  "transparent Marker" "transparent MarkerIcon" "transparent MarkerContent"
  by (rule transparentI; simp add: kit_simps Marker_def MarkerIcon_def MarkerContent_def
    split: option.split)+

lemmas offers_marker_1 [simp] = actions_marker_1 [THEN transparentD]

subsection \<open>Pagination\<close>

definition Pagination :: "'a component" where
  "Pagination = draw (El ''nav'') [] [Prop ''role'' (js ''navigation''), Prop ''aria-label'' (js ''pagination''), data_slot ''pagination'']"

definition PaginationContent :: "'a component" where
  "PaginationContent = draw (El ''ul'') [] [data_slot ''pagination-content'']"

definition PaginationItem :: "'a component" where
  "PaginationItem = plain (El ''li'') [data_slot ''pagination-item'']"

definition PaginationLink :: "'a component" where
  "PaginationLink = (\<lambda>props children.
     let active = flag_set ''isActive'' False props in
     Button
       (Prop ''variant'' (js (if active then ''outline'' else ''ghost''))
        # passed_or ''size'' ''size'' ''icon'' props @ given ''className'' props @ [Flag ''nativeButton'' False])
       [El ''render'' []
          [El ''a''
             (spread
                ((if active then [Prop ''aria-current'' (js ''page'')] else [])
                 @ [data_slot ''pagination-link''] @ passed ''isActive'' ''data-active'' props)
                (rest [''className'', ''isActive'', ''size''] props)) children]])"

definition PaginationEllipsis :: "'a component" where
  "PaginationEllipsis = (\<lambda>props children.
     draw (El ''span'') [] [Flag ''aria-hidden'' True, data_slot ''pagination-ellipsis''] props
       (replaced [icon ''DotsThreeIcon'', sr_only ''More pages''] children))"

definition PaginationPrevious :: "'a component" where
  "PaginationPrevious = (\<lambda>props children.
     draw PaginationLink [''text'']
       [Prop ''aria-label'' (js ''Go to previous page''), Prop ''size'' (js ''default'')] props
       (replaced
          [El ''CaretLeftIcon'' [Prop ''data-icon'' (js ''inline-start'')] [],
           El ''span'' [] [text_or ''text'' ''Previous'' props]] children))"

definition PaginationNext :: "'a component" where
  "PaginationNext = (\<lambda>props children.
     draw PaginationLink [''text'']
       [Prop ''aria-label'' (js ''Go to next page''), Prop ''size'' (js ''default'')] props
       (replaced
          [El ''span'' [] [text_or ''text'' ''Next'' props],
           El ''CaretRightIcon'' [Prop ''data-icon'' (js ''inline-end'')] []] children))"

lemma actions_pagination_1 [simp]:
  "transparent Pagination" "transparent PaginationContent" "transparent PaginationItem"
  "transparent PaginationLink"
  by (rule transparentI; simp add: kit_simps Pagination_def PaginationContent_def
    PaginationItem_def PaginationLink_def split: option.split)+

lemmas offers_pagination_1 [simp] = actions_pagination_1 [THEN transparentD]

lemma actions_pagination_2 [simp]:
  "self_contained PaginationEllipsis"
  by (rule self_containedI; simp add: kit_simps PaginationEllipsis_def split: option.split)+

lemmas offers_pagination_2 [simp] = actions_pagination_2 [THEN self_containedD]

lemma actions_pagination_3 [simp]:
  "self_contained PaginationPrevious" "self_contained PaginationNext"
  by (rule self_containedI; simp add: kit_simps PaginationPrevious_def PaginationNext_def
    split: option.split)+

lemmas offers_pagination_3 [simp] = actions_pagination_3 [THEN self_containedD]

subsection \<open>Table\<close>

definition Table :: "'a component" where
  "Table = (\<lambda>props children.
     El ''div'' [data_slot ''table-container''] [draw (El ''table'') [] [data_slot ''table''] props children])"

definition TableHeader :: "'a component" where
  "TableHeader = draw (El ''thead'') [] [data_slot ''table-header'']"

definition TableBody :: "'a component" where
  "TableBody = draw (El ''tbody'') [] [data_slot ''table-body'']"

definition TableFooter :: "'a component" where
  "TableFooter = draw (El ''tfoot'') [] [data_slot ''table-footer'']"

definition TableRow :: "'a component" where
  "TableRow = draw (El ''tr'') [] [data_slot ''table-row'']"

definition TableHead :: "'a component" where
  "TableHead = draw (El ''th'') [] [data_slot ''table-head'']"

definition TableCell :: "'a component" where
  "TableCell = draw (El ''td'') [] [data_slot ''table-cell'']"

definition TableCaption :: "'a component" where
  "TableCaption = draw (El ''caption'') [] [data_slot ''table-caption'']"

lemma actions_table_1 [simp]:
  "transparent Table" "transparent TableHeader" "transparent TableBody" "transparent TableFooter"
  "transparent TableRow" "transparent TableHead" "transparent TableCell"
  "transparent TableCaption"
  by (rule transparentI; simp add: kit_simps Table_def TableHeader_def TableBody_def
    TableFooter_def TableRow_def TableHead_def TableCell_def TableCaption_def split: option.split)+

lemmas offers_table_1 [simp] = actions_table_1 [THEN transparentD]

subsection \<open>Field\<close>

text \<open>
  The error list of \<open>FieldError\<close>: an entry is \<open>undefined\<close> or an object whose message may be
  missing, so \<open>error?.message\<close> flattens it. \<open>new Map\<close> keeps the place of the first entry with a
  message and the value of the last one. A list of nodes that is empty is \<open>null\<close>.
\<close>

definition error_message :: "jstr option option \<Rightarrow> jstr option" where
  "error_message e = (case e of Some m \<Rightarrow> m | None \<Rightarrow> None)"

definition uniqueErrors :: "jstr option option list \<Rightarrow> jstr option option list" where
  "uniqueErrors errors = map snd (foldl (\<lambda>m e. AList.update (error_message e) e m) [] errors)"

definition error_text :: "jstr option option \<Rightarrow> jstr option" where
  "error_text e = (case error_message e of Some m \<Rightarrow> if m = [] then None else Some m | None \<Rightarrow> None)"

definition error_item :: "jstr option option \<Rightarrow> 'a node list" where
  "error_item e = (case error_text e of Some m \<Rightarrow> [El ''li'' [] [literal m]] | None \<Rightarrow> [])"

definition error_content :: "jstr option option list \<Rightarrow> 'a node list \<Rightarrow> 'a node list" where
  "error_content errors children =
     (if truthy children then children
      else if errors = [] then []
      else
        let unique = uniqueErrors errors in
        if length unique = 1
        then (case error_text (hd unique) of Some m \<Rightarrow> [literal m] | None \<Rightarrow> [])
        else [El ''ul'' [] (concat (map error_item unique))])"

definition FieldSet :: "'a component" where
  "FieldSet = draw (El ''fieldset'') [] [data_slot ''field-set'']"

definition FieldLegend :: "'a component" where
  "FieldLegend = (\<lambda>props. draw (El ''legend'') [''variant'']
     ([data_slot ''field-legend'']
      @ passed_or ''variant'' ''data-variant'' ''legend'' props) props)"

definition FieldGroup :: "'a component" where
  "FieldGroup = draw (El ''div'') [] [data_slot ''field-group'']"

definition Field :: "'a component" where
  "Field = (\<lambda>props. draw (El ''div'') [''orientation'']
     ([Prop ''role'' (js ''group''), data_slot ''field'']
      @ passed_or ''orientation'' ''data-orientation'' ''vertical'' props
      @ passed_or ''orientation'' ''fieldVariants.orientation'' ''vertical'' props) props)"

definition FieldContent :: "'a component" where
  "FieldContent = draw (El ''div'') [] [data_slot ''field-content'']"

definition FieldLabel :: "'a component" where
  "FieldLabel = draw LabelElement [] [data_slot ''field-label'']"

definition FieldTitle :: "'a component" where
  "FieldTitle = draw (El ''div'') [] [data_slot ''field-label'']"

definition FieldDescription :: "'a component" where
  "FieldDescription = draw (El ''p'') [] [data_slot ''field-description'']"

definition FieldSeparator :: "'a component" where
  "FieldSeparator = (\<lambda>props children.
     draw (El ''div'') [] [data_slot ''field-separator'', Flag ''data-content'' (truthy children)] props
       (Separator [] []
        # (if truthy children then [El ''span'' [data_slot ''field-separator-content''] children] else [])))"

definition FieldError :: "jstr option option list \<Rightarrow> 'a attr list \<Rightarrow> 'a node list \<Rightarrow> 'a node list" where
  "FieldError errors props children =
     (let content = error_content errors children in
      if content = [] then []
      else [draw (El ''div'') [] [Prop ''role'' (js ''alert''), data_slot ''field-error''] props content])"

lemma actions_field_1 [simp]:
  "transparent FieldSet" "transparent FieldLegend" "transparent FieldGroup" "transparent Field"
  "transparent FieldContent" "transparent FieldLabel" "transparent FieldTitle"
  "transparent FieldDescription" "transparent FieldSeparator"
  by (rule transparentI; simp add: kit_simps FieldSet_def FieldLegend_def FieldGroup_def
    Field_def FieldContent_def FieldLabel_def FieldTitle_def FieldDescription_def
    FieldSeparator_def split: option.split)+

lemmas offers_field_1 [simp] = actions_field_1 [THEN transparentD]


subsection \<open>The messages of a field\<close>

fun firsts :: "'b list \<Rightarrow> 'b list" where
  "firsts [] = []"
| "firsts (x # xs) = x # filter (\<lambda>y. y \<noteq> x) (firsts xs)"

lemma set_firsts [simp]: "set (firsts xs) = set xs"
  by (induction xs) auto

lemma distinct_firsts: "distinct (firsts xs)"
  by (induction xs) auto

lemma firsts_eq_Nil [simp]: "firsts xs = [] \<longleftrightarrow> xs = []"
  by (cases xs) simp_all

lemma unique_entries:
  "map fst (foldl (\<lambda>m e. AList.update (error_message e) e m) al errors)
     = map fst al @ filter (\<lambda>k. k \<notin> fst ` set al) (firsts (map error_message errors))"
proof (induction errors arbitrary: al)
  case (Cons e errors)
  have keys: "fst ` set (AList.update k v al) = insert k (fst ` set al)" for k v
    by (induction al) auto
  have "map fst (AList.update k v al) = (if k \<in> fst ` set al then map fst al else map fst al @ [k])" for k v
    by (induction al) auto
  then show ?case
    by (auto simp: Cons.IH keys filter_filter intro!: filter_cong)
qed simp

lemma entry_keys:
  "(k, e) \<in> set (foldl (\<lambda>m e. AList.update (error_message e) e m) al errors) \<Longrightarrow>
     (\<forall>(k, e) \<in> set al. error_message e = k) \<Longrightarrow> error_message e = k"
proof (induction errors arbitrary: al)
  case (Cons e' errors)
  have "\<forall>(k, e) \<in> set (AList.update (error_message e') e' al). error_message e = k"
    using Cons.prems(2) by (induction al) auto
  with Cons show ?case by simp
qed auto

lemma messages_uniqueErrors: "map error_message (uniqueErrors errors) = firsts (map error_message errors)"
proof -
  let ?m = "foldl (\<lambda>m e. AList.update (error_message e) e m) [] errors"
  have "map (error_message \<circ> snd) ?m = map fst ?m"
    using entry_keys [of _ _ "[]" errors] by (intro map_cong) auto
  with unique_entries [of "[]" errors] show ?thesis by (simp add: uniqueErrors_def)
qed

definition shown_messages :: "jstr option option list \<Rightarrow> jstr list" where
  "shown_messages errors =
     concat (map (\<lambda>m. case m of Some t \<Rightarrow> if t = [] then [] else [t] | None \<Rightarrow> [])
       (firsts (map error_message errors)))"

abbreviation message_text :: "jstr option \<Rightarrow> jstr list" where
  "message_text m \<equiv> (case m of Some t \<Rightarrow> if t = [] then [] else [t] | None \<Rightarrow> [])"

lemma shown_messages_unique:
  "shown_messages errors = concat (map (message_text \<circ> error_message) (uniqueErrors errors))"
  unfolding shown_messages_def messages_uniqueErrors [symmetric] by simp

lemma distinct_shown_messages: "distinct (shown_messages errors)"
proof -
  have "distinct (concat (map message_text ms))" if "distinct ms" for ms
    using that by (induction ms) (auto split: option.split)
  then show ?thesis by (simp add: shown_messages_def distinct_firsts)
qed

lemma uniqueErrors_Nil [simp]: "uniqueErrors errors = [] \<longleftrightarrow> errors = []"
  using messages_uniqueErrors [of errors] by (metis firsts_eq_Nil map_is_Nil_conv)

lemma texts_error_items:
  "concat (map page_texts (concat (map error_item es) :: 'a node list))
     = map Lit (concat (map (message_text \<circ> error_message) es))"
proof -
  have "concat (map page_texts (error_item e :: 'a node list)) = map Lit (message_text (error_message e))" for e
    by (simp add: error_item_def error_text_def split: option.split)
  then show ?thesis by (induction es) simp_all
qed

lemma texts_error_content:
  "concat (map page_texts (error_content errors [] :: 'a node list)) = map Lit (shown_messages errors)"
proof (cases "uniqueErrors errors")
  case (Cons e es)
  then have "errors \<noteq> []" using uniqueErrors_Nil [of errors] by auto
  with Cons texts_error_items [of "uniqueErrors errors"] show ?thesis
    by (cases es) (auto simp: error_content_def truthy_def shown_messages_unique error_text_def Let_def
        simp del: map_append split: option.split)
qed (simp add: error_content_def truthy_def shown_messages_def)

lemma error_content_Nil:
  "error_content errors [] = [] \<longleftrightarrow> shown_messages errors = []
     \<and> \<not> (None \<in> error_message ` set errors \<and> Some [] \<in> error_message ` set errors)"
proof (cases "uniqueErrors errors")
  case (Cons e es)
  have keys: "error_message ` set errors = set (map error_message (e # es))"
    and dist: "distinct (map error_message (e # es))"
    using messages_uniqueErrors [of errors] Cons distinct_firsts by (metis list.set_map set_firsts)+
  have none: "errors \<noteq> []" using Cons uniqueErrors_Nil [of errors] by auto
  show ?thesis
  proof (cases es)
    case Nil
    with Cons none keys show ?thesis
      by (auto simp: error_content_def truthy_def shown_messages_unique error_text_def split: option.splits)
  next
    case (Cons e' es')
    have "error_message e \<noteq> error_message e'" using dist Cons by simp
    moreover have "error_message e \<in> {None, Some []} \<and> error_message e' \<in> {None, Some []}"
      if "shown_messages errors = []"
      using that \<open>uniqueErrors errors = e # es\<close> Cons
      by (auto simp: shown_messages_unique split: option.splits if_splits)
    ultimately show ?thesis
      using \<open>uniqueErrors errors = e # es\<close> Cons none keys by (auto simp: error_content_def truthy_def Let_def)
  qed
qed (simp add: error_content_def truthy_def shown_messages_def)

text \<open>C39: Without children, \<open>FieldError\<close> shows the non-empty messages, each once, in the
  order in which they first occur. It shows nothing when there is none, except that a list with both
  an entry without a message and one with an empty message gives an alert with an empty list.\<close>

theorem field_error:
  fixes props :: "'a attr list"
  shows "concat (map page_texts (FieldError errors props [])) = map Lit (shown_messages errors)
    \<and> distinct (shown_messages errors)
    \<and> (FieldError errors props [] = [] \<longleftrightarrow>
         shown_messages errors = []
         \<and> \<not> (None \<in> error_message ` set errors \<and> Some [] \<in> error_message ` set errors))"
  using texts_error_content [of errors, where 'a = 'a] error_content_Nil [of errors, where 'a = 'a]
    distinct_shown_messages [of errors]
  by (simp add: FieldError_def draw_def Let_def)

end
