(* ===== verification/UiOverlays.thy ===== *)
theory UiOverlays
  imports UiControls
begin

section \<open>Overlays: dialogs, menus, popups and toasts\<close>

text \<open>\<open>components/ui\<close>: the components that open above the page.\<close>

subsection \<open>Alert dialog\<close>

definition AlertDialog :: "'a component" where
  "AlertDialog = plain (El ''AlertDialogPrimitive.Root'') [data_slot ''alert-dialog'']"

definition AlertDialogTrigger :: "'a component" where
  "AlertDialogTrigger = plain (El ''AlertDialogPrimitive.Trigger'') [data_slot ''alert-dialog-trigger'']"

definition AlertDialogPortal :: "'a component" where
  "AlertDialogPortal = plain (El ''AlertDialogPrimitive.Portal'') [data_slot ''alert-dialog-portal'']"

definition AlertDialogOverlay :: "'a component" where
  "AlertDialogOverlay = draw (El ''AlertDialogPrimitive.Backdrop'') [] [data_slot ''alert-dialog-overlay'']"

definition AlertDialogHeader :: "'a component" where
  "AlertDialogHeader = draw (El ''div'') [] [data_slot ''alert-dialog-header'']"

definition AlertDialogFooter :: "'a component" where
  "AlertDialogFooter = draw (El ''div'') [] [data_slot ''alert-dialog-footer'']"

definition AlertDialogMedia :: "'a component" where
  "AlertDialogMedia = draw (El ''div'') [] [data_slot ''alert-dialog-media'']"

definition AlertDialogTitle :: "'a component" where
  "AlertDialogTitle = draw (El ''AlertDialogPrimitive.Title'') [] [data_slot ''alert-dialog-title'']"

definition AlertDialogDescription :: "'a component" where
  "AlertDialogDescription = draw (El ''AlertDialogPrimitive.Description'') [] [data_slot ''alert-dialog-description'']"

definition AlertDialogAction :: "'a component" where
  "AlertDialogAction = draw Button [] [data_slot ''alert-dialog-action'']"

definition AlertDialogCancel :: "'a component" where
  "AlertDialogCancel = (\<lambda>props children.
     draw (El ''AlertDialogPrimitive.Close'') [''variant'', ''size''] [data_slot ''alert-dialog-cancel'']
       props
       (render_or
          (Button (passed_or ''variant'' ''variant'' ''outline'' props
             @ passed_or ''size'' ''size'' ''default'' props) []) children))"

definition AlertDialogContent :: "'a component" where
  "AlertDialogContent = (\<lambda>props children.
     AlertDialogPortal []
       [AlertDialogOverlay [] [],
        draw (El ''AlertDialogPrimitive.Popup'') [''size'']
          ([data_slot ''alert-dialog-content''] @ passed_or ''size'' ''data-size'' ''default'' props)
          props children])"

lemma actions_alert_dialog_1 [simp]:
  "transparent AlertDialog" "transparent AlertDialogTrigger" "transparent AlertDialogPortal"
  "transparent AlertDialogOverlay" "transparent AlertDialogHeader"
  "transparent AlertDialogFooter" "transparent AlertDialogMedia" "transparent AlertDialogTitle"
  "transparent AlertDialogDescription" "transparent AlertDialogAction"
  "transparent AlertDialogCancel"
  by (rule transparentI; simp add: kit_simps AlertDialog_def AlertDialogTrigger_def
    AlertDialogPortal_def AlertDialogOverlay_def AlertDialogHeader_def AlertDialogFooter_def
    AlertDialogMedia_def AlertDialogTitle_def AlertDialogDescription_def AlertDialogAction_def
    AlertDialogCancel_def split: option.split)+

lemmas offers_alert_dialog_1 [simp] = actions_alert_dialog_1 [THEN transparentD]

lemma actions_alert_dialog_2 [simp]:
  "transparent AlertDialogContent"
  by (rule transparentI; simp add: kit_simps AlertDialogContent_def split: option.split)+

lemmas offers_alert_dialog_2 [simp] = actions_alert_dialog_2 [THEN transparentD]

subsection \<open>Dialog\<close>

definition Dialog :: "'a component" where
  "Dialog = plain (El ''DialogPrimitive.Root'') [data_slot ''dialog'']"

definition DialogTrigger :: "'a component" where
  "DialogTrigger = plain (El ''DialogPrimitive.Trigger'') [data_slot ''dialog-trigger'']"

definition DialogPortal :: "'a component" where
  "DialogPortal = plain (El ''DialogPrimitive.Portal'') [data_slot ''dialog-portal'']"

definition DialogClose :: "'a component" where
  "DialogClose = plain (El ''DialogPrimitive.Close'') [data_slot ''dialog-close'']"

definition DialogOverlay :: "'a component" where
  "DialogOverlay = draw (El ''DialogPrimitive.Backdrop'') [] [data_slot ''dialog-overlay'']"

definition DialogHeader :: "'a component" where
  "DialogHeader = draw (El ''div'') [] [data_slot ''dialog-header'']"

definition DialogFooter :: "'a component" where
  "DialogFooter = (\<lambda>props children.
     draw (El ''div'') [''showCloseButton''] [data_slot ''dialog-footer''] props
       (children @ shown_if (flag_set ''showCloseButton'' False props)
          (El ''DialogPrimitive.Close'' []
             [El ''render'' [] [Button [Prop ''variant'' (js ''outline'')] []], literal (js ''Close'')])))"

definition DialogTitle :: "'a component" where
  "DialogTitle = draw (El ''DialogPrimitive.Title'') [] [data_slot ''dialog-title'']"

definition DialogDescription :: "'a component" where
  "DialogDescription = draw (El ''DialogPrimitive.Description'') [] [data_slot ''dialog-description'']"

definition DialogContent :: "'a component" where
  "DialogContent = (\<lambda>props children.
     DialogPortal []
       [DialogOverlay [] [],
        draw (El ''DialogPrimitive.Popup'') [''showCloseButton''] [data_slot ''dialog-content''] props
          (children @ shown_if (flag_set ''showCloseButton'' True props)
             (El ''DialogPrimitive.Close'' [data_slot ''dialog-close'']
               [El ''render'' [] [Button [Prop ''variant'' (js ''ghost''), Prop ''size'' (js ''icon-sm'')] []],
                icon ''XIcon'', sr_only ''Close'']))])"

lemma actions_dialog_1 [simp]:
  "transparent Dialog" "transparent DialogTrigger" "transparent DialogPortal"
  "transparent DialogClose" "transparent DialogOverlay" "transparent DialogHeader"
  "transparent DialogFooter" "transparent DialogTitle" "transparent DialogDescription"
  by (rule transparentI; simp add: kit_simps Dialog_def DialogTrigger_def DialogPortal_def
    DialogClose_def DialogOverlay_def DialogHeader_def DialogFooter_def DialogTitle_def
    DialogDescription_def split: option.split)+

lemmas offers_dialog_1 [simp] = actions_dialog_1 [THEN transparentD]

lemma actions_dialog_2 [simp]:
  "transparent DialogContent"
  by (rule transparentI; simp add: kit_simps DialogContent_def split: option.split)+

lemmas offers_dialog_2 [simp] = actions_dialog_2 [THEN transparentD]

subsection \<open>Sheet\<close>

definition Sheet :: "'a component" where
  "Sheet = plain (El ''SheetPrimitive.Root'') [data_slot ''sheet'']"

definition SheetTrigger :: "'a component" where
  "SheetTrigger = plain (El ''SheetPrimitive.Trigger'') [data_slot ''sheet-trigger'']"

definition SheetClose :: "'a component" where
  "SheetClose = plain (El ''SheetPrimitive.Close'') [data_slot ''sheet-close'']"

definition SheetPortal :: "'a component" where
  "SheetPortal = plain (El ''SheetPrimitive.Portal'') [data_slot ''sheet-portal'']"

definition SheetOverlay :: "'a component" where
  "SheetOverlay = draw (El ''SheetPrimitive.Backdrop'') [] [data_slot ''sheet-overlay'']"

definition SheetHeader :: "'a component" where
  "SheetHeader = draw (El ''div'') [] [data_slot ''sheet-header'']"

definition SheetFooter :: "'a component" where
  "SheetFooter = draw (El ''div'') [] [data_slot ''sheet-footer'']"

definition SheetTitle :: "'a component" where
  "SheetTitle = draw (El ''SheetPrimitive.Title'') [] [data_slot ''sheet-title'']"

definition SheetDescription :: "'a component" where
  "SheetDescription = draw (El ''SheetPrimitive.Description'') [] [data_slot ''sheet-description'']"

definition SheetContent :: "'a component" where
  "SheetContent = (\<lambda>props children.
     SheetPortal []
       [SheetOverlay [] [],
        draw (El ''SheetPrimitive.Popup'') [''side'', ''showCloseButton'']
          ([data_slot ''sheet-content''] @ passed_or ''side'' ''data-side'' ''right'' props) props
          (children @ shown_if (flag_set ''showCloseButton'' True props)
             (El ''SheetPrimitive.Close'' [data_slot ''sheet-close'']
               [El ''render'' [] [Button [Prop ''variant'' (js ''ghost''), Prop ''size'' (js ''icon-sm'')] []],
                icon ''XIcon'', sr_only ''Close'']))])"

lemma actions_sheet_1 [simp]:
  "transparent Sheet" "transparent SheetTrigger" "transparent SheetClose"
  "transparent SheetPortal" "transparent SheetOverlay" "transparent SheetHeader"
  "transparent SheetFooter" "transparent SheetTitle" "transparent SheetDescription"
  by (rule transparentI; simp add: kit_simps Sheet_def SheetTrigger_def SheetClose_def
    SheetPortal_def SheetOverlay_def SheetHeader_def SheetFooter_def SheetTitle_def
    SheetDescription_def split: option.split)+

lemmas offers_sheet_1 [simp] = actions_sheet_1 [THEN transparentD]

lemma actions_sheet_2 [simp]:
  "transparent SheetContent"
  by (rule transparentI; simp add: kit_simps SheetContent_def split: option.split)+

lemmas offers_sheet_2 [simp] = actions_sheet_2 [THEN transparentD]

subsection \<open>Drawer\<close>

text \<open>\<open>modal\<close> is a truth value or \<open>\"trap-focus\"\<close>.\<close>

datatype drawer_modal = Modal bool | TrapFocus

datatype swipe = SwipeDown | SwipeUp | SwipeLeft | SwipeRight

fun modal_text :: "drawer_modal \<Rightarrow> jstr" where
  "modal_text (Modal True) = js ''true''"
| "modal_text (Modal False) = js ''false''"
| "modal_text TrapFocus = js ''trap-focus''"

fun swipe_text :: "swipe \<Rightarrow> jstr" where
  "swipe_text SwipeDown = js ''down''"
| "swipe_text SwipeUp = js ''up''"
| "swipe_text SwipeLeft = js ''left''"
| "swipe_text SwipeRight = js ''right''"

definition swipe_axis :: "swipe \<Rightarrow> jstr" where
  "swipe_axis d = (if d = SwipeDown \<or> d = SwipeUp then js ''y'' else js ''x'')"

record drawer_context =
  dc_hasSnapPoints :: bool
  dc_modal :: drawer_modal
  dc_showSwipeHandle :: bool
  dc_swipeDirection :: swipe

definition useDrawer :: "drawer_context option \<Rightarrow> jstr + drawer_context" where
  "useDrawer context =
     (case context of Some c \<Rightarrow> Inr c | None \<Rightarrow> Inl (js ''useDrawer must be used within a Drawer.''))"

definition Drawer :: "drawer_modal option \<Rightarrow> jstr list option \<Rightarrow> swipe option \<Rightarrow> 'a attr list \<Rightarrow> 'a node list
    \<Rightarrow> drawer_context \<times> 'a node" where
  "Drawer mdl snapPoints direction props children =
     (let m = (case mdl of Some m \<Rightarrow> m | None \<Rightarrow> Modal True);
          d = (case direction of Some d \<Rightarrow> d | None \<Rightarrow> SwipeDown)
      in
        (\<lparr>dc_hasSnapPoints = (case snapPoints of Some ps \<Rightarrow> ps \<noteq> [] | None \<Rightarrow> False), dc_modal = m,
          dc_showSwipeHandle = flag_set ''showSwipeHandle'' False props, dc_swipeDirection = d\<rparr>,
         plain (El ''DrawerPrimitive.Root'')
           ([data_slot ''drawer'', Prop ''modal'' (modal_text m)]
            @ (case snapPoints of Some ps \<Rightarrow> [Prop ''snapPoints'' (join_str (js '','') ps)] | None \<Rightarrow> [])
            @ [Prop ''swipeDirection'' (swipe_text d)])
           (rest [''showSwipeHandle''] props) children))"

definition DrawerTrigger :: "'a component" where
  "DrawerTrigger = plain (El ''DrawerPrimitive.Trigger'') [data_slot ''drawer-trigger'']"

definition DrawerPortal :: "'a component" where
  "DrawerPortal = plain (El ''DrawerPrimitive.Portal'') [data_slot ''drawer-portal'']"

definition DrawerClose :: "'a component" where
  "DrawerClose = plain (El ''DrawerPrimitive.Close'') [data_slot ''drawer-close'']"

definition DrawerOverlay :: "'a component" where
  "DrawerOverlay = draw (El ''DrawerPrimitive.Backdrop'') [] [data_slot ''drawer-overlay'']"

definition DrawerSwipeHandle :: "'a component" where
  "DrawerSwipeHandle = draw (El ''div'') [] [data_slot ''drawer-swipe-handle'', Prop ''aria-hidden'' (js ''true'')]"

definition DrawerHeader :: "'a component" where
  "DrawerHeader = draw (El ''div'') [] [data_slot ''drawer-header'']"

definition DrawerFooter :: "'a component" where
  "DrawerFooter = draw (El ''div'') [] [data_slot ''drawer-footer'']"

definition DrawerTitle :: "'a component" where
  "DrawerTitle = draw (El ''DrawerPrimitive.Title'') [] [data_slot ''drawer-title'']"

definition DrawerDescription :: "'a component" where
  "DrawerDescription = draw (El ''DrawerPrimitive.Description'') [] [data_slot ''drawer-description'']"

definition DrawerContent :: "drawer_context option \<Rightarrow> 'a attr list \<Rightarrow> 'a node list \<Rightarrow> jstr + 'a node" where
  "DrawerContent context props children =
     (case useDrawer context of
        Inl err \<Rightarrow> Inl err
      | Inr c \<Rightarrow>
          let snap = (if dc_hasSnapPoints c then [Prop ''data-snap-points'' []] else [])
          in
            Inr (DrawerPortal [data_slot ''drawer-portal'']
              (shown_if (dc_modal c = Modal True) (DrawerOverlay snap [])
               @ [El ''DrawerPrimitive.Viewport''
                    [data_slot ''drawer-viewport'', Prop ''data-modal'' (modal_text (dc_modal c))]
                    [draw (El ''DrawerPrimitive.Popup'') []
                       ([data_slot ''drawer-popup'', Prop ''data-swipe-axis'' (swipe_axis (dc_swipeDirection c))]
                        @ snap) props
                       (replaced
                          (shown_if (dc_showSwipeHandle c) (DrawerSwipeHandle [] [])
                           @ [El ''DrawerPrimitive.Content'' [data_slot ''drawer-content'']
                                (without_render children)]) children)]])))"

lemma actions_drawer_1 [simp]:
  "transparent DrawerTrigger" "transparent DrawerPortal" "transparent DrawerClose"
  "transparent DrawerOverlay" "transparent DrawerSwipeHandle" "transparent DrawerHeader"
  "transparent DrawerFooter" "transparent DrawerTitle" "transparent DrawerDescription"
  by (rule transparentI; simp add: kit_simps DrawerTrigger_def DrawerPortal_def DrawerClose_def
    DrawerOverlay_def DrawerSwipeHandle_def DrawerHeader_def DrawerFooter_def DrawerTitle_def
    DrawerDescription_def split: option.split)+

lemmas offers_drawer_1 [simp] = actions_drawer_1 [THEN transparentD]

subsection \<open>Popover\<close>

definition Popover :: "'a component" where
  "Popover = plain (El ''PopoverPrimitive.Root'') [data_slot ''popover'']"

definition PopoverTrigger :: "'a component" where
  "PopoverTrigger = plain (El ''PopoverPrimitive.Trigger'') [data_slot ''popover-trigger'']"

definition PopoverContent :: "'a component" where
  "PopoverContent = (\<lambda>props children.
     positioned ''PopoverPrimitive'' []
       (defaults
         [(''align'', ''center''), (''alignOffset'', ''0''), (''side'', ''bottom''), (''sideOffset'', ''4'')]
         props)
       (draw (El ''PopoverPrimitive.Popup'')
          [''align'', ''alignOffset'', ''side'', ''sideOffset'']
          [data_slot ''popover-content'']
          props children))"

definition PopoverHeader :: "'a component" where
  "PopoverHeader = draw (El ''div'') [] [data_slot ''popover-header'']"

definition PopoverTitle :: "'a component" where
  "PopoverTitle = draw (El ''PopoverPrimitive.Title'') [] [data_slot ''popover-title'']"

definition PopoverDescription :: "'a component" where
  "PopoverDescription = draw (El ''PopoverPrimitive.Description'') [] [data_slot ''popover-description'']"

lemma actions_popover_1 [simp]:
  "transparent Popover" "transparent PopoverTrigger" "transparent PopoverContent"
  "transparent PopoverHeader" "transparent PopoverTitle" "transparent PopoverDescription"
  by (rule transparentI; simp add: kit_simps Popover_def PopoverTrigger_def PopoverContent_def
    PopoverHeader_def PopoverTitle_def PopoverDescription_def split: option.split)+

lemmas offers_popover_1 [simp] = actions_popover_1 [THEN transparentD]

subsection \<open>Hover card\<close>

definition HoverCard :: "'a component" where
  "HoverCard = plain (El ''PreviewCardPrimitive.Root'') [data_slot ''hover-card'']"

definition HoverCardTrigger :: "'a component" where
  "HoverCardTrigger = plain (El ''PreviewCardPrimitive.Trigger'') [data_slot ''hover-card-trigger'']"

definition HoverCardContent :: "'a component" where
  "HoverCardContent = (\<lambda>props children.
     positioned ''PreviewCardPrimitive'' [data_slot ''hover-card-portal'']
       (defaults
         [(''side'', ''bottom''), (''sideOffset'', ''4''), (''align'', ''center''), (''alignOffset'', ''4'')]
         props)
       (draw (El ''PreviewCardPrimitive.Popup'')
          [''side'', ''sideOffset'', ''align'', ''alignOffset'']
          [data_slot ''hover-card-content'']
          props children))"

lemma actions_hover_card_1 [simp]:
  "transparent HoverCard" "transparent HoverCardTrigger" "transparent HoverCardContent"
  by (rule transparentI; simp add: kit_simps HoverCard_def HoverCardTrigger_def
    HoverCardContent_def split: option.split)+

lemmas offers_hover_card_1 [simp] = actions_hover_card_1 [THEN transparentD]

subsection \<open>Tooltip\<close>

definition TooltipProvider :: "'a component" where
  "TooltipProvider = (\<lambda>props. plain (El ''TooltipPrimitive.Provider'')
     ([data_slot ''tooltip-provider'']
      @ passed_or ''delay'' ''delay'' ''0'' props) (rest [''delay''] props))"

definition Tooltip :: "'a component" where
  "Tooltip = plain (El ''TooltipPrimitive.Root'') [data_slot ''tooltip'']"

definition TooltipTrigger :: "'a component" where
  "TooltipTrigger = plain (El ''TooltipPrimitive.Trigger'') [data_slot ''tooltip-trigger'']"

definition TooltipContent :: "'a component" where
  "TooltipContent = (\<lambda>props children.
     positioned ''TooltipPrimitive'' []
       (defaults
         [(''side'', ''top''), (''sideOffset'', ''4''), (''align'', ''center''), (''alignOffset'', ''0'')]
         props)
       (draw (El ''TooltipPrimitive.Popup'')
          [''side'', ''sideOffset'', ''align'', ''alignOffset'']
          [data_slot ''tooltip-content'']
          props (children @ [icon ''TooltipPrimitive.Arrow''])))"

lemma actions_tooltip_1 [simp]:
  "transparent TooltipProvider" "transparent Tooltip" "transparent TooltipTrigger"
  "transparent TooltipContent"
  by (rule transparentI; simp add: kit_simps TooltipProvider_def Tooltip_def TooltipTrigger_def
    TooltipContent_def split: option.split)+

lemmas offers_tooltip_1 [simp] = actions_tooltip_1 [THEN transparentD]

subsection \<open>Command\<close>

definition Command :: "'a component" where
  "Command = draw (El ''CommandPrimitive'') [] [data_slot ''command'']"

definition CommandDialog :: "'a component" where
  "CommandDialog = (\<lambda>props children.
     Dialog (rest [''title'', ''description'', ''className'', ''showCloseButton''] props)
       [DialogHeader [Prop ''className'' (js ''sr-only'')]
          [DialogTitle [] [text_or ''title'' ''Command Palette'' props],
           DialogDescription [] [text_or ''description'' ''Search for a command to run...'' props]],
        DialogContent
          (given ''className'' props @ flag_or ''showCloseButton'' ''showCloseButton'' False props) children])"

definition CommandInput :: "'a component" where
  "CommandInput = (\<lambda>props children.
     El ''div'' [data_slot ''command-input-wrapper'']
       [InputGroup []
          [draw (El ''CommandPrimitive.Input'') [] [data_slot ''command-input''] props children,
           InputGroupAddon [] [icon ''MagnifyingGlassIcon'']]])"

definition CommandList :: "'a component" where
  "CommandList = draw (El ''CommandPrimitive.List'') [] [data_slot ''command-list'']"

definition CommandEmpty :: "'a component" where
  "CommandEmpty = draw (El ''CommandPrimitive.Empty'') [] [data_slot ''command-empty'']"

definition CommandGroup :: "'a component" where
  "CommandGroup = draw (El ''CommandPrimitive.Group'') [] [data_slot ''command-group'']"

definition CommandSeparator :: "'a component" where
  "CommandSeparator = draw (El ''CommandPrimitive.Separator'') [] [data_slot ''command-separator'']"

definition CommandItem :: "'a component" where
  "CommandItem = (\<lambda>props children.
     draw (El ''CommandPrimitive.Item'') [] [data_slot ''command-item''] props
       (children @ [icon ''CheckIcon'']))"

definition CommandShortcut :: "'a component" where
  "CommandShortcut = draw (El ''span'') [] [data_slot ''command-shortcut'']"

lemma actions_command_1 [simp]:
  "transparent Command" "transparent CommandDialog" "transparent CommandInput"
  "transparent CommandList" "transparent CommandEmpty" "transparent CommandGroup"
  "transparent CommandSeparator" "transparent CommandItem" "transparent CommandShortcut"
  by (rule transparentI; simp add: kit_simps Command_def CommandDialog_def CommandInput_def
    CommandList_def CommandEmpty_def CommandGroup_def CommandSeparator_def CommandItem_def
    CommandShortcut_def split: option.split)+

lemmas offers_command_1 [simp] = actions_command_1 [THEN transparentD]

subsection \<open>Context menu\<close>

definition ContextMenu :: "'a component" where
  "ContextMenu = plain (El ''ContextMenuPrimitive.Root'') [data_slot ''context-menu'']"

definition ContextMenuPortal :: "'a component" where
  "ContextMenuPortal = plain (El ''ContextMenuPrimitive.Portal'') [data_slot ''context-menu-portal'']"

definition ContextMenuTrigger :: "'a component" where
  "ContextMenuTrigger = draw (El ''ContextMenuPrimitive.Trigger'') [] [data_slot ''context-menu-trigger'']"

definition ContextMenuContent :: "'a component" where
  "ContextMenuContent = (\<lambda>props children.
     positioned ''ContextMenuPrimitive'' []
       (defaults
         [(''align'', ''start''), (''alignOffset'', ''4''), (''side'', ''right''), (''sideOffset'', ''0'')]
         props)
       (draw (El ''ContextMenuPrimitive.Popup'')
          [''align'', ''alignOffset'', ''side'', ''sideOffset'']
          [data_slot ''context-menu-content'']
          props children))"

definition ContextMenuGroup :: "'a component" where
  "ContextMenuGroup = plain (El ''ContextMenuPrimitive.Group'') [data_slot ''context-menu-group'']"

definition ContextMenuLabel :: "'a component" where
  "ContextMenuLabel = (\<lambda>props. draw (El ''ContextMenuPrimitive.GroupLabel'') [''inset'']
     ([data_slot ''context-menu-label'']
      @ passed ''inset'' ''data-inset'' props) props)"

definition ContextMenuItem :: "'a component" where
  "ContextMenuItem = (\<lambda>props. draw (El ''ContextMenuPrimitive.Item'') [''inset'', ''variant'']
     ([data_slot ''context-menu-item'']
      @ passed ''inset'' ''data-inset'' props
      @ passed_or ''variant'' ''data-variant'' ''default'' props) props)"

definition ContextMenuSub :: "'a component" where
  "ContextMenuSub = plain (El ''ContextMenuPrimitive.SubmenuRoot'') [data_slot ''context-menu-sub'']"

definition ContextMenuSubTrigger :: "'a component" where
  "ContextMenuSubTrigger = (\<lambda>props children.
     draw (El ''ContextMenuPrimitive.SubmenuTrigger'') [''inset'']
       ([data_slot ''context-menu-sub-trigger''] @ passed ''inset'' ''data-inset'' props) props
       (children @ [icon ''CaretRightIcon'']))"

definition ContextMenuCheckboxItem :: "'a component" where
  "ContextMenuCheckboxItem = (\<lambda>props children.
     draw (El ''ContextMenuPrimitive.CheckboxItem'') [''checked'', ''inset'']
       ([data_slot ''context-menu-checkbox-item''] @ passed ''inset'' ''data-inset'' props
        @ passed ''checked'' ''checked'' props) props
       (El ''span'' []
          [El ''ContextMenuPrimitive.CheckboxItemIndicator'' [] [icon ''CheckIcon'']] # children))"

definition ContextMenuRadioGroup :: "'a component" where
  "ContextMenuRadioGroup = plain (El ''ContextMenuPrimitive.RadioGroup'') [data_slot ''context-menu-radio-group'']"

definition ContextMenuRadioItem :: "'a component" where
  "ContextMenuRadioItem = (\<lambda>props children.
     draw (El ''ContextMenuPrimitive.RadioItem'') [''inset'']
       ([data_slot ''context-menu-radio-item''] @ passed ''inset'' ''data-inset'' props) props
       (El ''span'' []
          [El ''ContextMenuPrimitive.RadioItemIndicator'' [] [icon ''CheckIcon'']] # children))"

definition ContextMenuSeparator :: "'a component" where
  "ContextMenuSeparator = draw (El ''ContextMenuPrimitive.Separator'') [] [data_slot ''context-menu-separator'']"

definition ContextMenuShortcut :: "'a component" where
  "ContextMenuShortcut = draw (El ''span'') [] [data_slot ''context-menu-shortcut'']"

definition ContextMenuSubContent :: "'a component" where
  "ContextMenuSubContent = plain ContextMenuContent [data_slot ''context-menu-sub-content'', Prop ''side'' (js ''right'')]"

lemma actions_context_menu_1 [simp]:
  "transparent ContextMenu" "transparent ContextMenuPortal" "transparent ContextMenuTrigger"
  "transparent ContextMenuContent" "transparent ContextMenuGroup" "transparent ContextMenuLabel"
  "transparent ContextMenuItem" "transparent ContextMenuSub" "transparent ContextMenuSubTrigger"
  "transparent ContextMenuCheckboxItem" "transparent ContextMenuRadioGroup"
  "transparent ContextMenuRadioItem" "transparent ContextMenuSeparator"
  "transparent ContextMenuShortcut"
  by (rule transparentI; simp add: kit_simps ContextMenu_def ContextMenuPortal_def
    ContextMenuTrigger_def ContextMenuContent_def ContextMenuGroup_def ContextMenuLabel_def
    ContextMenuItem_def ContextMenuSub_def ContextMenuSubTrigger_def ContextMenuCheckboxItem_def
    ContextMenuRadioGroup_def ContextMenuRadioItem_def ContextMenuSeparator_def
    ContextMenuShortcut_def split: option.split)+

lemmas offers_context_menu_1 [simp] = actions_context_menu_1 [THEN transparentD]

lemma actions_context_menu_2 [simp]:
  "transparent ContextMenuSubContent"
  by (rule transparentI; simp add: kit_simps ContextMenuSubContent_def split: option.split)+

lemmas offers_context_menu_2 [simp] = actions_context_menu_2 [THEN transparentD]

subsection \<open>Dropdown menu\<close>

definition DropdownMenu :: "'a component" where
  "DropdownMenu = plain (El ''MenuPrimitive.Root'') [data_slot ''dropdown-menu'']"

definition DropdownMenuPortal :: "'a component" where
  "DropdownMenuPortal = plain (El ''MenuPrimitive.Portal'') [data_slot ''dropdown-menu-portal'']"

definition DropdownMenuTrigger :: "'a component" where
  "DropdownMenuTrigger = plain (El ''MenuPrimitive.Trigger'') [data_slot ''dropdown-menu-trigger'']"

definition DropdownMenuContent :: "'a component" where
  "DropdownMenuContent = (\<lambda>props children.
     positioned ''MenuPrimitive'' []
       (defaults
         [(''align'', ''start''), (''alignOffset'', ''0''), (''side'', ''bottom''), (''sideOffset'', ''4'')]
         props)
       (draw (El ''MenuPrimitive.Popup'')
          [''align'', ''alignOffset'', ''side'', ''sideOffset'']
          [data_slot ''dropdown-menu-content'']
          props children))"

definition DropdownMenuGroup :: "'a component" where
  "DropdownMenuGroup = plain (El ''MenuPrimitive.Group'') [data_slot ''dropdown-menu-group'']"

definition DropdownMenuLabel :: "'a component" where
  "DropdownMenuLabel = (\<lambda>props. draw (El ''MenuPrimitive.GroupLabel'') [''inset'']
     ([data_slot ''dropdown-menu-label'']
      @ passed ''inset'' ''data-inset'' props) props)"

definition DropdownMenuItem :: "'a component" where
  "DropdownMenuItem = (\<lambda>props. draw (El ''MenuPrimitive.Item'') [''inset'', ''variant'']
     ([data_slot ''dropdown-menu-item'']
      @ passed ''inset'' ''data-inset'' props
      @ passed_or ''variant'' ''data-variant'' ''default'' props) props)"

definition DropdownMenuSub :: "'a component" where
  "DropdownMenuSub = plain (El ''MenuPrimitive.SubmenuRoot'') [data_slot ''dropdown-menu-sub'']"

definition DropdownMenuSubTrigger :: "'a component" where
  "DropdownMenuSubTrigger = (\<lambda>props children.
     draw (El ''MenuPrimitive.SubmenuTrigger'') [''inset'']
       ([data_slot ''dropdown-menu-sub-trigger''] @ passed ''inset'' ''data-inset'' props) props
       (children @ [icon ''CaretRightIcon'']))"

definition DropdownMenuCheckboxItem :: "'a component" where
  "DropdownMenuCheckboxItem = (\<lambda>props children.
     draw (El ''MenuPrimitive.CheckboxItem'') [''checked'', ''inset'']
       ([data_slot ''dropdown-menu-checkbox-item''] @ passed ''inset'' ''data-inset'' props
        @ passed ''checked'' ''checked'' props) props
       (El ''span'' [data_slot ''dropdown-menu-checkbox-item-indicator'']
          [El ''MenuPrimitive.CheckboxItemIndicator'' [] [icon ''CheckIcon'']] # children))"

definition DropdownMenuRadioGroup :: "'a component" where
  "DropdownMenuRadioGroup = plain (El ''MenuPrimitive.RadioGroup'') [data_slot ''dropdown-menu-radio-group'']"

definition DropdownMenuRadioItem :: "'a component" where
  "DropdownMenuRadioItem = (\<lambda>props children.
     draw (El ''MenuPrimitive.RadioItem'') [''inset'']
       ([data_slot ''dropdown-menu-radio-item''] @ passed ''inset'' ''data-inset'' props) props
       (El ''span'' [data_slot ''dropdown-menu-radio-item-indicator'']
          [El ''MenuPrimitive.RadioItemIndicator'' [] [icon ''CheckIcon'']] # children))"

definition DropdownMenuSeparator :: "'a component" where
  "DropdownMenuSeparator = draw (El ''MenuPrimitive.Separator'') [] [data_slot ''dropdown-menu-separator'']"

definition DropdownMenuShortcut :: "'a component" where
  "DropdownMenuShortcut = draw (El ''span'') [] [data_slot ''dropdown-menu-shortcut'']"

definition DropdownMenuSubContent :: "'a component" where
  "DropdownMenuSubContent = (\<lambda>props. draw DropdownMenuContent [''align'', ''alignOffset'', ''side'', ''sideOffset'']
     ([data_slot ''dropdown-menu-sub-content'']
      @ passed_or ''align'' ''align'' ''start'' props
      @ passed_or ''alignOffset'' ''alignOffset'' ''-3'' props
      @ passed_or ''side'' ''side'' ''right'' props
      @ passed_or ''sideOffset'' ''sideOffset'' ''0'' props) props)"

lemma actions_dropdown_menu_1 [simp]:
  "transparent DropdownMenu" "transparent DropdownMenuPortal" "transparent DropdownMenuTrigger"
  "transparent DropdownMenuContent" "transparent DropdownMenuGroup"
  "transparent DropdownMenuLabel" "transparent DropdownMenuItem" "transparent DropdownMenuSub"
  "transparent DropdownMenuSubTrigger" "transparent DropdownMenuCheckboxItem"
  "transparent DropdownMenuRadioGroup" "transparent DropdownMenuRadioItem"
  "transparent DropdownMenuSeparator" "transparent DropdownMenuShortcut"
  by (rule transparentI; simp add: kit_simps DropdownMenu_def DropdownMenuPortal_def
    DropdownMenuTrigger_def DropdownMenuContent_def DropdownMenuGroup_def DropdownMenuLabel_def
    DropdownMenuItem_def DropdownMenuSub_def DropdownMenuSubTrigger_def
    DropdownMenuCheckboxItem_def DropdownMenuRadioGroup_def DropdownMenuRadioItem_def
    DropdownMenuSeparator_def DropdownMenuShortcut_def split: option.split)+

lemmas offers_dropdown_menu_1 [simp] = actions_dropdown_menu_1 [THEN transparentD]

lemma actions_dropdown_menu_2 [simp]:
  "transparent DropdownMenuSubContent"
  by (rule transparentI; simp add: kit_simps DropdownMenuSubContent_def split: option.split)+

lemmas offers_dropdown_menu_2 [simp] = actions_dropdown_menu_2 [THEN transparentD]

subsection \<open>Combobox\<close>

definition Combobox :: "'a component" where
  "Combobox = El ''ComboboxPrimitive.Root''"

definition ComboboxValue :: "'a component" where
  "ComboboxValue = plain (El ''ComboboxPrimitive.Value'') [data_slot ''combobox-value'']"

definition ComboboxTrigger :: "'a component" where
  "ComboboxTrigger = (\<lambda>props children.
     draw (El ''ComboboxPrimitive.Trigger'') [] [data_slot ''combobox-trigger''] props
       (children @ [icon ''CaretDownIcon'']))"

definition ComboboxClear :: "'a component" where
  "ComboboxClear = (\<lambda>props children.
     draw (El ''ComboboxPrimitive.Clear'') [] [data_slot ''combobox-clear''] props
       (render_only
          (InputGroupButton [Prop ''variant'' (js ''ghost''), Prop ''size'' (js ''icon-xs'')] []) children
        @ [icon ''XIcon'']))"

definition ComboboxContent :: "'a component" where
  "ComboboxContent = (\<lambda>props children.
     positioned ''ComboboxPrimitive'' []
       (defaults
         [(''side'', ''bottom''), (''sideOffset'', ''6''), (''align'', ''start''), (''alignOffset'', ''0'')]
         props @ given ''anchor'' props)
       (draw (El ''ComboboxPrimitive.Popup'')
          [''side'', ''sideOffset'', ''align'', ''alignOffset'', ''anchor'']
          ([data_slot ''combobox-content''] @ [Flag ''data-chips'' (given ''anchor'' props \<noteq> [])])
          props children))"

definition ComboboxList :: "'a component" where
  "ComboboxList = draw (El ''ComboboxPrimitive.List'') [] [data_slot ''combobox-list'']"

definition ComboboxItem :: "'a component" where
  "ComboboxItem = (\<lambda>props children.
     draw (El ''ComboboxPrimitive.Item'') [] [data_slot ''combobox-item''] props
       (children @ [El ''ComboboxPrimitive.ItemIndicator'' []
          [El ''render'' [] [El ''span'' [] []], icon ''CheckIcon'']]))"

definition ComboboxGroup :: "'a component" where
  "ComboboxGroup = draw (El ''ComboboxPrimitive.Group'') [] [data_slot ''combobox-group'']"

definition ComboboxLabel :: "'a component" where
  "ComboboxLabel = draw (El ''ComboboxPrimitive.GroupLabel'') [] [data_slot ''combobox-label'']"

definition ComboboxCollection :: "'a component" where
  "ComboboxCollection = plain (El ''ComboboxPrimitive.Collection'') [data_slot ''combobox-collection'']"

definition ComboboxEmpty :: "'a component" where
  "ComboboxEmpty = draw (El ''ComboboxPrimitive.Empty'') [] [data_slot ''combobox-empty'']"

definition ComboboxSeparator :: "'a component" where
  "ComboboxSeparator = draw (El ''ComboboxPrimitive.Separator'') [] [data_slot ''combobox-separator'']"

definition ComboboxChips :: "'a component" where
  "ComboboxChips = draw (El ''ComboboxPrimitive.Chips'') [] [data_slot ''combobox-chips'']"

definition ComboboxChip :: "'a component" where
  "ComboboxChip = (\<lambda>props children.
     draw (El ''ComboboxPrimitive.Chip'') [''showRemove''] [data_slot ''combobox-chip''] props
       (children @ shown_if (flag_set ''showRemove'' True props)
          (El ''ComboboxPrimitive.ChipRemove'' [data_slot ''combobox-chip-remove'']
             [El ''render'' [] [Button [Prop ''variant'' (js ''ghost''), Prop ''size'' (js ''icon-xs'')] []],
              icon ''XIcon''])))"

definition ComboboxChipsInput :: "'a component" where
  "ComboboxChipsInput = draw (El ''ComboboxPrimitive.Input'') [] [data_slot ''combobox-chip-input'']"

definition ComboboxInput :: "'a component" where
  "ComboboxInput = (\<lambda>props children.
     InputGroup (given ''className'' props)
       ([El ''ComboboxPrimitive.Input''
           (rest [''className'', ''disabled'', ''showTrigger'', ''showClear''] props)
           (render_only (InputGroupInput (flag_or ''disabled'' ''disabled'' False props) []) children),
         InputGroupAddon [Prop ''align'' (js ''inline-end'')]
           (shown_if (flag_set ''showTrigger'' True props)
              (InputGroupButton
                 ([Prop ''size'' (js ''icon-xs''), Prop ''variant'' (js ''ghost''),
                   data_slot ''input-group-button''] @ flag_or ''disabled'' ''disabled'' False props)
                 [El ''render'' [] [ComboboxTrigger [] []]])
            @ shown_if (flag_set ''showClear'' False props)
                (ComboboxClear (flag_or ''disabled'' ''disabled'' False props) []))]
        @ without_render children))"

lemma actions_combobox_1 [simp]:
  "transparent ComboboxValue" "transparent ComboboxTrigger" "transparent ComboboxContent"
  "transparent ComboboxList" "transparent ComboboxItem" "transparent ComboboxGroup"
  "transparent ComboboxLabel" "transparent ComboboxCollection" "transparent ComboboxEmpty"
  "transparent ComboboxSeparator" "transparent ComboboxChips" "transparent ComboboxChip"
  "transparent ComboboxChipsInput"
  by (rule transparentI; simp add: kit_simps ComboboxValue_def ComboboxTrigger_def
    ComboboxContent_def ComboboxList_def ComboboxItem_def ComboboxGroup_def ComboboxLabel_def
    ComboboxCollection_def ComboboxEmpty_def ComboboxSeparator_def ComboboxChips_def
    ComboboxChip_def ComboboxChipsInput_def split: option.split)+

lemmas offers_combobox_1 [simp] = actions_combobox_1 [THEN transparentD]

lemma actions_combobox_2 [simp]:
  "self_contained ComboboxClear"
  by (rule self_containedI; simp add: kit_simps ComboboxClear_def split: option.split)+

lemmas offers_combobox_2 [simp] = actions_combobox_2 [THEN self_containedD]

subsection \<open>Toast\<close>

text \<open>What the library's \<open>useToastManager\<close> gives of a toast.\<close>

record toast_item =
  ti_id :: jstr
  ti_type :: "jstr option"

definition toast_type_icon :: "string \<Rightarrow> 'a node" where
  "toast_type_icon t = El t [Prop ''aria-hidden'' (js ''true'')] []"

definition ToastProvider :: "'a component" where
  "ToastProvider = plain (El ''ToastPrimitive.Provider'') []"

definition ToastPortal :: "'a component" where
  "ToastPortal = plain (El ''ToastPrimitive.Portal'') [data_slot ''toast-portal'']"

definition ToastViewport :: "'a component" where
  "ToastViewport = draw (El ''ToastPrimitive.Viewport'') [] [data_slot ''toast-viewport'']"

definition Toast :: "'a component" where
  "Toast = draw (El ''ToastPrimitive.Root'') [] [data_slot ''toast'']"

definition ToastContent :: "'a component" where
  "ToastContent = draw (El ''ToastPrimitive.Content'') [] [data_slot ''toast-content'']"

definition ToastTitle :: "'a component" where
  "ToastTitle = draw (El ''ToastPrimitive.Title'') [] [data_slot ''toast-title'']"

definition ToastDescription :: "'a component" where
  "ToastDescription = draw (El ''ToastPrimitive.Description'') [] [data_slot ''toast-description'']"

definition ToastAction :: "'a component" where
  "ToastAction = (\<lambda>props children.
     draw (El ''ToastPrimitive.Action'') [] [data_slot ''toast-action''] props
       (render_or (Button [Prop ''variant'' (js ''outline''), Prop ''size'' (js ''sm'')] []) children))"

definition ToastClose :: "'a component" where
  "ToastClose = (\<lambda>props children.
     draw (El ''ToastPrimitive.Close'') []
       [data_slot ''toast-close'', Prop ''aria-label'' (js ''Close toast'')] props
       (render_only (Button [Prop ''variant'' (js ''ghost''), Prop ''size'' (js ''icon-sm'')] []) children
        @ children_or [El ''XIcon'' [Prop ''aria-hidden'' (js ''true'')] []] (without_render children)))"

definition ToastIcon :: "jstr option \<Rightarrow> 'a node list" where
  "ToastIcon kind =
     (let icons = (case kind of
          Some k \<Rightarrow>
            (if k = js ''success'' then [toast_type_icon ''CheckCircleIcon'']
             else if k = js ''info'' then [toast_type_icon ''InfoIcon'']
             else if k = js ''warning'' then [toast_type_icon ''WarningIcon'']
             else if k = js ''error'' then [toast_type_icon ''XCircleIcon'']
             else if k = js ''loading'' then [toast_type_icon ''SpinnerIcon'']
             else [])
        | None \<Rightarrow> [])
      in if icons = [] then [] else [El ''span'' [data_slot ''toast-icon''] icons])"

definition ToastList :: "toast_item list \<Rightarrow> 'a node list" where
  "ToastList toasts =
     map (\<lambda>toastItem.
        Toast [Prop ''toast'' (ti_id toastItem)]
          [ToastContent []
             (ToastIcon (ti_type toastItem)
              @ [El ''div'' [] [ToastTitle [] [], ToastDescription [] []], ToastAction [] [], ToastClose [] []])])
       toasts"

definition Toaster :: "toast_item list \<Rightarrow> 'a component" where
  "Toaster toasts = (\<lambda>props children.
     ToastProvider (passed_or ''toastManager'' ''toastManager'' ''toast'' props @ rest [''toastManager''] props)
       (children @ [ToastPortal [] [ToastViewport [] (ToastList toasts)]]))"

lemma actions_toast_1 [simp]:
  "transparent ToastProvider" "transparent ToastPortal" "transparent ToastViewport"
  "transparent Toast" "transparent ToastContent" "transparent ToastTitle"
  "transparent ToastDescription" "transparent ToastAction" "transparent ToastClose"
  by (rule transparentI; simp add: kit_simps ToastProvider_def ToastPortal_def ToastViewport_def
    Toast_def ToastContent_def ToastTitle_def ToastDescription_def ToastAction_def ToastClose_def
    split: option.split)+

lemmas offers_toast_1 [simp] = actions_toast_1 [THEN transparentD]


subsection \<open>Drawers\<close>

text \<open>The content of a drawer throws outside of a drawer; inside, the overlay is drawn
  exactly when the drawer is modal (not when it only traps the focus), and the handle exactly when the
  drawer asks for it.\<close>

theorem drawer_content:
  fixes dprops :: "'a attr list" and props :: "'b attr list"
  shows "(\<exists>err. DrawerContent None props children = Inl err)
    \<and> (\<exists>n. DrawerContent (Some (fst (Drawer m snapPoints direction dprops dchildren))) props [] = Inr n
        \<and> (elements ''DrawerPrimitive.Backdrop'' n \<noteq> [] \<longleftrightarrow> m = None \<or> m = Some (Modal True))
        \<and> (elements ''div'' n \<noteq> [] \<longleftrightarrow> flag_set ''showSwipeHandle'' False dprops))"
  by (auto simp: DrawerContent_def useDrawer_def Drawer_def DrawerOverlay_def DrawerPortal_def
      DrawerSwipeHandle_def draw_def plain_def replaced_def without_render_def shown_if_def Let_def
      split: option.split)
end
