(* ===== verification/UiSidebar.thy ===== *)
theory UiSidebar
  imports UiKit Complex_Main
begin

section \<open>The sidebar: components/ui/sidebar.tsx and hooks/use-mobile.ts\<close>

text \<open>
  The sidebar's state (\<open>SidebarProvider\<close>), the hook that follows the window's width, and what
  the components put on the page. The workbench does not use the sidebar yet; it is part of
  the component library the application ships. \<open>useRender\<close> belongs to the library and is kept as
  the element of \<open>use_render\<close>; \<open>className\<close> is the caller's.
\<close>

subsection \<open>State\<close>

text \<open>
  The properties that control the provider; whether \<open>onOpenChange\<close> is given is all that
  \<open>setOpen\<close> looks at. The values the owner was asked for are kept in \<open>sb_asked\<close>, the last
  cookie that was written in \<open>sb_cookie\<close>, the window's width in \<open>sb_width\<close>.
\<close>

record sidebar_props =
  sp_defaultOpen :: bool
  sp_open :: "bool option"
  sp_onOpenChange :: bool

record sidebar =
  sb_width :: nat
  sb_isMobile :: "bool option"
  sb_openMobile :: bool
  sb_open :: bool
  sb_asked :: "bool list"
  sb_cookie :: "jstr option"

definition MOBILE_BREAKPOINT :: nat where
  "MOBILE_BREAKPOINT = 768"

definition SIDEBAR_COOKIE_NAME :: jstr where
  "SIDEBAR_COOKIE_NAME = js ''sidebar_state''"

definition SIDEBAR_COOKIE_MAX_AGE :: nat where
  "SIDEBAR_COOKIE_MAX_AGE = 60 * 60 * 24 * 7"

definition SIDEBAR_WIDTH :: jstr where
  "SIDEBAR_WIDTH = js ''16rem''"

definition SIDEBAR_WIDTH_MOBILE :: jstr where
  "SIDEBAR_WIDTH_MOBILE = js ''18rem''"

definition SIDEBAR_WIDTH_ICON :: jstr where
  "SIDEBAR_WIDTH_ICON = js ''3rem''"

definition SIDEBAR_KEYBOARD_SHORTCUT :: jstr where
  "SIDEBAR_KEYBOARD_SHORTCUT = js ''b''"

definition bool_text :: "bool \<Rightarrow> jstr" where
  "bool_text b = (if b then js ''true'' else js ''false'')"

definition sidebar_cookie :: "bool \<Rightarrow> jstr" where
  "sidebar_cookie openState =
     SIDEBAR_COOKIE_NAME @ js ''='' @ bool_text openState @ js ''; path=/; max-age=''
       @ nat_to_js SIDEBAR_COOKIE_MAX_AGE"

definition initial_sidebar :: "sidebar_props \<Rightarrow> nat \<Rightarrow> sidebar" where
  "initial_sidebar p width =
     \<lparr>sb_width = width, sb_isMobile = None, sb_openMobile = False, sb_open = sp_defaultOpen p,
      sb_asked = [], sb_cookie = None\<rparr>"

subsection \<open>useIsMobile\<close>

text \<open>The query \<open>(max-width: 767px)\<close> fires its event when its answer changes.\<close>

definition media_matches :: "nat \<Rightarrow> bool" where
  "media_matches width \<longleftrightarrow> width \<le> MOBILE_BREAKPOINT - 1"

definition onMediaChange :: "sidebar \<Rightarrow> sidebar" where
  "onMediaChange sb = sb\<lparr>sb_isMobile := Some (sb_width sb < MOBILE_BREAKPOINT)\<rparr>"

definition mount_mobile :: "sidebar \<Rightarrow> sidebar" where
  "mount_mobile sb = sb\<lparr>sb_isMobile := Some (sb_width sb < MOBILE_BREAKPOINT)\<rparr>"

definition useIsMobile :: "sidebar \<Rightarrow> bool" where
  "useIsMobile sb = (sb_isMobile sb = Some True)"

text \<open>The window takes a new width; before the effect ran, nobody listens.\<close>

definition resize :: "nat \<Rightarrow> sidebar \<Rightarrow> sidebar" where
  "resize width sb =
     (if sb_isMobile sb \<noteq> None \<and> media_matches width \<noteq> media_matches (sb_width sb)
      then onMediaChange (sb\<lparr>sb_width := width\<rparr>) else sb\<lparr>sb_width := width\<rparr>)"

subsection \<open>Opening and closing\<close>

text \<open>What a render sees: \<open>open\<close> and \<open>isMobile\<close>, which its callbacks keep.\<close>

definition sidebar_open :: "sidebar_props \<Rightarrow> sidebar \<Rightarrow> bool" where
  "sidebar_open p sb = (case sp_open p of Some b \<Rightarrow> b | None \<Rightarrow> sb_open sb)"

definition setOpen :: "sidebar_props \<Rightarrow> bool \<Rightarrow> (bool \<Rightarrow> bool) \<Rightarrow> sidebar \<Rightarrow> sidebar" where
  "setOpen p seenOpen update sb =
     (let openState = update seenOpen;
          sb1 = (if sp_onOpenChange p then sb\<lparr>sb_asked := sb_asked sb @ [openState]\<rparr>
                 else sb\<lparr>sb_open := openState\<rparr>)
      in sb1\<lparr>sb_cookie := Some (sidebar_cookie openState)\<rparr>)"

definition setOpenMobile :: "(bool \<Rightarrow> bool) \<Rightarrow> sidebar \<Rightarrow> sidebar" where
  "setOpenMobile update sb = sb\<lparr>sb_openMobile := update (sb_openMobile sb)\<rparr>"

definition toggleSidebar :: "sidebar_props \<Rightarrow> bool \<Rightarrow> bool \<Rightarrow> sidebar \<Rightarrow> sidebar" where
  "toggleSidebar p seenMobile seenOpen sb =
     (if seenMobile then setOpenMobile Not sb else setOpen p seenOpen Not sb)"

definition handleSidebarKey ::
  "sidebar_props \<Rightarrow> jstr \<Rightarrow> bool \<Rightarrow> bool \<Rightarrow> bool \<Rightarrow> bool \<Rightarrow> sidebar \<Rightarrow> sidebar" where
  "handleSidebarKey p key metaKey ctrlKey seenMobile seenOpen sb =
     (if key = SIDEBAR_KEYBOARD_SHORTCUT \<and> (metaKey \<or> ctrlKey)
      then toggleSidebar p seenMobile seenOpen sb else sb)"

subsection \<open>Steps\<close>

text \<open>Callbacks of any earlier render may run, with what that render saw.\<close>

inductive sidebar_reachable :: "sidebar_props \<Rightarrow> sidebar \<Rightarrow> bool" for p where
  sidebar_initial: "sidebar_reachable p (initial_sidebar p width)"
| sidebar_mount: "sidebar_reachable p sb \<Longrightarrow> sidebar_reachable p (mount_mobile sb)"
| sidebar_resize: "sidebar_reachable p sb \<Longrightarrow> sidebar_reachable p (resize width sb)"
| sidebar_toggle: "sidebar_reachable p sb \<Longrightarrow> sidebar_reachable p (toggleSidebar p m b sb)"
| sidebar_set: "sidebar_reachable p sb \<Longrightarrow> sidebar_reachable p (setOpen p b update sb)"
| sidebar_set_mobile: "sidebar_reachable p sb \<Longrightarrow> sidebar_reachable p (setOpenMobile update sb)"
| sidebar_key: "sidebar_reachable p sb \<Longrightarrow> sidebar_reachable p (handleSidebarKey p key mt ct m b sb)"

subsection \<open>Components\<close>

datatype side = LeftSide | RightSide
datatype sidebar_variant = SidebarVariant | Floating | Inset
datatype collapsible = Offcanvas | IconOnly | NotCollapsible

fun side_text :: "side \<Rightarrow> jstr" where
  "side_text LeftSide = js ''left''"
| "side_text RightSide = js ''right''"

fun variant_text :: "sidebar_variant \<Rightarrow> jstr" where
  "variant_text SidebarVariant = js ''sidebar''"
| "variant_text Floating = js ''floating''"
| "variant_text Inset = js ''inset''"

fun collapsible_text :: "collapsible \<Rightarrow> jstr" where
  "collapsible_text Offcanvas = js ''offcanvas''"
| "collapsible_text IconOnly = js ''icon''"
| "collapsible_text NotCollapsible = js ''none''"

text \<open>The actions of the sidebar's own controls; \<open>Outer\<close> is the caller's.\<close>

datatype 'a sidebar_action =
    ToggleSidebar
  | SetOpenMobile bool
  | OuterThenToggle 'a
  | Outer 'a

definition slot_node ::
  "string \<Rightarrow> string \<Rightarrow> string \<Rightarrow> jstr option \<Rightarrow> 'a attr list \<Rightarrow> 'a node list \<Rightarrow> 'a node" where
  "slot_node tag slot sidebar className props children =
     El tag
       (spread ([Prop ''data-slot'' (js slot), Prop ''data-sidebar'' (js sidebar)] @ class_attr className)
          props) children"

definition SidebarProvider :: "jstr option \<Rightarrow> jstr obj \<Rightarrow> 'a attr list \<Rightarrow> 'a node list \<Rightarrow> 'a node" where
  "SidebarProvider className style props children =
     El ''SidebarContext.Provider'' []
       [El ''div''
          (spread
             ([Prop ''data-slot'' (js ''sidebar-wrapper''),
               Prop ''style''
                 (style_text
                   (obj_merge [(js ''--sidebar-width'', SIDEBAR_WIDTH),
                       (js ''--sidebar-width-icon'', SIDEBAR_WIDTH_ICON)] style))] @ class_attr className)
             props) children]"

definition sidebar_state :: "bool \<Rightarrow> jstr" where
  "sidebar_state isOpen = (if isOpen then js ''expanded'' else js ''collapsed'')"

text \<open>
  The provider's value: what a render saw, and its callbacks. The components below take the state
  itself for it, since each of them renders again with the provider.
\<close>

record SidebarContextProps =
  sc_state :: jstr
  sc_open :: bool
  sc_setOpen :: "(bool \<Rightarrow> bool) \<Rightarrow> sidebar \<Rightarrow> sidebar"
  sc_isMobile :: bool
  sc_openMobile :: bool
  sc_setOpenMobile :: "(bool \<Rightarrow> bool) \<Rightarrow> sidebar \<Rightarrow> sidebar"
  sc_toggleSidebar :: "sidebar \<Rightarrow> sidebar"

definition contextValue :: "sidebar_props \<Rightarrow> sidebar \<Rightarrow> SidebarContextProps" where
  "contextValue p sb =
     \<lparr>sc_state = sidebar_state (sidebar_open p sb), sc_open = sidebar_open p sb,
      sc_setOpen = setOpen p (sidebar_open p sb), sc_isMobile = useIsMobile sb,
      sc_openMobile = sb_openMobile sb, sc_setOpenMobile = setOpenMobile,
      sc_toggleSidebar = toggleSidebar p (useIsMobile sb) (sidebar_open p sb)\<rparr>"

definition useSidebar :: "SidebarContextProps option \<Rightarrow> string + SidebarContextProps" where
  "useSidebar context =
     (case context of
        None \<Rightarrow> Inl ''useSidebar must be used within a SidebarProvider.''
      | Some c \<Rightarrow> Inr c)"

text \<open>Inside the provider \<open>useSidebar\<close> gives its value, whatever is seen around the provider.\<close>

lemma sidebar_provided:
  assumes "t \<noteq> ''SidebarContext.Provider''" and "t \<noteq> ''div''"
  shows "list_all (\<lambda>seen. useSidebar seen = Inr v)
    (contexts ''SidebarContext.Provider'' v c t (SidebarProvider className style props children))"
  using assms contexts_provided [of "''SidebarContext.Provider''" v t]
  by (fastforce simp: SidebarProvider_def useSidebar_def list_all_iff split: option.split)

text \<open>The toggle of the context moves the form that is shown: the sheet on a narrow window, else the sidebar.\<close>

lemma context_toggle:
  "useIsMobile sb \<Longrightarrow> sb_openMobile (sc_toggleSidebar (contextValue p sb) sb) = (\<not> sc_openMobile (contextValue p sb))"
  "\<not> useIsMobile sb \<Longrightarrow> sp_open p = None \<Longrightarrow> \<not> sp_onOpenChange p \<Longrightarrow>
     sidebar_open p (sc_toggleSidebar (contextValue p sb) sb) = (\<not> sc_open (contextValue p sb))"
  by (simp_all add: contextValue_def toggleSidebar_def setOpenMobile_def setOpen_def sidebar_open_def
      Let_def)

definition sidebar_plain :: "jstr option \<Rightarrow> 'a attr list \<Rightarrow> 'a node list \<Rightarrow> 'a node" where
  "sidebar_plain className props children =
     El ''div'' (spread (Prop ''data-slot'' (js ''sidebar'') # class_attr className) props) children"

definition sidebar_sheet ::
  "bool \<Rightarrow> side \<Rightarrow> jstr option \<Rightarrow> 'a sidebar_action attr list \<Rightarrow> 'a sidebar_action node list
     \<Rightarrow> 'a sidebar_action node" where
  "sidebar_sheet openMobile sd dir props children =
     El ''Sheet''
       (spread [Flag ''open'' openMobile, On ''onOpenChange'' (\<lambda>v. Some (SetOpenMobile (v = js ''true'')))] props)
       [El ''SheetContent''
          ((case dir of Some d \<Rightarrow> [Prop ''dir'' d] | None \<Rightarrow> [])
           @ [Prop ''data-sidebar'' (js ''sidebar''), Prop ''data-slot'' (js ''sidebar''),
              Prop ''data-mobile'' (js ''true''),
              Prop ''style'' (style_text [(js ''--sidebar-width'', SIDEBAR_WIDTH_MOBILE)]),
              Prop ''side'' (side_text sd)])
          [El ''SheetHeader'' [Prop ''className'' (js ''sr-only'')]
             [El ''SheetTitle'' [] [literal (js ''Sidebar'')],
              El ''SheetDescription'' [] [literal (js ''Displays the mobile sidebar.'')]],
           El ''div'' [] children]]"

text \<open>The two computed style classes of the desktop layout.\<close>

definition gap_class :: "sidebar_variant \<Rightarrow> jstr" where
  "gap_class v =
     (if v = Floating \<or> v = Inset
      then js ''group-data-[collapsible=icon]:w-[calc(var(--sidebar-width-icon)+(--spacing(4)))]''
      else js ''group-data-[collapsible=icon]:w-(--sidebar-width-icon)'')"

definition container_class :: "sidebar_variant \<Rightarrow> jstr" where
  "container_class v =
     (if v = Floating \<or> v = Inset
      then js ''p-2 group-data-[collapsible=icon]:w-[calc(var(--sidebar-width-icon)+(--spacing(4))+2px)]''
      else js ''group-data-[collapsible=icon]:w-(--sidebar-width-icon) group-data-[side=left]:border-r group-data-[side=right]:border-l'')"

definition sidebar_desktop ::
  "bool \<Rightarrow> side \<Rightarrow> sidebar_variant \<Rightarrow> collapsible \<Rightarrow> jstr option \<Rightarrow> 'a attr list \<Rightarrow> 'a node list \<Rightarrow> 'a node"
where
  "sidebar_desktop isOpen sd v c className props children =
     El ''div''
       [Prop ''data-state'' (sidebar_state isOpen),
        Prop ''data-collapsible'' (if \<not> isOpen then collapsible_text c else []),
        Prop ''data-variant'' (variant_text v),
        Prop ''data-side'' (side_text sd),
        Prop ''data-slot'' (js ''sidebar'')]
       [El ''div'' [Prop ''data-slot'' (js ''sidebar-gap''), Prop ''className'' (gap_class v)] [],
        El ''div''
          (spread
             [Prop ''data-slot'' (js ''sidebar-container''), Prop ''data-side'' (side_text sd),
              Prop ''className'' (container_class v
                @ (case className of Some s \<Rightarrow> js '' '' @ s | None \<Rightarrow> []))] props)
          [El ''div'' [Prop ''data-sidebar'' (js ''sidebar''), Prop ''data-slot'' (js ''sidebar-inner'')]
             children]]"

definition Sidebar ::
  "sidebar_props \<Rightarrow> sidebar \<Rightarrow> side \<Rightarrow> sidebar_variant \<Rightarrow> collapsible \<Rightarrow> jstr option \<Rightarrow> jstr option
     \<Rightarrow> 'a sidebar_action attr list \<Rightarrow> 'a sidebar_action node list \<Rightarrow> 'a sidebar_action node" where
  "Sidebar p sb sd v c dir className props children =
     (if c = NotCollapsible then sidebar_plain className props children
      else if useIsMobile sb then sidebar_sheet (sb_openMobile sb) sd dir props children
      else sidebar_desktop (sidebar_open p sb) sd v c className props children)"

definition SidebarTrigger ::
  "jstr option \<Rightarrow> 'a option \<Rightarrow> 'a sidebar_action attr list \<Rightarrow> 'a sidebar_action node" where
  "SidebarTrigger className onClick props =
     El ''Button''
       (spread
          ([Prop ''data-sidebar'' (js ''trigger''), Prop ''data-slot'' (js ''sidebar-trigger''),
            Prop ''variant'' (js ''ghost''), Prop ''size'' (js ''icon-sm'')] @ class_attr className
           @ [on_click (case onClick of Some a \<Rightarrow> OuterThenToggle a | None \<Rightarrow> ToggleSidebar)])
          props)
       [El ''SidebarIcon'' [] [], El ''span'' [Prop ''className'' (js ''sr-only'')] [literal (js ''Toggle Sidebar'')]]"

definition SidebarRail ::
  "jstr option \<Rightarrow> 'a sidebar_action attr list \<Rightarrow> 'a sidebar_action node list \<Rightarrow> 'a sidebar_action node" where
  "SidebarRail className props children =
     El ''button''
       (spread
          ([Prop ''data-sidebar'' (js ''rail''), Prop ''data-slot'' (js ''sidebar-rail''),
            Prop ''aria-label'' (js ''Toggle Sidebar''), Prop ''tabIndex'' (js ''-1''),
            on_click ToggleSidebar, Prop ''title'' (js ''Toggle Sidebar'')] @ class_attr className)
          props) children"

subsection \<open>Layout and groups\<close>

definition SidebarInset :: "jstr option \<Rightarrow> 'a attr list \<Rightarrow> 'a node list \<Rightarrow> 'a node" where
  "SidebarInset className props children =
     El ''main'' (spread (Prop ''data-slot'' (js ''sidebar-inset'') # class_attr className) props) children"

definition SidebarInput :: "jstr option \<Rightarrow> 'a attr list \<Rightarrow> 'a node list \<Rightarrow> 'a node" where
  "SidebarInput = slot_node ''Input'' ''sidebar-input'' ''input''"

definition SidebarHeader :: "jstr option \<Rightarrow> 'a attr list \<Rightarrow> 'a node list \<Rightarrow> 'a node" where
  "SidebarHeader = slot_node ''div'' ''sidebar-header'' ''header''"

definition SidebarFooter :: "jstr option \<Rightarrow> 'a attr list \<Rightarrow> 'a node list \<Rightarrow> 'a node" where
  "SidebarFooter = slot_node ''div'' ''sidebar-footer'' ''footer''"

definition SidebarSeparator :: "jstr option \<Rightarrow> 'a attr list \<Rightarrow> 'a node list \<Rightarrow> 'a node" where
  "SidebarSeparator = slot_node ''Separator'' ''sidebar-separator'' ''separator''"

definition SidebarContent :: "jstr option \<Rightarrow> 'a attr list \<Rightarrow> 'a node list \<Rightarrow> 'a node" where
  "SidebarContent = slot_node ''div'' ''sidebar-content'' ''content''"

definition SidebarGroup :: "jstr option \<Rightarrow> 'a attr list \<Rightarrow> 'a node list \<Rightarrow> 'a node" where
  "SidebarGroup = slot_node ''div'' ''sidebar-group'' ''group''"

definition SidebarGroupContent :: "jstr option \<Rightarrow> 'a attr list \<Rightarrow> 'a node list \<Rightarrow> 'a node" where
  "SidebarGroupContent = slot_node ''div'' ''sidebar-group-content'' ''group-content''"

text \<open>
  \<open>useRender\<close> with \<open>className\<close>, \<open>render\<close> and the list of state entries as arguments.
\<close>

definition rendered_with ::
  "string \<Rightarrow> 'a attr list \<Rightarrow> 'a attr list \<Rightarrow> 'a node list \<Rightarrow> 'a node option \<Rightarrow> (string \<times> jstr) list \<Rightarrow> 'a node"
where
  "rendered_with tag own props children renderElement state =
     use_render tag own (map (\<lambda>(k, v). Prop (''state-'' @ k) v) state) props
       ((case renderElement of Some r \<Rightarrow> [El ''render'' [] [r]] | None \<Rightarrow> []) @ children)"

definition rendered_as ::
  "string \<Rightarrow> jstr option \<Rightarrow> 'a attr list \<Rightarrow> 'a node list \<Rightarrow> 'a node option \<Rightarrow> (string \<times> jstr) list \<Rightarrow> 'a node"
where
  "rendered_as tag className = rendered_with tag (class_attr className)"

definition SidebarGroupLabel ::
  "jstr option \<Rightarrow> 'a attr list \<Rightarrow> 'a node list \<Rightarrow> 'a node option \<Rightarrow> 'a node" where
  "SidebarGroupLabel className props children renderElement =
     rendered_as ''div'' className props children renderElement
       [(''slot'', js ''sidebar-group-label''), (''sidebar'', js ''group-label'')]"

definition SidebarGroupAction ::
  "jstr option \<Rightarrow> 'a attr list \<Rightarrow> 'a node list \<Rightarrow> 'a node option \<Rightarrow> 'a node" where
  "SidebarGroupAction className props children renderElement =
     rendered_as ''button'' className props children renderElement
       [(''slot'', js ''sidebar-group-action''), (''sidebar'', js ''group-action'')]"

subsection \<open>Menus\<close>

definition SidebarMenu :: "jstr option \<Rightarrow> 'a attr list \<Rightarrow> 'a node list \<Rightarrow> 'a node" where
  "SidebarMenu = slot_node ''ul'' ''sidebar-menu'' ''menu''"

definition SidebarMenuItem :: "jstr option \<Rightarrow> 'a attr list \<Rightarrow> 'a node list \<Rightarrow> 'a node" where
  "SidebarMenuItem = slot_node ''li'' ''sidebar-menu-item'' ''menu-item''"

definition SidebarMenuBadge :: "jstr option \<Rightarrow> 'a attr list \<Rightarrow> 'a node list \<Rightarrow> 'a node" where
  "SidebarMenuBadge = slot_node ''div'' ''sidebar-menu-badge'' ''menu-badge''"

definition SidebarMenuSub :: "jstr option \<Rightarrow> 'a attr list \<Rightarrow> 'a node list \<Rightarrow> 'a node" where
  "SidebarMenuSub = slot_node ''ul'' ''sidebar-menu-sub'' ''menu-sub''"

definition SidebarMenuSubItem :: "jstr option \<Rightarrow> 'a attr list \<Rightarrow> 'a node list \<Rightarrow> 'a node" where
  "SidebarMenuSubItem = slot_node ''li'' ''sidebar-menu-sub-item'' ''menu-sub-item''"

datatype 'a menu_tooltip = TooltipWords jstr | TooltipProps "'a attr list" "'a node list"

fun no_tooltip :: "'a menu_tooltip option \<Rightarrow> bool" where
  "no_tooltip None = True"
| "no_tooltip (Some (TooltipWords s)) = (s = [])"
| "no_tooltip (Some (TooltipProps props children)) = False"

text \<open>\<open>typeof tooltip === "string"\<close> makes it the children.\<close>

fun tooltip_parts :: "'a menu_tooltip \<Rightarrow> 'a attr list \<times> 'a node list" where
  "tooltip_parts (TooltipWords s) = ([], [literal s])"
| "tooltip_parts (TooltipProps props children) = (props, children)"

definition menu_button_element ::
  "bool \<Rightarrow> jstr \<Rightarrow> jstr \<Rightarrow> bool \<Rightarrow> jstr option \<Rightarrow> 'a attr list \<Rightarrow> 'a node list \<Rightarrow> 'a node option \<Rightarrow> 'a node" where
  "menu_button_element noTooltip variant sz isActive className props children renderElement =
     rendered_with ''button''
       (Prop ''sidebarMenuButtonVariants.variant'' variant # Prop ''sidebarMenuButtonVariants.size'' sz
        # class_attr className) props children
       (if noTooltip then renderElement
        else Some (El ''TooltipTrigger'' [] (case renderElement of Some r \<Rightarrow> [r] | None \<Rightarrow> [])))
       [(''slot'', js ''sidebar-menu-button''), (''sidebar'', js ''menu-button''), (''size'', sz),
        (''active'', bool_text isActive)]"

definition SidebarMenuButton ::
  "sidebar_props \<Rightarrow> sidebar \<Rightarrow> 'a menu_tooltip option \<Rightarrow> jstr \<Rightarrow> jstr \<Rightarrow> bool \<Rightarrow> jstr option \<Rightarrow> 'a attr list
     \<Rightarrow> 'a node list \<Rightarrow> 'a node option \<Rightarrow> 'a node" where
  "SidebarMenuButton p sb tooltip variant sz isActive className props children renderElement =
     (let comp = menu_button_element (no_tooltip tooltip) variant sz isActive className props children renderElement in
      case tooltip of
        None \<Rightarrow> comp
      | Some t \<Rightarrow>
          if no_tooltip tooltip then comp
          else
            El ''Tooltip'' []
              [comp,
               El ''TooltipContent''
                 (spread
                    [Prop ''side'' (js ''right''), Prop ''align'' (js ''center''),
                     Flag ''hidden'' (sidebar_open p sb \<or> useIsMobile sb)]
                    (fst (tooltip_parts t)))
                 (snd (tooltip_parts t))])"

definition SidebarMenuAction ::
  "bool \<Rightarrow> jstr option \<Rightarrow> 'a attr list \<Rightarrow> 'a node list \<Rightarrow> 'a node option \<Rightarrow> 'a node" where
  "SidebarMenuAction showOnHover className props children renderElement =
     rendered_as ''button''
       (if showOnHover then
          Some (js ''group-focus-within/menu-item:opacity-100 group-hover/menu-item:opacity-100 peer-data-active/menu-button:text-sidebar-accent-foreground aria-expanded:opacity-100 md:opacity-0''
            @ (case className of Some s \<Rightarrow> js '' '' @ s | None \<Rightarrow> []))
        else className)
       props children renderElement
       [(''slot'', js ''sidebar-menu-action''), (''sidebar'', js ''menu-action'')]"

text \<open>The width of a skeleton's line, from \<open>Math.random()\<close>.\<close>

definition skeleton_width :: "rat \<Rightarrow> int" where
  "skeleton_width r = \<lfloor>r * 40\<rfloor> + 50"

definition SidebarMenuSkeleton ::
  "rat \<Rightarrow> bool \<Rightarrow> jstr option \<Rightarrow> 'a attr list \<Rightarrow> 'a node" where
  "SidebarMenuSkeleton r showIcon className props =
     El ''div''
       (spread ([Prop ''data-slot'' (js ''sidebar-menu-skeleton''), Prop ''data-sidebar'' (js ''menu-skeleton'')]
          @ class_attr className) props)
       (shown_if showIcon (El ''Skeleton'' [Prop ''data-sidebar'' (js ''menu-skeleton-icon'')] [])
        @ [El ''Skeleton''
             [Prop ''data-sidebar'' (js ''menu-skeleton-text''),
              Prop ''style'' (style_text [(js ''--skeleton-width'', nat_to_js (nat (skeleton_width r)) @ js ''%'')])] []])"

definition SidebarMenuSubButton ::
  "jstr \<Rightarrow> bool \<Rightarrow> jstr option \<Rightarrow> 'a attr list \<Rightarrow> 'a node list \<Rightarrow> 'a node option \<Rightarrow> 'a node" where
  "SidebarMenuSubButton sz isActive className props children renderElement =
     rendered_as ''a'' className props children renderElement
       [(''slot'', js ''sidebar-menu-sub-button''), (''sidebar'', js ''menu-sub-button''), (''size'', sz),
        (''active'', bool_text isActive)]"

subsection \<open>Properties\<close>

definition sidebar_ok :: "sidebar_props \<Rightarrow> sidebar \<Rightarrow> bool" where
  "sidebar_ok p sb \<longleftrightarrow>
     sb_isMobile sb \<in> {None, Some (sb_width sb < MOBILE_BREAKPOINT)}
     \<and> (if sp_onOpenChange p
        then sb_open sb = sp_defaultOpen p
          \<and> sb_cookie sb = (if sb_asked sb = [] then None else Some (sidebar_cookie (last (sb_asked sb))))
        else sb_asked sb = []
          \<and> (sb_cookie sb = Some (sidebar_cookie (sb_open sb))
             \<or> (sb_cookie sb = None \<and> sb_open sb = sp_defaultOpen p)))"

lemma media_width: "media_matches w \<longleftrightarrow> w < MOBILE_BREAKPOINT"
  by (auto simp: media_matches_def MOBILE_BREAKPOINT_def)

lemma sidebar_ok_setOpen: "sidebar_ok p sb \<Longrightarrow> sidebar_ok p (setOpen p b update sb)"
  by (auto simp: sidebar_ok_def setOpen_def Let_def)

lemma sidebar_ok_setOpenMobile: "sidebar_ok p sb \<Longrightarrow> sidebar_ok p (setOpenMobile update sb)"
  by (simp add: sidebar_ok_def setOpenMobile_def)

lemma sidebar_ok_toggle: "sidebar_ok p sb \<Longrightarrow> sidebar_ok p (toggleSidebar p m b sb)"
  by (simp add: toggleSidebar_def sidebar_ok_setOpen sidebar_ok_setOpenMobile)

lemma sidebar_ok_reachable: "sidebar_reachable p sb \<Longrightarrow> sidebar_ok p sb"
proof (induction rule: sidebar_reachable.induct)
  case (sidebar_resize sb width)
  then show ?case
    by (auto simp: sidebar_ok_def resize_def onMediaChange_def media_width split: if_splits)
qed (simp_all add: handleSidebarKey_def sidebar_ok_setOpen sidebar_ok_setOpenMobile sidebar_ok_toggle,
  simp_all add: sidebar_ok_def initial_sidebar_def mount_mobile_def)

text \<open>C35: Once the hook's effect has run, the sidebar takes its mobile form
  exactly below the breakpoint, whatever the window's history. The cookie holds the last value
  that was set: the sidebar's own state if nobody controls it, else the value its owner was last
  asked for, which the owner may not have taken. A mobile toggle writes no cookie.\<close>

theorem sidebar_invariant:
  assumes "sidebar_reachable p sb"
  shows "(sb_isMobile sb \<noteq> None \<longrightarrow> useIsMobile sb = (sb_width sb < 768))
    \<and> (\<not> sp_onOpenChange p \<longrightarrow> sb_cookie sb \<noteq> None \<longrightarrow> sb_cookie sb = Some (sidebar_cookie (sb_open sb)))
    \<and> (sp_onOpenChange p \<longrightarrow> sb_asked sb \<noteq> [] \<longrightarrow> sb_cookie sb = Some (sidebar_cookie (last (sb_asked sb))))
    \<and> sb_cookie (toggleSidebar p True b sb) = sb_cookie sb"
  using sidebar_ok_reachable [OF assms]
  by (auto simp: sidebar_ok_def useIsMobile_def MOBILE_BREAKPOINT_def toggleSidebar_def setOpenMobile_def)

theorem sidebar_invariant_witness:
  "sb_cookie (toggleSidebar \<lparr>sp_defaultOpen = True, sp_open = None, sp_onOpenChange = False\<rparr> False True
      (initial_sidebar \<lparr>sp_defaultOpen = True, sp_open = None, sp_onOpenChange = False\<rparr> 500))
     = Some (sidebar_cookie False)"
proof -
  let ?p = "\<lparr>sp_defaultOpen = True, sp_open = None, sp_onOpenChange = False\<rparr>"
  let ?sb = "toggleSidebar ?p False True (initial_sidebar ?p 500)"
  have "sidebar_reachable ?p ?sb" by (intro sidebar_toggle sidebar_initial)
  from sidebar_invariant [OF this] show ?thesis
    by (simp add: toggleSidebar_def setOpen_def initial_sidebar_def Let_def)
qed

text \<open>
  Two toggles that one render's callbacks make: the mobile sheet is back where it was, the
  desktop sidebar is toggled once, since \<open>setOpen\<close> applies the update to the value the render saw.
\<close>

lemma toggle_twice:
  "toggleSidebar p True b (toggleSidebar p True b sb) = sb"
  "sb_open (toggleSidebar p False b (toggleSidebar p False b sb)) =
     (if sp_onOpenChange p then sb_open sb else \<not> b)"
  by (simp_all add: toggleSidebar_def setOpenMobile_def setOpen_def Let_def)

lemma skeleton_width_bounds:
  assumes "0 \<le> r" and "r < 1"
  shows "50 \<le> skeleton_width r \<and> skeleton_width r \<le> 89"
proof -
  have "0 \<le> r * 40" "r * 40 < 40" using assms by auto
  then have "0 \<le> \<lfloor>r * 40\<rfloor>" "\<lfloor>r * 40\<rfloor> < 40" by (simp_all add: floor_less_iff)
  then show ?thesis by (simp add: skeleton_width_def)
qed

end
