(* ===== verification/UiChart.thy ===== *)
theory UiChart
  imports UiKit
begin

section \<open>Charts: components/ui/chart.tsx\<close>

text \<open>
  A chart's configuration gives series their label, icon and colour; the tooltip and the legend
  are drawn from the items the chart library hands them, JSON objects here. A label is a node;
  none stands for \<open>undefined\<close> and \<open>null\<close>. An icon is the name of its component. A component that
  uses the chart's context gives an error outside of it. The library's number formatting
  (\<open>toLocaleString\<close>) is a parameter.
\<close>

subsection \<open>Values\<close>

text \<open>A text or a number as a child, and as the value of a style.\<close>

fun json_nodes :: "json option \<Rightarrow> 'a node list" where
  "json_nodes (Some (JStr s)) = [literal s]"
| "json_nodes (Some (JNum t)) = [literal t]"
| "json_nodes _ = []"

fun style_entry :: "string \<Rightarrow> json option \<Rightarrow> jstr obj" where
  "style_entry k (Some (JStr s)) = (if s = [] then [] else [(js k, s)])"
| "style_entry k (Some (JNum t)) = [(js k, t)]"
| "style_entry k _ = []"

definition style_attr :: "jstr obj \<Rightarrow> 'a attr" where
  "style_attr entries = Prop ''style'' (style_text entries)"

text \<open>The classes that depend on a condition.\<close>

definition cond_class :: "(bool \<times> string) list \<Rightarrow> 'a attr list" where
  "cond_class cs =
     (case filter fst cs of [] \<Rightarrow> [] | ds \<Rightarrow> [Prop ''className'' (join_str (js '' '') (map (js \<circ> snd) ds))])"

subsection \<open>Configuration and context\<close>

record 'a chart_entry =
  ce_label :: "'a node option"
  ce_icon :: "string option"
  ce_color :: "jstr option"
  ce_theme :: "(jstr \<times> jstr) option"

type_synonym 'a chart_config = "'a chart_entry obj"

definition useChart :: "'a chart_config option \<Rightarrow> jstr + 'a chart_config" where
  "useChart context =
     (case context of
        Some config \<Rightarrow> Inr config
      | None \<Rightarrow> Inl (js ''useChart must be used within a <ChartContainer />''))"

text \<open>\<open>config[name]\<close> and \<open>name in config\<close>: an inherited member has no label and no icon.\<close>

definition object_prototype_names :: "jstr list" where
  "object_prototype_names =
     map js [''constructor'', ''hasOwnProperty'', ''isPrototypeOf'', ''propertyIsEnumerable'',
       ''toLocaleString'', ''toString'', ''valueOf'', ''__proto__'', ''__defineGetter__'',
       ''__defineSetter__'', ''__lookupGetter__'', ''__lookupSetter__'']"

definition inherited_entry :: "'a chart_entry" where
  "inherited_entry = \<lparr>ce_label = None, ce_icon = None, ce_color = None, ce_theme = None\<rparr>"

definition config_member :: "'a chart_config \<Rightarrow> jstr \<Rightarrow> 'a chart_entry option" where
  "config_member config name =
     (case obj_get config name of
        Some e \<Rightarrow> Some e
      | None \<Rightarrow> if name \<in> set object_prototype_names then Some inherited_entry else None)"

text \<open>The members of an item that are texts; no inherited one is.\<close>

definition text_member :: "json \<Rightarrow> jstr \<Rightarrow> jstr option" where
  "text_member v k = (case json_member v k of Some (JStr s) \<Rightarrow> Some s | _ \<Rightarrow> None)"

definition config_label_key :: "json \<Rightarrow> jstr \<Rightarrow> jstr" where
  "config_label_key payload key =
     (case text_member payload key of
        Some s \<Rightarrow> s
      | None \<Rightarrow>
          (case Option.bind (json_member payload (js ''payload'')) (\<lambda>pp. text_member pp key) of
             Some s \<Rightarrow> s
           | None \<Rightarrow> key))"

definition getPayloadConfigFromPayload :: "'a chart_config \<Rightarrow> json \<Rightarrow> jstr \<Rightarrow> 'a chart_entry option" where
  "getPayloadConfigFromPayload config payload key =
     (case payload of
        JObj _ \<Rightarrow>
          (case config_member config (config_label_key payload key) of
             Some e \<Rightarrow> Some e
           | None \<Rightarrow> config_member config key)
      | JArr _ \<Rightarrow>
          (case config_member config (config_label_key payload key) of
             Some e \<Rightarrow> Some e
           | None \<Rightarrow> config_member config key)
      | _ \<Rightarrow> None)"

subsection \<open>The style of a chart\<close>

definition THEMES :: "(string \<times> string) list" where
  "THEMES = [(''light'', ''''), (''dark'', ''.dark'')]"

definition theme_color :: "'a chart_entry \<Rightarrow> string \<Rightarrow> jstr option" where
  "theme_color e theme =
     (case ce_theme e of
        Some (light, dark) \<Rightarrow> Some (if theme = ''light'' then light else dark)
      | None \<Rightarrow> ce_color e)"

definition color_line :: "string \<Rightarrow> jstr \<times> 'a chart_entry \<Rightarrow> jstr" where
  "color_line theme entry =
     (case theme_color (snd entry) theme of
        Some c \<Rightarrow> if c = [] then [] else js ''  --color-'' @ fst entry @ js '': '' @ c @ js '';''
      | None \<Rightarrow> [])"

definition color_config :: "'a chart_config \<Rightarrow> 'a chart_config" where
  "color_config config =
     filter (\<lambda>(k, e). ce_theme e \<noteq> None \<or> (case ce_color e of Some c \<Rightarrow> c \<noteq> [] | None \<Rightarrow> False)) config"

definition theme_block :: "jstr \<Rightarrow> 'a chart_config \<Rightarrow> string \<times> string \<Rightarrow> jstr" where
  "theme_block cid colors theme =
     [0xA] @ js (snd theme) @ js '' [data-chart='' @ cid @ js ''] {'' @ [0xA]
       @ join_str [0xA] (map (color_line (fst theme)) colors) @ [0xA] @ js ''}'' @ [0xA]"

definition ChartStyle :: "jstr \<Rightarrow> 'a chart_config \<Rightarrow> 'a node list" where
  "ChartStyle cid config =
     (if color_config config = [] then []
      else [El ''style''
        [Prop ''dangerouslySetInnerHTML'' (join_str [0xA] (map (theme_block cid (color_config config)) THEMES))] []])"

definition INITIAL_DIMENSION :: "jstr \<times> jstr" where
  "INITIAL_DIMENSION = (js ''320'', js ''200'')"

definition ChartContainer ::
  "jstr \<Rightarrow> 'a chart_config \<Rightarrow> (jstr \<times> jstr) option \<Rightarrow> 'a attr list \<Rightarrow> 'a node list \<Rightarrow> 'a chart_config \<times> 'a node"
where
  "ChartContainer uniqueId config initialDimension props children =
     (let chartId = js ''chart-''
            @ (case text_of ''id'' props of Some i \<Rightarrow> i | None \<Rightarrow> filter (\<lambda>u. u \<noteq> 0x3A) uniqueId);
          dimension = (case initialDimension of Some d \<Rightarrow> d | None \<Rightarrow> INITIAL_DIMENSION)
      in
        (config,
         draw (El ''div'') [''id''] [data_slot ''chart'', Prop ''data-chart'' chartId] props
           (ChartStyle chartId config
            @ [El ''RechartsPrimitive.ResponsiveContainer''
                [Prop ''initialDimension.width'' (fst dimension), Prop ''initialDimension.height'' (snd dimension)]
                children])))"

subsection \<open>The tooltip\<close>

definition ChartTooltip :: "'a component" where
  "ChartTooltip = El ''RechartsPrimitive.Tooltip''"

datatype indicator = Line | Dot | Dashed

record 'a tooltip_props =
  tt_active :: bool
  tt_payload :: "json list"
  tt_className :: "jstr option"
  tt_indicator :: "indicator option"
  tt_hideLabel :: bool
  tt_hideIndicator :: bool
  tt_label :: "json option"
  tt_labelFormatter :: "('a node option \<Rightarrow> json list \<Rightarrow> 'a node list) option"
  tt_labelClassName :: "jstr option"
  tt_formatter :: "(json \<Rightarrow> json \<Rightarrow> json \<Rightarrow> nat \<Rightarrow> json option \<Rightarrow> 'a node list) option"
  tt_color :: "jstr option"
  tt_nameKey :: "jstr option"
  tt_labelKey :: "jstr option"

abbreviation tt_kind :: "'a tooltip_props \<Rightarrow> indicator" where
  "tt_kind p \<equiv> (case tt_indicator p of Some i \<Rightarrow> i | None \<Rightarrow> Dot)"

abbreviation item_member :: "json \<Rightarrow> string \<Rightarrow> json option" where
  "item_member item k \<equiv> json_member item (js k)"

text \<open>The template text of the first of several values that is there, else \<open>value\<close>.\<close>

definition key_text :: "json option list \<Rightarrow> jstr" where
  "key_text vs = (case foldr coalesce vs None of Some v \<Rightarrow> json_text v | None \<Rightarrow> js ''value'')"

definition falsy_label :: "'a node option \<Rightarrow> bool" where
  "falsy_label l \<longleftrightarrow> l \<in> {None, Some (literal [])}"

definition label_value :: "'a chart_config \<Rightarrow> 'a tooltip_props \<Rightarrow> json \<Rightarrow> 'a node option" where
  "label_value config p item =
     (let key = key_text [map_option JStr (tt_labelKey p), item_member item ''dataKey'', item_member item ''name''];
          itemConfig = getPayloadConfigFromPayload config item key
      in
        case tt_label p of
          Some (JStr l) \<Rightarrow>
            if tt_labelKey p \<in> {None, Some []}
            then (case Option.bind (obj_get config l) ce_label of Some n \<Rightarrow> Some n | None \<Rightarrow> Some (literal l))
            else Option.bind itemConfig ce_label
        | _ \<Rightarrow> Option.bind itemConfig ce_label)"

definition tooltipLabel :: "'a chart_config \<Rightarrow> 'a tooltip_props \<Rightarrow> 'a node list" where
  "tooltipLabel config p =
     (case tt_payload p of
        [] \<Rightarrow> []
      | item # _ \<Rightarrow>
          let v = label_value config p item in
          if tt_hideLabel p then []
          else
            case tt_labelFormatter p of
              Some f \<Rightarrow> [El ''div'' (class_attr (tt_labelClassName p)) (f v (tt_payload p))]
            | None \<Rightarrow>
                if falsy_label v then []
                else [El ''div'' (class_attr (tt_labelClassName p)) (case v of Some n \<Rightarrow> [n] | None \<Rightarrow> [])])"

definition nest_label :: "'a tooltip_props \<Rightarrow> bool" where
  "nest_label p \<longleftrightarrow> length (tt_payload p) = 1 \<and> tt_kind p \<noteq> Dot"

definition shown_items :: "json list \<Rightarrow> json list" where
  "shown_items = filter (\<lambda>item. item_member item ''type'' \<noteq> Some (JStr (js ''none'')))"

definition indicator_node :: "'a tooltip_props \<Rightarrow> json \<Rightarrow> 'a node" where
  "indicator_node p item =
     (let c = coalesce (map_option JStr (tt_color p))
            (coalesce (Option.bind (item_member item ''payload'') (\<lambda>pp. item_member pp ''fill''))
              (item_member item ''color''))
      in
        El ''div''
          (cond_class
             [(tt_kind p = Dot, ''h-2.5 w-2.5''), (tt_kind p = Line, ''w-1''),
              (tt_kind p = Dashed, ''w-0 border-[1.5px] border-dashed bg-transparent''),
              (nest_label p \<and> tt_kind p = Dashed, ''my-0.5'')]
           @ [style_attr (style_entry ''--color-bg'' c @ style_entry ''--color-border'' c)]) [])"

definition row_name :: "'a chart_entry option \<Rightarrow> json \<Rightarrow> 'a node list" where
  "row_name itemConfig item =
     (case Option.bind itemConfig ce_label of Some n \<Rightarrow> [n] | None \<Rightarrow> json_nodes (item_member item ''name''))"

definition row_value :: "(jstr \<Rightarrow> jstr) \<Rightarrow> json \<Rightarrow> 'a node list" where
  "row_value toLocaleString item =
     (case item_member item ''value'' of
        None \<Rightarrow> []
      | Some JNull \<Rightarrow> []
      | Some (JNum t) \<Rightarrow> [El ''span'' [] [literal (toLocaleString t)]]
      | Some v \<Rightarrow> [El ''span'' [] [literal (json_text v)]])"

definition formatted_row :: "'a tooltip_props \<Rightarrow> nat \<Rightarrow> json \<Rightarrow> 'a node list option" where
  "formatted_row p index item =
     (case (tt_formatter p, item_member item ''value'', item_member item ''name'') of
        (Some f, Some v, Some n) \<Rightarrow>
          if json_truthy n then Some (f v n item index (item_member item ''payload'')) else None
      | _ \<Rightarrow> None)"

definition item_config :: "'a chart_config \<Rightarrow> 'a tooltip_props \<Rightarrow> json \<Rightarrow> 'a chart_entry option" where
  "item_config config p item =
     getPayloadConfigFromPayload config item
       (key_text [map_option JStr (tt_nameKey p), item_member item ''name'', item_member item ''dataKey''])"

definition plain_row :: "(jstr \<Rightarrow> jstr) \<Rightarrow> 'a chart_config \<Rightarrow> 'a tooltip_props \<Rightarrow> json \<Rightarrow> 'a node list" where
  "plain_row toLocaleString config p item =
     (case Option.bind (item_config config p item) ce_icon of
        Some i \<Rightarrow> [icon i]
      | None \<Rightarrow> shown_if (\<not> tt_hideIndicator p) (indicator_node p item))
     @ [El ''div'' [Prop ''className'' (if nest_label p then js ''items-end'' else js ''items-center'')]
          ([El ''div'' []
              ((if nest_label p then tooltipLabel config p else [])
               @ [El ''span'' [] (row_name (item_config config p item) item)])]
           @ row_value toLocaleString item)]"

definition tooltip_row ::
  "(jstr \<Rightarrow> jstr) \<Rightarrow> 'a chart_config \<Rightarrow> 'a tooltip_props \<Rightarrow> nat \<times> json \<Rightarrow> 'a node" where
  "tooltip_row toLocaleString config p row =
     El ''div'' (cond_class [(tt_kind p = Dot, ''items-center'')])
       (case formatted_row p (fst row) (snd row) of
          Some ns \<Rightarrow> ns
        | None \<Rightarrow> plain_row toLocaleString config p (snd row))"

definition ChartTooltipContent ::
  "(jstr \<Rightarrow> jstr) \<Rightarrow> 'a chart_config option \<Rightarrow> 'a tooltip_props \<Rightarrow> jstr + 'a node list" where
  "ChartTooltipContent toLocaleString context p =
     (case useChart context of
        Inl err \<Rightarrow> Inl err
      | Inr config \<Rightarrow>
          if \<not> tt_active p \<or> tt_payload p = [] then Inr []
          else
            Inr [El ''div'' (class_attr (tt_className p))
              ((if nest_label p then [] else tooltipLabel config p)
               @ [El ''div'' []
                    (map (tooltip_row toLocaleString config p) (List.enumerate 0 (shown_items (tt_payload p))))])])"

subsection \<open>The legend\<close>

definition ChartLegend :: "'a component" where
  "ChartLegend = El ''RechartsPrimitive.Legend''"

record 'a legend_props =
  lg_className :: "jstr option"
  lg_hideIcon :: bool
  lg_payload :: "json list"
  lg_verticalAlign :: "jstr option"
  lg_nameKey :: "jstr option"

definition legend_row :: "'a chart_config \<Rightarrow> 'a legend_props \<Rightarrow> json \<Rightarrow> 'a node" where
  "legend_row config p item =
     (let itemConfig = getPayloadConfigFromPayload config item
            (key_text [map_option JStr (lg_nameKey p), item_member item ''dataKey''])
      in
        El ''div'' []
          ((case Option.bind itemConfig ce_icon of
              Some i \<Rightarrow> if lg_hideIcon p then [] else [icon i]
            | None \<Rightarrow> [])
           @ shown_if (Option.bind itemConfig ce_icon = None \<or> lg_hideIcon p)
               (El ''div'' [style_attr (style_entry ''backgroundColor'' (item_member item ''color''))] [])
           @ (case Option.bind itemConfig ce_label of Some n \<Rightarrow> [n] | None \<Rightarrow> [])))"

definition ChartLegendContent :: "'a chart_config option \<Rightarrow> 'a legend_props \<Rightarrow> jstr + 'a node list" where
  "ChartLegendContent context p =
     (case useChart context of
        Inl err \<Rightarrow> Inl err
      | Inr config \<Rightarrow>
          if lg_payload p = [] then Inr []
          else
            Inr [El ''div''
              (cond_class [(lg_verticalAlign p = Some (js ''top''), ''pb-3''),
                 (lg_verticalAlign p \<noteq> Some (js ''top''), ''pt-3'')] @ class_attr (lg_className p))
              (map (legend_row config p) (shown_items (lg_payload p)))])"


subsection \<open>Properties\<close>

lemma actions_chart [simp]:
  "transparent ChartTooltip" "transparent ChartLegend"
  "transparent (\<lambda>props children. snd (ChartContainer uniqueId config dimension props children))"
  by (rule transparentI; simp add: kit_simps ChartTooltip_def ChartLegend_def ChartContainer_def ChartStyle_def)+

lemma page_texts_shown_if [simp]: "concat (map page_texts (shown_if b n)) = (if b then page_texts n else [])"
  by (simp add: shown_if_def)

lemma texts_indicator [simp]: "page_texts (indicator_node p item) = []"
  by (simp add: indicator_node_def Let_def)

abbreviation texts_in :: "'a node list \<Rightarrow> ui_text list" where
  "texts_in ns \<equiv> concat (map page_texts ns)"

definition row_texts :: "(jstr \<Rightarrow> jstr) \<Rightarrow> 'a chart_config \<Rightarrow> 'a tooltip_props \<Rightarrow> json \<Rightarrow> ui_text list" where
  "row_texts toLocaleString config p item =
     texts_in (row_name (item_config config p item) item)
       @ texts_in (row_value toLocaleString item :: 'a node list)"

lemma texts_plain_row:
  "texts_in (plain_row loc config p item) =
     (if nest_label p then texts_in (tooltipLabel config p) else []) @ row_texts loc config p item"
  by (simp add: plain_row_def row_texts_def shown_if_def split: option.split)


text \<open>An item whose member under the key is a text is drawn with the configuration of that
  text if there is one, else of the key; but a text that objects inherit, such as \<open>constructor\<close>,
  hides the key's configuration and gives no label and no icon.\<close>

theorem chart_lookup:
  assumes "obj_get members k = Some (JStr s)"
  shows "getPayloadConfigFromPayload config (JObj members) k =
    (if obj_get config s \<noteq> None then obj_get config s
     else if s \<in> set object_prototype_names then Some inherited_entry
     else config_member config k)"
  using assms
  by (auto simp: getPayloadConfigFromPayload_def config_label_key_def text_member_def config_member_def
      split: option.splits)

theorem chart_lookup_witness:
  "map_option ce_label (getPayloadConfigFromPayload
       [(js ''name'', \<lparr>ce_label = Some (literal (js ''Name'')), ce_icon = None, ce_color = None, ce_theme = None\<rparr>)]
       (JObj [(js ''name'', JStr (js ''constructor''))]) (js ''name'')) = Some None"
  using chart_lookup [of "[(js ''name'', JStr (js ''constructor''))]" "js ''name''" "js ''constructor''"
      "[(js ''name'', \<lparr>ce_label = Some (literal (js ''Name'')), ce_icon = None, ce_color = None, ce_theme = None\<rparr>)]"]
  by (auto simp: object_prototype_names_def inherited_entry_def js_def)
end
