(* ===== verification/UiCalendar.thy ===== *)
theory UiCalendar
  imports UiControls
begin

section \<open>The calendar: components/ui/calendar.tsx\<close>

text \<open>
  The calendar is a call of the day picker, a library component, with computed class names,
  formatters and parts, which a caller may override name by name. Parameters: \<open>cn\<close> (the class
  merger, here of the classes that are not constant), the library's \<open>getDefaultClassNames\<close>, the
  table \<open>buttonVariants\<close>, and the texts of dates. Dates are of the type \<open>'d\<close>.
\<close>

subsection \<open>A day\<close>

text \<open>The modifiers the picker gives a day; one that is not given is undefined.\<close>

type_synonym modifiers = "string \<Rightarrow> bool option"

record picker_locale =
  lc_code :: "jstr option"

definition flag_attr :: "string \<Rightarrow> bool option \<Rightarrow> 'a attr list" where
  "flag_attr k b = (case b of Some b \<Rightarrow> [Flag k b] | None \<Rightarrow> [])"

definition is_set :: "modifiers \<Rightarrow> string \<Rightarrow> bool" where
  "is_set m k \<longleftrightarrow> m k = Some True"

text \<open>\<open>selected && !range_start && !range_end && !range_middle\<close>.\<close>

definition selected_single :: "modifiers \<Rightarrow> bool option" where
  "selected_single m =
     (if is_set m ''selected''
      then Some (\<not> is_set m ''range_start'' \<and> \<not> is_set m ''range_end'' \<and> \<not> is_set m ''range_middle'')
      else m ''selected'')"

definition CalendarDayButton ::
  "(jstr list \<Rightarrow> jstr) \<Rightarrow> (string \<Rightarrow> jstr) \<Rightarrow> (jstr option \<Rightarrow> 'd \<Rightarrow> jstr) \<Rightarrow> picker_locale option
     \<Rightarrow> 'd \<Rightarrow> modifiers \<Rightarrow> 'a component" where
  "CalendarDayButton cn defaultClassNames toLocaleDateString locale day m = (\<lambda>props children.
     Button
       (spread
          ([Prop ''variant'' (js ''ghost''), Prop ''size'' (js ''icon''),
            Prop ''data-day'' (toLocaleDateString (Option.bind locale lc_code) day)]
           @ flag_attr ''data-selected-single'' (selected_single m)
           @ flag_attr ''data-range-start'' (m ''range_start'')
           @ flag_attr ''data-range-end'' (m ''range_end'')
           @ flag_attr ''data-range-middle'' (m ''range_middle'')
           @ [Prop ''className'' (cn [defaultClassNames ''day'', prop_text ''className'' '''' props])])
          (rest [''className''] props)) children)"

text \<open>The effect that follows a change of \<open>modifiers.focused\<close>: whether the button takes the focus.\<close>

definition takes_focus :: "modifiers \<Rightarrow> bool" where
  "takes_focus m \<longleftrightarrow> is_set m ''focused''"

subsection \<open>The call of the day picker\<close>

datatype ('a, 'd) picker_part = Part "'a component" | DayPart "'d \<Rightarrow> modifiers \<Rightarrow> 'a component"

record ('a, 'd) day_picker =
  dp_props :: "'a attr list"
  dp_locale :: "picker_locale option"
  dp_formatters :: "('d \<Rightarrow> jstr) obj"
  dp_classNames :: "jstr obj"
  dp_components :: "('a, 'd) picker_part obj"

definition calendar_classes ::
  "(jstr list \<Rightarrow> jstr) \<Rightarrow> (string \<Rightarrow> jstr) \<Rightarrow> (jstr \<Rightarrow> jstr) \<Rightarrow> jstr \<Rightarrow> jstr \<Rightarrow> bool \<Rightarrow> jstr obj" where
  "calendar_classes cn defaultClassNames buttonVariants buttonVariant captionLayout showWeekNumber =
     map (\<lambda>(k, own). (js k, cn (own @ [defaultClassNames k])))
       [(''root'', []), (''months'', []), (''month'', []), (''nav'', []),
        (''button_previous'', [buttonVariants buttonVariant]),
        (''button_next'', [buttonVariants buttonVariant]),
        (''month_caption'', []), (''dropdowns'', []), (''dropdown_root'', []), (''dropdown'', []),
        (''caption_label'',
         [js (if captionLayout = js ''label'' then ''text-sm''
              else ''flex items-center gap-1 rounded-(--cell-radius) text-sm [&>svg]:size-3.5 [&>svg]:text-muted-foreground'')]),
        (''month_grid'', []), (''weekdays'', []), (''weekday'', []), (''week'', []),
        (''week_number_header'', []), (''week_number'', []),
        (''day'',
         [js (if showWeekNumber
              then ''[&:nth-child(2)[data-selected=true]_button]:rounded-l-(--cell-radius)''
              else ''[&:first-child[data-selected=true]_button]:rounded-l-(--cell-radius)'')]),
        (''range_start'', []), (''range_middle'', []), (''range_end'', []), (''today'', []),
        (''outside'', []), (''disabled'', []), (''hidden'', [])]"

definition calendar_root :: "'a component" where
  "calendar_root = (\<lambda>props children.
     draw (El ''div'') [''rootRef''] ([data_slot ''calendar''] @ passed ''rootRef'' ''ref'' props) props children)"

definition calendar_chevron :: "'a component" where
  "calendar_chevron = (\<lambda>props.
     draw
       (El (if text_of ''orientation'' props = Some (js ''left'') then ''CaretLeftIcon''
            else if text_of ''orientation'' props = Some (js ''right'') then ''CaretRightIcon''
            else ''CaretDownIcon''))
       [''orientation''] [] props)"

definition calendar_week_number :: "'a component" where
  "calendar_week_number = (\<lambda>props children. El ''td'' props [El ''div'' [] children])"

definition calendar_components ::
  "('d \<Rightarrow> modifiers \<Rightarrow> 'a component) \<Rightarrow> ('a, 'd) picker_part obj" where
  "calendar_components day_button =
     [(js ''Root'', Part calendar_root), (js ''Chevron'', Part calendar_chevron),
      (js ''DayButton'', DayPart day_button), (js ''WeekNumber'', Part calendar_week_number)]"

definition Calendar ::
  "(jstr list \<Rightarrow> jstr) \<Rightarrow> (string \<Rightarrow> jstr) \<Rightarrow> (jstr \<Rightarrow> jstr) \<Rightarrow> (jstr option \<Rightarrow> 'd \<Rightarrow> jstr)
     \<Rightarrow> (jstr option \<Rightarrow> 'd \<Rightarrow> jstr) \<Rightarrow> picker_locale option \<Rightarrow> ('d \<Rightarrow> jstr) obj \<Rightarrow> jstr obj
     \<Rightarrow> ('a, 'd) picker_part obj \<Rightarrow> 'a attr list \<Rightarrow> ('a, 'd) day_picker" where
  "Calendar cn defaultClassNames buttonVariants toLocaleDateString shortMonth locale formatters classNames
     components props =
     \<lparr>dp_props =
        spread
          (flag_or ''showOutsideDays'' ''showOutsideDays'' True props @ given ''className'' props
           @ passed_or ''captionLayout'' ''captionLayout'' ''label'' props)
          (rest [''className'', ''showOutsideDays'', ''captionLayout'', ''buttonVariant''] props),
      dp_locale = locale,
      dp_formatters =
        obj_merge [(js ''formatMonthDropdown'', shortMonth (Option.bind locale lc_code))] formatters,
      dp_classNames =
        obj_merge
          (calendar_classes cn defaultClassNames buttonVariants (prop_text ''buttonVariant'' ''ghost'' props)
             (prop_text ''captionLayout'' ''label'' props) (flag_set ''showWeekNumber'' False props))
          classNames,
      dp_components =
        obj_merge
          (calendar_components (CalendarDayButton cn defaultClassNames toLocaleDateString locale))
          components\<rparr>"

subsection \<open>Properties\<close>

lemma inert_flag_attr [simp]: "k \<noteq> ''disabled'' \<Longrightarrow> list_all inert (flag_attr k b)"
  by (simp add: flag_attr_def split: option.split)

lemma actions_calendar [simp]:
  "transparent (CalendarDayButton cn names date_text locale day m)"
  "transparent calendar_root" "transparent calendar_chevron" "transparent calendar_week_number"
  by (rule transparentI; simp add: kit_simps CalendarDayButton_def calendar_root_def
      calendar_chevron_def calendar_week_number_def)+

text \<open>A part, formatter or class name of the caller replaces the calendar's own of that name only.\<close>

lemma calendar_overrides:
  assumes "obj_ok classNames" and "obj_ok components"
  shows "obj_get (dp_classNames (Calendar cn names variants date_text month_text locale formatters
        classNames components props)) k =
      (case obj_get classNames k of
         Some c \<Rightarrow> Some c
       | None \<Rightarrow> obj_get (calendar_classes cn names variants (prop_text ''buttonVariant'' ''ghost'' props)
           (prop_text ''captionLayout'' ''label'' props) (flag_set ''showWeekNumber'' False props)) k)"
    and "obj_get (dp_components (Calendar cn names variants date_text month_text locale formatters
        classNames components props)) k =
      (case obj_get components k of
         Some c \<Rightarrow> Some c
       | None \<Rightarrow> obj_get (calendar_components (CalendarDayButton cn names date_text locale)) k)"
  using assms
  by (simp_all add: Calendar_def map_of_obj_merge map_of_rev_ok map_add_def split: option.split)

end
