(* ===== verification/UiRoot.thy ===== *)
theory UiRoot
  imports UiOverlays
begin

section \<open>The document: routes/__root.tsx\<close>

text \<open>
  The document around the routes, and what the root route does before it loads. The current
  locale is \<open>getLocale()\<close>; the toasts are those of the toast library's manager; parts of the
  router and of the developer tools are elements with their name.
\<close>

text \<open>The language attribute of the document, which the server does not have, after it.\<close>

definition beforeLoad :: "jstr \<Rightarrow> bool \<Rightarrow> jstr option \<Rightarrow> jstr option" where
  "beforeLoad locale has_document lang = (if has_document then Some locale else lang)"

definition head_meta :: "'a attr list list" where
  "head_meta =
     [[Prop ''charSet'' (js ''utf-8'')],
      [Prop ''name'' (js ''viewport''), Prop ''content'' (js ''width=device-width, initial-scale=1'')],
      [Label ''title'' [Msg ''app_title'' []]],
      [Prop ''name'' (js ''description''), Label ''content'' [Msg ''app_description'' []]]]"

definition head_links :: "jstr \<Rightarrow> 'a attr list list" where
  "head_links appCss = [[Prop ''rel'' (js ''stylesheet''), Prop ''href'' appCss]]"

definition RootApp :: "'a node" where
  "RootApp = El ''WorkbenchProvider'' [] [El ''Outlet'' [] []]"

definition dev_tools :: "'a node" where
  "dev_tools =
     El ''TanStackDevtools'' [Prop ''config.position'' (js ''bottom-right'')]
       [El ''plugin'' [Prop ''name'' (js ''Tanstack Router'')] [El ''TanStackRouterDevtoolsPanel'' [] []],
        El ''TanStackQueryDevtools'' [] []]"

definition RootDocument :: "jstr \<Rightarrow> bool \<Rightarrow> toast_item list \<Rightarrow> 'a node list \<Rightarrow> 'a node" where
  "RootDocument locale dev toasts children =
     El ''html'' [Prop ''lang'' locale]
       [El ''head'' [] [El ''HeadContent'' [] []],
        El ''body'' []
          ([TooltipProvider [] children, Toaster toasts [] []] @ shown_if dev dev_tools @ [El ''Scripts'' [] []])]"

text \<open>The document offers what the route inside of it offers, with and without the developer tools.\<close>

lemma root_offers:
  "offers v (RootDocument locale dev toasts children) = offers_all v children \<union> offers v (Toaster toasts [] [])"
  by (simp add: RootDocument_def dev_tools_def)

subsection \<open>The workbench's context\<close>

definition useWorkbench :: "'c option \<Rightarrow> string + 'c" where
  "useWorkbench context =
     (case context of
        None \<Rightarrow> Inl ''useWorkbench must be used inside WorkbenchProvider''
      | Some c \<Rightarrow> Inr c)"

lemma contexts_toasts: "contexts p v c ''Outlet'' (Toaster toasts [] []) = []"
  by (auto simp: Toaster_def ToastProvider_def ToastPortal_def ToastViewport_def ToastList_def Toast_def
      ToastContent_def ToastIcon_def ToastTitle_def ToastDescription_def ToastAction_def ToastClose_def
      render_or_def render_only_def children_or_def without_render_def Button_def draw_def plain_def
      toast_type_icon_def split: option.splits if_splits)

text \<open>No route is drawn outside the provider: in the document, \<open>useWorkbench\<close> does not throw there.\<close>

lemma routes_provided:
  "map useWorkbench
     (contexts ''WorkbenchProvider'' v None ''Outlet'' (RootDocument locale dev toasts [RootApp])) = [Inr v]"
  by (simp add: RootDocument_def RootApp_def dev_tools_def useWorkbench_def TooltipProvider_def
      plain_def contexts_toasts shown_if_def)

end
