(* ===== verification/UiStyled.thy ===== *)
theory UiStyled
  imports UiClasses UiLayout UiOverlays
begin

section \<open>Declared looks of the components\<close>

text \<open>
  Every component of \<open>components/ui\<close> is styled: the looks it draws, also of the components it is
  made of, are in the class tables whenever its caller chooses declared values.
\<close>

declare page_actions.simps(2) [simp del]

lemma styled_1 [simp]:
  "styled [(''variant'', ''buttonVariants.variant''), (''size'', ''buttonVariants.size'')] Button"
  "styled [(''variant'', ''badgeVariants.variant'')] Badge"
  "styled [] Input"
  "styled [] Textarea"
  "styled [] LabelElement"
  "styled [] Separator"
  "styled [] SelectGroup"
  "styled [] SelectValue"
  "styled [] SelectTrigger"
  "styled [] SelectLabel"
  by (rule styledI; simp add: styling Button_def Badge_def Input_def Textarea_def LabelElement_def Separator_def SelectGroup_def SelectValue_def SelectTrigger_def SelectLabel_def)+

lemmas declared_1 [simp] = styled_1 [THEN styledD]

lemma styled_2 [simp]:
  "styled [] SelectItem"
  "styled [] SelectSeparator"
  "styled [] SelectScrollUpButton"
  "styled [] SelectScrollDownButton"
  "styled [] SelectContent"
  "styled [] Checkbox"
  "styled [] RadioGroup"
  "styled [] RadioGroupItem"
  "styled [] Switch"
  "styled [] ProgressTrack"
  by (rule styledI; simp add: styling SelectItem_def SelectSeparator_def SelectScrollUpButton_def SelectScrollDownButton_def SelectContent_def Checkbox_def RadioGroup_def RadioGroupItem_def Switch_def ProgressTrack_def)+

lemmas declared_2 [simp] = styled_2 [THEN styledD]

lemma styled_3 [simp]:
  "styled [] ProgressIndicator"
  "styled [] ProgressLabel"
  "styled [] ProgressValue"
  "styled [] Progress"
  "styled [(''variant'', ''toggleVariants.variant''), (''size'', ''toggleVariants.size'')] Toggle"
  "styled [] Tabs"
  "styled [(''variant'', ''tabsListVariants.variant'')] TabsList"
  "styled [] TabsTrigger"
  "styled [] TabsContent"
  "styled [] InputGroup"
  by (rule styledI; simp add: styling ProgressIndicator_def ProgressLabel_def ProgressValue_def Progress_def Toggle_def Tabs_def TabsList_def TabsTrigger_def TabsContent_def InputGroup_def)+

lemmas declared_3 [simp] = styled_3 [THEN styledD]

lemma styled_4 [simp]:
  "styled [(''align'', ''inputGroupAddonVariants.align'')] InputGroupAddon"
  "styled [(''variant'', ''buttonVariants.variant''), (''size'', ''inputGroupButtonVariants.size'')] InputGroupButton"
  "styled [] InputGroupText"
  "styled [] InputGroupInput"
  "styled [] InputGroupTextarea"
  "styled [] InputOTP"
  "styled [] InputOTPGroup"
  "styled [] InputOTPSeparator"
  "styled [] ScrollBar"
  "styled [] ScrollArea"
  by (rule styledI; simp add: styling InputGroupAddon_def InputGroupButton_def InputGroupText_def InputGroupInput_def InputGroupTextarea_def InputOTP_def InputOTPGroup_def InputOTPSeparator_def ScrollBar_def ScrollArea_def)+

lemmas declared_4 [simp] = styled_4 [THEN styledD]

lemma styled_5 [simp]:
  "styled [] Skeleton"
  "styled [] Spinner"
  "styled [] Kbd"
  "styled [] KbdGroup"
  "styled [] Accordion"
  "styled [] AccordionItem"
  "styled [] AccordionTrigger"
  "styled [] AccordionContent"
  "styled [(''variant'', ''alertVariants.variant'')] Alert"
  "styled [] AlertTitle"
  by (rule styledI; simp add: styling Skeleton_def Spinner_def Kbd_def KbdGroup_def Accordion_def AccordionItem_def AccordionTrigger_def AccordionContent_def Alert_def AlertTitle_def)+

lemmas declared_5 [simp] = styled_5 [THEN styledD]

lemma styled_6 [simp]:
  "styled [] AlertDescription"
  "styled [] AlertAction"
  "styled [(''size'', ''attachmentVariants.size''), (''orientation'', ''attachmentVariants.orientation'')] Attachment"
  "styled [(''variant'', ''attachmentMediaVariants.variant'')] AttachmentMedia"
  "styled [] AttachmentContent"
  "styled [] AttachmentTitle"
  "styled [] AttachmentDescription"
  "styled [] AttachmentActions"
  "styled [(''variant'', ''buttonVariants.variant''), (''size'', ''buttonVariants.size'')] AttachmentAction"
  "styled [] AttachmentTrigger"
  by (rule styledI; simp add: styling AlertDescription_def AlertAction_def Attachment_def AttachmentMedia_def AttachmentContent_def AttachmentTitle_def AttachmentDescription_def AttachmentActions_def AttachmentAction_def AttachmentTrigger_def)+

lemmas declared_6 [simp] = styled_6 [THEN styledD]

lemma styled_7 [simp]:
  "styled [] AttachmentGroup"
  "styled [] Avatar"
  "styled [] AvatarImage"
  "styled [] AvatarFallback"
  "styled [] AvatarBadge"
  "styled [] AvatarGroup"
  "styled [] AvatarGroupCount"
  "styled [] Breadcrumb"
  "styled [] BreadcrumbList"
  "styled [] BreadcrumbItem"
  by (rule styledI; simp add: styling AttachmentGroup_def Avatar_def AvatarImage_def AvatarFallback_def AvatarBadge_def AvatarGroup_def AvatarGroupCount_def Breadcrumb_def BreadcrumbList_def BreadcrumbItem_def)+

lemmas declared_7 [simp] = styled_7 [THEN styledD]

lemma styled_8 [simp]:
  "styled [] BreadcrumbLink"
  "styled [] BreadcrumbPage"
  "styled [] BreadcrumbSeparator"
  "styled [] BreadcrumbEllipsis"
  "styled [(''orientation'', ''buttonGroupVariants.orientation'')] ButtonGroup"
  "styled [] ButtonGroupText"
  "styled [] ButtonGroupSeparator"
  "styled [] Card"
  "styled [] CardHeader"
  "styled [] CardTitle"
  by (rule styledI; simp add: styling BreadcrumbLink_def BreadcrumbPage_def BreadcrumbSeparator_def BreadcrumbEllipsis_def ButtonGroup_def ButtonGroupText_def ButtonGroupSeparator_def Card_def CardHeader_def CardTitle_def)+

lemmas declared_8 [simp] = styled_8 [THEN styledD]

lemma styled_9 [simp]:
  "styled [] CardDescription"
  "styled [] CardAction"
  "styled [] CardContent"
  "styled [] CardFooter"
  "styled [] Collapsible"
  "styled [] CollapsibleTrigger"
  "styled [] CollapsibleContent"
  "styled [] Empty"
  "styled [] EmptyHeader"
  "styled [(''variant'', ''emptyMediaVariants.variant'')] EmptyMedia"
  by (rule styledI; simp add: styling CardDescription_def CardAction_def CardContent_def CardFooter_def Collapsible_def CollapsibleTrigger_def CollapsibleContent_def Empty_def EmptyHeader_def EmptyMedia_def)+

lemmas declared_9 [simp] = styled_9 [THEN styledD]

lemma styled_10 [simp]:
  "styled [] EmptyTitle"
  "styled [] EmptyDescription"
  "styled [] EmptyContent"
  "styled [] ItemGroup"
  "styled [] ItemSeparator"
  "styled [(''variant'', ''itemVariants.variant''), (''size'', ''itemVariants.size'')] Item"
  "styled [(''variant'', ''itemMediaVariants.variant'')] ItemMedia"
  "styled [] ItemContent"
  "styled [] ItemTitle"
  "styled [] ItemDescription"
  by (rule styledI; simp add: styling EmptyTitle_def EmptyDescription_def EmptyContent_def ItemGroup_def ItemSeparator_def Item_def ItemMedia_def ItemContent_def ItemTitle_def ItemDescription_def)+

lemmas declared_10 [simp] = styled_10 [THEN styledD]

lemma styled_11 [simp]:
  "styled [] ItemActions"
  "styled [] ItemHeader"
  "styled [] ItemFooter"
  "styled [(''variant'', ''markerVariants.variant'')] Marker"
  "styled [] MarkerIcon"
  "styled [] MarkerContent"
  "styled [] Pagination"
  "styled [] PaginationContent"
  "styled [] PaginationItem"
  "styled [(''size'', ''buttonVariants.size'')] PaginationLink"
  by (rule styledI; simp add: styling ItemActions_def ItemHeader_def ItemFooter_def Marker_def MarkerIcon_def MarkerContent_def Pagination_def PaginationContent_def PaginationItem_def PaginationLink_def)+

lemmas declared_11 [simp] = styled_11 [THEN styledD]

lemma styled_12 [simp]:
  "styled [] PaginationEllipsis"
  "styled [(''size'', ''buttonVariants.size'')] PaginationPrevious"
  "styled [(''size'', ''buttonVariants.size'')] PaginationNext"
  "styled [] Table"
  "styled [] TableHeader"
  "styled [] TableBody"
  "styled [] TableFooter"
  "styled [] TableRow"
  "styled [] TableHead"
  "styled [] TableCell"
  by (rule styledI; simp add: styling PaginationEllipsis_def PaginationPrevious_def PaginationNext_def Table_def TableHeader_def TableBody_def TableFooter_def TableRow_def TableHead_def TableCell_def)+

lemmas declared_12 [simp] = styled_12 [THEN styledD]

lemma styled_13 [simp]:
  "styled [] TableCaption"
  "styled [] FieldSet"
  "styled [] FieldLegend"
  "styled [] FieldGroup"
  "styled [(''orientation'', ''fieldVariants.orientation'')] Field"
  "styled [] FieldContent"
  "styled [] FieldLabel"
  "styled [] FieldTitle"
  "styled [] FieldDescription"
  "styled [] FieldSeparator"
  by (rule styledI; simp add: styling TableCaption_def FieldSet_def FieldLegend_def FieldGroup_def Field_def FieldContent_def FieldLabel_def FieldTitle_def FieldDescription_def FieldSeparator_def)+

lemmas declared_13 [simp] = styled_13 [THEN styledD]

lemma styled_14 [simp]:
  "styled [] AlertDialog"
  "styled [] AlertDialogTrigger"
  "styled [] AlertDialogPortal"
  "styled [] AlertDialogOverlay"
  "styled [] AlertDialogHeader"
  "styled [] AlertDialogFooter"
  "styled [] AlertDialogMedia"
  "styled [] AlertDialogTitle"
  "styled [] AlertDialogDescription"
  "styled [(''variant'', ''buttonVariants.variant''), (''size'', ''buttonVariants.size'')] AlertDialogAction"
  by (rule styledI; simp add: styling AlertDialog_def AlertDialogTrigger_def AlertDialogPortal_def AlertDialogOverlay_def AlertDialogHeader_def AlertDialogFooter_def AlertDialogMedia_def AlertDialogTitle_def AlertDialogDescription_def AlertDialogAction_def)+

lemmas declared_14 [simp] = styled_14 [THEN styledD]

lemma styled_15 [simp]:
  "styled [(''variant'', ''buttonVariants.variant''), (''size'', ''buttonVariants.size'')] AlertDialogCancel"
  "styled [] AlertDialogContent"
  "styled [] Dialog"
  "styled [] DialogTrigger"
  "styled [] DialogPortal"
  "styled [] DialogClose"
  "styled [] DialogOverlay"
  "styled [] DialogHeader"
  "styled [] DialogFooter"
  "styled [] DialogTitle"
  by (rule styledI; simp add: styling AlertDialogCancel_def AlertDialogContent_def Dialog_def DialogTrigger_def DialogPortal_def DialogClose_def DialogOverlay_def DialogHeader_def DialogFooter_def DialogTitle_def)+

lemmas declared_15 [simp] = styled_15 [THEN styledD]

lemma styled_16 [simp]:
  "styled [] DialogDescription"
  "styled [] DialogContent"
  "styled [] Sheet"
  "styled [] SheetTrigger"
  "styled [] SheetClose"
  "styled [] SheetPortal"
  "styled [] SheetOverlay"
  "styled [] SheetHeader"
  "styled [] SheetFooter"
  "styled [] SheetTitle"
  by (rule styledI; simp add: styling DialogDescription_def DialogContent_def Sheet_def SheetTrigger_def SheetClose_def SheetPortal_def SheetOverlay_def SheetHeader_def SheetFooter_def SheetTitle_def)+

lemmas declared_16 [simp] = styled_16 [THEN styledD]

lemma styled_17 [simp]:
  "styled [] SheetDescription"
  "styled [] SheetContent"
  "styled [] DrawerTrigger"
  "styled [] DrawerPortal"
  "styled [] DrawerClose"
  "styled [] DrawerOverlay"
  "styled [] DrawerSwipeHandle"
  "styled [] DrawerHeader"
  "styled [] DrawerFooter"
  "styled [] DrawerTitle"
  by (rule styledI; simp add: styling SheetDescription_def SheetContent_def DrawerTrigger_def DrawerPortal_def DrawerClose_def DrawerOverlay_def DrawerSwipeHandle_def DrawerHeader_def DrawerFooter_def DrawerTitle_def)+

lemmas declared_17 [simp] = styled_17 [THEN styledD]

lemma styled_18 [simp]:
  "styled [] DrawerDescription"
  "styled [] Popover"
  "styled [] PopoverTrigger"
  "styled [] PopoverContent"
  "styled [] PopoverHeader"
  "styled [] PopoverTitle"
  "styled [] PopoverDescription"
  "styled [] HoverCard"
  "styled [] HoverCardTrigger"
  "styled [] HoverCardContent"
  by (rule styledI; simp add: styling DrawerDescription_def Popover_def PopoverTrigger_def PopoverContent_def PopoverHeader_def PopoverTitle_def PopoverDescription_def HoverCard_def HoverCardTrigger_def HoverCardContent_def)+

lemmas declared_18 [simp] = styled_18 [THEN styledD]

lemma styled_19 [simp]:
  "styled [] TooltipProvider"
  "styled [] Tooltip"
  "styled [] TooltipTrigger"
  "styled [] TooltipContent"
  "styled [] Command"
  "styled [] CommandDialog"
  "styled [] CommandInput"
  "styled [] CommandList"
  "styled [] CommandEmpty"
  "styled [] CommandGroup"
  by (rule styledI; simp add: styling TooltipProvider_def Tooltip_def TooltipTrigger_def TooltipContent_def Command_def CommandDialog_def CommandInput_def CommandList_def CommandEmpty_def CommandGroup_def)+

lemmas declared_19 [simp] = styled_19 [THEN styledD]

lemma styled_20 [simp]:
  "styled [] CommandSeparator"
  "styled [] CommandItem"
  "styled [] CommandShortcut"
  "styled [] ContextMenu"
  "styled [] ContextMenuPortal"
  "styled [] ContextMenuTrigger"
  "styled [] ContextMenuContent"
  "styled [] ContextMenuGroup"
  "styled [] ContextMenuLabel"
  "styled [] ContextMenuItem"
  by (rule styledI; simp add: styling CommandSeparator_def CommandItem_def CommandShortcut_def ContextMenu_def ContextMenuPortal_def ContextMenuTrigger_def ContextMenuContent_def ContextMenuGroup_def ContextMenuLabel_def ContextMenuItem_def)+

lemmas declared_20 [simp] = styled_20 [THEN styledD]

lemma styled_21 [simp]:
  "styled [] ContextMenuSub"
  "styled [] ContextMenuSubTrigger"
  "styled [] ContextMenuCheckboxItem"
  "styled [] ContextMenuRadioGroup"
  "styled [] ContextMenuRadioItem"
  "styled [] ContextMenuSeparator"
  "styled [] ContextMenuShortcut"
  "styled [] ContextMenuSubContent"
  "styled [] DropdownMenu"
  "styled [] DropdownMenuPortal"
  by (rule styledI; simp add: styling ContextMenuSub_def ContextMenuSubTrigger_def ContextMenuCheckboxItem_def ContextMenuRadioGroup_def ContextMenuRadioItem_def ContextMenuSeparator_def ContextMenuShortcut_def ContextMenuSubContent_def DropdownMenu_def DropdownMenuPortal_def)+

lemmas declared_21 [simp] = styled_21 [THEN styledD]

lemma styled_22 [simp]:
  "styled [] DropdownMenuTrigger"
  "styled [] DropdownMenuContent"
  "styled [] DropdownMenuGroup"
  "styled [] DropdownMenuLabel"
  "styled [] DropdownMenuItem"
  "styled [] DropdownMenuSub"
  "styled [] DropdownMenuSubTrigger"
  "styled [] DropdownMenuCheckboxItem"
  "styled [] DropdownMenuRadioGroup"
  "styled [] DropdownMenuRadioItem"
  by (rule styledI; simp add: styling DropdownMenuTrigger_def DropdownMenuContent_def DropdownMenuGroup_def DropdownMenuLabel_def DropdownMenuItem_def DropdownMenuSub_def DropdownMenuSubTrigger_def DropdownMenuCheckboxItem_def DropdownMenuRadioGroup_def DropdownMenuRadioItem_def)+

lemmas declared_22 [simp] = styled_22 [THEN styledD]

lemma styled_23 [simp]:
  "styled [] DropdownMenuSeparator"
  "styled [] DropdownMenuShortcut"
  "styled [] DropdownMenuSubContent"
  "styled [] ComboboxValue"
  "styled [] ComboboxTrigger"
  "styled [] ComboboxClear"
  "styled [] ComboboxContent"
  "styled [] ComboboxList"
  "styled [] ComboboxItem"
  "styled [] ComboboxGroup"
  by (rule styledI; simp add: styling DropdownMenuSeparator_def DropdownMenuShortcut_def DropdownMenuSubContent_def ComboboxValue_def ComboboxTrigger_def ComboboxClear_def ComboboxContent_def ComboboxList_def ComboboxItem_def ComboboxGroup_def)+

lemmas declared_23 [simp] = styled_23 [THEN styledD]

lemma styled_24 [simp]:
  "styled [] ComboboxLabel"
  "styled [] ComboboxCollection"
  "styled [] ComboboxEmpty"
  "styled [] ComboboxSeparator"
  "styled [] ComboboxChips"
  "styled [] ComboboxChip"
  "styled [] ComboboxChipsInput"
  "styled [] ToastProvider"
  "styled [] ToastPortal"
  "styled [] ToastViewport"
  by (rule styledI; simp add: styling ComboboxLabel_def ComboboxCollection_def ComboboxEmpty_def ComboboxSeparator_def ComboboxChips_def ComboboxChip_def ComboboxChipsInput_def ToastProvider_def ToastPortal_def ToastViewport_def)+

lemmas declared_24 [simp] = styled_24 [THEN styledD]

lemma styled_25 [simp]:
  "styled [] Toast"
  "styled [] ToastContent"
  "styled [] ToastTitle"
  "styled [] ToastDescription"
  "styled [] ToastAction"
  "styled [] ToastClose"
  by (rule styledI; simp add: styling Toast_def ToastContent_def ToastTitle_def ToastDescription_def ToastAction_def ToastClose_def)+

lemmas declared_25 [simp] = styled_25 [THEN styledD]

end
