(* ===== verification/UiLibrary.thy ===== *)
theory UiLibrary
  imports UiStyled UiChart UiCalendar UiRoot UiSidebar
begin

section \<open>The component library as a whole\<close>

text \<open>
  The components of \<open>components/ui\<close> that take nothing but properties and children, by name:
  those that show the caller's children, and those that write children of their own.
\<close>

definition components_with_children :: "(string \<times> 'a component) list" where
  "components_with_children =
     [(''Button'', Button), (''Badge'', Badge), (''Input'', Input), (''Textarea'', Textarea),
      (''Label'', LabelElement), (''Separator'', Separator), (''SelectGroup'', SelectGroup),
      (''SelectValue'', SelectValue), (''SelectTrigger'', SelectTrigger),
      (''SelectLabel'', SelectLabel), (''SelectItem'', SelectItem),
      (''SelectSeparator'', SelectSeparator), (''SelectContent'', SelectContent),
      (''RadioGroup'', RadioGroup), (''ProgressTrack'', ProgressTrack),
      (''ProgressIndicator'', ProgressIndicator), (''ProgressLabel'', ProgressLabel),
      (''ProgressValue'', ProgressValue), (''Progress'', Progress), (''Toggle'', Toggle),
      (''Tabs'', Tabs), (''TabsList'', TabsList), (''TabsTrigger'', TabsTrigger),
      (''TabsContent'', TabsContent), (''InputGroup'', InputGroup),
      (''InputGroupAddon'', InputGroupAddon), (''InputGroupButton'', InputGroupButton),
      (''InputGroupText'', InputGroupText), (''InputGroupInput'', InputGroupInput),
      (''InputGroupTextarea'', InputGroupTextarea), (''InputOTP'', InputOTP),
      (''InputOTPGroup'', InputOTPGroup), (''ScrollArea'', ScrollArea), (''Skeleton'', Skeleton),
      (''Spinner'', Spinner), (''Kbd'', Kbd), (''KbdGroup'', KbdGroup), (''Accordion'', Accordion),
      (''AccordionItem'', AccordionItem), (''AccordionTrigger'', AccordionTrigger),
      (''AccordionContent'', AccordionContent), (''Alert'', Alert), (''AlertTitle'', AlertTitle),
      (''AlertDescription'', AlertDescription), (''AlertAction'', AlertAction),
      (''Attachment'', Attachment), (''AttachmentMedia'', AttachmentMedia),
      (''AttachmentContent'', AttachmentContent), (''AttachmentTitle'', AttachmentTitle),
      (''AttachmentDescription'', AttachmentDescription),
      (''AttachmentActions'', AttachmentActions), (''AttachmentAction'', AttachmentAction),
      (''AttachmentTrigger'', AttachmentTrigger), (''AttachmentGroup'', AttachmentGroup),
      (''Avatar'', Avatar), (''AvatarImage'', AvatarImage), (''AvatarFallback'', AvatarFallback),
      (''AvatarBadge'', AvatarBadge), (''AvatarGroup'', AvatarGroup),
      (''AvatarGroupCount'', AvatarGroupCount), (''Breadcrumb'', Breadcrumb),
      (''BreadcrumbList'', BreadcrumbList), (''BreadcrumbItem'', BreadcrumbItem),
      (''BreadcrumbLink'', BreadcrumbLink), (''BreadcrumbPage'', BreadcrumbPage),
      (''BreadcrumbSeparator'', BreadcrumbSeparator), (''ButtonGroup'', ButtonGroup),
      (''ButtonGroupText'', ButtonGroupText), (''ButtonGroupSeparator'', ButtonGroupSeparator),
      (''Card'', Card), (''CardHeader'', CardHeader), (''CardTitle'', CardTitle),
      (''CardDescription'', CardDescription), (''CardAction'', CardAction),
      (''CardContent'', CardContent), (''CardFooter'', CardFooter), (''Collapsible'', Collapsible),
      (''CollapsibleTrigger'', CollapsibleTrigger), (''CollapsibleContent'', CollapsibleContent),
      (''Empty'', Empty), (''EmptyHeader'', EmptyHeader), (''EmptyMedia'', EmptyMedia),
      (''EmptyTitle'', EmptyTitle), (''EmptyDescription'', EmptyDescription),
      (''EmptyContent'', EmptyContent), (''ItemGroup'', ItemGroup),
      (''ItemSeparator'', ItemSeparator), (''Item'', Item), (''ItemMedia'', ItemMedia),
      (''ItemContent'', ItemContent), (''ItemTitle'', ItemTitle),
      (''ItemDescription'', ItemDescription), (''ItemActions'', ItemActions),
      (''ItemHeader'', ItemHeader), (''ItemFooter'', ItemFooter), (''Marker'', Marker),
      (''MarkerIcon'', MarkerIcon), (''MarkerContent'', MarkerContent),
      (''Pagination'', Pagination), (''PaginationContent'', PaginationContent),
      (''PaginationItem'', PaginationItem), (''PaginationLink'', PaginationLink),
      (''Table'', Table), (''TableHeader'', TableHeader), (''TableBody'', TableBody),
      (''TableFooter'', TableFooter), (''TableRow'', TableRow), (''TableHead'', TableHead),
      (''TableCell'', TableCell), (''TableCaption'', TableCaption), (''FieldSet'', FieldSet),
      (''FieldLegend'', FieldLegend), (''FieldGroup'', FieldGroup), (''Field'', Field),
      (''FieldContent'', FieldContent), (''FieldLabel'', FieldLabel), (''FieldTitle'', FieldTitle),
      (''FieldDescription'', FieldDescription), (''FieldSeparator'', FieldSeparator),
      (''AlertDialog'', AlertDialog), (''AlertDialogTrigger'', AlertDialogTrigger),
      (''AlertDialogPortal'', AlertDialogPortal), (''AlertDialogOverlay'', AlertDialogOverlay),
      (''AlertDialogHeader'', AlertDialogHeader), (''AlertDialogFooter'', AlertDialogFooter),
      (''AlertDialogMedia'', AlertDialogMedia), (''AlertDialogTitle'', AlertDialogTitle),
      (''AlertDialogDescription'', AlertDialogDescription),
      (''AlertDialogAction'', AlertDialogAction), (''AlertDialogCancel'', AlertDialogCancel),
      (''AlertDialogContent'', AlertDialogContent), (''Dialog'', Dialog),
      (''DialogTrigger'', DialogTrigger), (''DialogPortal'', DialogPortal),
      (''DialogClose'', DialogClose), (''DialogOverlay'', DialogOverlay),
      (''DialogHeader'', DialogHeader), (''DialogFooter'', DialogFooter),
      (''DialogTitle'', DialogTitle), (''DialogDescription'', DialogDescription),
      (''DialogContent'', DialogContent), (''Sheet'', Sheet), (''SheetTrigger'', SheetTrigger),
      (''SheetClose'', SheetClose), (''SheetPortal'', SheetPortal),
      (''SheetOverlay'', SheetOverlay), (''SheetHeader'', SheetHeader),
      (''SheetFooter'', SheetFooter), (''SheetTitle'', SheetTitle),
      (''SheetDescription'', SheetDescription), (''SheetContent'', SheetContent),
      (''DrawerTrigger'', DrawerTrigger), (''DrawerPortal'', DrawerPortal),
      (''DrawerClose'', DrawerClose), (''DrawerOverlay'', DrawerOverlay),
      (''DrawerSwipeHandle'', DrawerSwipeHandle), (''DrawerHeader'', DrawerHeader),
      (''DrawerFooter'', DrawerFooter), (''DrawerTitle'', DrawerTitle),
      (''DrawerDescription'', DrawerDescription), (''Popover'', Popover),
      (''PopoverTrigger'', PopoverTrigger), (''PopoverContent'', PopoverContent),
      (''PopoverHeader'', PopoverHeader), (''PopoverTitle'', PopoverTitle),
      (''PopoverDescription'', PopoverDescription), (''HoverCard'', HoverCard),
      (''HoverCardTrigger'', HoverCardTrigger), (''HoverCardContent'', HoverCardContent),
      (''TooltipProvider'', TooltipProvider), (''Tooltip'', Tooltip),
      (''TooltipTrigger'', TooltipTrigger), (''TooltipContent'', TooltipContent),
      (''Command'', Command), (''CommandDialog'', CommandDialog), (''CommandInput'', CommandInput),
      (''CommandList'', CommandList), (''CommandEmpty'', CommandEmpty),
      (''CommandGroup'', CommandGroup), (''CommandSeparator'', CommandSeparator),
      (''CommandItem'', CommandItem), (''CommandShortcut'', CommandShortcut),
      (''ContextMenu'', ContextMenu), (''ContextMenuPortal'', ContextMenuPortal),
      (''ContextMenuTrigger'', ContextMenuTrigger), (''ContextMenuContent'', ContextMenuContent),
      (''ContextMenuGroup'', ContextMenuGroup), (''ContextMenuLabel'', ContextMenuLabel),
      (''ContextMenuItem'', ContextMenuItem), (''ContextMenuSub'', ContextMenuSub),
      (''ContextMenuSubTrigger'', ContextMenuSubTrigger),
      (''ContextMenuCheckboxItem'', ContextMenuCheckboxItem),
      (''ContextMenuRadioGroup'', ContextMenuRadioGroup),
      (''ContextMenuRadioItem'', ContextMenuRadioItem),
      (''ContextMenuSeparator'', ContextMenuSeparator),
      (''ContextMenuShortcut'', ContextMenuShortcut),
      (''ContextMenuSubContent'', ContextMenuSubContent), (''DropdownMenu'', DropdownMenu),
      (''DropdownMenuPortal'', DropdownMenuPortal), (''DropdownMenuTrigger'', DropdownMenuTrigger),
      (''DropdownMenuContent'', DropdownMenuContent), (''DropdownMenuGroup'', DropdownMenuGroup),
      (''DropdownMenuLabel'', DropdownMenuLabel), (''DropdownMenuItem'', DropdownMenuItem),
      (''DropdownMenuSub'', DropdownMenuSub), (''DropdownMenuSubTrigger'', DropdownMenuSubTrigger),
      (''DropdownMenuCheckboxItem'', DropdownMenuCheckboxItem),
      (''DropdownMenuRadioGroup'', DropdownMenuRadioGroup),
      (''DropdownMenuRadioItem'', DropdownMenuRadioItem),
      (''DropdownMenuSeparator'', DropdownMenuSeparator),
      (''DropdownMenuShortcut'', DropdownMenuShortcut),
      (''DropdownMenuSubContent'', DropdownMenuSubContent), (''ComboboxValue'', ComboboxValue),
      (''ComboboxTrigger'', ComboboxTrigger), (''ComboboxContent'', ComboboxContent),
      (''ComboboxList'', ComboboxList), (''ComboboxItem'', ComboboxItem),
      (''ComboboxGroup'', ComboboxGroup), (''ComboboxLabel'', ComboboxLabel),
      (''ComboboxCollection'', ComboboxCollection), (''ComboboxEmpty'', ComboboxEmpty),
      (''ComboboxSeparator'', ComboboxSeparator), (''ComboboxChips'', ComboboxChips),
      (''ComboboxChip'', ComboboxChip), (''ComboboxChipsInput'', ComboboxChipsInput),
      (''ToastProvider'', ToastProvider), (''ToastPortal'', ToastPortal),
      (''ToastViewport'', ToastViewport), (''Toast'', Toast), (''ToastContent'', ToastContent),
      (''ToastTitle'', ToastTitle), (''ToastDescription'', ToastDescription),
      (''ToastAction'', ToastAction), (''ToastClose'', ToastClose)]"

definition components_without_children :: "(string \<times> 'a component) list" where
  "components_without_children =
     [(''SelectScrollUpButton'', SelectScrollUpButton),
      (''SelectScrollDownButton'', SelectScrollDownButton), (''Checkbox'', Checkbox),
      (''RadioGroupItem'', RadioGroupItem), (''Switch'', Switch),
      (''InputOTPSeparator'', InputOTPSeparator), (''ScrollBar'', ScrollBar),
      (''BreadcrumbEllipsis'', BreadcrumbEllipsis), (''PaginationEllipsis'', PaginationEllipsis),
      (''PaginationPrevious'', PaginationPrevious), (''PaginationNext'', PaginationNext),
      (''ComboboxClear'', ComboboxClear)]"

text \<open>
  The components that take their looks from their caller: the properties and the slots they
  fill. Every other component draws looks of its own only.
\<close>

definition component_looks :: "(string \<times> (string \<times> string) list) list" where
  "component_looks =
     [(''Button'', [(''variant'', ''buttonVariants.variant''), (''size'', ''buttonVariants.size'')]),
      (''Badge'', [(''variant'', ''badgeVariants.variant'')]),
      (''Toggle'', [(''variant'', ''toggleVariants.variant''), (''size'', ''toggleVariants.size'')]),
      (''TabsList'', [(''variant'', ''tabsListVariants.variant'')]),
      (''InputGroupAddon'', [(''align'', ''inputGroupAddonVariants.align'')]),
      (''InputGroupButton'', [(''variant'', ''buttonVariants.variant''), (''size'', ''inputGroupButtonVariants.size'')]),
      (''Alert'', [(''variant'', ''alertVariants.variant'')]),
      (''Attachment'', [(''size'', ''attachmentVariants.size''), (''orientation'', ''attachmentVariants.orientation'')]),
      (''AttachmentMedia'', [(''variant'', ''attachmentMediaVariants.variant'')]),
      (''AttachmentAction'', [(''variant'', ''buttonVariants.variant''), (''size'', ''buttonVariants.size'')]),
      (''ButtonGroup'', [(''orientation'', ''buttonGroupVariants.orientation'')]),
      (''EmptyMedia'', [(''variant'', ''emptyMediaVariants.variant'')]),
      (''Item'', [(''variant'', ''itemVariants.variant''), (''size'', ''itemVariants.size'')]),
      (''ItemMedia'', [(''variant'', ''itemMediaVariants.variant'')]),
      (''Marker'', [(''variant'', ''markerVariants.variant'')]),
      (''PaginationLink'', [(''size'', ''buttonVariants.size'')]),
      (''Field'', [(''orientation'', ''fieldVariants.orientation'')]),
      (''AlertDialogAction'', [(''variant'', ''buttonVariants.variant''), (''size'', ''buttonVariants.size'')]),
      (''AlertDialogCancel'', [(''variant'', ''buttonVariants.variant''), (''size'', ''buttonVariants.size'')]),
      (''PaginationPrevious'', [(''size'', ''buttonVariants.size'')]),
      (''PaginationNext'', [(''size'', ''buttonVariants.size'')])]"

definition looks_of :: "string \<Rightarrow> (string \<times> string) list" where
  "looks_of name = (case map_of component_looks name of Some looks \<Rightarrow> looks | None \<Rightarrow> [])"

lemma looks_of_simps:
  "looks_of ''Button'' = [(''variant'', ''buttonVariants.variant''), (''size'', ''buttonVariants.size'')]"
  "looks_of ''Badge'' = [(''variant'', ''badgeVariants.variant'')]"
  "looks_of ''Toggle'' = [(''variant'', ''toggleVariants.variant''), (''size'', ''toggleVariants.size'')]"
  "looks_of ''TabsList'' = [(''variant'', ''tabsListVariants.variant'')]"
  "looks_of ''InputGroupAddon'' = [(''align'', ''inputGroupAddonVariants.align'')]"
  "looks_of ''InputGroupButton'' = [(''variant'', ''buttonVariants.variant''), (''size'', ''inputGroupButtonVariants.size'')]"
  "looks_of ''Alert'' = [(''variant'', ''alertVariants.variant'')]"
  "looks_of ''Attachment'' = [(''size'', ''attachmentVariants.size''), (''orientation'', ''attachmentVariants.orientation'')]"
  "looks_of ''AttachmentMedia'' = [(''variant'', ''attachmentMediaVariants.variant'')]"
  "looks_of ''AttachmentAction'' = [(''variant'', ''buttonVariants.variant''), (''size'', ''buttonVariants.size'')]"
  "looks_of ''ButtonGroup'' = [(''orientation'', ''buttonGroupVariants.orientation'')]"
  "looks_of ''EmptyMedia'' = [(''variant'', ''emptyMediaVariants.variant'')]"
  "looks_of ''Item'' = [(''variant'', ''itemVariants.variant''), (''size'', ''itemVariants.size'')]"
  "looks_of ''ItemMedia'' = [(''variant'', ''itemMediaVariants.variant'')]"
  "looks_of ''Marker'' = [(''variant'', ''markerVariants.variant'')]"
  "looks_of ''PaginationLink'' = [(''size'', ''buttonVariants.size'')]"
  "looks_of ''Field'' = [(''orientation'', ''fieldVariants.orientation'')]"
  "looks_of ''AlertDialogAction'' = [(''variant'', ''buttonVariants.variant''), (''size'', ''buttonVariants.size'')]"
  "looks_of ''AlertDialogCancel'' = [(''variant'', ''buttonVariants.variant''), (''size'', ''buttonVariants.size'')]"
  "looks_of ''PaginationPrevious'' = [(''size'', ''buttonVariants.size'')]"
  "looks_of ''PaginationNext'' = [(''size'', ''buttonVariants.size'')]"
  by (simp_all add: looks_of_def component_looks_def map_of_Cons_code del: map_of.simps)

lemma looks_of_others:
  "list_all (\<lambda>n. n \<noteq> name) [''Button'', ''Badge'', ''Toggle'', ''TabsList'',
    ''InputGroupAddon'', ''InputGroupButton'', ''Alert'', ''Attachment'', ''AttachmentMedia'',
    ''AttachmentAction'', ''ButtonGroup'', ''EmptyMedia'', ''Item'', ''ItemMedia'', ''Marker'',
    ''PaginationLink'', ''Field'', ''AlertDialogAction'', ''AlertDialogCancel'', ''PaginationPrevious'',
    ''PaginationNext''] \<Longrightarrow> looks_of name = []"
proof -
  have "map fst component_looks = [''Button'', ''Badge'', ''Toggle'', ''TabsList'', ''InputGroupAddon'',
    ''InputGroupButton'', ''Alert'', ''Attachment'', ''AttachmentMedia'', ''AttachmentAction'',
    ''ButtonGroup'', ''EmptyMedia'', ''Item'', ''ItemMedia'', ''Marker'', ''PaginationLink'', ''Field'',
    ''AlertDialogAction'', ''AlertDialogCancel'', ''PaginationPrevious'', ''PaginationNext'']"
    by (simp add: component_looks_def)
  then show "list_all (\<lambda>n. n \<noteq> name) [''Button'', ''Badge'', ''Toggle'', ''TabsList'',
    ''InputGroupAddon'', ''InputGroupButton'', ''Alert'', ''Attachment'', ''AttachmentMedia'',
    ''AttachmentAction'', ''ButtonGroup'', ''EmptyMedia'', ''Item'', ''ItemMedia'', ''Marker'',
    ''PaginationLink'', ''Field'', ''AlertDialogAction'', ''AlertDialogCancel'', ''PaginationPrevious'',
    ''PaginationNext''] \<Longrightarrow> looks_of name = []"
    by (simp only: looks_of_def) (metis (mono_tags, lifting) list.pred_set map_of_eq_None_iff option.simps(4) set_map)
qed

definition keeps_looks :: "(string \<times> 'a component) list \<Rightarrow> bool" where
  "keeps_looks cs = list_all (\<lambda>(name, c). styled (looks_of name) c) cs"


end
