(* ===== verification/UiRealise.thy ===== *)
theory UiRealise
  imports UiStyled WbApp
begin

section \<open>The workbench's pages with the components' own definitions\<close>

text \<open>
  The workbench's pages name the components of \<open>components/ui\<close> as elements. \<open>realise\<close> replaces
  these elements by what the components draw, down to the library's primitives. The locale
  \<open>component_table\<close> says what the pages rely on: a component stands for its element, that is, it
  offers the same actions, has the same choices and displays the same texts. The components the
  workbench uses interpret it.
\<close>

declare page_actions.simps(2) [simp del]

subsection \<open>Well-typed pages\<close>

text \<open>
  A page is well typed when handlers and no other property have names that begin with \<open>on\<close>,
  \<open>disabled\<close> is a truth value, no element has two properties of one name, every choice of a
  select has one value, nothing but the component library is called \<open>render\<close>, and the looks of a
  button, and of a link drawn as one, are in the button's class table, as is every value looked up there.
\<close>

definition page_looks :: "string \<Rightarrow> (string \<times> string) list" where
  "page_looks t =
     (if t = ''Button'' \<or> t = ''Link''
      then [(''variant'', ''buttonVariants.variant''), (''size'', ''buttonVariants.size'')] else [])"

definition declared_looks :: "(string \<times> string) list \<Rightarrow> 'a attr list \<Rightarrow> bool" where
  "declared_looks looks as \<longleftrightarrow> list_all declared_attr as \<and> list_all (\<lambda>(k, slot). choice k slot as) looks"

fun typed_attr :: "'a attr \<Rightarrow> bool" where
  "typed_attr (On n f) = is_handler n"
| "typed_attr (Flag n b) = (\<not> is_handler n)"
| "typed_attr (Prop n s) = unhandled n"
| "typed_attr (Label n ws) = unhandled n"

fun well_typed :: "'a node \<Rightarrow> bool" where
  "well_typed (Words ws) = True"
| "well_typed (El t as cs) =
     (t \<noteq> ''render'' \<and> list_all typed_attr as \<and> distinct (map attr_name as)
      \<and> (t = ''SelectItem'' \<longrightarrow> length (concat (map (prop_value ''value'') as)) = 1)
      \<and> declared_looks (page_looks t) as \<and> list_all well_typed cs)"

lemma typed_handlers_named: "list_all typed_attr as \<Longrightarrow> handlers_named as"
proof -
  have "typed_attr a \<Longrightarrow> well_named a" for a :: "'a attr" by (cases a) simp_all
  then show "list_all typed_attr as \<Longrightarrow> handlers_named as" by (auto simp: handlers_named_def list_all_iff)
qed

lemma typed_not_render: "list_all well_typed cs \<Longrightarrow> \<not> list_ex is_render cs"
proof -
  have "well_typed n \<Longrightarrow> \<not> is_render n" for n :: "'a node" by (cases n) simp_all
  then show "list_all well_typed cs \<Longrightarrow> \<not> list_ex is_render cs" by (auto simp: list_all_iff list_ex_iff)
qed

subsection \<open>Components in place of elements\<close>

type_synonym 'a component_table = "string \<Rightarrow> 'a component option"

fun realise :: "'a component_table \<Rightarrow> 'a node \<Rightarrow> 'a node" where
  "realise table (Words ws) = Words ws"
| "realise table (El t as cs) =
     (case table t of
        Some c \<Rightarrow> c as (map (realise table) cs)
      | None \<Rightarrow> El t as (map (realise table) cs))"

definition stands_for :: "'a node \<Rightarrow> 'a node \<Rightarrow> bool" where
  "stands_for n m \<longleftrightarrow>
     (\<forall>v. offers v n = offers v m) \<and> set (item_values n) = set (item_values m)
     \<and> page_texts n = page_texts m \<and> (is_render n \<longleftrightarrow> is_render m)"

lemma stands_for_refl [simp]: "stands_for n n"
  by (simp add: stands_for_def)

lemma stands_for_trans: "stands_for n m \<Longrightarrow> stands_for m k \<Longrightarrow> stands_for n k"
  by (simp add: stands_for_def)

lemma stands_for_El:
  assumes "list_all2 stands_for ns ms"
  shows "stands_for (El t as ns) (El t as ms)"
proof -
  have "(\<forall>v. offers_all v ns = offers_all v ms) \<and> (\<Union>n \<in> set ns. set (item_values n)) = (\<Union>n \<in> set ms. set (item_values n))
      \<and> concat (map page_texts ns) = concat (map page_texts ms)"
    using assms by (induction rule: list_all2_induct) (auto simp: stands_for_def)
  then show ?thesis
    by (auto simp: stands_for_def page_actions.simps(2) offers_all_def)
qed

lemma same_render: "list_all2 stands_for ns ms \<Longrightarrow> list_ex is_render ns = list_ex is_render ms"
  by (induction rule: list_all2_induct) (simp_all add: stands_for_def)

fun elements_satisfy :: "(string \<Rightarrow> 'a attr list \<Rightarrow> bool) \<Rightarrow> 'a node \<Rightarrow> bool" where
  "elements_satisfy P (Words ws) = True"
| "elements_satisfy P (El t as cs) = (P t as \<and> list_all (elements_satisfy P) cs)"

lemma typed_looks: "well_typed n \<Longrightarrow> elements_satisfy (\<lambda>t. declared_looks (page_looks t)) n"
  by (induction n) (auto simp: list_all_iff)

locale component_table =
  fixes table :: "'a component_table" and looks :: "string \<Rightarrow> (string \<times> string) list"
  assumes stands_for_element: "table t = Some c \<Longrightarrow> handlers_named props \<Longrightarrow> \<not> list_ex is_render children \<Longrightarrow>
    stands_for (c props children) (El t props children)"
  assumes draws_no_component: "table t = Some c \<Longrightarrow> table t' \<noteq> None \<Longrightarrow> \<not> list_ex is_render children \<Longrightarrow>
    elements t' (c props children) = concat (map (elements t') children)"
  assumes draws_styled: "table t = Some c \<Longrightarrow> styled (looks t) c"
begin

lemma realise_stands_for: "well_typed n \<Longrightarrow> stands_for (realise table n) n"
proof (induction n)
  case (El t as cs)
  have children: "list_all2 stands_for (map (realise table) cs) cs"
    using El by (auto simp: list_all2_conv_all_nth list_all_iff)
  have "\<not> list_ex is_render (map (realise table) cs)"
    using El.prems children by (simp add: typed_not_render same_render)
  then have "stands_for (c as (map (realise table) cs)) (El t as (map (realise table) cs))"
    if "table t = Some c" for c
    using that El.prems by (simp add: stands_for_element typed_handlers_named)
  with stands_for_El [OF children] show ?case
    by (auto split: option.split intro: stands_for_trans)
qed simp

lemma realised:
  assumes "well_typed n"
  shows "offers v (realise table n) = offers v n" "page_texts (realise table n) = page_texts n"
  using realise_stands_for [OF assms] by (simp_all add: stands_for_def)

lemma realised_children:
  "list_all well_typed cs \<Longrightarrow> \<not> list_ex is_render (map (realise table) cs)"
proof -
  assume typed: "list_all well_typed cs"
  then have "list_all2 stands_for (map (realise table) cs) cs"
    by (simp add: list_all2_conv_all_nth list_all_iff realise_stands_for)
  with typed show ?thesis by (simp add: same_render typed_not_render)
qed

lemma components_gone: "well_typed n \<Longrightarrow> table t' \<noteq> None \<Longrightarrow> elements t' (realise table n) = []"
proof (induction n)
  case (El t as cs)
  then have "concat (map (elements t') (map (realise table) cs)) = []" by (auto simp: list_all_iff)
  with El.prems show ?case
    by (auto simp: draws_no_component realised_children split: option.split)
qed simp

lemma realise_declared: "elements_satisfy (\<lambda>t. declared_looks (looks t)) n \<Longrightarrow> declared (realise table n)"
proof (induction n)
  case (El t as cs)
  then have "list_all declared (map (realise table) cs)" "list_all declared_attr as"
    by (auto simp: list_all_iff declared_looks_def)
  with El.prems styledD [OF draws_styled] show ?case
    by (auto simp: declared_looks_def split: option.split)
qed simp

end

subsection \<open>The workbench's components\<close>

definition workbench_components :: "(string \<times> 'a component) list" where
  "workbench_components =
     [(''Button'', Button), (''Input'', Input), (''Label'', LabelElement), (''Textarea'', Textarea),
      (''Select'', Select), (''SelectTrigger'', SelectTrigger), (''SelectValue'', SelectValue),
      (''SelectContent'', SelectContent), (''SelectItem'', SelectItem)]"

definition workbench_table :: "'a component_table" where
  "workbench_table = map_of workbench_components"

lemma no_render [simp]:
  "\<not> list_ex is_render cs \<Longrightarrow> filter is_render cs = []" "\<not> list_ex is_render cs \<Longrightarrow> without_render cs = cs"
  by (induction cs) (auto simp: without_render_def)

lemma prop_value_passed [simp]:
  "k' \<noteq> k'' \<Longrightarrow> concat (map (prop_value k'') (passed k k' props)) = []"
  "k' \<noteq> k'' \<Longrightarrow> concat (map (prop_value k'') (passed_or k k' dflt props)) = []"
proof -
  have "prop_value k'' (renamed k' a) = []" if "k' \<noteq> k''" for a :: "'a attr" using that by (cases a) simp_all
  then show "k' \<noteq> k'' \<Longrightarrow> concat (map (prop_value k'') (passed k k' props)) = []"
    "k' \<noteq> k'' \<Longrightarrow> concat (map (prop_value k'') (passed_or k k' dflt props)) = []"
    by (auto simp: passed_def passed_or_def)
qed

lemma prop_value_other: "attr_name a \<noteq> k \<Longrightarrow> prop_value k a = []"
  by (cases a) simp_all

lemma prop_value_rest:
  "k \<notin> set ks \<Longrightarrow> concat (map (prop_value k) (rest ks props)) = concat (map (prop_value k) props)"
proof (induction props)
  case (Cons a props)
  then show ?case using prop_value_other [of a k] by (auto simp: rest_def)
qed (simp add: rest_def)

lemma SelectItem_values:
  assumes "\<not> list_ex is_render children"
  shows "set (item_values (SelectItem props children))
    = set (concat (map (prop_value ''value'') props)) \<union> (\<Union>n \<in> set children. set (item_values n))"
proof -
  have "prop_value ''value'' a = []" if "a \<in> set (filter p (given ''className'' props))" for a p
    using that by (auto simp: given_def intro!: prop_value_other)
  with assms prop_value_rest [of "''value''" "[''className'']" props] show ?thesis
    by (auto simp: SelectItem_def draw_def replaced_def spread_def)
qed

lemma page_texts_icons [simp]: "page_texts (icon t) = []"
  by simp

lemma component_stands_for:
  assumes "handlers_named props" and "\<not> list_ex is_render children"
  shows "stands_for (Button props children) (El ''Button'' props children)"
    and "stands_for (Input props children) (El ''Input'' props children)"
    and "stands_for (LabelElement props children) (El ''Label'' props children)"
    and "stands_for (Textarea props children) (El ''Textarea'' props children)"
    and "stands_for (SelectTrigger props children) (El ''SelectTrigger'' props children)"
    and "stands_for (SelectValue props children) (El ''SelectValue'' props children)"
  using assms
  by (simp_all add: stands_for_def) (simp_all add: Button_def Input_def LabelElement_def Textarea_def
    SelectTrigger_def SelectValue_def draw_def)

lemma select_stands_for:
  assumes "handlers_named props" and "\<not> list_ex is_render children"
  shows "stands_for (Select props children) (El ''Select'' props children)"
    and "stands_for (SelectContent props children) (El ''SelectContent'' props children)"
    and "stands_for (SelectItem props children) (El ''SelectItem'' props children)"
proof -
  show "stands_for (Select props children) (El ''Select'' props children)"
    by (simp add: stands_for_def Select_def page_actions.simps(2))
  show "stands_for (SelectContent props children) (El ''SelectContent'' props children)"
    using assms by (simp add: stands_for_def)
      (simp add: SelectContent_def positioned_def draw_def replaced_def SelectScrollUpButton_def
        SelectScrollDownButton_def)
  have "page_texts (SelectItem props children) = page_texts (El ''SelectItem'' props children)"
    "is_render (SelectItem props children) = is_render (El ''SelectItem'' props children)"
    using assms by (simp_all add: SelectItem_def draw_def replaced_def)
  with assms SelectItem_values [OF assms(2), of props]
  show "stands_for (SelectItem props children) (El ''SelectItem'' props children)"
    by (simp add: stands_for_def)
qed

lemma component_draws:
  assumes "\<not> list_ex is_render children" and "workbench_table t' \<noteq> None"
  shows "list_all (\<lambda>(t, c). elements t' (c props children) = concat (map (elements t') children))
    workbench_components"
  using assms
  by (simp add: workbench_components_def Button_def Input_def LabelElement_def Textarea_def Select_def
      SelectTrigger_def SelectValue_def SelectContent_def SelectItem_def SelectScrollUpButton_def
      SelectScrollDownButton_def draw_def positioned_def replaced_def workbench_table_def split: if_splits)

lemma components_styled: "list_all (\<lambda>(t, c). styled (page_looks t) c) workbench_components"
  by (simp add: workbench_components_def page_looks_def Select_def styled_def [of _ "El _"])

interpretation workbench: component_table "workbench_table :: 'a component_table" page_looks
proof
  fix t and c :: "'a component" and props :: "'a attr list" and children :: "'a node list"
  assume "workbench_table t = Some c" "handlers_named props" "\<not> list_ex is_render children"
  then show "stands_for (c props children) (El t props children)"
    by (auto simp: workbench_table_def workbench_components_def component_stands_for select_stands_for split: if_splits)
next
  fix t t' and c :: "'a component" and props :: "'a attr list" and children :: "'a node list"
  assume "workbench_table t = Some c" "(workbench_table t' :: 'a component option) \<noteq> None" "\<not> list_ex is_render children"
  then show "elements t' (c props children) = concat (map (elements t') children)"
    using component_draws [of children t' props] map_of_SomeD [of workbench_components t c]
    by (auto simp: workbench_table_def list_all_iff)
next
  fix t and c :: "'a component"
  assume "workbench_table t = Some c"
  then show "styled (page_looks t) c"
    using components_styled map_of_SomeD [of workbench_components t c]
    by (auto simp: workbench_table_def list_all_iff)
qed

subsection \<open>The pages of the workbench\<close>

lemma typed_on [simp]: "typed_attr (on_click a)" "typed_attr (on_change f)"
  by (simp_all add: on_click_def on_change_def is_handler_def)

lemma declared_on [simp]: "declared_attr (on_click a)" "declared_attr (on_change f)"
  by (simp_all add: on_click_def on_change_def no_slot_def)

lemma typed_shown_if [simp]: "list_all well_typed (shown_if b n) \<longleftrightarrow> (b \<longrightarrow> well_typed n)"
  by (simp add: shown_if_def)

lemma typed_map [simp]: "(\<And>x. well_typed (f x)) \<Longrightarrow> list_all well_typed (map f xs)"
  by (simp add: list_all_iff)

lemma typed_concat [simp]: "(\<And>x. list_all well_typed (f x)) \<Longrightarrow> list_all well_typed (concat (map f xs))"
  by (auto simp: list_all_iff)

lemmas typing = unhandled_def is_handler_def declared_looks_def page_looks_def no_slot_def

lemma typed_frame:
  "well_typed (ToastRegion toasts)" "well_typed (LocaleSwitcher current locales)"
  "well_typed (AppHeader window current locales base)"
  by (simp_all add: typing ToastRegion_def toast_node_def toast_icon_def LocaleSwitcher_def AppHeader_def
    header_link_def)

lemma typed_ServiceIcon [simp]: "well_typed (ServiceIcon s)"
  by (cases s) (simp_all add: typing)

lemma typed_identity:
  "well_typed (vault_section m vars)" "well_typed scenarios_section" "well_typed fixtures_section"
  "well_typed (services_section base services)"
  by (simp_all add: typing vault_section_def vault_head_def mode_select_def vault_fields_def VaultField_def
    scenarios_section_def ScenarioButton_def fixtures_section_def Fixture_def services_section_def
    service_words_def endpoint_link_def)

lemma typed_catalog: "well_typed (EndpointCatalog lower locale selected search)"
proof -
  have "well_typed (catalog_head search n)" "well_typed (search_bar search)" "well_typed no_endpoints"
    "well_typed (endpoint_card locale selected c item)" for n c item
    by (simp_all add: typing catalog_head_def view_button_def search_bar_def group_button_def
      endpoint_card_def no_endpoints_def endpoint_link_def Let_def)
  then show ?thesis by (simp add: EndpointCatalog_def typing Let_def)
qed

lemma typed_fields: "well_typed (ParameterFields legend ps ws f)"
  by (simp add: typing ParameterFields_def parameter_field_def)

lemma typed_request:
  assumes "pred_option well_typed special"
  shows "well_typed (EndpointRequestPanel e t draft path headers confirming isRunning special)"
proof -
  have "well_typed (body_field draft)" "well_typed (request_preview e path headers)"
    "well_typed (confirmation title isRunning)" "well_typed (send_buttons confirming isRunning)"
    for title
    by (simp_all add: typing body_field_def request_preview_def method_badge_def confirmation_def
      send_buttons_def)
  moreover have "well_typed (destructive_notice title confirming isRunning)" for title
    by (simp add: typing destructive_notice_def confirmation_def)
  moreover have "well_typed (special_section n)" if "well_typed n" for n
    using that by (simp add: typing special_section_def)
  ultimately show ?thesis
    using assms by (auto simp: typing typed_fields EndpointRequestPanel_def split: option.split)
qed

lemma typed_response: "well_typed (EndpointResponsePanel result)"
  by (simp add: typing EndpointResponsePanel_def response_head_def response_viewer_def no_response_def
    ResponseHeaders_def Let_def split: option.split prod.split)

lemma typed_guided: "pred_option well_typed (EndpointGuidedAction e draft variables)"
  by (simp add: EndpointGuidedAction_def GuidedAction_def typing split: option.split SpecialAction.split)

lemma typed_special: "pred_option well_typed (Some (specialAction_element e draft variables))"
  using typed_guided [of e draft variables] by (auto simp: specialAction_element_def typing split: option.split)

lemma typed_detail: "well_typed (EndpointDetail locale pv path headers d)"
proof -
  have "well_typed (detail_head e c)" "well_typed (detail_tabs c tab result)" for e c tab result
    by (simp_all add: typing detail_head_def detail_tabs_def TabButton_def method_badge_def split: option.split)
  then show ?thesis
    by (simp add: EndpointDetail_def typed_request [OF typed_special] typed_response typing Let_def)
qed

lemma typed_page: "page en ap = Some n \<Longrightarrow> well_typed n"
proof -
  have "pred_option well_typed (panel_node en ap)"
    by (simp add: panel_node_def typed_detail split: option.split sum.split prod.split)
  then have "well_typed (WorkbenchScreen lower window loc locs i search (pv_of ap) (panel_node en ap))"
    for lower window loc locs i search
    by (auto simp: WorkbenchScreen_def IdentityPanel_def IdentityPanelContent_def typed_frame typed_identity
      typed_catalog typing split: option.split)
  then show "page en ap = Some n \<Longrightarrow> ?thesis" by (auto simp: page_def split: if_splits)
qed


text \<open>C7: What the components of the library draw in place of their elements on a page
  of the application offers exactly the same actions, for every entered or chosen text, and displays
  the same texts; none of the components' elements is left, and every look it draws is one the class
  tables declare.\<close>

theorem page_realised:
  "pred_option
     (\<lambda>n. \<forall>v. set (page_actions v (realise workbench_table n)) = set (page_actions v n)
        \<and> page_texts (realise workbench_table n) = page_texts n
        \<and> list_all (\<lambda>(t, c). elements t (realise workbench_table n) = []) (workbench_components :: (string \<times> action component) list)
        \<and> declared (realise workbench_table n))
     (page en ap)"
proof (cases "page en ap")
  case (Some n)
  with typed_page [of en ap] have "well_typed n" by blast
  moreover have "(workbench_table t :: action component option) \<noteq> None" if "(t, c) \<in> set workbench_components" for t and c :: "action component"
    using that by (auto simp: workbench_table_def map_of_eq_None_iff image_iff intro!: bexI [of _ "(t, c)"])
  ultimately show ?thesis
    using Some by (auto simp: workbench.realised list_all_iff intro: workbench.components_gone workbench.realise_declared typed_looks)
qed simp
end
