(* ===== verification/WbRouter.thy ===== *)
theory WbRouter
  imports UiNodes
begin

section \<open>Router, query client, environment and class names\<close>

text \<open>
  \<open>router.tsx\<close>, \<open>integrations/tanstack-query\<close>, \<open>env.ts\<close> and \<open>lib/utils.ts\<close>: what the program
  hands to the libraries it is built on. The libraries are parameters: the router is made by
  \<open>createTanStackRouter\<close>, which is also told of the query client, a query client is made by the
  caller, the environment is checked by the library that takes the schema, and class names are joined
  and merged by \<open>clsx\<close> and \<open>twMerge\<close>.
\<close>

subsection \<open>The router\<close>

record 'q router_context =
  queryClient :: 'q

definition getContext :: "'q \<Rightarrow> 'q router_context" where
  "getContext newQueryClient = \<lparr>queryClient = newQueryClient\<rparr>"

record ('t, 'q) router_options =
  routeTree :: 't
  router_context :: "'q router_context"
  basepath :: jstr
  scrollRestoration :: bool
  defaultPreload :: jstr
  defaultPreloadStaleTime :: int

definition getRouter ::
  "(('t, 'q) router_options \<Rightarrow> 'r) \<Rightarrow> ('r \<Rightarrow> 'q \<Rightarrow> 's) \<Rightarrow> 't \<Rightarrow> 'q \<Rightarrow> 's" where
  "getRouter createTanStackRouter setupRouterSsrQueryIntegration tree newQueryClient =
     (let context = getContext newQueryClient;
          router = createTanStackRouter
            \<lparr>routeTree = tree, router_context = context, basepath = js ''/playground'',
             scrollRestoration = True, defaultPreload = js ''intent'', defaultPreloadStaleTime = 0\<rparr>
      in setupRouterSsrQueryIntegration router (queryClient context))"

text \<open>The router's loaders and its integration see the same query client.\<close>

lemma router_query_client:
  "getRouter (\<lambda>options. queryClient (router_context options)) (\<lambda>q q'. q = q') tree q"
  by (simp add: getRouter_def getContext_def)

subsection \<open>The query client's developer tools\<close>

text \<open>The default exports of \<open>devtools.tsx\<close> and \<open>root-provider.tsx\<close>; the provider draws nothing.\<close>

definition devtools :: "jstr \<times> 'a node" where
  "devtools = (js ''Tanstack Query'', El ''ReactQueryDevtoolsPanel'' [] [])"

definition TanstackQueryProvider :: "'a node list" where
  "TanstackQueryProvider = []"

subsection \<open>The environment\<close>

datatype text_rule = Url | MinLength nat

record env_variable =
  var_name :: string
  var_rule :: text_rule
  var_optional :: bool

record 'e env_options =
  server :: "env_variable list"
  clientPrefix :: string
  client :: "env_variable list"
  runtimeEnv :: 'e
  emptyStringAsUndefined :: bool

definition env :: "('e env_options \<Rightarrow> 'r) \<Rightarrow> 'e \<Rightarrow> 'r" where
  "env createEnv import_meta_env =
     createEnv
       \<lparr>server = [\<lparr>var_name = ''SERVER_URL'', var_rule = Url, var_optional = True\<rparr>],
        clientPrefix = ''VITE_'',
        client = [\<lparr>var_name = ''VITE_APP_TITLE'', var_rule = MinLength 1, var_optional = True\<rparr>],
        runtimeEnv = import_meta_env, emptyStringAsUndefined = True\<rparr>"

text \<open>
  The library asks that exactly the variables of the browser have the prefix. No variable has to be
  set, and an empty one counts as not set.
\<close>

lemma env_names:
  "env (\<lambda>e. list_all (\<lambda>x. starts_with (var_name x) (clientPrefix e)) (client e)
      \<and> list_all (\<lambda>x. \<not> starts_with (var_name x) (clientPrefix e)) (server e)
      \<and> list_all var_optional (server e @ client e) \<and> emptyStringAsUndefined e) runtime"
  by (simp add: env_def starts_with_def)

subsection \<open>Class names\<close>

definition cn :: "('i list \<Rightarrow> jstr) \<Rightarrow> (jstr \<Rightarrow> jstr) \<Rightarrow> 'i list \<Rightarrow> jstr" where
  "cn clsx twMerge inputs = twMerge (clsx inputs)"

end
