(* ===== verification/LoadTests.thy ===== *)
theory LoadTests
  imports JsValues
begin

section \<open>The load tests: tests/load\<close>

text \<open>
  The scripts of the load generator (k6), one group of definitions per file: the requests they
  send, what they read from an answer, the pool of sessions that \<open>setup\<close> prepares, and the
  rotation of refresh tokens, a step relation over the iterations of the virtual users (VUs).
  The generator itself is not modelled: a request is data, an answer an argument, \<open>http.batch\<close>
  a parameter. \<open>__ENV\<close> is the environment, a map of names to texts.
\<close>

subsection \<open>config.js\<close>

type_synonym load_env = "string \<Rightarrow> jstr option"

definition baseUrl :: "load_env \<Rightarrow> jstr" where
  "baseUrl env =
     (let u = or_else (env ''BASE_URL'') (js ''http://localhost:5035'') in
      if u \<noteq> [] \<and> last u = 0x2F then butlast u else u)"

definition test_email :: "load_env \<Rightarrow> jstr" where
  "test_email env = or_else (env ''TEST_EMAIL'') (js ''user@localhost.dev'')"

definition test_password :: "load_env \<Rightarrow> jstr" where
  "test_password env = or_else (env ''TEST_PASSWORD'') (js ''Dev_User_Password_1!'')"

definition defaultHeaders :: "jstr obj" where
  "defaultHeaders = [(js ''Content-Type'', js ''application/json'')]"

definition load_routes :: "(string \<times> jstr) list" where
  "load_routes =
     [(''login'', js ''/api/v1/auth/login''), (''refresh'', js ''/api/v1/auth/refresh''),
      (''me'', js ''/api/v1/users/me'')]"

definition load_url :: "load_env \<Rightarrow> string \<Rightarrow> jstr" where
  "load_url env route = baseUrl env @ the (map_of load_routes route)"

definition loginBody :: "load_env \<Rightarrow> jstr" where
  "loginBody env =
     json_stringify (JObj [(js ''email'', JStr (test_email env)), (js ''password'', JStr (test_password env))])"

record load_request =
  lq_method :: string
  lq_url :: jstr
  lq_body :: "jstr option"
  lq_headers :: "jstr obj"
  lq_operation :: string

text \<open>An answer; its body is \<open>None\<close> when it is not JSON, which makes \<open>response.json()\<close> throw.\<close>

record load_response =
  lp_status :: nat
  lp_json :: "json option"

datatype load_error = BadJson | NullBody | Thrown jstr

record load_tokens =
  tk_access :: "json option"
  tk_refresh :: "json option"

definition no_tokens :: load_tokens where
  "no_tokens = \<lparr>tk_access = None, tk_refresh = None\<rparr>"

definition has_value :: "json option \<Rightarrow> bool" where
  "has_value x = (case x of Some v \<Rightarrow> json_truthy v | None \<Rightarrow> False)"

definition parseTokens :: "load_response \<Rightarrow> load_error + load_tokens" where
  "parseTokens response =
     (if lp_status response \<noteq> 200 then Inr no_tokens
      else
        (case lp_json response of
           None \<Rightarrow> Inl BadJson
         | Some JNull \<Rightarrow> Inl NullBody
         | Some body \<Rightarrow>
             Inr \<lparr>tk_access = json_member body (js ''accessToken''),
                  tk_refresh = json_member body (js ''refreshToken'')\<rparr>))"

definition login_request :: "load_env \<Rightarrow> string \<Rightarrow> load_request" where
  "login_request env operation =
     \<lparr>lq_method = ''POST'', lq_url = load_url env ''login'', lq_body = Some (loginBody env),
      lq_headers = defaultHeaders, lq_operation = operation\<rparr>"

text \<open>One answer of a batch after the other, then one batch after the other.\<close>

fun add_tokens :: "load_response list \<Rightarrow> load_tokens list \<Rightarrow> load_error + load_tokens list" where
  "add_tokens [] tokens = Inr tokens"
| "add_tokens (response # responses) tokens =
     (case parseTokens response of
        Inl err \<Rightarrow> Inl err
      | Inr issued \<Rightarrow>
          if \<not> has_value (tk_refresh issued) then Inl (Thrown (js ''Token-pool setup login failed.''))
          else add_tokens responses (tokens @ [issued]))"

definition batchSize :: int where
  "batchSize = 4"

function token_batches ::
  "('s \<Rightarrow> load_request list \<Rightarrow> 's \<times> load_response list) \<Rightarrow> load_env \<Rightarrow> int \<Rightarrow> int \<Rightarrow> 's
     \<Rightarrow> load_tokens list \<Rightarrow> 's \<times> (load_error + load_tokens list)" where
  "token_batches batch env poolSize offset s tokens =
     (if offset < poolSize then
        (let count = min batchSize (poolSize - offset);
             (s', responses) = batch s (replicate (nat count) (login_request env ''setup''))
         in
           case add_tokens responses tokens of
             Inl err \<Rightarrow> (s', Inl err)
           | Inr tokens' \<Rightarrow> token_batches batch env poolSize (offset + batchSize) s' tokens')
      else (s, Inr tokens))"
  by auto
termination
  by (relation "measure (\<lambda>(batch, env, poolSize, offset, s, tokens). nat (poolSize - offset))")
    (auto simp: batchSize_def)

declare token_batches.simps [simp del]

definition createTokenPool ::
  "('s \<Rightarrow> load_request list \<Rightarrow> 's \<times> load_response list) \<Rightarrow> load_env \<Rightarrow> int \<Rightarrow> 's
     \<Rightarrow> 's \<times> (load_error + load_tokens list)" where
  "createTokenPool batch env poolSize s = token_batches batch env poolSize 0 s []"

definition load_thresholds :: "(string \<times> (string \<times> string) list) list" where
  "load_thresholds =
     [(''login'', [(''http_req_duration{operation:login}'', ''p(95)<500''),
        (''http_req_failed{operation:login}'', ''rate<0.01'')]),
      (''refresh'', [(''http_req_duration{operation:refresh}'', ''p(95)<100''),
        (''http_req_failed{operation:refresh}'', ''rate<0.01'')]),
      (''me'', [(''http_req_duration{operation:me}'', ''p(95)<50''),
        (''http_req_failed{operation:me}'', ''rate<0.01'')])]"

definition checkFloor :: "(string \<times> string) list" where
  "checkFloor = [(''checks'', ''rate>0.99'')]"

subsection \<open>Options and numbers\<close>

text \<open>
  \<open>Number(text)\<close> for a decimal integer of at most 15 digits with white space around it; \<open>None\<close> for every other text,
  whose number is not an integer, is not one at all, or is written in another way.
\<close>

definition js_int :: "jstr \<Rightarrow> int option" where
  "js_int t =
     (let s = trim t;
          (neg, ds) = (case s of c # r \<Rightarrow> if c = 0x2D then (True, r) else if c = 0x2B then (False, r) else (False, s)
                       | [] \<Rightarrow> (False, []))
      in
        if s = [] then Some 0
        else if ds \<noteq> [] \<and> length ds \<le> 15 \<and> list_all is_digit ds
        then Some (if neg then - int (index_value ds) else int (index_value ds))
        else None)"

text \<open>A setting is the text that \<open>Number\<close> reads.\<close>

definition setting :: "load_env \<Rightarrow> string \<Rightarrow> string \<Rightarrow> jstr" where
  "setting env name dflt = or_else (env name) (js dflt)"

record scenario =
  sc_name :: string
  sc_exec :: "string option"
  sc_rate :: jstr
  sc_duration :: jstr
  sc_preAllocatedVUs :: int
  sc_maxVUs :: int

record load_options =
  lo_scenarios :: "scenario list"
  lo_thresholds :: "(string \<times> string) list"
  lo_setupTimeout :: "string option"

definition thresholds_of :: "string list \<Rightarrow> (string \<times> string) list" where
  "thresholds_of names = concat (map (\<lambda>n. the (map_of load_thresholds n)) names) @ checkFloor"

subsection \<open>login.js and me.js\<close>

definition login_options :: "load_env \<Rightarrow> load_options" where
  "login_options env =
     \<lparr>lo_scenarios =
        [\<lparr>sc_name = ''login'', sc_exec = None, sc_rate = setting env ''LOGIN_RPS'' ''50'',
          sc_duration = setting env ''DURATION'' ''2m'', sc_preAllocatedVUs = 50, sc_maxVUs = 200\<rparr>],
      lo_thresholds = thresholds_of [''login''], lo_setupTimeout = None\<rparr>"

text \<open>A check is recorded with its outcome.\<close>

definition login_check :: "load_response \<Rightarrow> string \<times> bool" where
  "login_check response = (''login completed'', lp_status response = 200)"

definition me_options :: "load_env \<Rightarrow> load_options" where
  "me_options env =
     \<lparr>lo_scenarios =
        [\<lparr>sc_name = ''me'', sc_exec = None, sc_rate = setting env ''ME_RPS'' ''500'',
          sc_duration = setting env ''DURATION'' ''2m'', sc_preAllocatedVUs = 100, sc_maxVUs = 500\<rparr>],
      lo_thresholds = thresholds_of [''me''], lo_setupTimeout = None\<rparr>"

text \<open>\<open>setup\<close> after the answer to its sign-in; the message is the scenario's own.\<close>

definition profile_setup :: "string \<Rightarrow> load_response \<Rightarrow> load_error + load_tokens" where
  "profile_setup failure response =
     (case parseTokens response of
        Inl err \<Rightarrow> Inl err
      | Inr tokens \<Rightarrow> if \<not> has_value (tk_access tokens) then Inl (Thrown (js failure)) else Inr tokens)"

definition me_setup :: "load_response \<Rightarrow> load_error + load_tokens" where
  "me_setup = profile_setup ''Profile scenario setup login failed.''"

definition value_text :: "json option \<Rightarrow> jstr" where
  "value_text x = (case x of Some v \<Rightarrow> json_text v | None \<Rightarrow> js ''undefined'')"

definition me_request :: "load_env \<Rightarrow> load_tokens \<Rightarrow> load_request" where
  "me_request env tokens =
     \<lparr>lq_method = ''GET'', lq_url = load_url env ''me'', lq_body = None,
      lq_headers = [(js ''Authorization'', js ''Bearer '' @ value_text (tk_access tokens))],
      lq_operation = ''me''\<rparr>"

definition me_check :: "load_response \<Rightarrow> string \<times> bool" where
  "me_check response = (''profile returned'', lp_status response = 200)"

subsection \<open>refresh.js\<close>

definition refresh_options :: "load_env \<Rightarrow> int \<Rightarrow> load_options" where
  "refresh_options env maxVUs =
     \<lparr>lo_scenarios =
        [\<lparr>sc_name = ''refresh'', sc_exec = None, sc_rate = setting env ''REFRESH_RPS'' ''200'',
          sc_duration = setting env ''DURATION'' ''2m'', sc_preAllocatedVUs = min 20 maxVUs,
          sc_maxVUs = maxVUs\<rparr>],
      lo_thresholds = thresholds_of [''refresh''], lo_setupTimeout = Some ''5m''\<rparr>"

definition refresh_maxVUs :: "load_env \<Rightarrow> int option" where
  "refresh_maxVUs env = js_int (setting env ''REFRESH_MAX_VUS'' ''100'')"

text \<open>\<open>tokens ||= tokenPool[__VU - 1]\<close>: every object is truthy, also one without tokens.\<close>

definition held :: "load_tokens list \<Rightarrow> nat \<Rightarrow> load_tokens option \<Rightarrow> load_tokens option" where
  "held pool vu tokens =
     (case tokens of
        Some t \<Rightarrow> Some t
      | None \<Rightarrow> if 0 < vu \<and> vu \<le> length pool then Some (pool ! (vu - 1)) else None)"

definition refresh_request ::
  "load_env \<Rightarrow> string \<Rightarrow> load_tokens list \<Rightarrow> nat \<Rightarrow> load_tokens option \<Rightarrow> load_error + load_request" where
  "refresh_request env failure pool vu tokens =
     (case Option.bind (held pool vu tokens) tk_refresh of
        Some t \<Rightarrow>
          if json_truthy t
          then
            Inr \<lparr>lq_method = ''POST'', lq_url = load_url env ''refresh'',
              lq_body = Some (json_stringify (JObj [(js ''refreshToken'', t)])),
              lq_headers = defaultHeaders, lq_operation = ''refresh''\<rparr>
          else Inl (Thrown (js failure @ nat_to_js vu @ js ''.''))
      | None \<Rightarrow> Inl (Thrown (js failure @ nat_to_js vu @ js ''.'')))"

definition refresh_check :: "load_response \<Rightarrow> string \<times> bool" where
  "refresh_check response = (''refresh rotated'', lp_status response = 200)"

definition refresh_failure :: string where
  "refresh_failure = ''No refresh session was prepared for VU ''"

subsection \<open>mixed.js\<close>

definition mixed_maxVUs :: "load_env \<Rightarrow> (int \<times> int \<times> int) option" where
  "mixed_maxVUs env =
     (case (js_int (setting env ''MIXED_LOGIN_MAX_VUS'' ''100''),
            js_int (setting env ''MIXED_REFRESH_MAX_VUS'' ''200''),
            js_int (setting env ''MIXED_ME_MAX_VUS'' ''300'')) of
        (Some l, Some r, Some m) \<Rightarrow> Some (l, r, m)
      | _ \<Rightarrow> None)"

definition totalMaxVUs :: "int \<times> int \<times> int \<Rightarrow> int" where
  "totalMaxVUs vus = fst vus + fst (snd vus) + snd (snd vus)"

definition mixed_options :: "load_env \<Rightarrow> int \<times> int \<times> int \<Rightarrow> load_options" where
  "mixed_options env vus =
     \<lparr>lo_scenarios =
        [\<lparr>sc_name = ''login'', sc_exec = Some ''login'', sc_rate = setting env ''MIXED_LOGIN_RPS'' ''10'',
          sc_duration = setting env ''DURATION'' ''5m'', sc_preAllocatedVUs = 20, sc_maxVUs = fst vus\<rparr>,
         \<lparr>sc_name = ''refresh'', sc_exec = Some ''refresh'', sc_rate = setting env ''MIXED_REFRESH_RPS'' ''40'',
          sc_duration = setting env ''DURATION'' ''5m'', sc_preAllocatedVUs = 40, sc_maxVUs = fst (snd vus)\<rparr>,
         \<lparr>sc_name = ''me'', sc_exec = Some ''me'', sc_rate = setting env ''MIXED_ME_RPS'' ''100'',
          sc_duration = setting env ''DURATION'' ''5m'', sc_preAllocatedVUs = 50, sc_maxVUs = snd (snd vus)\<rparr>],
      lo_thresholds = thresholds_of [''login'', ''refresh'', ''me''], lo_setupTimeout = Some ''10m''\<rparr>"

text \<open>\<open>setup\<close> after the answer to its sign-in.\<close>

definition mixed_setup ::
  "('s \<Rightarrow> load_request list \<Rightarrow> 's \<times> load_response list) \<Rightarrow> load_env \<Rightarrow> int \<times> int \<times> int \<Rightarrow> load_response
     \<Rightarrow> 's \<Rightarrow> 's \<times> (load_error + load_tokens \<times> load_tokens list)" where
  "mixed_setup batch env vus response s =
     (case profile_setup ''Mixed scenario setup login failed.'' response of
        Inl err \<Rightarrow> (s, Inl err)
      | Inr profileTokens \<Rightarrow>
          (case createTokenPool batch env (totalMaxVUs vus) s of
             (s', Inl err) \<Rightarrow> (s', Inl err)
           | (s', Inr pool) \<Rightarrow> (s', Inr (profileTokens, pool))))"

definition mixed_failure :: string where
  "mixed_failure = ''No mixed refresh session was prepared for VU ''"


subsection \<open>The iterations of a rotation scenario\<close>

text \<open>
  A state of the run: the tokens each VU keeps, the refresh tokens presented so far, the tokens
  the server has issued, and the failed checks of each VU. One step is one iteration of a VU: it
  throws before it sends, or it sends and gets an answer (of those that \<open>ok\<close> allows in the
  state), which it can or cannot read. \<open>failure\<close> is the message of the script.
\<close>

record load_run =
  lr_tokens :: "nat \<Rightarrow> load_tokens option"
  lr_presented :: "json list"
  lr_issued :: "json list"
  lr_failed :: "nat \<Rightarrow> nat"

definition issued_by :: "load_tokens list \<Rightarrow> json list" where
  "issued_by tokens =
     concat (map (\<lambda>t. case tk_refresh t of Some r \<Rightarrow> if json_truthy r then [r] else [] | None \<Rightarrow> []) tokens)"

definition start_run :: "load_tokens list \<Rightarrow> load_run" where
  "start_run pool =
     \<lparr>lr_tokens = (\<lambda>_. None), lr_presented = [], lr_issued = issued_by pool, lr_failed = (\<lambda>_. 0)\<rparr>"

definition presented_by :: "load_tokens list \<Rightarrow> nat \<Rightarrow> load_run \<Rightarrow> json list" where
  "presented_by pool vu s = (case held pool vu (lr_tokens s vu) of Some t \<Rightarrow> issued_by [t] | None \<Rightarrow> [])"

definition refused :: "load_tokens list \<Rightarrow> nat \<Rightarrow> load_run \<Rightarrow> load_run" where
  "refused pool vu s = s\<lparr>lr_tokens := (lr_tokens s)(vu := held pool vu (lr_tokens s vu))\<rparr>"

definition unread :: "load_tokens list \<Rightarrow> nat \<Rightarrow> load_run \<Rightarrow> load_run" where
  "unread pool vu s =
     (refused pool vu s)\<lparr>lr_presented := lr_presented s @ presented_by pool vu s\<rparr>"

definition answered :: "load_tokens list \<Rightarrow> nat \<Rightarrow> load_response \<Rightarrow> load_tokens \<Rightarrow> load_run \<Rightarrow> load_run" where
  "answered pool vu response tokens s =
     \<lparr>lr_tokens = (lr_tokens s)(vu := Some tokens),
      lr_presented = lr_presented s @ presented_by pool vu s,
      lr_issued = lr_issued s @ issued_by [tokens],
      lr_failed = (lr_failed s)(vu := lr_failed s vu + (if snd (refresh_check response) then 0 else 1))\<rparr>"

inductive refresh_run ::
  "load_env \<Rightarrow> string \<Rightarrow> load_tokens list \<Rightarrow> (load_run \<Rightarrow> load_response \<Rightarrow> bool) \<Rightarrow> load_run \<Rightarrow> bool"
  for env failure pool ok
where
  run_start: "refresh_run env failure pool ok (start_run pool)"
| run_refused: "refresh_run env failure pool ok s \<Longrightarrow>
    refresh_request env failure pool vu (lr_tokens s vu) = Inl err \<Longrightarrow>
    refresh_run env failure pool ok (refused pool vu s)"
| run_unread: "refresh_run env failure pool ok s \<Longrightarrow>
    refresh_request env failure pool vu (lr_tokens s vu) = Inr request \<Longrightarrow> ok s response \<Longrightarrow>
    parseTokens response = Inl err \<Longrightarrow> refresh_run env failure pool ok (unread pool vu s)"
| run_answered: "refresh_run env failure pool ok s \<Longrightarrow>
    refresh_request env failure pool vu (lr_tokens s vu) = Inr request \<Longrightarrow> ok s response \<Longrightarrow>
    parseTokens response = Inr tokens \<Longrightarrow> refresh_run env failure pool ok (answered pool vu response tokens s)"

subsection \<open>Properties\<close>

text \<open>A batch that also records how many requests it was given.\<close>

definition counted :: "('s \<Rightarrow> load_request list \<Rightarrow> 's \<times> load_response list)
    \<Rightarrow> 's \<times> nat list \<Rightarrow> load_request list \<Rightarrow> ('s \<times> nat list) \<times> load_response list" where
  "counted batch s requests =
     ((fst (batch (fst s) requests), snd s @ [length requests]), snd (batch (fst s) requests))"

lemma add_tokens_result:
  "add_tokens responses tokens = Inr ts \<Longrightarrow>
     length ts = length tokens + length responses
     \<and> (list_all (has_value \<circ> tk_refresh) tokens \<longrightarrow> list_all (has_value \<circ> tk_refresh) ts)"
  by (induction responses arbitrary: tokens) (auto split: sum.splits if_splits)

lemma token_batches_step:
  fixes batch env poolSize offset s
  defines "r \<equiv> batch s (replicate (nat (min batchSize (poolSize - offset))) (login_request env ''setup''))"
  shows "offset < poolSize \<Longrightarrow> token_batches batch env poolSize offset s tokens =
    (case add_tokens (snd r) tokens of
       Inl err \<Rightarrow> (fst r, Inl err)
     | Inr tokens' \<Rightarrow> token_batches batch env poolSize (offset + batchSize) (fst r) tokens')"
  unfolding r_def by (subst token_batches.simps) (auto simp: Let_def split: prod.split sum.split)

lemma token_batches_result:
  assumes "\<And>s requests. length (snd (batch s requests)) = length requests"
    and "0 \<le> offset" and "snd (token_batches (counted batch) env poolSize offset s tokens) = Inr ts"
  shows "\<exists>ns. snd (fst (token_batches (counted batch) env poolSize offset s tokens)) = snd s @ ns
    \<and> list_all (\<lambda>n. 0 < n \<and> n \<le> 4) ns \<and> sum_list ns = nat (poolSize - offset)
    \<and> length ts = length tokens + nat (poolSize - offset)
    \<and> (list_all (has_value \<circ> tk_refresh) tokens \<longrightarrow> list_all (has_value \<circ> tk_refresh) ts)"
  using assms(2,3)
proof (induction "nat (poolSize - offset)" arbitrary: offset s tokens rule: less_induct)
  case less
  show ?case
  proof (cases "offset < poolSize")
    case True
    let ?n = "nat (min batchSize (poolSize - offset))"
    let ?r = "counted batch s (replicate ?n (login_request env ''setup''))"
    have n: "0 < ?n" "?n \<le> 4" and rest: "nat (poolSize - offset) = ?n + nat (poolSize - (offset + batchSize))"
      using True by (auto simp: batchSize_def)
    obtain tokens' where tokens': "add_tokens (snd ?r) tokens = Inr tokens'"
      and more: "token_batches (counted batch) env poolSize offset s tokens
        = token_batches (counted batch) env poolSize (offset + batchSize) (fst ?r) tokens'"
      using True less.prems(2) by (auto simp: token_batches_step split: sum.splits)
    have "length (snd ?r) = ?n" by (simp add: counted_def assms(1))
    then have tokens'_ok: "length tokens' = length tokens + ?n"
      "list_all (has_value \<circ> tk_refresh) tokens \<longrightarrow> list_all (has_value \<circ> tk_refresh) tokens'"
      using add_tokens_result [OF tokens'] by simp_all
    have log: "snd (fst ?r) = snd s @ [?n]" by (simp add: counted_def)
    have smaller: "nat (poolSize - (offset + batchSize)) < nat (poolSize - offset)"
      "0 \<le> offset + batchSize" using True less.prems(1) by (auto simp: batchSize_def)
    have "snd (token_batches (counted batch) env poolSize (offset + batchSize) (fst ?r) tokens') = Inr ts"
      using less.prems(2) more by simp
    from less.hyps [OF smaller this] obtain ns where ns:
      "snd (fst (token_batches (counted batch) env poolSize offset s tokens)) = snd (fst ?r) @ ns"
      "list_all (\<lambda>n. 0 < n \<and> n \<le> 4) ns" "sum_list ns = nat (poolSize - (offset + batchSize))"
      "length ts = length tokens' + nat (poolSize - (offset + batchSize))"
      "list_all (has_value \<circ> tk_refresh) tokens' \<longrightarrow> list_all (has_value \<circ> tk_refresh) ts"
      unfolding more by blast
    show ?thesis
    proof (intro exI [of _ "?n # ns"] conjI)
      show "snd (fst (token_batches (counted batch) env poolSize offset s tokens)) = snd s @ ?n # ns"
        unfolding ns(1) log by simp
      show "list_all (\<lambda>n. 0 < n \<and> n \<le> 4) (?n # ns)" using n ns(2) by simp
      show "sum_list (?n # ns) = nat (poolSize - offset)" using ns(3) rest by simp
      show "length ts = length tokens + nat (poolSize - offset)" using ns(4) rest tokens'_ok(1) by simp
      show "list_all (has_value \<circ> tk_refresh) tokens \<longrightarrow> list_all (has_value \<circ> tk_refresh) ts"
        using ns(5) tokens'_ok(2) by blast
    qed
  qed (use less.prems in \<open>simp add: token_batches.simps\<close>)
qed

text \<open>C37: If the server answers every request of a batch and every sign-in succeeds, the pool
  holds one session with a refresh token for each VU, and was made with as many sign-ins, at most four
  of them at a time; for no positive number of VUs it is empty and nothing is sent.\<close>

theorem token_pool:
  assumes "\<And>s requests. length (snd (batch s requests)) = length requests"
    and "snd (createTokenPool (counted batch) env n (s, [])) = Inr ts"
  shows "length ts = nat n \<and> list_all (has_value \<circ> tk_refresh) ts
    \<and> (let sizes = snd (fst (createTokenPool (counted batch) env n (s, []))) in
        list_all (\<lambda>k. 0 < k \<and> k \<le> 4) sizes \<and> sum_list sizes = nat n)"
  using token_batches_result [OF assms(1), where offset = 0 and env = env and poolSize = n and s = "(s, [])"
      and tokens = "[]" and ts = ts] assms(2)
  by (auto simp: createTokenPool_def)

definition sign_in_answer :: load_response where
  "sign_in_answer =
     \<lparr>lp_status = 200, lp_json = Some (JObj [(js ''accessToken'', JStr (js ''a'')), (js ''refreshToken'', JStr (js ''r''))])\<rparr>"

theorem token_pool_witness:
  "sum_list (snd (fst (createTokenPool (counted (\<lambda>s rqs. (s, map (\<lambda>_. sign_in_answer) rqs))) (\<lambda>_. None) 6
     ((), [])))) = 6"
proof -
  let ?batch = "\<lambda>s rqs. (s :: unit, map (\<lambda>_. sign_in_answer) rqs)"
  have parsed: "parseTokens sign_in_answer = Inr \<lparr>tk_access = Some (JStr (js ''a'')), tk_refresh = Some (JStr (js ''r''))\<rparr>"
    by (simp add: parseTokens_def sign_in_answer_def)
  have "add_tokens (replicate k sign_in_answer) tokens = Inr (tokens @ replicate k
      \<lparr>tk_access = Some (JStr (js ''a'')), tk_refresh = Some (JStr (js ''r''))\<rparr>)" for k tokens
    by (induction k arbitrary: tokens) (simp_all add: parsed has_value_def)
  then have "snd (createTokenPool (counted ?batch) (\<lambda>_. None) 6 ((), [])) = Inr (replicate 6
      \<lparr>tk_access = Some (JStr (js ''a'')), tk_refresh = Some (JStr (js ''r''))\<rparr>)"
    by (simp add: createTokenPool_def token_batches_step counted_def batchSize_def map_replicate
        token_batches.simps replicate_add [symmetric] flip: replicate_Suc)
  from token_pool [of ?batch, OF _ this] show ?thesis by (simp add: Let_def)
qed

lemma presented_by_refused [simp]: "presented_by pool vu' (refused pool vu s) = presented_by pool vu' s"
  by (auto simp: presented_by_def refused_def held_def split: option.split)

lemma refresh_request_Inr:
  "refresh_request env failure pool vu tokens = Inr request \<Longrightarrow>
     \<exists>t. Option.bind (held pool vu tokens) tk_refresh = Some t \<and> json_truthy t"
  by (auto simp: refresh_request_def split: option.splits if_splits)

text \<open>C9: A VU fails at most one check in a run, whatever the server answers: after a failed
  refresh it keeps an object without tokens, which is truthy, so every later iteration throws, with
  the message that no session was prepared, before it sends anything.\<close>

theorem failed_refresh:
  assumes "refresh_run env failure pool ok s"
  shows "lr_failed s vu \<le> 1
    \<and> (lr_failed s vu = 1 \<longrightarrow>
        refresh_request env failure pool vu (lr_tokens s vu) = Inl (Thrown (js failure @ nat_to_js vu @ js ''.'')))"
proof -
  have "lr_failed s vu = 0 \<or> (lr_failed s vu = 1 \<and> lr_tokens s vu = Some no_tokens)" for vu
    using assms
  proof (induction arbitrary: vu rule: refresh_run.induct)
    case (run_answered s vu' request response tokens)
    have "lr_tokens s vu' \<noteq> Some no_tokens"
      using refresh_request_Inr [OF run_answered.hyps(2)] by (auto simp: held_def no_tokens_def)
    then have "lr_failed s vu' = 0" using run_answered.IH [of vu'] by blast
    then show ?case
      using run_answered.IH [of vu] run_answered.hyps(4)
      by (auto simp: answered_def refresh_check_def parseTokens_def)
  next
    case (run_refused s vu' err)
    show ?case using run_refused.IH [of vu] by (cases "vu = vu'") (auto simp: refused_def held_def)
  next
    case (run_unread s vu' request response err)
    show ?case
      using run_unread.IH [of vu] by (cases "vu = vu'") (auto simp: unread_def refused_def held_def)
  qed (simp add: start_run_def)
  then have "lr_failed s vu = 0 \<or> (lr_failed s vu = 1 \<and> lr_tokens s vu = Some no_tokens)" .
  then show ?thesis by (auto simp: refresh_request_def held_def no_tokens_def)
qed

theorem failed_refresh_witness:
  "\<exists>s. refresh_run (\<lambda>_. None) refresh_failure [\<lparr>tk_access = None, tk_refresh = Some (JStr (js ''r''))\<rparr>] (\<lambda>_ _. True) s
     \<and> lr_failed s 1 = 1
     \<and> (\<exists>err. refresh_request (\<lambda>_. None) refresh_failure [\<lparr>tk_access = None, tk_refresh = Some (JStr (js ''r''))\<rparr>] 1
          (lr_tokens s 1) = Inl err)"
proof -
  let ?pool = "[\<lparr>tk_access = None, tk_refresh = Some (JStr (js ''r''))\<rparr>]"
  let ?failure = "\<lparr>lp_status = 503, lp_json = None\<rparr>"
  let ?s = "answered ?pool 1 ?failure no_tokens (start_run ?pool)"
  have "\<exists>request. refresh_request (\<lambda>_. None) refresh_failure ?pool 1 (lr_tokens (start_run ?pool) 1) = Inr request"
    by (simp add: refresh_request_def held_def start_run_def js_def)
  then have run: "refresh_run (\<lambda>_. None) refresh_failure ?pool (\<lambda>_ _. True) ?s"
    by (auto intro: run_answered [OF run_start] simp: parseTokens_def)
  moreover have "lr_failed ?s 1 = 1" by (simp add: answered_def start_run_def refresh_check_def)
  ultimately show ?thesis using failed_refresh [OF run, of 1] by blast
qed

text \<open>A server that rotates: a success gives a refresh token that was never issued before.\<close>

definition rotating :: "load_run \<Rightarrow> load_response \<Rightarrow> bool" where
  "rotating s response \<longleftrightarrow>
     lp_status response = 200 \<longrightarrow>
       (case parseTokens response of
          Inl err \<Rightarrow> False
        | Inr tokens \<Rightarrow> list_all (\<lambda>t. t \<notin> set (lr_issued s)) (issued_by [tokens]))"

definition rotation_ok :: "load_tokens list \<Rightarrow> load_run \<Rightarrow> bool" where
  "rotation_ok pool s \<longleftrightarrow>
     distinct (lr_presented s) \<and> set (lr_presented s) \<subseteq> set (lr_issued s)
     \<and> (\<forall>vu. set (presented_by pool vu s) \<subseteq> set (lr_issued s) - set (lr_presented s))
     \<and> (\<forall>vu vu'. vu \<noteq> vu' \<longrightarrow> set (presented_by pool vu s) \<inter> set (presented_by pool vu' s) = {})"

lemma distinct_presented_by: "distinct (presented_by pool vu s)"
  by (simp add: presented_by_def issued_by_def split: option.split)

lemma rotation_ok_start:
  assumes "distinct (issued_by pool)"
  shows "rotation_ok pool (start_run pool)"
proof -
  have split: "issued_by (ts @ us) = issued_by ts @ issued_by us" for ts us by (simp add: issued_by_def)
  have apart: "set (issued_by [pool ! i]) \<inter> set (issued_by [pool ! j]) = {}"
    if "i < j" "j < length pool" for i j
  proof -
    have "pool ! j \<in> set (drop (Suc i) pool)" using that by (auto simp: in_set_conv_nth intro!: exI [of _ "j - Suc i"])
    then have "set (issued_by [pool ! j]) \<subseteq> set (issued_by (drop (Suc i) pool))" by (auto simp: issued_by_def)
    moreover have "pool = take i pool @ [pool ! i] @ drop (Suc i) pool" using that by (simp add: id_take_nth_drop)
    then have "distinct (issued_by [pool ! i] @ issued_by (drop (Suc i) pool))"
      using assms split by (metis distinct_append)
    ultimately show ?thesis by auto
  qed
  have inside: "set (issued_by [pool ! i]) \<subseteq> set (issued_by pool)" if "i < length pool" for i
    using that by (auto simp: issued_by_def intro!: bexI [of _ "pool ! i"])
  have different: "set (issued_by [pool ! i]) \<inter> set (issued_by [pool ! j]) = {}"
    if "i \<noteq> j" "i < length pool" "j < length pool" for i j
    using apart [of i j] apart [of j i] that by (cases "i < j") auto
  have presented: "presented_by pool vu (start_run pool)
      = (if 0 < vu \<and> vu \<le> length pool then issued_by [pool ! (vu - 1)] else [])" for vu
    by (simp add: presented_by_def start_run_def held_def)
  have "set (presented_by pool vu (start_run pool)) \<subseteq> set (issued_by pool)" for vu
    using inside [of "vu - 1"] unfolding presented by (cases vu) auto
  moreover have "set (presented_by pool vu (start_run pool)) \<inter> set (presented_by pool vu' (start_run pool)) = {}"
    if "vu \<noteq> vu'" for vu vu'
    using different [of "vu - 1" "vu' - 1"] that unfolding presented by (cases vu; cases vu') auto
  ultimately show ?thesis by (simp add: rotation_ok_def) (simp add: start_run_def)
qed

lemma rotation_ok_answered:
  assumes "rotation_ok pool s" and "rotating s response" and "parseTokens response = Inr tokens"
  shows "rotation_ok pool (answered pool vu response tokens s)"
proof -
  have fresh: "set (issued_by [tokens]) \<inter> set (lr_issued s) = {}"
    using assms(2,3) by (auto simp: rotating_def list_all_iff parseTokens_def issued_by_def no_tokens_def split: if_splits)
  have own: "presented_by pool vu (answered pool vu response tokens s) = issued_by [tokens]"
    by (simp add: presented_by_def answered_def held_def)
  have other: "presented_by pool vu' (answered pool vu response tokens s) = presented_by pool vu' s"
    if "vu' \<noteq> vu" for vu'
    using that by (simp add: presented_by_def answered_def)
  have log: "lr_presented (answered pool vu response tokens s) = lr_presented s @ presented_by pool vu s"
    "lr_issued (answered pool vu response tokens s) = lr_issued s @ issued_by [tokens]"
    by (simp_all add: answered_def)
  have ok: "distinct (lr_presented s)" "set (lr_presented s) \<subseteq> set (lr_issued s)"
    "set (presented_by pool vu' s) \<subseteq> set (lr_issued s) - set (lr_presented s)"
    "vu' \<noteq> vu'' \<Longrightarrow> set (presented_by pool vu' s) \<inter> set (presented_by pool vu'' s) = {}" for vu' vu''
    using assms(1) by (simp_all add: rotation_ok_def)
  let ?P = "\<lambda>vu'. set (presented_by pool vu' (answered pool vu response tokens s))"
  let ?Q = "\<lambda>vu'. set (presented_by pool vu' s)"
  have P: "?P vu' = (if vu' = vu then set (issued_by [tokens]) else ?Q vu')" for vu'
    using own other [of vu'] by simp
  have "?P vu' \<subseteq> set (lr_issued s @ issued_by [tokens]) - set (lr_presented s @ presented_by pool vu s)" for vu'
    using fresh ok(2) ok(3) [of vu'] ok(3) [of vu] ok(4) [of vu' vu] by (auto simp: P)
  moreover have "?P vu' \<inter> ?P vu'' = {}" if "vu' \<noteq> vu''" for vu' vu''
    using that fresh ok(3) [of vu'] ok(3) [of vu''] ok(4) [of vu' vu''] by (auto simp: P)
  moreover have "distinct (lr_presented s @ presented_by pool vu s)"
    using ok(1) ok(3) [of vu] distinct_presented_by [of pool vu s] by auto
  moreover have "set (lr_presented s @ presented_by pool vu s) \<subseteq> set (lr_issued s @ issued_by [tokens])"
    using ok(2) ok(3) [of vu] by auto
  ultimately show ?thesis by (simp add: rotation_ok_def log)
qed

text \<open>C8: If the pool's sessions have different refresh tokens and every successful refresh
  issues one that was never issued before, no refresh token is presented twice in a run, by one VU or
  by two, in any order of iterations.\<close>

theorem rotation_once:
  assumes "distinct (issued_by pool)" and "refresh_run env failure pool rotating s"
  shows "distinct (lr_presented s) \<and> set (lr_presented s) \<subseteq> set (lr_issued s)"
proof -
  from assms(2) have "rotation_ok pool s"
  proof (induction rule: refresh_run.induct)
    case (run_refused s vu err)
    then show ?case by (simp add: rotation_ok_def) (simp add: refused_def)
  next
    case (run_unread s vu request response err)
    then show ?case by (auto simp: rotating_def parseTokens_def split: if_splits)
  qed (simp_all add: rotation_ok_start assms(1) rotation_ok_answered)
  then show ?thesis by (simp add: rotation_ok_def)
qed

theorem rotation_once_witness:
  "lr_presented (answered [\<lparr>tk_access = None, tk_refresh = Some (JStr (js ''p''))\<rparr>] 1 sign_in_answer
      \<lparr>tk_access = Some (JStr (js ''a'')), tk_refresh = Some (JStr (js ''r''))\<rparr>
      (start_run [\<lparr>tk_access = None, tk_refresh = Some (JStr (js ''p''))\<rparr>])) = [JStr (js ''p'')]
   \<and> distinct [JStr (js ''p'')]"
proof -
  let ?pool = "[\<lparr>tk_access = None, tk_refresh = Some (JStr (js ''p''))\<rparr>]"
  let ?new = "\<lparr>tk_access = Some (JStr (js ''a'')), tk_refresh = Some (JStr (js ''r''))\<rparr>"
  let ?s = "answered ?pool 1 sign_in_answer ?new (start_run ?pool)"
  have parsed: "parseTokens sign_in_answer = Inr ?new" by (simp add: parseTokens_def sign_in_answer_def)
  have "\<exists>request. refresh_request (\<lambda>_. None) refresh_failure ?pool 1 (lr_tokens (start_run ?pool) 1) = Inr request"
    by (simp add: refresh_request_def held_def start_run_def js_def)
  moreover have "rotating (start_run ?pool) sign_in_answer"
    using parsed by (simp add: rotating_def issued_by_def start_run_def js_def)
  ultimately have run: "refresh_run (\<lambda>_. None) refresh_failure ?pool rotating ?s"
    using parsed by (auto intro: run_answered [OF run_start])
  have "lr_presented ?s = [JStr (js ''p'')]"
    by (simp add: answered_def start_run_def presented_by_def held_def issued_by_def js_def)
  with rotation_once [OF _ run] show ?thesis by (simp add: issued_by_def js_def)
qed

lemma pool_covers:
  "0 < vu \<Longrightarrow> vu \<le> length pool \<Longrightarrow> \<exists>t \<in> set pool. held pool vu None = Some t"
  by (auto simp: held_def intro!: bexI [of _ "pool ! (vu - 1)"])
end
