(* ===== verification/SyncStatic.thy ===== *)
theory SyncStatic
  imports JsPrelude
begin

section \<open>The synchronised page: scripts/sync-static.mjs\<close>

text \<open>
  The script copies the built page and replaces the time stamps the prerenderer wrote into it,
  the matches of \<open>/(u:)\d+(,s:"success",ssr:!0)/g\<close>, by zero. The copy itself is the file
  system's; the text operation is modelled, from the read text to the written one.
\<close>

definition stamp_suffix :: jstr where
  "stamp_suffix = js '',s:\"success\",ssr:!0''"

text \<open>A match at the start of a text: the text after it. The digits end where the suffix begins,
  so the greedy \<open>\d+\<close> never gives a digit back.\<close>

definition match_stamp :: "jstr \<Rightarrow> jstr option" where
  "match_stamp s =
     (case s of
        a # b # r \<Rightarrow>
          if a = 0x75 \<and> b = 0x3A \<and> takeWhile is_digit r \<noteq> []
             \<and> starts_with (dropWhile is_digit r) stamp_suffix
          then Some (drop (length stamp_suffix) (dropWhile is_digit r)) else None
      | _ \<Rightarrow> None)"

lemma match_stamp_shorter: "match_stamp s = Some r \<Longrightarrow> length r < length s"
  by (auto simp: match_stamp_def split: list.splits if_splits
      intro!: le_less_trans [OF diff_le_self] le_less_trans [OF length_dropWhile_le])

function normalizedHtml :: "jstr \<Rightarrow> jstr" where
  "normalizedHtml s =
     (case match_stamp s of
        Some r \<Rightarrow> [0x75, 0x3A, 0x30] @ stamp_suffix @ normalizedHtml r
      | None \<Rightarrow> (case s of [] \<Rightarrow> [] | c # r \<Rightarrow> c # normalizedHtml r))"
  by auto
termination
  by (relation "measure length") (auto dest: match_stamp_shorter)

declare normalizedHtml.simps [simp del]

function timestamps :: "jstr \<Rightarrow> nat" where
  "timestamps s =
     (case match_stamp s of
        Some r \<Rightarrow> Suc (timestamps r)
      | None \<Rightarrow> (case s of [] \<Rightarrow> 0 | c # r \<Rightarrow> timestamps r))"
  by auto
termination
  by (relation "measure length") (auto dest: match_stamp_shorter)

declare timestamps.simps [simp del]

text \<open>What the script writes, or the error it throws.\<close>

definition sync_static :: "jstr \<Rightarrow> jstr + jstr" where
  "sync_static html =
     (if timestamps html = 0
      then Inl (js ''Expected at least one prerendered route timestamp in index.html'')
      else Inr (normalizedHtml html))"


subsection \<open>Properties\<close>

text \<open>The same text with other time stamps, the \<open>k\<close>-th with the digits \<open>f k\<close>.\<close>

function restamp :: "(nat \<Rightarrow> jstr) \<Rightarrow> jstr \<Rightarrow> jstr" where
  "restamp f s =
     (case match_stamp s of
        Some r \<Rightarrow> [0x75, 0x3A] @ f 0 @ stamp_suffix @ restamp (f \<circ> Suc) r
      | None \<Rightarrow> (case s of [] \<Rightarrow> [] | c # r \<Rightarrow> c # restamp f r))"
  by auto
termination
  by (relation "measure (\<lambda>(f, s). length s)") (auto dest: match_stamp_shorter)

declare restamp.simps [simp del]

definition digits :: "jstr \<Rightarrow> bool" where
  "digits ds \<longleftrightarrow> ds \<noteq> [] \<and> list_all is_digit ds"

lemma match_stamp_iff:
  "match_stamp s = Some x \<longleftrightarrow> (\<exists>ds. digits ds \<and> s = [0x75, 0x3A] @ ds @ stamp_suffix @ x)"
proof -
  have suffix: "takeWhile is_digit (stamp_suffix @ x) = []" "dropWhile is_digit (stamp_suffix @ x) = stamp_suffix @ x" for x
    by (simp_all add: stamp_suffix_def js_def is_digit_def)
  have scan: "takeWhile is_digit (ds @ stamp_suffix @ x) = ds" "dropWhile is_digit (ds @ stamp_suffix @ x) = stamp_suffix @ x"
    if "list_all is_digit ds" for ds x
    using that suffix [of x] by (induction ds) simp_all
  show ?thesis
  proof
    assume m: "match_stamp s = Some x"
    then obtain r where r: "s = 0x75 # 0x3A # r" "takeWhile is_digit r \<noteq> []"
      "starts_with (dropWhile is_digit r) stamp_suffix" "x = drop (length stamp_suffix) (dropWhile is_digit r)"
      unfolding match_stamp_def by (simp split: list.splits if_split_asm)
    have "dropWhile is_digit r = stamp_suffix @ x"
      using r(3,4) by (metis append_take_drop_id starts_with_def)
    then have "r = takeWhile is_digit r @ stamp_suffix @ x" by (metis takeWhile_dropWhile_id)
    moreover have "list_all is_digit (takeWhile is_digit r)" by (auto simp: list_all_iff dest: set_takeWhileD)
    ultimately show "\<exists>ds. digits ds \<and> s = [0x75, 0x3A] @ ds @ stamp_suffix @ x"
      using r(1,2) by (auto simp: digits_def)
  next
    assume "\<exists>ds. digits ds \<and> s = [0x75, 0x3A] @ ds @ stamp_suffix @ x"
    then show "match_stamp s = Some x"
      using scan by (auto simp: match_stamp_def digits_def starts_with_def)
  qed
qed

lemma restamp_Cons:
  assumes "restamp f s = c # y" and "c \<noteq> 0x75 \<or> y = [] \<or> hd y \<noteq> 0x3A"
  shows "\<exists>s'. s = c # s' \<and> y = restamp f s'"
  using assms by (subst (asm) restamp.simps) (auto split: option.splits list.splits)

lemma restamp_append:
  "list_all (\<lambda>c. c \<noteq> 0x75) w \<Longrightarrow> restamp f s = w @ z \<Longrightarrow> \<exists>s'. s = w @ s' \<and> restamp f s' = z"
proof (induction w arbitrary: s)
  case (Cons c w)
  then obtain s' where "s = c # s'" "w @ z = restamp f s'" using restamp_Cons [of f s c "w @ z"] by auto
  with Cons show ?case by force
qed simp

lemma restamp_suffix: "restamp f s = stamp_suffix @ z \<Longrightarrow> \<exists>s'. s = stamp_suffix @ s'"
proof -
  let ?a = "js '',s:\"s''" and ?b = "js ''ccess\",ssr:!0''"
  have split: "stamp_suffix = ?a @ 0x75 # ?b" by (simp add: stamp_suffix_def js_def)
  have units: "list_all (\<lambda>c. c \<noteq> 0x75) ?a" "list_all (\<lambda>c. c \<noteq> 0x75) ?b" "?b \<noteq> []" "hd ?b \<noteq> 0x3A"
    by (simp_all add: js_def)
  assume "restamp f s = stamp_suffix @ z"
  then obtain s1 where s1: "s = ?a @ s1" "restamp f s1 = 0x75 # ?b @ z"
    using restamp_append [OF units(1), of f s "0x75 # ?b @ z"] by (auto simp: split)
  moreover obtain s2 where "s1 = 0x75 # s2" "restamp f s2 = ?b @ z"
    using restamp_Cons [OF s1(2)] units(3,4) by auto
  ultimately show ?thesis
    using restamp_append [OF units(2), of f s2 z] by (auto simp: split)
qed

lemma match_restamp:
  assumes "\<And>k. digits (f k)"
  shows "match_stamp (restamp f s) = map_option (restamp (f \<circ> Suc)) (match_stamp s)"
proof (cases "match_stamp s")
  case (Some r)
  then have "restamp f s = [0x75, 0x3A] @ f 0 @ stamp_suffix @ restamp (f \<circ> Suc) r" by (simp add: restamp.simps)
  then have "match_stamp (restamp f s) = Some (restamp (f \<circ> Suc) r)"
    using match_stamp_iff [of "restamp f s"] assms by blast
  with Some show ?thesis by simp
next
  case None
  have "match_stamp (restamp f s) \<noteq> Some x" for x
  proof
    assume "match_stamp (restamp f s) = Some x"
    then obtain ds where ds: "digits ds" "restamp f s = 0x75 # 0x3A # ds @ stamp_suffix @ x"
      by (auto simp: match_stamp_iff)
    then obtain r where r: "s = 0x75 # r" "restamp f r = (0x3A # ds) @ stamp_suffix @ x"
      using None by (subst (asm) restamp.simps) (auto split: list.splits)
    have "list_all (\<lambda>c. c \<noteq> 0x75) (0x3A # ds)"
      using ds(1) by (auto simp: digits_def list_all_iff is_digit_def)
    from restamp_append [OF this r(2)] obtain r' where "r = (0x3A # ds) @ r'" "restamp f r' = stamp_suffix @ x" by blast
    moreover from restamp_suffix [OF this(2)] obtain r'' where "r' = stamp_suffix @ r''" by blast
    ultimately have "match_stamp s = Some r''" using r(1) ds(1) by (auto simp: match_stamp_iff)
    with None show False by simp
  qed
  with None show ?thesis by (cases "match_stamp (restamp f s)") auto
qed

lemma restamped:
  "(\<And>k. digits (f k)) \<Longrightarrow> normalizedHtml (restamp f s) = normalizedHtml s \<and> timestamps (restamp f s) = timestamps s"
proof (induction f s rule: restamp.induct)
  case (1 f s)
  note match = match_restamp [where f = f and s = s, OF "1.prems"]
  show ?case
  proof (cases "match_stamp s")
    case (Some r)
    with match have "match_stamp (restamp f s) = Some (restamp (f \<circ> Suc) r)" by simp
    with Some "1.IH"(2) [OF Some] "1.prems" show ?thesis
      by (simp add: comp_def normalizedHtml.simps [of s] normalizedHtml.simps [of "restamp f s"]
        timestamps.simps [of s] timestamps.simps [of "restamp f s"])
  next
    case None
    with match have none: "match_stamp (restamp f s) = None" by simp
    show ?thesis
    proof (cases s)
      case (Cons c r)
      then have "restamp f s = c # restamp f r" using None Cons by (simp add: restamp.simps [of f "c # r"])
      with Cons None none "1.IH"(1) [OF None Cons] "1.prems" show ?thesis
        by (simp add: normalizedHtml.simps [of "c # r"] normalizedHtml.simps [of "c # restamp f r"]
          timestamps.simps [of "c # r"] timestamps.simps [of "c # restamp f r"])
    qed (use None in \<open>simp add: restamp.simps\<close>)
  qed
qed

lemma normalizedHtml_restamp: "normalizedHtml s = restamp (\<lambda>_. [0x30]) s"
proof (induction s rule: normalizedHtml.induct)
  case (1 s)
  then show ?case
    by (simp add: normalizedHtml.simps [of s] restamp.simps [of _ s] comp_def split: option.split list.split)
qed

text \<open>C38: Two builds of the page that differ in nothing but their time stamps are written as
  the same text, and a page that was written once is written again unchanged.\<close>

theorem static_page:
  assumes "\<And>k. ds k \<noteq> [] \<and> list_all is_digit (ds k)"
  shows "sync_static (restamp ds html) = sync_static html
    \<and> (sync_static html = Inr written \<longrightarrow> sync_static written = Inr written)"
proof -
  have same: "sync_static (restamp ds html) = sync_static html" if "\<And>k. digits (ds k)" for ds
    using restamped [where f = ds and s = html, OF that] by (simp add: sync_static_def)
  moreover have "sync_static written = Inr written" if "sync_static html = Inr written"
  proof -
    have "written = restamp (\<lambda>_. [0x30]) html"
      using that by (simp add: sync_static_def normalizedHtml_restamp split: if_splits)
    with same [of "\<lambda>_. [0x30]"] that show ?thesis by (simp add: digits_def is_digit_def)
  qed
  ultimately show ?thesis using assms by (simp add: digits_def)
qed

theorem static_page_witness:
  "sync_static (restamp (\<lambda>_. js ''1750000000000'') (js ''u:1,s:\"success\",ssr:!0''))
     = sync_static (js ''u:1,s:\"success\",ssr:!0'')"
  using static_page [of "\<lambda>_. js ''1750000000000''" "js ''u:1,s:\"success\",ssr:!0''" "[]"]
  by (simp add: js_def is_digit_def)
end
