(* ===== verification/WbTests.thy ===== *)
theory WbTests
  imports WbVault WbFetch WbTotp
begin

section \<open>The repository's unit tests, of the model\<close>

text \<open>
  The assertions of \<open>domain.test.ts\<close>, \<open>browser-effects.test.ts\<close> and \<open>catalog.test.ts\<close>, evaluated on
  the definitions of this development. HMAC is a parameter: it is given by the one digest that
  the RFC's test vector needs, and by nothing for any other key or counter.
\<close>

subsection \<open>domain.test.ts\<close>

text \<open>It encodes path values and omits empty query parameters.\<close>

definition audit_draft :: RequestDraft where
  "audit_draft =
     (let d = createDraft EP_admin_audit EMPTY_VARIABLES in
      d\<lparr>queryValues := obj_set (js ''eventType'') [] (obj_set (js ''userId'') (js ''a user/id'') (queryValues d))\<rparr>)"

lemma test_audit_path:
  "buildPath EP_admin_audit audit_draft EMPTY_VARIABLES =
     Inr (js ''/api/v1/admin/audit-logs?page=1&pageSize=20&sort=occurredAt%3Adesc&userId=a+user%2Fid'')"
  by code_simp

text \<open>It resolves vault templates inside nested JSON.\<close>

lemma test_mfa_body:
  "parseRequestBody id EP_auth_login_mfa (json_stringify (the (ep_body EP_auth_login_mfa)))
      (set_var MfaTicket (js ''ticket-1'') (set_var TotpCode (js ''123456'') EMPTY_VARIABLES))
     = Inr (Some (JObj [(js ''mfaTicket'', JStr (js ''ticket-1'')), (js ''code'', JStr (js ''123456''))]))"
  by code_simp

text \<open>It builds transport-specific authorization and CSRF headers.\<close>

definition header_variables :: WorkbenchVariables where
  "header_variables =
     set_var AccessToken (js ''access-token'')
       (set_var ApiKeyVar (js ''api-key'') (set_var CsrfToken (js ''csrf-from-vault'') EMPTY_VARIABLES))"

definition test_header :: "AuthMode \<Rightarrow> string \<Rightarrow> jstr option" where
  "test_header m name =
     (case buildHeaders EP_users_update m header_variables [] of
        Inr h \<Rightarrow> obj_get h (js name)
      | Inl err \<Rightarrow> None)"

lemma test_headers:
  "test_header Bearer ''Authorization'' = Some (js ''Bearer access-token'')"
  "test_header ApiKey ''Authorization'' = Some (js ''ApiKey api-key'')"
  "test_header Cookie ''X-CSRF-Token'' = Some (js ''csrf-from-vault'')"
  by code_simp+

text \<open>It creates a reproducible cURL command.\<close>

definition test_curl :: jstr where
  "test_curl =
     createCurl (js ''https://localhost:5001'') EP_auth_login (ep_path EP_auth_login)
       (Some (JObj [(js ''email'', JStr (js ''user@example.test''))])) [(js ''Accept'', js ''application/json'')]"

lemma test_curl_parts:
  "\<exists>h d. test_curl = js ''curl -i -X POST'' @ [0x20, 0x27] @ js ''https://localhost:5001/api/v1/auth/login''
     @ [0x27] @ h @ js ''--data'' @ d"
proof -
  have "shellEscape (js ''https://localhost:5001/api/v1/auth/login'') = js ''https://localhost:5001/api/v1/auth/login''"
    unfolding shellEscape_def by (rule replace_unit_id) (simp add: js_def)
  then show ?thesis
    by (intro exI [of _ "continuation @ js ''-H '' @ quoted (js ''Accept: application/json'') @ continuation"]
        exI [of _ "js '' '' @ quoted (json_stringify (JObj [(js ''email'', JStr (js ''user@example.test''))]))"])
      (simp add: test_curl_def createCurl_def quoted_def Let_def flip: js_append, simp add: js_def)
qed

lemma test_curl_contains:
  "includes_str test_curl (js ''curl -i -X POST'')"
  "includes_str test_curl (js ''https://localhost:5001/api/v1/auth/login'')"
  "includes_str test_curl (js ''--data'')"
proof -
  from test_curl_parts obtain h d where parts: "test_curl = js ''curl -i -X POST'' @ [0x20, 0x27]
      @ js ''https://localhost:5001/api/v1/auth/login'' @ [0x27] @ h @ js ''--data'' @ d" by blast
  show "includes_str test_curl (js ''curl -i -X POST'')"
    unfolding includes_str_iff parts by (rule exI [of _ "[]"]) auto
  show "includes_str test_curl (js ''https://localhost:5001/api/v1/auth/login'')"
    unfolding includes_str_iff parts by (rule exI [of _ "js ''curl -i -X POST'' @ [0x20, 0x27]"]) auto
  show "includes_str test_curl (js ''--data'')"
    unfolding includes_str_iff parts
    by (rule exI [of _ "js ''curl -i -X POST'' @ [0x20, 0x27] @ js ''https://localhost:5001/api/v1/auth/login'' @ [0x27] @ h"])
      auto
qed

text \<open>The service returns normalized response metadata.\<close>

definition healthy_response :: FetchResponse where
  "healthy_response =
     \<lparr>fres_status = 200, fres_statusText = [], fres_ok = True,
      fres_text = Inr (json_stringify (JObj [(js ''status'', JStr (js ''Healthy''))])),
      fres_headers = [(js ''x-correlation-id'', js ''correlation-1'')]\<rparr>"

lemma test_request:
  "\<exists>r. requestEndpoint id (\<lambda>_. Inr healthy_response) 0 0
        \<lparr>in_apiBase = js ''https://localhost:5001'', in_endpoint = EP_health_live,
         in_path = ep_path EP_health_live, in_body = None,
         in_headers = [(js ''Accept'', js ''application/json'')], in_authMode = Bearer\<rparr> = Inr r
     \<and> res_ok r \<and> res_status r = 200 \<and> res_data r = JObj [(js ''status'', JStr (js ''Healthy''))]
     \<and> obj_get (res_headers r) (js ''x-correlation-id'') = Some (js ''correlation-1'')"
proof -
  have "parseResponse id (json_stringify (JObj [(js ''status'', JStr (js ''Healthy''))]))
      = JObj [(js ''status'', JStr (js ''Healthy''))]" by code_simp
  moreover have "obj_get (from_entries [(js ''x-correlation-id'', js ''correlation-1'')]) (js ''x-correlation-id'')
      = Some (js ''correlation-1'')" by (simp add: map_of_from_entries)
  ultimately show ?thesis
    by (simp add: requestEndpoint_def endpoint_result_def healthy_response_def)
qed

subsection \<open>browser-effects.test.ts\<close>

definition rfc_key :: "byte list" where
  "rfc_key = map (\<lambda>d. 0x30 + of_nat d) [1, 2, 3, 4, 5, 6, 7, 8, 9, 0, 1, 2, 3, 4, 5, 6, 7, 8, 9, 0]"

definition rfc_digest :: "byte list" where
  "rfc_digest =
     [0x75, 0xa4, 0x8a, 0x19, 0xd4, 0xcb, 0xe1, 0x00, 0x64, 0x4e,
      0x8a, 0xc1, 0x39, 0x7e, 0xea, 0x74, 0x7a, 0x2d, 0x33, 0xab]"

definition rfc_hmac :: "byte list \<Rightarrow> byte list \<Rightarrow> byte list option" where
  "rfc_hmac k m = (if k = rfc_key \<and> m = [0, 0, 0, 0, 0, 0, 0, 1] then Some rfc_digest else None)"

lemma test_totp:
  "computeTotp (\<lambda>k. Some k) rfc_hmac (js ''GEZDGNBVGY3TQOJQGEZDGNBVGY3TQOJQ'') 59000 = Inr (js ''287082'')"
proof -
  have "decodeBase32 (js ''GEZDGNBVGY3TQOJQGEZDGNBVGY3TQOJQ'') = Inr rfc_key" by code_simp
  moreover have "counter_bytes 1 = [0, 0, 0, 0, 0, 0, 0, 1]" by code_simp
  moreover have "truncate_digest rfc_digest = 0x41397EEA"
    by (simp add: truncate_digest_def rfc_digest_def byte_at_def)
  moreover have "totp_text 0x41397EEA = js ''287082''"
    by (simp add: totp_text_def nat_to_js_def nat_digits.simps digit_unit_def pad_start_def js_def)
  ultimately show ?thesis by (auto simp: computeTotp_def rfc_hmac_def)
qed

subsection \<open>catalog.test.ts\<close>

lemma test_catalog:
  "length ENDPOINTS = 45"
  "length (filter (\<lambda>e. starts_with (ep_path e) (js ''/health/'')) ENDPOINTS) = 2"
  "distinct (map ep_id ENDPOINTS)"
  by (simp add: length_ENDPOINTS) (simp add: ENDPOINTS_def js_def starts_with_def, rule distinct_ids)

lemma test_copy:
  "list_all (\<lambda>e. list_all (\<lambda>l. 2 < length (lc_title (endpointCopy e l)) \<and> 10 < length (lc_description (endpointCopy e l)))
     [En, De, Tr]) ENDPOINTS"
  unfolding ENDPOINTS_def by (simp add: EP_defs endpoint_def copy_def)

end
