(* ===== verification/Spec2Isabelle.thy ===== *)
theory Spec2Isabelle
  imports WbDomain WbVault WbFetch WbTotp WbProvider WbWebAuthn WbRoutes WbFlows WbDetail WbNodes
    WbPanelView WbIdentityView WbCatalogView WbScreenView WbApp WbRuns
    UiNodes UiKit UiClasses UiControls UiLayout UiOverlays UiSidebar UiChart UiCalendar UiRoot UiStyled UiLibrary
    UiRealise WbRouter LoadTests SyncStatic WbTests
begin

text \<open>
  The API workbench of the start pack: the browser application under
  \<open>src/playground-ui/src\<close> that lists the API's endpoints, composes and sends requests to them,
  keeps the credentials they return, and runs guided flows (demo sign-in, prepared sessions,
  social sign-in, passkeys). This development models its own code, from the functions on
  strings up to the running page, and proves what makes it correct.

  The parts and how they interact. The catalogue (\<open>catalog.ts\<close>) is constant data. The domain
  functions (\<open>domain.ts\<close>) turn an endpoint, a draft and the vault's variables into a path,
  headers, a body and a cURL command, and read responses and cookies. The provider
  (\<open>workbench-context.tsx\<close>) holds the shared state: base address, mode, variables, the response
  shown, toasts, services, the request that is running; it writes the vault through to the tab's
  storage and captures credentials from responses. The detail panel (\<open>endpoint-detail.tsx\<close>)
  edits a draft and sends it; the flows (\<open>workbench-screen.tsx\<close>,
  \<open>endpoint-guided-action.tsx\<close>) send several requests in a row through the provider. The
  routes decide which endpoint is shown. The components return the page, and the handlers on
  it are the only way, beside two keys, in which a user acts on the state.

  The theories, bottom up:
  \<^item> \<open>JsPrelude\<close>, \<open>JsUri\<close>, \<open>JsJson\<close>: what the code uses of the language's library. Strings are
    lists of 16-bit code units, objects association lists in the language's property order,
    errors a sum. \<open>encodeURIComponent\<close>, \<open>URLSearchParams\<close>, \<open>JSON.parse\<close> and \<open>JSON.stringify\<close> are
    definitions with their round trips; the parser has fuel, and \<open>parse_fuel_enough\<close> shows
    that the fuel it is given, the text's length, always suffices.
  \<^item> \<open>WbTypes\<close>, \<open>WbCatalog\<close>: \<open>types.ts\<close>, \<open>constants.ts\<close>, \<open>search-schema.ts\<close> and the 45 entries of
    \<open>catalog.ts\<close>, with the lemmas that evaluate them.
  \<^item> \<open>WbDomain\<close>, \<open>WbVault\<close>, \<open>WbFetch\<close>: \<open>domain.ts\<close>. The vault is stated as a locale of a keyed
    store, interpreted on the model of \<open>sessionStorage\<close>; a quota or a block makes it fail.
  \<^item> \<open>WbTotp\<close>, \<open>WbWebAuthn\<close>: \<open>browser-effects.ts\<close>.
  \<^item> \<open>WbProvider\<close>: \<open>workbench-context.tsx\<close>: the record \<open>provider\<close> has one field per \<open>useState\<close>
    and \<open>useRef\<close>, and the requests, probes, timers and computations that are under way. A request
    is two operations, \<open>runRequest\<close> up to its \<open>await\<close> and \<open>finish_request\<close> after it; the
    relation \<open>step\<close> lets anything that is pending end at any time and in any order.
  \<^item> \<open>WbRoutes\<close>, \<open>WbFlows\<close>: \<open>routes/*.tsx\<close> and the flows. What follows an \<open>await\<close> of a flow is a
    continuation kept with the request (\<open>after_send\<close>). The locales \<open>send_policy\<close> and
    \<open>panel_policy\<close> say what a policy on requests has to allow so that every flow, and with the
    detail panel the whole application, keeps to it.
  \<^item> \<open>WbDetail\<close>: the state and the callbacks of \<open>endpoint-detail.tsx\<close>.
  \<^item> \<open>UiNodes\<close>, \<open>WbNodes\<close>, \<open>WbPanelView\<close>, \<open>WbIdentityView\<close>, \<open>WbCatalogView\<close>, \<open>WbScreenView\<close>: the pages as trees
    of elements with actions for handlers (\<open>endpoint-request-panel.tsx\<close>,
    \<open>endpoint-response-panel.tsx\<close>, \<open>identity-panel.tsx\<close>, \<open>endpoint-catalog.tsx\<close>,
    \<open>toast-region.tsx\<close>, \<open>app-header.tsx\<close>, \<open>LocaleSwitcher.tsx\<close>); each component has a lemma that
    gives the set of actions it offers.
  \<^item> \<open>WbApp\<close>: the running application. A user acts through \<open>page_actions\<close> of the current page or a
    key; the network, the authenticator, timers and the address bar act at any time; after
    each event the page renders again. \<open>reached\<close> is what can come about.
  \<^item> \<open>WbRuns\<close>: runs of the application. The locale \<open>kept_by_provider\<close> carries what every step of
    the provider keeps through every flow and event of the application; it is interpreted twice,
    for the provider's own reachability and for the services that wait for a probe. The relation
    \<open>settle\<close> ends what is under way, with a measure of the work that is left.
  \<^item> \<open>UiKit\<close>, \<open>UiControls\<close>, \<open>UiLayout\<close>, \<open>UiOverlays\<close>: \<open>components/ui\<close>: each component as a function
    from its properties and children to the element it draws, built from the combinators of
    \<open>UiKit\<close>, which say how properties are taken out, renamed, defaulted and passed on.
  \<^item> \<open>UiClasses\<close>, \<open>UiStyled\<close>: the class tables (\<open>buttonVariants\<close> and the fifteen others of
    \<open>components/ui\<close>), word for word, and that every component draws only looks they declare.
  \<^item> \<open>UiChart\<close>, \<open>UiCalendar\<close>, \<open>UiRoot\<close>: \<open>chart.tsx\<close>, \<open>calendar.tsx\<close> and the document of
    \<open>routes/__root.tsx\<close>; \<open>UiSidebar\<close>: \<open>components/ui/sidebar.tsx\<close> and \<open>hooks/use-mobile.ts\<close>: the
    sidebar's state machine and its components; \<open>UiLibrary\<close>: the library as a whole.
  \<^item> \<open>UiRealise\<close>: the pages with the elements of components replaced by what the components draw;
    the locale \<open>component_table\<close> is the interface between the pages and the library.
  \<^item> \<open>WbRouter\<close>: \<open>router.tsx\<close>, \<open>integrations/tanstack-query\<close>, \<open>env.ts\<close>, \<open>lib/utils.ts\<close>: what is handed to
    the libraries, which are parameters.
  \<^item> \<open>JsValues\<close>, \<open>LoadTests\<close>, \<open>SyncStatic\<close>: the load tests (\<open>tests/load\<close>) and the script that copies
    the built page (\<open>scripts/sync-static.mjs\<close>). \<open>WbTests\<close>: the repository's own unit tests
    (\<open>*.test.ts\<close>), evaluated on the model.

  What the groups of lemmas show. Domain: drafts, paths, headers, templates, redaction, cookies
  and commands do what they say for every text, with the error cases (a lone surrogate, a
  malformed cookie) made exact. Vault: storing, clearing and reading back, and that a reload
  restores the page. Provider: at most one request is live, the running mark follows the
  newest request, toasts are distinct and time out, one-time passwords belong to the current
  secret. Flows and application: a destructive endpoint is called only after its confirmation,
  the page offers only what the state allows, the panel on the page is that of the address; a run
  of the application is one of the provider, every flow ends, and at rest nothing is shown as under
  way. Component library: a component offers what its caller's handlers and children offer, and
  a page offers and displays the same with the components' own definitions, in looks that the class
  tables declare. Load tests: the pool has
  a session per virtual user and no refresh token is presented twice.
  Some properties state what the code does where that is not what it should do; the manifest
  lists them as findings.

  Bounds and fuel. Code units, bytes and the one-time password's arithmetic are words at their
  width; times are rationals; counters (toasts, requests) are natural numbers, far below the
  2^53 where the language's integers end. Fuel occurs in the JSON parser only.

  Parameters, with no assumption on them unless a theorem names it: how a number prints
  (\<open>br_num\<close>), the URL parser (\<open>br_url\<close>), HMAC (in \<open>computeTotp\<close>), the authenticator, the
  clipboard, case folding beyond ASCII (\<open>en_lower\<close>), the cookie string at each moment, the
  clock, and what the network answers.

  Not modelled, and why. The primitives that \<open>components/ui\<close> is built on, the router, the chart
  library, the day picker and the load generator are third-party code: a primitive is an element
  with its name, an answer an argument. \<open>routeTree.gen.ts\<close> and the message runtime are
  generated: a message is kept as its key and arguments. Focus, scrolling and constant style
  classes have no state; a component keeps the values it looks up in a class table, and the choice
  of the classes from the table is the library's (\<open>cva\<close>), as is their merging. Of
  the router, only which page an address shows; a render that throws shows its error page until it
  loads again. The options of the build tools, the compiled assets under \<open>wwwroot\<close> and the server
  itself are outside this development.
\<close>

end
